(* ===== verification/Py_Prelude.thy ===== *)
theory Py_Prelude
  imports Main "HOL-Library.AList"
begin

text \<open>
  Shared vocabulary of the development: Python exceptions and the results of calls that may
  raise, dictionaries as association lists in insertion order, and the combinators for
  programs that thread a state and may raise (sequencing, \<open>try\<close>/\<open>except\<close>,
  \<open>try\<close>/\<open>finally\<close>, loops over a list).
\<close>

subsection \<open>Exceptions and results\<close>

datatype exc_class =
    RuntimeError | ValueError | TypeError | AttributeError | KeyError | IndexError
  | ZeroDivisionError | OverflowError | OSError | FileNotFoundError | ConnectionError
  | BadRequestError | EOFError
  | NonTermination

text \<open>
  An exception carries its class and the text that \<open>str(exc)\<close> prints.
  \<open>NonTermination\<close> is no Python class: it marks a loop that never returns, so no
  \<open>except\<close> clause catches it.
\<close>

datatype pyexc = PyExc (exc_cls: exc_class) (exc_msg: string)

type_synonym 'a res = "pyexc + 'a"

definition catchable :: "pyexc \<Rightarrow> bool" where
  "catchable e = (exc_cls e \<noteq> NonTermination)"

lemma catchable_simps [simp]:
  "catchable (PyExc c m) = (c \<noteq> NonTermination)"
  by (simp add: catchable_def)

definition rbind :: "'a res \<Rightarrow> ('a \<Rightarrow> 'b res) \<Rightarrow> 'b res" where
  "rbind r f = (case r of Inl e \<Rightarrow> Inl e | Inr x \<Rightarrow> f x)"

lemma rbind_simps [simp]:
  "rbind (Inl e) f = Inl e"
  "rbind (Inr x) f = f x"
  by (simp_all add: rbind_def)

lemma rbind_eq_Inr: "rbind r f = Inr y \<longleftrightarrow> (\<exists>x. r = Inr x \<and> f x = Inr y)"
  by (cases r) auto

primrec rmap :: "('a \<Rightarrow> 'b res) \<Rightarrow> 'a list \<Rightarrow> 'b list res" where
  "rmap f [] = Inr []"
| "rmap f (x # xs) = rbind (f x) (\<lambda>y. rbind (rmap f xs) (\<lambda>ys. Inr (y # ys)))"

lemma rmap_Inr_length: "rmap f xs = Inr ys \<Longrightarrow> length ys = length xs"
  by (induction xs arbitrary: ys) (auto simp: rbind_eq_Inr)

lemma rmap_Inr_nth: "rmap f xs = Inr ys \<Longrightarrow> i < length xs \<Longrightarrow> f (xs ! i) = Inr (ys ! i)"
  by (induction xs arbitrary: ys i) (auto simp: rbind_eq_Inr nth_Cons split: nat.splits)

lemma rmap_total:
  assumes "\<And>x. x \<in> set xs \<Longrightarrow> f x = Inr (g x)"
  shows "rmap f xs = Inr (map g xs)"
  using assms by (induction xs) auto

primrec rfold :: "('a \<Rightarrow> 'b \<Rightarrow> 'b res) \<Rightarrow> 'a list \<Rightarrow> 'b \<Rightarrow> 'b res" where
  "rfold f [] s = Inr s"
| "rfold f (x # xs) s = rbind (f x s) (rfold f xs)"

lemma rfold_inv:
  "rfold f xs s = Inr t \<Longrightarrow> I s \<Longrightarrow>
   (\<And>x s s'. x \<in> set xs \<Longrightarrow> I s \<Longrightarrow> f x s = Inr s' \<Longrightarrow> I s') \<Longrightarrow> I t"
  by (induction xs arbitrary: s) (auto simp: rbind_eq_Inr)

lemma rfold_append: "rfold f (xs @ ys) s = rbind (rfold f xs s) (rfold f ys)"
  by (induction xs arbitrary: s) (auto simp: rbind_def split: sum.splits)

subsection \<open>Dictionaries\<close>

text \<open>
  A \<open>dict\<close> is an association list with distinct keys, in insertion order: assigning to
  a present key keeps its place, a new key goes to the end, which is what
  \<^const>\<open>AList.update\<close> does.
\<close>

type_synonym ('k, 'v) dict = "('k \<times> 'v) list"

abbreviation dget :: "('k, 'v) dict \<Rightarrow> 'k \<Rightarrow> 'v option" where
  "dget d k \<equiv> map_of d k"

abbreviation dset :: "('k, 'v) dict \<Rightarrow> 'k \<Rightarrow> 'v \<Rightarrow> ('k, 'v) dict" where
  "dset d k v \<equiv> AList.update k v d"

abbreviation ddel :: "('k, 'v) dict \<Rightarrow> 'k \<Rightarrow> ('k, 'v) dict" where
  "ddel d k \<equiv> AList.delete k d"

definition dget_def :: "('k, 'v) dict \<Rightarrow> 'k \<Rightarrow> 'v \<Rightarrow> 'v" where
  "dget_def d k v = (case dget d k of None \<Rightarrow> v | Some x \<Rightarrow> x)"

definition dhas :: "('k, 'v) dict \<Rightarrow> 'k \<Rightarrow> bool" where
  "dhas d k = (k \<in> set (map fst d))"

definition dict_update :: "('k, 'v) dict \<Rightarrow> ('k, 'v) dict \<Rightarrow> ('k, 'v) dict" where
  "dict_update d e = fold (\<lambda>(k, v) acc. dset acc k v) e d"

definition dict_ok :: "('k, 'v) dict \<Rightarrow> bool" where
  "dict_ok d = distinct (map fst d)"

lemma dget_dset [simp]: "map_of (AList.update k v d) = (map_of d)(k \<mapsto> v)"
  by (simp add: update_conv')

lemma dget_ddel [simp]: "map_of (AList.delete k d) = (map_of d)(k := None)"
  by (simp add: delete_conv')

lemma dhas_iff: "dhas d k \<longleftrightarrow> map_of d k \<noteq> None"
  by (simp add: dhas_def map_of_eq_None_iff)

lemma dhas_simps [simp]:
  "dhas [] k = False"
  "dhas ((a, b) # d) k = (a = k \<or> dhas d k)"
  "dhas (AList.update a b d) k = (a = k \<or> dhas d k)"
  by (auto simp: dhas_def dom_update)

lemma dict_ok_Nil [simp]: "dict_ok []"
  by (simp add: dict_ok_def)

lemma dict_ok_dset [simp]: "dict_ok d \<Longrightarrow> dict_ok (AList.update k v d)"
  by (simp add: dict_ok_def distinct_update)

lemma dict_ok_ddel [simp]: "dict_ok d \<Longrightarrow> dict_ok (AList.delete k d)"
  by (simp add: dict_ok_def distinct_delete)

lemma dict_ok_Cons [simp]: "dict_ok ((k, v) # d) \<longleftrightarrow> k \<notin> fst ` set d \<and> dict_ok d"
  by (simp add: dict_ok_def)

lemma dict_update_simps [simp]:
  "dict_update d [] = d"
  "dict_update d ((k, v) # e) = dict_update (AList.update k v d) e"
  by (simp_all add: dict_update_def)

lemma dict_ok_dict_update [simp]: "dict_ok d \<Longrightarrow> dict_ok (dict_update d e)"
  by (induction e arbitrary: d) auto

lemma dget_dict_update: "dict_ok e \<Longrightarrow> map_of (dict_update d e) = map_of d ++ map_of e"
proof (induction e arbitrary: d)
  case Nil
  then show ?case by simp
next
  case (Cons p e)
  obtain k v where p: "p = (k, v)" by (cases p)
  from Cons.prems p have new: "k \<notin> dom (map_of e)" and ok: "dict_ok e"
    by (auto simp: dict_ok_Cons dom_map_of_conv_image_fst)
  from new have none: "map_of e k = None"
    by auto
  from Cons.IH [OF ok, of "AList.update k v d"] p none show ?case
    by (auto simp: map_add_def fun_eq_iff split: option.splits)
qed

lemma dget_set: "dget d k = Some v \<Longrightarrow> (k, v) \<in> set d"
  by (rule map_of_SomeD)

lemma dget_ok: "dict_ok d \<Longrightarrow> (k, v) \<in> set d \<Longrightarrow> dget d k = Some v"
  by (simp add: dict_ok_def)

lemma set_dset: "p \<in> set (AList.update k v d) \<Longrightarrow> p = (k, v) \<or> p \<in> set d"
  by (induction d) (auto split: if_splits)

lemma set_dset_neq: "(k', v') \<in> set d \<Longrightarrow> k' \<noteq> k \<Longrightarrow> (k', v') \<in> set (AList.update k v d)"
  by (induction d) auto

lemma set_ddel: "p \<in> set (AList.delete k d) \<longleftrightarrow> p \<in> set d \<and> fst p \<noteq> k"
  by (induction d) auto

subsection \<open>Programs over a state that may raise\<close>

type_synonym ('s, 'a) prog = "'s \<Rightarrow> 'a res \<times> 's"

definition ret :: "'a \<Rightarrow> ('s, 'a) prog" where
  "ret x = (\<lambda>s. (Inr x, s))"

definition raise :: "pyexc \<Rightarrow> ('s, 'a) prog" where
  "raise e = (\<lambda>s. (Inl e, s))"

definition lift_res :: "'a res \<Rightarrow> ('s, 'a) prog" where
  "lift_res r = (\<lambda>s. (r, s))"

definition bnd :: "('s, 'a) prog \<Rightarrow> ('a \<Rightarrow> ('s, 'b) prog) \<Rightarrow> ('s, 'b) prog" where
  "bnd m f = (\<lambda>s. case m s of (Inl e, s') \<Rightarrow> (Inl e, s') | (Inr x, s') \<Rightarrow> f x s')"

definition try_except :: "('s, 'a) prog \<Rightarrow> (pyexc \<Rightarrow> ('s, 'a) prog) \<Rightarrow> ('s, 'a) prog" where
  "try_except m h =
     (\<lambda>s. case m s of
        (Inl e, s') \<Rightarrow> (if catchable e then h e s' else (Inl e, s'))
      | (Inr x, s') \<Rightarrow> (Inr x, s'))"

text \<open>
  \<open>try: m finally: c\<close>: \<open>c\<close> runs whether \<open>m\<close> returns or raises (but not when \<open>m\<close>
  never ends); what \<open>c\<close> itself raises replaces the outcome of \<open>m\<close>.
\<close>

definition try_finally :: "('s, 'a) prog \<Rightarrow> ('s, unit) prog \<Rightarrow> ('s, 'a) prog" where
  "try_finally m c =
     (\<lambda>s. case m s of (r, s') \<Rightarrow>
        (if (case r of Inl e \<Rightarrow> catchable e | Inr _ \<Rightarrow> True) then
           (case c s' of (Inl e, s'') \<Rightarrow> (Inl e, s'') | (Inr _, s'') \<Rightarrow> (r, s''))
         else (r, s')))"

primrec for_each :: "('a \<Rightarrow> ('s, 'b) prog) \<Rightarrow> 'a list \<Rightarrow> ('s, 'b list) prog" where
  "for_each f [] = ret []"
| "for_each f (x # xs) = bnd (f x) (\<lambda>y. bnd (for_each f xs) (\<lambda>ys. ret (y # ys)))"

named_theorems prog_simps "unfolding of the program combinators"

lemma ret_apply [prog_simps]: "ret x s = (Inr x, s)"
  by (simp add: ret_def)

lemma raise_apply [prog_simps]: "raise e s = (Inl e, s)"
  by (simp add: raise_def)

lemma lift_res_apply [prog_simps]: "lift_res r s = (r, s)"
  by (simp add: lift_res_def)

lemma bnd_apply [prog_simps]:
  "bnd m f s = (case m s of (Inl e, s') \<Rightarrow> (Inl e, s') | (Inr x, s') \<Rightarrow> f x s')"
  by (simp add: bnd_def)

lemma bnd_InrE:
  assumes "bnd m f s = (Inr v, s')"
  obtains x s1 where "m s = (Inr x, s1)" and "f x s1 = (Inr v, s')"
  using assms by (auto simp: bnd_def split: prod.splits sum.splits)

lemma try_except_apply [prog_simps]:
  "try_except m h s =
     (case m s of
        (Inl e, s') \<Rightarrow> (if catchable e then h e s' else (Inl e, s'))
      | (Inr x, s') \<Rightarrow> (Inr x, s'))"
  by (simp add: try_except_def)

lemma try_finally_apply [prog_simps]:
  "try_finally m c s =
     (case m s of (r, s') \<Rightarrow>
        (if (case r of Inl e \<Rightarrow> catchable e | Inr _ \<Rightarrow> True) then
           (case c s' of (Inl e, s'') \<Rightarrow> (Inl e, s'') | (Inr _, s'') \<Rightarrow> (r, s''))
         else (r, s')))"
  by (simp add: try_finally_def)

text \<open>
  An invariant of the state kept by every iteration is kept by the loop, whether it runs to
  the end or stops at an exception.
\<close>

lemma for_each_inv:
  assumes step: "\<And>x s. x \<in> set xs \<Longrightarrow> I s \<Longrightarrow> I (snd (f x s))"
    and init: "I s"
  shows "I (snd (for_each f xs s))"
  using step init
proof (induction xs arbitrary: s)
  case Nil
  then show ?case by (simp add: prog_simps)
next
  case (Cons x xs)
  obtain r s1 where fx: "f x s = (r, s1)" by (cases "f x s")
  with Cons.prems(1) [of x s] Cons.prems(2) have s1: "I s1" by simp
  show ?case
  proof (cases r)
    case (Inl e)
    with fx s1 show ?thesis by (simp add: prog_simps)
  next
    case (Inr y)
    have "I (snd (for_each f xs s1))"
      using Cons.IH Cons.prems(1) s1 by simp
    with fx Inr show ?thesis
      by (cases "for_each f xs s1") (auto simp: prog_simps split: sum.splits)
  qed
qed

lemma for_each_length: "fst (for_each f xs s) = Inr ys \<Longrightarrow> length ys = length xs"
  by (induction xs arbitrary: s ys)
    (auto simp: prog_simps split: prod.splits sum.splits, metis fst_conv)

end
