(* ===== verification/Py_Text.thy ===== *)
theory Py_Text
  imports Py_Prelude
begin

text \<open>
  The string operations the program uses. A Python \<open>str\<close> is modelled by its UTF-8 bytes
  (a \<open>string\<close> of HOL), so concatenation, prefix tests, searching for ASCII text and
  splitting at ASCII separators are exact; case conversion and the tests for white space,
  digits and letters are those of Python on ASCII, and every byte above 127 counts as part of
  a letter.
\<close>

subsection \<open>Decimal integers\<close>

definition digit_char :: "int \<Rightarrow> char" where
  "digit_char d = char_of (48 + d)"

text \<open>The digits of a non-negative integer.\<close>

fun str_pos :: "int \<Rightarrow> string" where
  "str_pos n = (if n < 10 then [digit_char n] else str_pos (n div 10) @ [digit_char (n mod 10)])"

declare str_pos.simps [simp del]

definition str_int :: "int \<Rightarrow> string" where
  "str_int i = (if i < 0 then CHR ''-'' # str_pos (- i) else str_pos i)"

definition is_digit :: "char \<Rightarrow> bool" where
  "is_digit c = (48 \<le> (of_char c :: int) \<and> (of_char c :: int) \<le> 57)"

definition digit_val :: "char \<Rightarrow> int" where
  "digit_val c = of_char c - 48"

definition digits_val :: "string \<Rightarrow> int" where
  "digits_val ds = foldl (\<lambda>n c. 10 * n + digit_val c) 0 ds"

lemma of_char_digit_char: "0 \<le> d \<Longrightarrow> d < 10 \<Longrightarrow> (of_char (digit_char d) :: int) = 48 + d"
  by (simp add: digit_char_def take_bit_int_eq_self)

lemma is_digit_digit_char [simp]: "0 \<le> d \<Longrightarrow> d < 10 \<Longrightarrow> is_digit (digit_char d)"
  by (simp add: is_digit_def of_char_digit_char)

lemma digit_val_digit_char [simp]: "0 \<le> d \<Longrightarrow> d < 10 \<Longrightarrow> digit_val (digit_char d) = d"
  by (simp add: digit_val_def of_char_digit_char)

lemma digits_val_Nil [simp]: "digits_val [] = 0"
  by (simp add: digits_val_def)

lemma digits_val_snoc [simp]: "digits_val (ds @ [c]) = 10 * digits_val ds + digit_val c"
  by (simp add: digits_val_def)

lemma digits_val_append: "digits_val (as @ bs) = digits_val as * 10 ^ length bs + digits_val bs"
proof (induction bs rule: rev_induct)
  case Nil
  then show ?case by simp
next
  case (snoc b bs)
  have "digits_val (as @ bs @ [b]) = 10 * digits_val (as @ bs) + digit_val b"
    using digits_val_snoc [of "as @ bs" b] by simp
  with snoc show ?case by (simp add: algebra_simps)
qed

lemma digits_val_nonneg: "(\<forall>c \<in> set ds. is_digit c) \<Longrightarrow> 0 \<le> digits_val ds"
  by (induction ds rule: rev_induct) (auto simp: is_digit_def digit_val_def)

lemma digits_val_zeros [simp]: "digits_val (replicate n CHR ''0'') = 0"
  by (induction n) (simp_all add: digits_val_def digit_val_def)

lemma digits_val_zero_Cons [simp]: "digits_val (CHR ''0'' # ds) = digits_val ds"
  by (simp add: digits_val_def digit_val_def)

lemma str_pos_digits: "0 \<le> n \<Longrightarrow> \<forall>c \<in> set (str_pos n). is_digit c"
proof (induction n rule: str_pos.induct)
  case (1 n)
  then show ?case by (cases "n < 10") (auto simp: str_pos.simps [of n])
qed

lemma str_pos_not_Nil [simp]: "str_pos n \<noteq> []"
  by (subst str_pos.simps) simp

lemma digits_val_str_pos [simp]: "0 \<le> n \<Longrightarrow> digits_val (str_pos n) = n"
proof (induction n rule: str_pos.induct)
  case (1 n)
  show ?case
  proof (cases "n < 10")
    case True
    then have "str_pos n = [] @ [digit_char n]"
      by (simp add: str_pos.simps [of n])
    with True "1.prems" show ?thesis
      by (simp only: digits_val_snoc digits_val_Nil) simp
  next
    case False
    with "1" show ?thesis by (simp add: str_pos.simps [of n])
  qed
qed

text \<open>A decimal numeral has no leading zero, except zero itself.\<close>

lemma str_pos_hd: "0 < n \<Longrightarrow> hd (str_pos n) \<noteq> CHR ''0''"
proof (induction n rule: str_pos.induct)
  case (1 n)
  show ?case
  proof (cases "n < 10")
    case True
    with "1.prems" have "(of_char (digit_char n) :: int) \<noteq> of_char CHR ''0''"
      by (simp add: of_char_digit_char)
    with True show ?thesis by (auto simp: str_pos.simps [of n])
  next
    case False
    with "1.IH" show ?thesis by (simp add: str_pos.simps [of n])
  qed
qed

text \<open>\<open>n\<close> digits are below \<open>10 ^ n\<close>; a numeral of \<open>n\<close> digits is at least \<open>10 ^ (n - 1)\<close>.\<close>

lemma str_pos_length: "0 \<le> n \<Longrightarrow> n < 10 ^ length (str_pos n) \<and> (0 < n \<longrightarrow> 10 ^ (length (str_pos n) - 1) \<le> n)"
proof (induction n rule: str_pos.induct)
  case (1 n)
  show ?case
  proof (cases "n < 10")
    case True
    with "1.prems" show ?thesis by (simp add: str_pos.simps [of n])
  next
    case False
    let ?l = "length (str_pos (n div 10))"
    have l: "0 < ?l" by simp
    from False "1" have "n div 10 < 10 ^ ?l" "10 ^ (?l - 1) \<le> n div 10" by auto
    then have "n < 10 * 10 ^ ?l" "10 * 10 ^ (?l - 1) \<le> n" by linarith+
    moreover have "(10::int) * 10 ^ (?l - 1) = 10 ^ ?l"
      using l by (metis Suc_diff_1 power_Suc)
    ultimately show ?thesis using False by (simp add: str_pos.simps [of n])
  qed
qed

subsection \<open>Character classes and case\<close>

text \<open>\<open>str.isspace\<close> on ASCII: tab to carriage return, the separators 28 to 31, blank.\<close>

definition is_space :: "char \<Rightarrow> bool" where
  "is_space c =
     (let n = (of_char c :: int) in (9 \<le> n \<and> n \<le> 13) \<or> (28 \<le> n \<and> n \<le> 31) \<or> n = 32)"

definition is_upper :: "char \<Rightarrow> bool" where
  "is_upper c = (65 \<le> (of_char c :: int) \<and> (of_char c :: int) \<le> 90)"

definition is_lower :: "char \<Rightarrow> bool" where
  "is_lower c = (97 \<le> (of_char c :: int) \<and> (of_char c :: int) \<le> 122)"

definition is_alnum :: "char \<Rightarrow> bool" where
  "is_alnum c = (is_digit c \<or> is_upper c \<or> is_lower c \<or> 128 \<le> (of_char c :: int))"

text \<open>The characters of a text: a lead byte with its continuation bytes.\<close>

definition cont_byte :: "char \<Rightarrow> bool" where
  "cont_byte c = (128 \<le> (of_char c :: int) \<and> (of_char c :: int) < 192)"

fun utf8_chars :: "string \<Rightarrow> string list" where
  "utf8_chars [] = []"
| "utf8_chars (c # s) =
     (case utf8_chars s of
        [] \<Rightarrow> [[c]]
      | u # us \<Rightarrow> (case u of
            [] \<Rightarrow> [c] # us
          | d # _ \<Rightarrow> (if cont_byte d then (c # u) # us else [c] # u # us)))"

definition upper_char :: "char \<Rightarrow> char" where
  "upper_char c = (if is_lower c then char_of ((of_char c :: int) - 32) else c)"

definition lower_char :: "char \<Rightarrow> char" where
  "lower_char c = (if is_upper c then char_of ((of_char c :: int) + 32) else c)"

definition upper :: "string \<Rightarrow> string" where
  "upper s = map upper_char s"

definition lower :: "string \<Rightarrow> string" where
  "lower s = map lower_char s"

lemma upper_simps [simp]:
  "upper [] = []"
  "upper (c # s) = upper_char c # upper s"
  "upper (s @ t) = upper s @ upper t"
  by (simp_all add: upper_def)

lemma is_space_not_digit: "is_digit c \<Longrightarrow> \<not> is_space c"
  by (auto simp: is_digit_def is_space_def Let_def)

subsection \<open>Stripping, splitting, searching\<close>

definition lstrip :: "string \<Rightarrow> string" where
  "lstrip s = dropWhile is_space s"

definition rstrip :: "string \<Rightarrow> string" where
  "rstrip s = rev (dropWhile is_space (rev s))"

definition strip :: "string \<Rightarrow> string" where
  "strip s = rstrip (lstrip s)"

definition lstrip_char :: "char \<Rightarrow> string \<Rightarrow> string" where
  "lstrip_char c s = dropWhile (\<lambda>x. x = c) s"

definition rstrip_char :: "char \<Rightarrow> string \<Rightarrow> string" where
  "rstrip_char c s = rev (dropWhile (\<lambda>x. x = c) (rev s))"

fun starts_with :: "string \<Rightarrow> string \<Rightarrow> bool" where
  "starts_with s [] = True"
| "starts_with [] (p # ps) = False"
| "starts_with (c # s) (p # ps) = (c = p \<and> starts_with s ps)"

definition ends_with :: "string \<Rightarrow> string \<Rightarrow> bool" where
  "ends_with s p = starts_with (rev s) (rev p)"

text \<open>\<open>needle in s\<close>.\<close>

fun contains :: "string \<Rightarrow> string \<Rightarrow> bool" where
  "contains [] p = (p = [])"
| "contains (c # s) p = (starts_with (c # s) p \<or> contains s p)"

text \<open>\<open>s.split()\<close>: the maximal runs of characters that are not white space.\<close>

fun split_ws_aux :: "string \<Rightarrow> string \<Rightarrow> string list" where
  "split_ws_aux [] w = (if w = [] then [] else [rev w])"
| "split_ws_aux (c # s) w =
     (if is_space c then (if w = [] then split_ws_aux s [] else rev w # split_ws_aux s [])
      else split_ws_aux s (c # w))"

definition split_ws :: "string \<Rightarrow> string list" where
  "split_ws s = split_ws_aux s []"

text \<open>\<open>s.split(c, maxsplit)\<close> for a single-character separator.\<close>

fun split_max :: "char \<Rightarrow> nat \<Rightarrow> string \<Rightarrow> string list" where
  "split_max c 0 s = [s]"
| "split_max c (Suc n) s =
     (case dropWhile (\<lambda>x. x \<noteq> c) s of
        [] \<Rightarrow> [s]
      | _ # rest \<Rightarrow> takeWhile (\<lambda>x. x \<noteq> c) s # split_max c n rest)"

lemma break_at:
  assumes "c \<notin> set a"
  shows "takeWhile (\<lambda>x. x \<noteq> c) (a @ c # b) = a" and "dropWhile (\<lambda>x. x \<noteq> c) (a @ c # b) = c # b"
    and "takeWhile (\<lambda>x. x \<noteq> c) a = a" and "dropWhile (\<lambda>x. x \<noteq> c) a = []"
  using assms by (induction a) auto

lemma split_max_at:
  "c \<notin> set a \<Longrightarrow> split_max c (Suc n) (a @ c # b) = a # split_max c n b"
  "c \<notin> set a \<Longrightarrow> split_max c n a = [a]"
  by (simp_all add: break_at) (cases n; simp add: break_at)

fun join :: "string \<Rightarrow> string list \<Rightarrow> string" where
  "join sep [] = []"
| "join sep [x] = x"
| "join sep (x # y # xs) = x @ sep @ join sep (y # xs)"

lemma starts_with_iff: "starts_with s p \<longleftrightarrow> (\<exists>t. s = p @ t)"
  by (induction s p rule: starts_with.induct) auto

lemma starts_with_append [simp]: "starts_with (p @ t) p"
  by (auto simp: starts_with_iff)

lemma ex_infix_Cons:
  "(\<exists>u v. c # s = u @ p @ v) \<longleftrightarrow> (\<exists>v. c # s = p @ v) \<or> (\<exists>u v. s = u @ p @ v)"
  (is "?l \<longleftrightarrow> ?r")
proof
  assume ?l
  then obtain u v where "c # s = u @ p @ v" by blast
  then show ?r by (cases u) auto
next
  assume ?r
  then show ?l
  proof
    assume "\<exists>v. c # s = p @ v"
    then obtain v where "c # s = [] @ p @ v" by auto
    then show ?l by blast
  next
    assume "\<exists>u v. s = u @ p @ v"
    then obtain u v where "c # s = (c # u) @ p @ v" by auto
    then show ?l by blast
  qed
qed

lemma contains_iff: "contains s p \<longleftrightarrow> (\<exists>u v. s = u @ p @ v)"
proof (induction s)
  case Nil
  then show ?case by auto
next
  case (Cons c s)
  then show ?case by (simp add: starts_with_iff ex_infix_Cons)
qed

lemma split_ws_aux_word:
  "\<forall>c \<in> set x. \<not> is_space c \<Longrightarrow> split_ws_aux (x @ s) w = split_ws_aux s (rev x @ w)"
  by (induction x arbitrary: w) auto

text \<open>Words joined by blanks are the words that splitting finds again.\<close>

definition is_word :: "string \<Rightarrow> bool" where
  "is_word x = (x \<noteq> [] \<and> (\<forall>c \<in> set x. \<not> is_space c))"

lemma split_ws_word [simp]: "is_word x \<Longrightarrow> split_ws x = [x]"
  using split_ws_aux_word [of x "[]" "[]"] by (simp add: split_ws_def is_word_def)

lemma split_ws_word_blank:
  "is_word x \<Longrightarrow> split_ws (x @ '' '' @ s) = x # split_ws s"
  using split_ws_aux_word [of x "'' '' @ s" "[]"]
  by (simp add: split_ws_def is_word_def is_space_def Let_def)

lemma split_ws_join:
  assumes "\<forall>x \<in> set xs. is_word x"
  shows "split_ws (join '' '' xs) = xs"
  using assms
proof (induction "'' ''" xs rule: join.induct)
  case 1
  then show ?case by (simp add: split_ws_def)
next
  case (2 x)
  then show ?case by simp
next
  case (3 x y xs)
  then show ?case using split_ws_word_blank [of x "join '' '' (y # xs)"] by simp
qed

lemma split_ws_aux_blank: "split_ws_aux ('' '' @ s) [] = split_ws_aux s []"
  by (simp add: is_space_def)

text \<open>An empty item is lost: splitting finds the other items only.\<close>

lemma split_ws_join_empty:
  assumes "\<forall>x \<in> set xs. x = [] \<or> is_word x"
  shows "split_ws (join '' '' xs) = filter (\<lambda>x. x \<noteq> []) xs"
  using assms
proof (induction "'' ''" xs rule: join.induct)
  case 1
  then show ?case by (simp add: split_ws_def)
next
  case (2 x)
  have "split_ws [] = []" by (simp add: split_ws_def)
  with 2 show ?case by auto
next
  case (3 x y xs)
  then show ?case
    using split_ws_word_blank [of x "join '' '' (y # xs)"] split_ws_aux_blank
    by (cases "x = []") (auto simp: split_ws_def)
qed

lemma split_ws_aux_words:
  "(\<forall>c \<in> set w. \<not> is_space c) \<Longrightarrow> x \<in> set (split_ws_aux s w) \<Longrightarrow> is_word x"
proof (induction s arbitrary: w)
  case Nil
  then show ?case by (simp add: is_word_def split: if_splits)
next
  case (Cons c s)
  show ?case
  proof (cases "is_space c")
    case True
    with Cons.prems consider "w \<noteq> []" "x = rev w" | "x \<in> set (split_ws_aux s [])"
      by (auto split: if_splits)
    then show ?thesis
    proof cases
      case 1
      with Cons.prems(1) show ?thesis by (simp add: is_word_def)
    next
      case 2
      then show ?thesis using Cons.IH [of "[]"] by simp
    qed
  next
    case False
    with Cons.prems Cons.IH [of "c # w"] show ?thesis by simp
  qed
qed

lemma split_ws_is_word: "x \<in> set (split_ws s) \<Longrightarrow> is_word x"
  using split_ws_aux_words [of "[]" x s] by (simp add: split_ws_def)

lemma is_word_str_pos: "0 \<le> n \<Longrightarrow> is_word (str_pos n)"
  using str_pos_digits [of n] is_space_not_digit by (auto simp: is_word_def)

lemma is_word_str_int [simp]: "is_word (str_int i)"
  using is_word_str_pos [of "- i"] is_word_str_pos [of i]
  by (auto simp: str_int_def is_word_def is_space_def)

lemma strip_strip [simp]: "strip (strip s) = strip s"
proof -
  have drop_hd: "dropWhile P xs = xs" if "xs = [] \<or> \<not> P (hd xs)" for P and xs :: string
    using that by (cases xs) auto
  have r: "rstrip (rstrip u) = rstrip u" for u
    unfolding rstrip_def by (simp add: drop_hd hd_dropWhile)
  have l: "lstrip (rstrip u) = rstrip u" if "u = [] \<or> \<not> is_space (hd u)" for u
  proof (cases u)
    case (Cons c t)
    with that have c: "\<not> is_space c" by simp
    have "dropWhile is_space (rev t @ [c]) = dropWhile is_space (rev t) @ [c]"
      by (metis c dropWhile_append3 dropWhile.simps dropWhile_append1 dropWhile_eq_Nil_conv append_Nil)
    then show ?thesis using c by (simp add: Cons rstrip_def lstrip_def)
  qed (simp add: rstrip_def lstrip_def)
  have "lstrip s = [] \<or> \<not> is_space (hd (lstrip s))"
    unfolding lstrip_def by (metis hd_dropWhile)
  from l [OF this] show ?thesis by (simp add: strip_def r)
qed

end
