(* ===== verification/Tx_Interface.thy ===== *)
theory Tx_Interface
  imports Py_Text
begin

text \<open>
  The contract of a key-value store with snapshot transactions, as the tools rely on it:
  \<open>store_of\<close> is the committed data, \<open>tx_of\<close> gives the snapshot and the private
  writes of each open transaction, and the operations change them as stated. The lemmas say
  what a client of such a store may conclude.
\<close>

locale snapshot_store =
  fixes store_of :: "'db \<Rightarrow> string \<Rightarrow> string option"
    and tx_of :: "'db \<Rightarrow> string \<Rightarrow> ((string \<Rightarrow> string option) \<times> (string \<Rightarrow> string option)) option"
    and fresh_id :: "'db \<Rightarrow> string"
    and begin_tx :: "('db, string) prog"
    and read_tx :: "string \<Rightarrow> string \<Rightarrow> ('db, string option) prog"
    and write_tx :: "string \<Rightarrow> string \<Rightarrow> string \<Rightarrow> ('db, unit) prog"
    and commit_tx :: "string \<Rightarrow> ('db, unit) prog"
    and abort_tx :: "string \<Rightarrow> ('db, unit) prog"
    and invar :: "'db \<Rightarrow> bool"
  assumes begin_law: "invar db \<Longrightarrow> tx_of db (fresh_id db) = None \<Longrightarrow>
      \<exists>db'. begin_tx db = (Inr (fresh_id db), db') \<and> invar db' \<and> store_of db' = store_of db \<and>
            tx_of db' = (tx_of db)(fresh_id db \<mapsto> (store_of db, Map.empty))"
    and read_law: "invar db \<Longrightarrow> tx_of db t = Some (sn, w) \<Longrightarrow>
      read_tx t k db = (Inr ((sn ++ w) k), db)"
    and write_law: "invar db \<Longrightarrow> tx_of db t = Some (sn, w) \<Longrightarrow>
      \<exists>db'. write_tx t k v db = (Inr (), db') \<and> invar db' \<and> store_of db' = store_of db \<and>
            tx_of db' = (tx_of db)(t \<mapsto> (sn, w(k \<mapsto> v)))"
    and commit_law: "invar db \<Longrightarrow> tx_of db t = Some (sn, w) \<Longrightarrow>
      \<exists>db'. commit_tx t db = (Inr (), db') \<and> invar db' \<and> store_of db' = store_of db ++ w \<and>
            tx_of db' = (tx_of db)(t := None)"
    and abort_law: "invar db \<Longrightarrow> tx_of db t = Some (sn, w) \<Longrightarrow>
      \<exists>db'. abort_tx t db = (Inr (), db') \<and> invar db' \<and> store_of db' = store_of db \<and>
            tx_of db' = (tx_of db)(t := None)"
    and closed_law: "invar db \<Longrightarrow> tx_of db t = None \<Longrightarrow>
      \<exists>e. exc_cls e = RuntimeError \<and> read_tx t k db = (Inl e, db) \<and>
          write_tx t k v db = (Inl e, db) \<and> commit_tx t db = (Inl e, db) \<and>
          abort_tx t db = (Inl e, db)"
begin

lemma read_own_write:
  assumes "invar db" and "tx_of db t = Some sw" and "write_tx t k v db = (r, db')"
  shows "read_tx t k db' = (Inr (Some v), db')"
proof -
  obtain sn w where sw: "sw = (sn, w)" by (cases sw)
  from write_law [OF assms(1), of t sn w k v] assms sw
  have "invar db'" and "tx_of db' t = Some (sn, w(k \<mapsto> v))" by auto
  then show ?thesis by (simp add: read_law)
qed

text \<open>Another transaction's write, commit or abort never changes what \<open>t\<close> reads.\<close>

lemma read_stable_write:
  assumes "invar db" and "tx_of db t = Some sw" and "tx_of db u = Some sw'" and "u \<noteq> t"
    and "write_tx u k' v db = (r, db')"
  shows "fst (read_tx t k db') = fst (read_tx t k db)"
proof -
  obtain sn w sn' w' where sw: "sw = (sn, w)" "sw' = (sn', w')" by (cases sw, cases sw')
  from write_law [OF assms(1), of u sn' w' k' v] assms sw
  have "invar db'" and "tx_of db' t = Some (sn, w)" by auto
  with assms sw show ?thesis by (simp add: read_law)
qed

lemma read_stable_commit:
  assumes "invar db" and "tx_of db t = Some sw" and "tx_of db u = Some sw'" and "u \<noteq> t"
    and "commit_tx u db = (r, db')"
  shows "fst (read_tx t k db') = fst (read_tx t k db)"
proof -
  obtain sn w sn' w' where sw: "sw = (sn, w)" "sw' = (sn', w')" by (cases sw, cases sw')
  from commit_law [OF assms(1), of u sn' w'] assms sw
  have "invar db'" and "tx_of db' t = Some (sn, w)" by auto
  with assms sw show ?thesis by (simp add: read_law)
qed

text \<open>Begin, one write, commit: the store changes at exactly that key.\<close>

lemma begin_write_commit:
  assumes inv: "invar db" and fresh: "tx_of db (fresh_id db) = None"
  shows "\<exists>db'. bnd begin_tx (\<lambda>t. bnd (write_tx t k v) (\<lambda>_. commit_tx t)) db = (Inr (), db') \<and>
            invar db' \<and> store_of db' = (store_of db)(k \<mapsto> v) \<and> tx_of db' = tx_of db"
proof -
  let ?t = "fresh_id db"
  from begin_law [OF inv fresh] obtain db1 where
    b: "begin_tx db = (Inr ?t, db1)" "invar db1" "store_of db1 = store_of db"
      "tx_of db1 = (tx_of db)(?t \<mapsto> (store_of db, Map.empty))" by blast
  then obtain db2 where
    w: "write_tx ?t k v db1 = (Inr (), db2)" "invar db2" "store_of db2 = store_of db"
      "tx_of db2 = (tx_of db)(?t \<mapsto> (store_of db, [k \<mapsto> v]))"
    using write_law [of db1 ?t "store_of db" Map.empty k v] by auto
  then obtain db3 where
    c: "commit_tx ?t db2 = (Inr (), db3)" "invar db3" "store_of db3 = (store_of db)(k \<mapsto> v)"
      "tx_of db3 = (tx_of db)(?t := None)"
    using commit_law [of db2 ?t "store_of db" "[k \<mapsto> v]"] by auto
  from fresh have "(tx_of db)(?t := None) = tx_of db" by (auto simp: fun_eq_iff)
  with b w c show ?thesis by (simp add: prog_simps)
qed

text \<open>Begin, one write, abort: nothing is left behind.\<close>

lemma begin_write_abort:
  assumes inv: "invar db" and fresh: "tx_of db (fresh_id db) = None"
  shows "\<exists>db'. bnd begin_tx (\<lambda>t. bnd (write_tx t k v) (\<lambda>_. abort_tx t)) db = (Inr (), db') \<and>
            invar db' \<and> store_of db' = store_of db \<and> tx_of db' = tx_of db"
proof -
  let ?t = "fresh_id db"
  from begin_law [OF inv fresh] obtain db1 where
    b: "begin_tx db = (Inr ?t, db1)" "invar db1" "store_of db1 = store_of db"
      "tx_of db1 = (tx_of db)(?t \<mapsto> (store_of db, Map.empty))" by blast
  then obtain db2 where
    w: "write_tx ?t k v db1 = (Inr (), db2)" "invar db2" "store_of db2 = store_of db"
      "tx_of db2 = (tx_of db)(?t \<mapsto> (store_of db, [k \<mapsto> v]))"
    using write_law [of db1 ?t "store_of db" Map.empty k v] by auto
  then obtain db3 where
    c: "abort_tx ?t db2 = (Inr (), db3)" "invar db3" "store_of db3 = store_of db"
      "tx_of db3 = (tx_of db)(?t := None)"
    using abort_law [of db2 ?t "store_of db" "[k \<mapsto> v]"] by auto
  from fresh have "(tx_of db)(?t := None) = tx_of db" by (auto simp: fun_eq_iff)
  with b w c show ?thesis by (simp add: prog_simps)
qed

text \<open>
  There is no conflict detection in this contract: two transactions that began on the same
  data and write the same key both commit, and the later commit decides.
\<close>

lemma last_commit_wins:
  assumes inv: "invar db" and "tx_of db t = Some (sn, w)" and "tx_of db u = Some (sn', w')"
    and "t \<noteq> u" and "w' k = Some v"
  shows "\<exists>db'. bnd (commit_tx t) (\<lambda>_. commit_tx u) db = (Inr (), db') \<and> store_of db' k = Some v"
proof -
  from commit_law [OF inv assms(2)] obtain db1 where
    c: "commit_tx t db = (Inr (), db1)" "invar db1" "tx_of db1 = (tx_of db)(t := None)" by blast
  with assms have "tx_of db1 u = Some (sn', w')" by simp
  from commit_law [OF c(2) this] obtain db2 where
    d: "commit_tx u db1 = (Inr (), db2)" "store_of db2 = store_of db1 ++ w'" by blast
  with c assms(5) show ?thesis by (simp add: prog_simps)
qed

end

end
