(* ===== verification/Mini_Db.thy ===== *)
theory Mini_Db
  imports Tx_Interface
begin

text \<open>
  The in-memory database \<open>MiniDBClient\<close> of \<open>Agent/db_client.py\<close>: plain transactions
  over a snapshot, and tree transactions whose branches hold private writes. Every method
  runs under one re-entrant lock, so an execution is a sequence of whole operations.
\<close>

subsection \<open>State\<close>

record tx_context =
  txc_id :: string
  txc_snapshot :: "(string, string) dict"
  txc_writes :: "(string, string) dict"
  txc_active :: bool

record mini_tree_branch =
  mtb_branch_id :: int
  mtb_parent_branch_id :: int
  mtb_writes :: "(string, string) dict"

record mini_tree_context =
  mtc_id :: string
  mtc_snapshot :: "(string, string) dict"
  mtc_branches :: "(int, mini_tree_branch) dict"
  mtc_next_branch_id :: int
  mtc_winner_branch_id :: "int option"
  mtc_active :: bool
  mtc_last_abort_reason :: string

record mini_db =
  mdb_store :: "(string, string) dict"
  mdb_tx_map :: "(string, tx_context) dict"
  mdb_tree_map :: "(string, mini_tree_context) dict"

definition new_tx_context :: "string \<Rightarrow> (string, string) dict \<Rightarrow> tx_context" where
  "new_tx_context t snap =
     \<lparr>txc_id = t, txc_snapshot = snap, txc_writes = [], txc_active = True\<rparr>"

definition new_branch :: "int \<Rightarrow> int \<Rightarrow> mini_tree_branch" where
  "new_branch b p = \<lparr>mtb_branch_id = b, mtb_parent_branch_id = p, mtb_writes = []\<rparr>"

definition new_tree_context :: "string \<Rightarrow> (string, string) dict \<Rightarrow> mini_tree_context" where
  "new_tree_context t snap =
     \<lparr>mtc_id = t, mtc_snapshot = snap, mtc_branches = [], mtc_next_branch_id = 1,
      mtc_winner_branch_id = None, mtc_active = True, mtc_last_abort_reason = []\<rparr>"

definition mini_init :: mini_db where
  "mini_init = \<lparr>mdb_store = [], mdb_tx_map = [], mdb_tree_map = []\<rparr>"

subsection \<open>Plain transactions\<close>

text \<open>The transaction id that \<open>uuid.uuid4()\<close> draws is an argument of \<open>start\<close>.\<close>

definition mini_kv_get :: "mini_db \<Rightarrow> string \<Rightarrow> string option" where
  "mini_kv_get db key = dget (mdb_store db) key"

definition mini_start :: "string \<Rightarrow> (mini_db, string) prog" where
  "mini_start t db =
     (Inr t, db\<lparr>mdb_tx_map := dset (mdb_tx_map db) t (new_tx_context t (mdb_store db))\<rparr>)"

definition require_tx :: "mini_db \<Rightarrow> string \<Rightarrow> tx_context res" where
  "require_tx db t =
     (case dget (mdb_tx_map db) t of
        None \<Rightarrow> Inl (PyExc RuntimeError (''invalid or inactive tx_id: '' @ t))
      | Some tx \<Rightarrow>
          (if \<not> txc_active tx
           then Inl (PyExc RuntimeError (''invalid or inactive tx_id: '' @ t))
           else Inr tx))"

definition mini_get :: "string \<Rightarrow> string \<Rightarrow> (mini_db, string option) prog" where
  "mini_get t key db =
     (case require_tx db t of
        Inl e \<Rightarrow> (Inl e, db)
      | Inr tx \<Rightarrow>
          (case dget (txc_writes tx) key of
             Some v \<Rightarrow> (Inr (Some v), db)
           | None \<Rightarrow> (Inr (dget (txc_snapshot tx) key), db)))"

definition mini_put :: "string \<Rightarrow> string \<Rightarrow> string \<Rightarrow> (mini_db, unit) prog" where
  "mini_put t key val db =
     (case require_tx db t of
        Inl e \<Rightarrow> (Inl e, db)
      | Inr tx \<Rightarrow>
          (Inr (), db\<lparr>mdb_tx_map :=
             dset (mdb_tx_map db) t (tx\<lparr>txc_writes := dset (txc_writes tx) key val\<rparr>)\<rparr>))"

definition mini_commit :: "string \<Rightarrow> (mini_db, unit) prog" where
  "mini_commit t db =
     (case require_tx db t of
        Inl e \<Rightarrow> (Inl e, db)
      | Inr tx \<Rightarrow>
          (Inr (), db\<lparr>mdb_store := dict_update (mdb_store db) (txc_writes tx),
                      mdb_tx_map := ddel (mdb_tx_map db) t\<rparr>))"

definition mini_rollback :: "string \<Rightarrow> (mini_db, unit) prog" where
  "mini_rollback t db =
     (case require_tx db t of
        Inl e \<Rightarrow> (Inl e, db)
      | Inr tx \<Rightarrow> (Inr (), db\<lparr>mdb_tx_map := ddel (mdb_tx_map db) t\<rparr>))"

subsection \<open>Tree transactions\<close>

definition mini_tstart :: "string \<Rightarrow> (mini_db, string) prog" where
  "mini_tstart t db =
     (let ctx = new_tree_context t (mdb_store db);
          ctx = ctx\<lparr>mtc_branches := dset (mtc_branches ctx) 0 (new_branch 0 0)\<rparr>
      in (Inr t, db\<lparr>mdb_tree_map := dset (mdb_tree_map db) t ctx\<rparr>))"

definition require_tree_tx :: "mini_db \<Rightarrow> string \<Rightarrow> mini_tree_context res" where
  "require_tree_tx db t =
     (case dget (mdb_tree_map db) t of
        None \<Rightarrow> Inl (PyExc RuntimeError (''invalid or inactive tree tx_id: '' @ t))
      | Some ctx \<Rightarrow>
          (if \<not> mtc_active ctx
           then Inl (PyExc RuntimeError (''invalid or inactive tree tx_id: '' @ t))
           else Inr ctx))"


definition mini_tbranch :: "string \<Rightarrow> int \<Rightarrow> (mini_db, int) prog" where
  "mini_tbranch t parent db =
     (case require_tree_tx db t of
        Inl e \<Rightarrow> (Inl e, db)
      | Inr ctx \<Rightarrow>
          (if \<not> dhas (mtc_branches ctx) parent
           then (Inl (PyExc RuntimeError (''unknown parent branch_id: '' @ str_int parent)), db)
           else
             let b = mtc_next_branch_id ctx;
                 ctx = ctx\<lparr>mtc_next_branch_id := mtc_next_branch_id ctx + 1\<rparr>;
                 ctx = ctx\<lparr>mtc_branches := dset (mtc_branches ctx) b (new_branch b parent)\<rparr>
             in (Inr b, db\<lparr>mdb_tree_map := dset (mdb_tree_map db) t ctx\<rparr>)))"

definition mini_tbranch_many :: "string \<Rightarrow> int \<Rightarrow> int \<Rightarrow> (mini_db, int list) prog" where
  "mini_tbranch_many t parent count =
     for_each (\<lambda>_. mini_tbranch t parent) (replicate (nat (max 0 count)) ())"

text \<open>
  The loop of \<open>_resolve_branch_value\<close> climbs from a branch to the root; the outer
  \<open>None\<close> is a climb that never stops.
\<close>

partial_function (option) resolve_loop ::
  "mini_tree_context \<Rightarrow> mini_tree_branch \<Rightarrow> string \<Rightarrow> string option option" where
  "resolve_loop ctx current key =
     (case dget (mtb_writes current) key of
        Some v \<Rightarrow> Some (Some v)
      | None \<Rightarrow>
          (if mtb_parent_branch_id current = mtb_branch_id current
           then Some (dget (mtc_snapshot ctx) key)
           else (case dget (mtc_branches ctx) (mtb_parent_branch_id current) of
                   None \<Rightarrow> Some (dget (mtc_snapshot ctx) key)
                 | Some parent \<Rightarrow> resolve_loop ctx parent key)))"

declare resolve_loop.simps [code]

definition resolve_branch_value ::
  "mini_tree_context \<Rightarrow> int \<Rightarrow> string \<Rightarrow> string option option" where
  "resolve_branch_value ctx b key =
     (case dget (mtc_branches ctx) b of
        None \<Rightarrow> Some (dget (mtc_snapshot ctx) key)
      | Some current \<Rightarrow> resolve_loop ctx current key)"

definition mini_tget :: "string \<Rightarrow> int \<Rightarrow> string \<Rightarrow> bool \<Rightarrow> (mini_db, string option) prog" where
  "mini_tget t b key strict db =
     (case require_tree_tx db t of
        Inl e \<Rightarrow> (Inl e, db)
      | Inr ctx \<Rightarrow>
          (if \<not> dhas (mtc_branches ctx) b
           then (Inl (PyExc RuntimeError (''unknown branch_id: '' @ str_int b)), db)
           else if strict then (Inr (dget (mtc_snapshot ctx) key), db)
           else (case resolve_branch_value ctx b key of
                   None \<Rightarrow> (Inl (PyExc NonTermination []), db)
                 | Some v \<Rightarrow> (Inr v, db))))"

definition mini_tget_many ::
  "string \<Rightarrow> (int \<times> string) list \<Rightarrow> bool \<Rightarrow> (mini_db, string option list) prog" where
  "mini_tget_many t requests strict = for_each (\<lambda>(b, key). mini_tget t b key strict) requests"

definition mini_tput :: "string \<Rightarrow> int \<Rightarrow> string \<Rightarrow> string \<Rightarrow> (mini_db, unit) prog" where
  "mini_tput t b key val db =
     (case require_tree_tx db t of
        Inl e \<Rightarrow> (Inl e, db)
      | Inr ctx \<Rightarrow>
          (case dget (mtc_branches ctx) b of
             None \<Rightarrow> (Inl (PyExc RuntimeError (''unknown branch_id: '' @ str_int b)), db)
           | Some br \<Rightarrow>
               (if b = 0
                then (Inl (PyExc RuntimeError ''root branch is read-only in mini tree mode''), db)
                else
                  let br = br\<lparr>mtb_writes := dset (mtb_writes br) key val\<rparr>;
                      ctx = ctx\<lparr>mtc_branches := dset (mtc_branches ctx) b br\<rparr>
                  in (Inr (), db\<lparr>mdb_tree_map := dset (mdb_tree_map db) t ctx\<rparr>))))"

definition mini_tput_many ::
  "string \<Rightarrow> (int \<times> string \<times> string) list \<Rightarrow> (mini_db, unit) prog" where
  "mini_tput_many t requests =
     bnd (for_each (\<lambda>(b, key, val). mini_tput t b key val) requests) (\<lambda>_. ret ())"

definition mini_twinner :: "string \<Rightarrow> int \<Rightarrow> (mini_db, unit) prog" where
  "mini_twinner t b db =
     (case require_tree_tx db t of
        Inl e \<Rightarrow> (Inl e, db)
      | Inr ctx \<Rightarrow>
          (if \<not> dhas (mtc_branches ctx) b
           then (Inl (PyExc RuntimeError (''unknown winner branch_id: '' @ str_int b)), db)
           else (Inr (), db\<lparr>mdb_tree_map :=
                   dset (mdb_tree_map db) t (ctx\<lparr>mtc_winner_branch_id := Some b\<rparr>)\<rparr>)))"

definition mini_trefresh_winner :: "string \<Rightarrow> int \<Rightarrow> string \<Rightarrow> (mini_db, string option) prog" where
  "mini_trefresh_winner t b key db =
     (case require_tree_tx db t of
        Inl e \<Rightarrow> (Inl e, db)
      | Inr ctx \<Rightarrow>
          (if mtc_winner_branch_id ctx \<noteq> Some b
           then (Inl (PyExc RuntimeError
                   (''branch '' @ str_int b @ '' is not the winner'')), db)
           else (Inr (dget (mtc_snapshot ctx) key), db)))"

text \<open>
  The first loop of \<open>tcommit_retry\<close> collects the winner and its ancestors, winner first;
  the second merges their writes in the opposite order, so that a descendant's write wins.
\<close>

partial_function (option) lineage_loop ::
  "mini_tree_context \<Rightarrow> mini_tree_branch list \<Rightarrow> mini_tree_branch \<Rightarrow> mini_tree_branch list option"
  where
  "lineage_loop ctx lineage current =
     (let lineage = lineage @ [current] in
      if mtb_parent_branch_id current = mtb_branch_id current then Some lineage
      else (case dget (mtc_branches ctx) (mtb_parent_branch_id current) of
              None \<Rightarrow> Some lineage
            | Some parent \<Rightarrow> lineage_loop ctx lineage parent))"

declare lineage_loop.simps [code]

definition merge_lineage :: "mini_tree_branch list \<Rightarrow> (string, string) dict" where
  "merge_lineage lineage =
     fold (\<lambda>br merged. dict_update merged (mtb_writes br)) (rev lineage) []"

definition mini_tcommit_retry :: "string \<Rightarrow> (mini_db, unit) prog" where
  "mini_tcommit_retry t db =
     (case require_tree_tx db t of
        Inl e \<Rightarrow> (Inl e, db)
      | Inr ctx \<Rightarrow>
          (case mtc_winner_branch_id ctx of
             None \<Rightarrow> (Inl (PyExc RuntimeError ''winner branch is not selected''), db)
           | Some w \<Rightarrow>
               (case dget (mtc_branches ctx) w of
                  None \<Rightarrow> (Inl (PyExc RuntimeError ''winner branch is missing''), db)
                | Some winner \<Rightarrow>
                    (case lineage_loop ctx [] winner of
                       None \<Rightarrow> (Inl (PyExc NonTermination []), db)
                     | Some lineage \<Rightarrow>
                         (Inr (), db\<lparr>mdb_store := dict_update (mdb_store db) (merge_lineage lineage),
                                     mdb_tree_map := ddel (mdb_tree_map db) t\<rparr>)))))"

definition mini_tcommit :: "string \<Rightarrow> (mini_db, unit) prog" where
  "mini_tcommit t = mini_tcommit_retry t"

definition mini_tabort :: "string \<Rightarrow> (mini_db, unit) prog" where
  "mini_tabort t db =
     (case require_tree_tx db t of
        Inl e \<Rightarrow> (Inl e, db)
      | Inr ctx \<Rightarrow> (Inr (), db\<lparr>mdb_tree_map := ddel (mdb_tree_map db) t\<rparr>))"

record dump_result =
  dr_ok :: bool
  dr_data :: "(string, string) dict"
  dr_size :: int

definition mini_dump_all :: "mini_db \<Rightarrow> dump_result" where
  "mini_dump_all db =
     \<lparr>dr_ok = True, dr_data = mdb_store db, dr_size = int (length (mdb_store db))\<rparr>"

end
