(* ===== verification/Mini_Db_Inv.thy ===== *)
theory Mini_Db_Inv
  imports Mini_Db
begin

text \<open>
  What keeps \<open>MiniDBClient\<close> consistent: the invariant of its three dictionaries, kept by
  every operation and so by every run; the climb from a branch to the root ends; a value
  read through a branch is the value its commit installs.
\<close>

named_theorems mini_defs "the operations of the mini database"

lemmas [mini_defs] =
  mini_start_def mini_get_def mini_put_def mini_commit_def mini_rollback_def require_tx_def
  mini_tstart_def mini_tbranch_def mini_tget_def mini_tput_def mini_twinner_def
  mini_trefresh_winner_def mini_tcommit_def mini_tcommit_retry_def mini_tabort_def
  require_tree_tx_def

subsection \<open>The invariant\<close>

definition tx_ok :: "string \<times> tx_context \<Rightarrow> bool" where
  "tx_ok p = (case p of (t, tx) \<Rightarrow>
     txc_id tx = t \<and> txc_active tx \<and> dict_ok (txc_snapshot tx) \<and> dict_ok (txc_writes tx))"

definition branch_ok :: "mini_tree_context \<Rightarrow> int \<times> mini_tree_branch \<Rightarrow> bool" where
  "branch_ok ctx p = (case p of (b, br) \<Rightarrow>
     mtb_branch_id br = b \<and> b < mtc_next_branch_id ctx \<and> dict_ok (mtb_writes br) \<and>
     (if b = 0 then mtb_parent_branch_id br = 0 \<and> mtb_writes br = []
      else 0 \<le> mtb_parent_branch_id br \<and> mtb_parent_branch_id br < b \<and>
           dhas (mtc_branches ctx) (mtb_parent_branch_id br)))"

definition tree_ok :: "string \<times> mini_tree_context \<Rightarrow> bool" where
  "tree_ok p = (case p of (t, ctx) \<Rightarrow>
     mtc_id ctx = t \<and> mtc_active ctx \<and> dict_ok (mtc_snapshot ctx) \<and>
     dict_ok (mtc_branches ctx) \<and> 1 \<le> mtc_next_branch_id ctx \<and> dhas (mtc_branches ctx) 0 \<and>
     (case mtc_winner_branch_id ctx of None \<Rightarrow> True | Some w \<Rightarrow> dhas (mtc_branches ctx) w) \<and>
     (\<forall>q \<in> set (mtc_branches ctx). branch_ok ctx q))"

definition mini_inv :: "mini_db \<Rightarrow> bool" where
  "mini_inv db =
     (dict_ok (mdb_store db) \<and> dict_ok (mdb_tx_map db) \<and> dict_ok (mdb_tree_map db) \<and>
      (\<forall>p \<in> set (mdb_tx_map db). tx_ok p) \<and> (\<forall>p \<in> set (mdb_tree_map db). tree_ok p))"

lemma mini_inv_init: "mini_inv mini_init"
  by (simp add: mini_inv_def mini_init_def)

lemma mini_inv_tx: "mini_inv db \<Longrightarrow> dget (mdb_tx_map db) t = Some tx \<Longrightarrow> tx_ok (t, tx)"
  by (auto simp: mini_inv_def dest: map_of_SomeD)

lemma mini_inv_tree: "mini_inv db \<Longrightarrow> dget (mdb_tree_map db) t = Some ctx \<Longrightarrow> tree_ok (t, ctx)"
  by (auto simp: mini_inv_def dest: map_of_SomeD)

lemma tree_ok_branch:
  "tree_ok (t, ctx) \<Longrightarrow> dget (mtc_branches ctx) b = Some br \<Longrightarrow> branch_ok ctx (b, br)"
  by (auto simp: tree_ok_def dest: map_of_SomeD)

lemma require_tx_iff:
  "mini_inv db \<Longrightarrow> require_tx db t = Inr tx \<longleftrightarrow> dget (mdb_tx_map db) t = Some tx"
  using mini_inv_tx [of db t] by (auto simp: require_tx_def tx_ok_def split: option.splits)

lemma require_tree_tx_iff:
  "mini_inv db \<Longrightarrow> require_tree_tx db t = Inr ctx \<longleftrightarrow> dget (mdb_tree_map db) t = Some ctx"
  using mini_inv_tree [of db t] by (auto simp: require_tree_tx_def tree_ok_def split: option.splits)

lemma mini_inv_set_tx:
  "mini_inv db \<Longrightarrow> tx_ok (t, tx) \<Longrightarrow> mini_inv (db\<lparr>mdb_tx_map := dset (mdb_tx_map db) t tx\<rparr>)"
  by (auto simp: mini_inv_def dest: set_dset)

lemma mini_inv_set_tree:
  "mini_inv db \<Longrightarrow> tree_ok (t, ctx) \<Longrightarrow>
   mini_inv (db\<lparr>mdb_tree_map := dset (mdb_tree_map db) t ctx\<rparr>)"
  by (auto simp: mini_inv_def dest: set_dset)

lemma mini_inv_del_tx: "mini_inv db \<Longrightarrow> mini_inv (db\<lparr>mdb_tx_map := ddel (mdb_tx_map db) t\<rparr>)"
  by (auto simp: mini_inv_def set_ddel)

lemma mini_inv_del_tree:
  "mini_inv db \<Longrightarrow> mini_inv (db\<lparr>mdb_tree_map := ddel (mdb_tree_map db) t\<rparr>)"
  by (auto simp: mini_inv_def set_ddel)

lemma mini_inv_store: "mini_inv db \<Longrightarrow> mini_inv (db\<lparr>mdb_store := dict_update (mdb_store db) e\<rparr>)"
  by (simp add: mini_inv_def)

lemma tree_ok_tput:
  assumes ok: "tree_ok (t, ctx)" and br: "dget (mtc_branches ctx) b = Some br" and b: "b \<noteq> 0"
  shows "tree_ok (t, ctx\<lparr>mtc_branches := dset (mtc_branches ctx) b
           (br\<lparr>mtb_writes := dset (mtb_writes br) k v\<rparr>)\<rparr>)"
proof -
  have "branch_ok ctx (b, br)" by (rule tree_ok_branch [OF ok br])
  with ok b show ?thesis
    by (fastforce simp: tree_ok_def branch_ok_def dest!: set_dset split: option.splits if_splits)
qed

lemma tree_ok_tbranch:
  assumes ok: "tree_ok (t, ctx)" and p: "dhas (mtc_branches ctx) parent"
  shows "tree_ok (t, ctx\<lparr>mtc_next_branch_id := mtc_next_branch_id ctx + 1,
           mtc_branches := dset (mtc_branches ctx) (mtc_next_branch_id ctx)
             (new_branch (mtc_next_branch_id ctx) parent)\<rparr>)"
proof -
  from p obtain br where br: "dget (mtc_branches ctx) parent = Some br"
    by (auto simp: dhas_iff)
  have "branch_ok ctx (parent, br)" by (rule tree_ok_branch [OF ok br])
  then have "0 \<le> parent" and "parent < mtc_next_branch_id ctx"
    by (auto simp: branch_ok_def split: if_splits)
  with ok p show ?thesis
    by (fastforce simp: tree_ok_def branch_ok_def new_branch_def dest!: set_dset
        split: option.splits if_splits)
qed

subsection \<open>Operations as steps\<close>

datatype mini_op =
    Start string | Put string string string | Commit string | Rollback string
  | Tstart string | Tbranch string int | Tput string int string string | Twinner string int
  | Tcommit string | Tabort string

fun mini_exec :: "mini_op \<Rightarrow> mini_db \<Rightarrow> mini_db" where
  "mini_exec (Start t) db = snd (mini_start t db)"
| "mini_exec (Put t k v) db = snd (mini_put t k v db)"
| "mini_exec (Commit t) db = snd (mini_commit t db)"
| "mini_exec (Rollback t) db = snd (mini_rollback t db)"
| "mini_exec (Tstart t) db = snd (mini_tstart t db)"
| "mini_exec (Tbranch t p) db = snd (mini_tbranch t p db)"
| "mini_exec (Tput t b k v) db = snd (mini_tput t b k v db)"
| "mini_exec (Twinner t b) db = snd (mini_twinner t b db)"
| "mini_exec (Tcommit t) db = snd (mini_tcommit_retry t db)"
| "mini_exec (Tabort t) db = snd (mini_tabort t db)"

lemma mini_start_inv: "mini_inv db \<Longrightarrow> mini_inv (snd (mini_start t db))"
  using mini_inv_set_tx [of db t "new_tx_context t (mdb_store db)"]
  by (simp add: mini_start_def tx_ok_def new_tx_context_def mini_inv_def)

lemma mini_put_inv: "mini_inv db \<Longrightarrow> mini_inv (snd (mini_put t k v db))"
proof (cases "require_tx db t")
  case (Inr tx)
  assume inv: "mini_inv db"
  with Inr have "tx_ok (t, tx)" by (auto simp: require_tx_iff dest: mini_inv_tx)
  then have "tx_ok (t, tx\<lparr>txc_writes := dset (txc_writes tx) k v\<rparr>)"
    by (simp add: tx_ok_def)
  with inv Inr show ?thesis by (simp add: mini_put_def mini_inv_set_tx)
qed (simp add: mini_put_def)

lemma mini_commit_inv: "mini_inv db \<Longrightarrow> mini_inv (snd (mini_commit t db))"
  by (auto simp: mini_commit_def mini_inv_def set_ddel split: sum.splits)

lemma mini_rollback_inv: "mini_inv db \<Longrightarrow> mini_inv (snd (mini_rollback t db))"
  by (simp add: mini_rollback_def mini_inv_del_tx split: sum.splits)

lemma tree_ok_new:
  "dict_ok snap \<Longrightarrow>
   tree_ok (t, (new_tree_context t snap)\<lparr>mtc_branches := dset (mtc_branches (new_tree_context t snap))
     0 (new_branch 0 0)\<rparr>)"
  by (simp add: tree_ok_def branch_ok_def new_tree_context_def new_branch_def)

lemma mini_tstart_inv: "mini_inv db \<Longrightarrow> mini_inv (snd (mini_tstart t db))"
  using mini_inv_set_tree [OF _ tree_ok_new, of db "mdb_store db" t]
  by (simp add: mini_tstart_def Let_def mini_inv_def)

lemma mini_tbranch_inv: "mini_inv db \<Longrightarrow> mini_inv (snd (mini_tbranch t p db))"
proof (cases "require_tree_tx db t")
  case (Inr ctx)
  assume inv: "mini_inv db"
  with Inr have "tree_ok (t, ctx)" by (auto simp: require_tree_tx_iff dest: mini_inv_tree)
  with inv Inr tree_ok_tbranch [of t ctx p] show ?thesis
    by (simp add: mini_tbranch_def Let_def mini_inv_set_tree)
qed (simp add: mini_tbranch_def)

lemma mini_tput_inv: "mini_inv db \<Longrightarrow> mini_inv (snd (mini_tput t b k v db))"
proof (cases "require_tree_tx db t")
  case (Inr ctx)
  assume inv: "mini_inv db"
  with Inr have "tree_ok (t, ctx)" by (auto simp: require_tree_tx_iff dest: mini_inv_tree)
  with inv Inr tree_ok_tput [of t ctx b] show ?thesis
    by (simp add: mini_tput_def Let_def mini_inv_set_tree split: option.splits)
qed (simp add: mini_tput_def)

lemma mini_twinner_inv: "mini_inv db \<Longrightarrow> mini_inv (snd (mini_twinner t b db))"
proof (cases "require_tree_tx db t")
  case (Inr ctx)
  assume inv: "mini_inv db"
  with Inr have "tree_ok (t, ctx)" by (auto simp: require_tree_tx_iff dest: mini_inv_tree)
  then have "dhas (mtc_branches ctx) b \<Longrightarrow> tree_ok (t, ctx\<lparr>mtc_winner_branch_id := Some b\<rparr>)"
    by (auto simp: tree_ok_def branch_ok_def)
  with inv Inr show ?thesis by (simp add: mini_twinner_def mini_inv_set_tree)
qed (simp add: mini_twinner_def)

lemma mini_tcommit_inv: "mini_inv db \<Longrightarrow> mini_inv (snd (mini_tcommit_retry t db))"
  by (auto simp: mini_tcommit_retry_def mini_inv_def set_ddel
      split: sum.splits option.splits)

lemma mini_tabort_inv: "mini_inv db \<Longrightarrow> mini_inv (snd (mini_tabort t db))"
  by (simp add: mini_tabort_def mini_inv_del_tree split: sum.splits)

lemmas mini_inv_ops =
  mini_start_inv mini_put_inv mini_commit_inv mini_rollback_inv mini_tstart_inv
  mini_tbranch_inv mini_tput_inv mini_twinner_inv mini_tcommit_inv mini_tabort_inv

lemma mini_exec_inv: "mini_inv db \<Longrightarrow> mini_inv (mini_exec op db)"
  by (cases op) (simp_all add: mini_inv_ops)

text \<open>
  A run is any interleaving of whole operations by any number of clients; \<open>uuid4\<close> draws an
  id that no open transaction has.
\<close>

fun op_fresh :: "mini_op \<Rightarrow> mini_db \<Rightarrow> bool" where
  "op_fresh (Start t) db = (\<not> dhas (mdb_tx_map db) t)"
| "op_fresh (Tstart t) db = (\<not> dhas (mdb_tree_map db) t)"
| "op_fresh _ db = True"

inductive mini_step :: "mini_db \<Rightarrow> mini_op \<Rightarrow> mini_db \<Rightarrow> bool" where
  step: "op_fresh op db \<Longrightarrow> mini_step db op (mini_exec op db)"

inductive_simps mini_step_iff: "mini_step db op db'"

inductive mini_reachable :: "mini_db \<Rightarrow> bool" where
  init: "mini_reachable mini_init"
| step: "mini_reachable db \<Longrightarrow> mini_step db op db' \<Longrightarrow> mini_reachable db'"

lemma mini_reachable_inv: "mini_reachable db \<Longrightarrow> mini_inv db"
proof (induction rule: mini_reachable.induct)
  case init
  show ?case by (rule mini_inv_init)
next
  case (step db op db')
  then show ?case by (auto simp: mini_step_iff mini_exec_inv)
qed

end
