(* ===== verification/Mini_Db_Tree.thy ===== *)
theory Mini_Db_Tree
  imports Mini_Db_Inv
begin

text \<open>
  Reading through a branch and committing it: the climb to the root ends, both loops visit
  the same branches, and the merged writes agree with what \<open>tget\<close> returned. Also the
  interpretation of the store contract on the plain transactions.
\<close>

subsection \<open>What a branch shows\<close>

text \<open>
  The value of a key a branch shows, stated without the loops of the code: its own write, and
  where it wrote nothing what its parent shows. The root is its own parent, so a key that is
  written nowhere up to the root has no finite derivation, and no value.
\<close>

inductive branch_shows :: "mini_tree_context \<Rightarrow> int \<Rightarrow> string \<Rightarrow> string \<Rightarrow> bool"
  for ctx :: mini_tree_context where
  own_write: "dget (mtc_branches ctx) b = Some br \<Longrightarrow> dget (mtb_writes br) key = Some v \<Longrightarrow>
     branch_shows ctx b key v"
| inherited: "dget (mtc_branches ctx) b = Some br \<Longrightarrow> dget (mtb_writes br) key = None \<Longrightarrow>
     branch_shows ctx (mtb_parent_branch_id br) key v \<Longrightarrow> branch_shows ctx b key v"

inductive_simps branch_shows_unfold: "branch_shows ctx b key v"

subsection \<open>The lineage of a branch\<close>

definition lineage :: "mini_tree_context \<Rightarrow> int \<Rightarrow> mini_tree_branch list" where
  "lineage ctx b =
     (case dget (mtc_branches ctx) b of
        None \<Rightarrow> []
      | Some br \<Rightarrow> (case lineage_loop ctx [] br of None \<Rightarrow> [] | Some l \<Rightarrow> l))"

fun first_write :: "mini_tree_branch list \<Rightarrow> string \<Rightarrow> string option" where
  "first_write [] key = None"
| "first_write (br # brs) key =
     (case dget (mtb_writes br) key of Some v \<Rightarrow> Some v | None \<Rightarrow> first_write brs key)"

definition written :: "mini_tree_branch list \<Rightarrow> string \<Rightarrow> bool" where
  "written brs key = (\<exists>br \<in> set brs. dhas (mtb_writes br) key)"

lemma written_first_write: "written brs key \<longleftrightarrow> first_write brs key \<noteq> None"
  by (induction brs) (auto simp: written_def dhas_iff split: option.splits)

lemma lineage_loop_ok:
  assumes ok: "tree_ok (t, ctx)"
  shows "dget (mtc_branches ctx) b = Some br \<Longrightarrow>
    \<exists>brs. (\<forall>acc. lineage_loop ctx acc br = Some (acc @ br # brs)) \<and>
      (\<forall>key. resolve_loop ctx br key =
         Some (case first_write (br # brs) key of Some v \<Rightarrow> Some v
               | None \<Rightarrow> dget (mtc_snapshot ctx) key)) \<and>
      brs = (if b = 0 then [] else lineage ctx (mtb_parent_branch_id br)) \<and>
      (\<forall>x \<in> set brs. mtb_branch_id x < b)"
proof (induction "nat b" arbitrary: b br rule: less_induct)
  case less
  have bok: "branch_ok ctx (b, br)" by (rule tree_ok_branch [OF ok less.prems])
  show ?case
  proof (cases "b = 0")
    case True
    with bok show ?thesis
      by (auto simp: branch_ok_def lineage_loop.simps [of ctx _ br] resolve_loop.simps [of ctx br]
          split: option.splits)
  next
    case False
    let ?p = "mtb_parent_branch_id br"
    from bok False obtain pb where p: "0 \<le> ?p" "?p < b" "dget (mtc_branches ctx) ?p = Some pb"
      and bid: "mtb_branch_id br = b"
      by (auto simp: branch_ok_def dhas_iff)
    then have "nat ?p < nat b" by simp
    from less.hyps [OF this p(3)] obtain brs where
      l: "\<forall>acc. lineage_loop ctx acc pb = Some (acc @ pb # brs)" and
      r: "\<forall>key. resolve_loop ctx pb key =
         Some (case first_write (pb # brs) key of Some v \<Rightarrow> Some v
               | None \<Rightarrow> dget (mtc_snapshot ctx) key)" and
      lt: "\<forall>x \<in> set brs. mtb_branch_id x < ?p" by blast
    have pid: "mtb_branch_id pb = ?p"
      using tree_ok_branch [OF ok p(3)] by (simp add: branch_ok_def)
    from l p(3) have lin: "lineage ctx ?p = pb # brs" by (simp add: lineage_def)
    have "\<forall>acc. lineage_loop ctx acc br = Some (acc @ br # pb # brs)"
      using p bid l by (simp add: lineage_loop.simps [of ctx _ br])
    moreover have "\<forall>key. resolve_loop ctx br key =
         Some (case first_write (br # pb # brs) key of Some v \<Rightarrow> Some v
               | None \<Rightarrow> dget (mtc_snapshot ctx) key)"
      using p bid r by (auto simp: resolve_loop.simps [of ctx br] split: option.splits)
    ultimately show ?thesis using lin False lt pid p(2) by auto
  qed
qed

lemma lineage_unfold:
  assumes ok: "tree_ok (t, ctx)" and br: "dget (mtc_branches ctx) b = Some br"
  shows "lineage ctx b = br # (if b = 0 then [] else lineage ctx (mtb_parent_branch_id br))"
    and "lineage_loop ctx [] br = Some (lineage ctx b)"
    and "resolve_loop ctx br key = Some (case first_write (lineage ctx b) key of
           Some v \<Rightarrow> Some v | None \<Rightarrow> dget (mtc_snapshot ctx) key)"
  using lineage_loop_ok [OF ok br] br by (auto simp: lineage_def)

lemma branch_shows_iff:
  assumes ok: "tree_ok (t, ctx)"
  shows "dget (mtc_branches ctx) b = Some br \<Longrightarrow>
    branch_shows ctx b key v \<longleftrightarrow> first_write (lineage ctx b) key = Some v"
proof (induction "nat b" arbitrary: b br rule: less_induct)
  case less
  have bok: "branch_ok ctx (b, br)" by (rule tree_ok_branch [OF ok less.prems])
  note un = lineage_unfold(1) [OF ok less.prems]
  show ?case
  proof (cases "b = 0")
    case True
    with bok have root: "mtb_parent_branch_id br = 0" "mtb_writes br = []"
      by (simp_all add: branch_ok_def)
    have "\<not> branch_shows ctx c key v" if "c = 0" for c
    proof
      assume "branch_shows ctx c key v"
      then show False using that
        by (induction rule: branch_shows.induct) (use True root less.prems in auto)
    qed
    with un True root show ?thesis by simp
  next
    case False
    with bok obtain pb where p: "0 \<le> mtb_parent_branch_id br" "mtb_parent_branch_id br < b"
      "dget (mtc_branches ctx) (mtb_parent_branch_id br) = Some pb"
      by (auto simp: branch_ok_def dhas_iff)
    then have "nat (mtb_parent_branch_id br) < nat b" by simp
    from less.hyps [OF this p(3)] un False show ?thesis
      by (subst branch_shows_unfold) (auto simp: less.prems split: option.splits)
  qed
qed

lemma lineage_branches:
  assumes ok: "tree_ok (t, ctx)"
  shows "dget (mtc_branches ctx) b = Some br \<Longrightarrow> x \<in> set (lineage ctx b) \<Longrightarrow>
    dget (mtc_branches ctx) (mtb_branch_id x) = Some x \<and> mtb_branch_id x \<le> b"
proof (induction "nat b" arbitrary: b br rule: less_induct)
  case less
  have bok: "branch_ok ctx (b, br)" by (rule tree_ok_branch [OF ok less.prems(1)])
  show ?case
  proof (cases "x = br")
    case True
    with bok less.prems show ?thesis by (simp add: branch_ok_def)
  next
    case False
    with less.prems(2) lineage_unfold(1) [OF ok less.prems(1)]
    have nz: "b \<noteq> 0" and x: "x \<in> set (lineage ctx (mtb_parent_branch_id br))"
      by (auto split: if_splits)
    from bok nz obtain pb where p: "0 \<le> mtb_parent_branch_id br" "mtb_parent_branch_id br < b"
      "dget (mtc_branches ctx) (mtb_parent_branch_id br) = Some pb"
      by (auto simp: branch_ok_def dhas_iff)
    then have "nat (mtb_parent_branch_id br) < nat b" by simp
    from less.hyps [OF this p(3) x] p(2) show ?thesis by auto
  qed
qed

lemma resolve_branch_value_ok:
  assumes "tree_ok (t, ctx)" and "dhas (mtc_branches ctx) b"
  shows "resolve_branch_value ctx b key = Some (case first_write (lineage ctx b) key of
           Some v \<Rightarrow> Some v | None \<Rightarrow> dget (mtc_snapshot ctx) key)"
  using assms lineage_unfold(3) [of t ctx b _ key]
  by (auto simp: resolve_branch_value_def dhas_iff)

subsection \<open>Merging the lineage\<close>

lemma merge_lineage_get:
  "(\<forall>br \<in> set brs. dict_ok (mtb_writes br)) \<Longrightarrow>
   map_of (merge_lineage brs) = first_write brs"
proof (induction brs)
  case Nil
  then show ?case by (simp add: merge_lineage_def fun_eq_iff)
next
  case (Cons br brs)
  have "merge_lineage (br # brs) = dict_update (merge_lineage brs) (mtb_writes br)"
    by (simp add: merge_lineage_def)
  with Cons show ?case
    by (auto simp: dget_dict_update fun_eq_iff map_add_def split: option.splits)
qed

lemma merge_lineage_ok: "dict_ok (merge_lineage brs)"
proof -
  have "dict_ok acc \<Longrightarrow> dict_ok (fold (\<lambda>br merged. dict_update merged (mtb_writes br)) l acc)"
    for acc l by (induction l arbitrary: acc) auto
  from this [of "[]" "rev brs"] show ?thesis by (simp add: merge_lineage_def)
qed

lemma lineage_writes_ok:
  assumes ok: "tree_ok (t, ctx)" and br: "dget (mtc_branches ctx) b = Some br"
  shows "\<forall>x \<in> set (lineage ctx b). dict_ok (mtb_writes x)"
proof
  fix x assume "x \<in> set (lineage ctx b)"
  with lineage_branches [OF ok br] have "dget (mtc_branches ctx) (mtb_branch_id x) = Some x"
    by blast
  from tree_ok_branch [OF ok this] show "dict_ok (mtb_writes x)" by (simp add: branch_ok_def)
qed

lemma mini_tget_eq:
  assumes "mini_inv db" and "dget (mdb_tree_map db) t = Some ctx" and "dhas (mtc_branches ctx) b"
  shows "mini_tget t b key False db =
    (Inr (case first_write (lineage ctx b) key of Some v \<Rightarrow> Some v
          | None \<Rightarrow> dget (mtc_snapshot ctx) key), db)"
proof -
  have "tree_ok (t, ctx)" using assms(1,2) by (rule mini_inv_tree)
  then show ?thesis
    using assms by (simp add: mini_tget_def require_tree_tx_iff [THEN iffD2] resolve_branch_value_ok)
qed

lemma mini_tcommit_eq:
  assumes inv: "mini_inv db" and t: "dget (mdb_tree_map db) t = Some ctx"
    and w: "mtc_winner_branch_id ctx = Some w"
  shows "mini_tcommit_retry t db =
    (Inr (), db\<lparr>mdb_store := dict_update (mdb_store db) (merge_lineage (lineage ctx w)),
                mdb_tree_map := ddel (mdb_tree_map db) t\<rparr>)"
    and "map_of (dict_update (mdb_store db) (merge_lineage (lineage ctx w))) =
         map_of (mdb_store db) ++ first_write (lineage ctx w)"
proof -
  have ok: "tree_ok (t, ctx)" using inv t by (rule mini_inv_tree)
  with w obtain br where br: "dget (mtc_branches ctx) w = Some br"
    by (auto simp: tree_ok_def dhas_iff)
  from lineage_unfold(2) [OF ok br] show "mini_tcommit_retry t db =
    (Inr (), db\<lparr>mdb_store := dict_update (mdb_store db) (merge_lineage (lineage ctx w)),
                mdb_tree_map := ddel (mdb_tree_map db) t\<rparr>)"
    using inv t w br by (simp add: mini_tcommit_retry_def require_tree_tx_iff [THEN iffD2])
  show "map_of (dict_update (mdb_store db) (merge_lineage (lineage ctx w))) =
         map_of (mdb_store db) ++ first_write (lineage ctx w)"
    by (simp add: dget_dict_update merge_lineage_ok
        merge_lineage_get [OF lineage_writes_ok [OF ok br]])
qed

subsection \<open>Isolation between branches\<close>

lemma lineage_frame:
  assumes ok: "tree_ok (t, ctx)" and b: "dget (mtc_branches ctx) b = Some br" and nz: "b \<noteq> 0"
    and ctx': "ctx' = ctx\<lparr>mtc_branches := dset (mtc_branches ctx) b
                 (br\<lparr>mtb_writes := dset (mtb_writes br) k v\<rparr>)\<rparr>"
  shows "dget (mtc_branches ctx) c = Some cr \<Longrightarrow> b \<notin> mtb_branch_id ` set (lineage ctx c) \<Longrightarrow>
    lineage ctx' c = lineage ctx c"
proof (induction "nat c" arbitrary: c cr rule: less_induct)
  case less
  have ok': "tree_ok (t, ctx')" unfolding ctx' by (rule tree_ok_tput [OF ok b nz])
  have cok: "branch_ok ctx (c, cr)" by (rule tree_ok_branch [OF ok less.prems(1)])
  have "c \<noteq> b"
    using less.prems cok lineage_unfold(1) [OF ok less.prems(1)] by (auto simp: branch_ok_def)
  then have c': "dget (mtc_branches ctx') c = Some cr" using less.prems ctx' by simp
  show ?case
  proof (cases "c = 0")
    case True
    then show ?thesis
      using lineage_unfold(1) [OF ok less.prems(1)] lineage_unfold(1) [OF ok' c'] by simp
  next
    case False
    from cok False obtain pb where p: "0 \<le> mtb_parent_branch_id cr" "mtb_parent_branch_id cr < c"
      "dget (mtc_branches ctx) (mtb_parent_branch_id cr) = Some pb"
      by (auto simp: branch_ok_def dhas_iff)
    then have "nat (mtb_parent_branch_id cr) < nat c" by simp
    from less.hyps [OF this p(3)] less.prems(2)
    have "lineage ctx' (mtb_parent_branch_id cr) = lineage ctx (mtb_parent_branch_id cr)"
      using lineage_unfold(1) [OF ok less.prems(1)] False by simp
    then show ?thesis
      using lineage_unfold(1) [OF ok less.prems(1)] lineage_unfold(1) [OF ok' c'] by simp
  qed
qed

lemma tree_ok_next_new: "tree_ok (t, ctx) \<Longrightarrow> \<not> dhas (mtc_branches ctx) (mtc_next_branch_id ctx)"
  using tree_ok_branch [of t ctx "mtc_next_branch_id ctx"]
  by (cases "dget (mtc_branches ctx) (mtc_next_branch_id ctx)") (auto simp: dhas_iff branch_ok_def)

lemma lineage_tbranch:
  assumes ok: "tree_ok (t, ctx)" and p: "dhas (mtc_branches ctx) parent"
    and ctx': "ctx' = ctx\<lparr>mtc_next_branch_id := mtc_next_branch_id ctx + 1,
      mtc_branches := dset (mtc_branches ctx) (mtc_next_branch_id ctx)
        (new_branch (mtc_next_branch_id ctx) parent)\<rparr>"
  shows "lineage ctx' (mtc_next_branch_id ctx) =
    new_branch (mtc_next_branch_id ctx) parent # lineage ctx parent"
proof -
  let ?b = "mtc_next_branch_id ctx"
  have ok': "tree_ok (t, ctx')" unfolding ctx' by (rule tree_ok_tbranch [OF ok p])
  have new: "\<not> dhas (mtc_branches ctx) ?b" by (rule tree_ok_next_new [OF ok])
  have b0: "?b \<noteq> 0" using ok by (auto simp: tree_ok_def)
  have old: "dget (mtc_branches ctx) c = Some cr \<Longrightarrow> lineage ctx' c = lineage ctx c" for c cr
  proof (induction "nat c" arbitrary: c cr rule: less_induct)
    case less
    have cok: "branch_ok ctx (c, cr)" by (rule tree_ok_branch [OF ok less.prems])
    have c': "dget (mtc_branches ctx') c = Some cr"
      using less.prems new by (auto simp: dhas_iff ctx')
    show ?case
    proof (cases "c = 0")
      case True
      then show ?thesis
        using lineage_unfold(1) [OF ok less.prems] lineage_unfold(1) [OF ok' c'] by simp
    next
      case False
      with cok obtain q where "0 \<le> mtb_parent_branch_id cr" "mtb_parent_branch_id cr < c"
        "dget (mtc_branches ctx) (mtb_parent_branch_id cr) = Some q"
        by (auto simp: branch_ok_def dhas_iff)
      with less.hyps [of "mtb_parent_branch_id cr" q] show ?thesis
        using lineage_unfold(1) [OF ok less.prems] lineage_unfold(1) [OF ok' c'] by simp
    qed
  qed
  from p obtain pr where "dget (mtc_branches ctx) parent = Some pr" by (auto simp: dhas_iff)
  moreover have "dget (mtc_branches ctx') ?b = Some (new_branch ?b parent)" by (simp add: ctx')
  from lineage_unfold(1) [OF ok' this] b0
  have "lineage ctx' ?b = new_branch ?b parent # lineage ctx' parent"
    by (simp add: new_branch_def)
  ultimately show ?thesis using old by simp
qed

subsection \<open>The plain transactions are a snapshot store\<close>

definition mini_tx_of ::
  "mini_db \<Rightarrow> string \<Rightarrow> ((string \<Rightarrow> string option) \<times> (string \<Rightarrow> string option)) option" where
  "mini_tx_of db t =
     map_option (\<lambda>tx. (map_of (txc_snapshot tx), map_of (txc_writes tx))) (dget (mdb_tx_map db) t)"

definition mini_store_of :: "mini_db \<Rightarrow> string \<Rightarrow> string option" where
  "mini_store_of db = map_of (mdb_store db)"

lemma mini_tx_of_Some:
  assumes "mini_inv db" and "mini_tx_of db t = Some (sn, w)"
  obtains tx where "require_tx db t = Inr tx" and "sn = map_of (txc_snapshot tx)"
    and "w = map_of (txc_writes tx)" and "dict_ok (txc_writes tx)"
proof -
  from assms(2) obtain tx where tx: "dget (mdb_tx_map db) t = Some tx"
    and "sn = map_of (txc_snapshot tx)" "w = map_of (txc_writes tx)"
    by (auto simp: mini_tx_of_def)
  moreover have "dict_ok (txc_writes tx)"
    using mini_inv_tx [OF assms(1) tx] by (simp add: tx_ok_def)
  moreover have "require_tx db t = Inr tx"
    using assms(1) tx by (simp add: require_tx_iff)
  ultimately show ?thesis using that by blast
qed

lemmas mini_abs_simps = mini_tx_of_def mini_store_of_def new_tx_context_def

interpretation mini_tx: snapshot_store mini_store_of mini_tx_of "\<lambda>_. t" "mini_start t"
  mini_get mini_put mini_commit mini_rollback mini_inv for t
proof (unfold_locales, goal_cases)
  case (1 db)
  then show ?case
    using mini_start_inv [of db t] by (auto simp: mini_start_def mini_abs_simps fun_eq_iff)
next
  case (2 db u sn w k)
  then show ?case
    by (elim mini_tx_of_Some) (auto simp: mini_get_def map_add_def split: option.splits)
next
  case (3 db u sn w k v)
  obtain tx where tx: "require_tx db u = Inr tx" "sn = map_of (txc_snapshot tx)"
    "w = map_of (txc_writes tx)" by (rule mini_tx_of_Some [OF 3])
  then show ?case
    using mini_put_inv [OF 3(1), of u k v]
    by (simp add: mini_put_def mini_tx_of_def mini_store_of_def fun_eq_iff)
next
  case (4 db u sn w)
  obtain tx where tx: "require_tx db u = Inr tx" "sn = map_of (txc_snapshot tx)"
    "w = map_of (txc_writes tx)" "dict_ok (txc_writes tx)" by (rule mini_tx_of_Some [OF 4])
  show ?case
    using mini_commit_inv [OF 4(1), of u]
    by (simp add: tx mini_commit_def mini_tx_of_def mini_store_of_def fun_eq_iff dget_dict_update)
next
  case (5 db u sn w)
  obtain tx where tx: "require_tx db u = Inr tx" by (rule mini_tx_of_Some [OF 5])
  then show ?case
    using mini_rollback_inv [OF 5(1), of u]
    by (simp add: mini_rollback_def mini_tx_of_def mini_store_of_def fun_eq_iff)
next
  case (6 db u k v)
  then have "require_tx db u = Inl (PyExc RuntimeError (''invalid or inactive tx_id: '' @ u))"
    by (simp add: require_tx_def mini_tx_of_def)
  then show ?case
    by (simp add: mini_get_def mini_put_def mini_commit_def mini_rollback_def)
qed

end
