(* ===== verification/Mini_Db_Props.thy ===== *)
theory Mini_Db_Props
  imports Mini_Db_Tree
begin

text \<open>
  The properties of \<open>MiniDBClient\<close>: consistency of every reachable state, snapshot
  isolation, atomic commits, isolation of branches, and what a tree commit installs; and two
  weaknesses of the in-memory backend, stated as the code has them.
\<close>

subsection \<open>Runs and example states\<close>

definition mini_run :: "mini_op list \<Rightarrow> mini_db \<Rightarrow> mini_db" where
  "mini_run ops db = fold mini_exec ops db"

definition of_tx :: "string \<Rightarrow> mini_op \<Rightarrow> bool" where
  "of_tx t op =
     (case op of Start u \<Rightarrow> u = t | Put u k v \<Rightarrow> u = t | Commit u \<Rightarrow> u = t | Rollback u \<Rightarrow> u = t
      | _ \<Rightarrow> False)"

definition of_tree :: "string \<Rightarrow> mini_op \<Rightarrow> bool" where
  "of_tree t op =
     (case op of Tstart u \<Rightarrow> u = t | Tbranch u p \<Rightarrow> u = t | Tput u b k v \<Rightarrow> u = t
      | Twinner u b \<Rightarrow> u = t | Tcommit u \<Rightarrow> u = t | Tabort u \<Rightarrow> u = t | _ \<Rightarrow> False)"

lemma mini_run_inv: "mini_inv db \<Longrightarrow> mini_inv (mini_run ops db)"
  by (induction ops arbitrary: db) (simp_all add: mini_run_def mini_exec_inv)

lemma mini_exec_other_tx:
  "\<not> of_tx t op \<Longrightarrow> dget (mdb_tx_map (mini_exec op db)) t = dget (mdb_tx_map db) t"
  by (cases op) (auto simp: of_tx_def mini_defs Let_def split: sum.splits option.splits if_splits)

lemma mini_exec_other_tree:
  "\<not> of_tree t op \<Longrightarrow> dget (mdb_tree_map (mini_exec op db)) t = dget (mdb_tree_map db) t"
  by (cases op) (auto simp: of_tree_def mini_defs Let_def split: sum.splits option.splits if_splits)

lemma mini_run_other_tx:
  "\<forall>op \<in> set ops. \<not> of_tx t op \<Longrightarrow>
   dget (mdb_tx_map (mini_run ops db)) t = dget (mdb_tx_map db) t"
  by (induction ops arbitrary: db) (auto simp: mini_run_def mini_exec_other_tx)

lemma mini_run_other_tree:
  "\<forall>op \<in> set ops. \<not> of_tree t op \<Longrightarrow>
   dget (mdb_tree_map (mini_run ops db)) t = dget (mdb_tree_map db) t"
  by (induction ops arbitrary: db) (auto simp: mini_run_def mini_exec_other_tree)

definition ex_db :: mini_db where
  "ex_db = mini_run
     [Start ''a'', Put ''a'' ''k'' ''0'', Commit ''a'', Start ''t1'', Start ''t2'',
      Put ''t1'' ''k'' ''1'', Put ''t2'' ''k'' ''2'', Tstart ''tr'', Tbranch ''tr'' 0,
      Tbranch ''tr'' 1, Tbranch ''tr'' 0, Tput ''tr'' 1 ''k'' ''x'', Tput ''tr'' 2 ''m'' ''y'',
      Twinner ''tr'' 2] mini_init"

lemmas ex_db_simps =
  ex_db_def mini_run_def mini_init_def mini_defs new_tx_context_def new_tree_context_def
  new_branch_def

lemma ex_db_eq:
  "ex_db =
     \<lparr>mdb_store = [(''k'', ''0'')],
      mdb_tx_map =
        [(''t1'', \<lparr>txc_id = ''t1'', txc_snapshot = [(''k'', ''0'')], txc_writes = [(''k'', ''1'')],
                   txc_active = True\<rparr>),
         (''t2'', \<lparr>txc_id = ''t2'', txc_snapshot = [(''k'', ''0'')], txc_writes = [(''k'', ''2'')],
                   txc_active = True\<rparr>)],
      mdb_tree_map =
        [(''tr'', \<lparr>mtc_id = ''tr'', mtc_snapshot = [(''k'', ''0'')],
            mtc_branches =
              [(0, \<lparr>mtb_branch_id = 0, mtb_parent_branch_id = 0, mtb_writes = []\<rparr>),
               (1, \<lparr>mtb_branch_id = 1, mtb_parent_branch_id = 0, mtb_writes = [(''k'', ''x'')]\<rparr>),
               (2, \<lparr>mtb_branch_id = 2, mtb_parent_branch_id = 1, mtb_writes = [(''m'', ''y'')]\<rparr>),
               (3, \<lparr>mtb_branch_id = 3, mtb_parent_branch_id = 0, mtb_writes = []\<rparr>)],
            mtc_next_branch_id = 4, mtc_winner_branch_id = Some 2, mtc_active = True,
            mtc_last_abort_reason = []\<rparr>)]\<rparr>"
  by (simp add: ex_db_simps Let_def)

lemma mini_reachable_run:
  "mini_reachable db \<Longrightarrow> (\<And>i. i < length ops \<Longrightarrow> op_fresh (ops ! i) (mini_run (take i ops) db)) \<Longrightarrow>
   mini_reachable (mini_run ops db)"
proof (induction ops rule: rev_induct)
  case Nil
  then show ?case by (simp add: mini_run_def)
next
  case (snoc op ops)
  have "mini_reachable (mini_run ops db)"
  proof (rule snoc.IH [OF snoc.prems(1)])
    fix i assume "i < length ops"
    with snoc.prems(2) [of i] show "op_fresh (ops ! i) (mini_run (take i ops) db)"
      by (simp add: nth_append)
  qed
  moreover have "op_fresh op (mini_run ops db)"
    using snoc.prems(2) [of "length ops"] by simp
  ultimately show ?case
    by (auto simp: mini_run_def intro: mini_reachable.step mini_step.step)
qed

lemma ex_db_reachable: "mini_reachable ex_db"
  unfolding ex_db_def
  by (rule mini_reachable_run [OF mini_reachable.init])
    (auto simp: less_Suc_eq ex_db_simps Let_def)

lemma ex_db_inv: "mini_inv ex_db"
  by (rule mini_reachable_inv [OF ex_db_reachable])

subsection \<open>Properties\<close>

text \<open>C2: in every state the database can reach, through any interleaving of client
  operations, keys are unique, every open transaction is active and filed under its own id,
  branch ids are below the next id, every branch but the root has an existing parent with a
  smaller id, the root branch holds no writes, and a selected winner exists.\<close>

theorem mini_reachable_consistent: "mini_reachable db \<Longrightarrow> mini_inv db"
  by (rule mini_reachable_inv)

theorem mini_reachable_consistent_witness: "mini_reachable ex_db \<and> mini_inv ex_db"
  using mini_reachable_consistent [OF ex_db_reachable] ex_db_reachable by blast

text \<open>C13: reading through a branch and committing a tree always return: in a reachable
  state the climbs from a branch to the root end, so neither call hangs.\<close>

theorem mini_tree_loops_return:
  assumes "mini_reachable db"
  shows "fst (mini_tget t b key strict db) \<noteq> Inl (PyExc NonTermination m) \<and>
    fst (mini_tcommit_retry t db) \<noteq> Inl (PyExc NonTermination m)"
proof -
  have inv: "mini_inv db" using assms by (rule mini_reachable_inv)
  have "fst (mini_tget t b key strict db) \<noteq> Inl (PyExc NonTermination m)"
  proof (cases "dget (mdb_tree_map db) t")
    case (Some ctx)
    with inv have "tree_ok (t, ctx)" by (rule mini_inv_tree)
    with inv Some show ?thesis
      by (auto simp: mini_tget_def require_tree_tx_iff [THEN iffD2] resolve_branch_value_ok)
  qed (simp add: mini_tget_def require_tree_tx_def)
  moreover have "fst (mini_tcommit_retry t db) \<noteq> Inl (PyExc NonTermination m)"
  proof (cases "dget (mdb_tree_map db) t")
    case (Some ctx)
    show ?thesis
    proof (cases "mtc_winner_branch_id ctx")
      case None
      with inv Some show ?thesis
        by (simp add: mini_tcommit_retry_def require_tree_tx_iff [THEN iffD2])
    next
      case (Some w)
      with inv \<open>dget (mdb_tree_map db) t = Some ctx\<close> show ?thesis
        by (simp add: mini_tcommit_eq(1))
    qed
  qed (simp add: mini_tcommit_retry_def require_tree_tx_def)
  ultimately show ?thesis by simp
qed

theorem mini_tree_loops_return_witness:
  "mini_reachable ex_db \<and>
   fst (mini_tget ''tr'' 2 ''k'' False ex_db) \<noteq> Inl (PyExc NonTermination [])"
  using mini_tree_loops_return [OF ex_db_reachable] ex_db_reachable by blast

text \<open>C1: a tree commit installs exactly what the winner branch shows, ancestors included:
  the commit succeeds, the transaction is gone, every key with a write on the way from the
  winner to the root gets the value nearest to the winner, which is what \<open>tget\<close> returned for
  it, and every other key keeps its stored value (\<open>tget\<close> returned that of the snapshot).
  The path is given by the parent links alone, by \<open>branch_shows\<close>.\<close>

theorem mini_tree_commit_installs_view:
  assumes inv: "mini_inv db" and t: "dget (mdb_tree_map db) t = Some ctx"
    and w: "mtc_winner_branch_id ctx = Some w"
  shows "\<exists>db'. mini_tcommit_retry t db = (Inr (), db') \<and>
    mini_inv db' \<and> dget (mdb_tree_map db') t = None \<and> mdb_tx_map db' = mdb_tx_map db \<and>
    (\<forall>key v. branch_shows ctx w key v \<longrightarrow>
       dget (mdb_store db') key = Some v \<and> fst (mini_tget t w key False db) = Inr (Some v)) \<and>
    (\<forall>key. (\<nexists>v. branch_shows ctx w key v) \<longrightarrow>
       dget (mdb_store db') key = dget (mdb_store db) key \<and>
       fst (mini_tget t w key False db) = Inr (dget (mtc_snapshot ctx) key))"
proof -
  have ok: "tree_ok (t, ctx)" using inv t by (rule mini_inv_tree)
  with w have d: "dhas (mtc_branches ctx) w" by (auto simp: tree_ok_def)
  then obtain br where br: "dget (mtc_branches ctx) w = Some br" by (auto simp: dhas_iff)
  have "mini_inv (snd (mini_tcommit_retry t db))" by (rule mini_tcommit_inv [OF inv])
  then show ?thesis
    using mini_tget_eq [OF inv t d]
    by (auto simp: mini_tcommit_eq [OF inv t w] branch_shows_iff [OF ok br] map_add_def
        split: option.splits)
qed

text \<open>
  The winner of the example is branch 2, which wrote \<open>m\<close> itself and inherits \<open>k\<close> from branch 1.
\<close>

theorem mini_tree_commit_installs_view_witness:
  "\<exists>db'. mini_tcommit_retry ''tr'' ex_db = (Inr (), db') \<and> mini_inv db' \<and>
    dget (mdb_tree_map db') ''tr'' = None \<and>
    dget (mdb_store db') ''k'' = Some ''x'' \<and> dget (mdb_store db') ''m'' = Some ''y''"
proof -
  obtain ctx where t: "dget (mdb_tree_map ex_db) ''tr'' = Some ctx"
    and w: "mtc_winner_branch_id ctx = Some 2"
    and b: "dget (mtc_branches ctx) 2 = Some \<lparr>mtb_branch_id = 2, mtb_parent_branch_id = 1,
        mtb_writes = [(''m'', ''y'')]\<rparr>"
      "dget (mtc_branches ctx) 1 = Some \<lparr>mtb_branch_id = 1, mtb_parent_branch_id = 0,
        mtb_writes = [(''k'', ''x'')]\<rparr>"
    by (simp add: ex_db_eq)
  have "branch_shows ctx 2 ''m'' ''y''" by (rule own_write [OF b(1)]) simp
  moreover have "branch_shows ctx 1 ''k'' ''x''" by (rule own_write [OF b(2)]) simp
  then have "branch_shows ctx 2 ''k'' ''x''" by (intro inherited [OF b(1)]) simp_all
  ultimately show ?thesis using mini_tree_commit_installs_view [OF ex_db_inv t w] by blast
qed

text \<open>C14: snapshot isolation of plain transactions: whatever operations other clients run
  in between (commits to the same keys included), a transaction's read of a key returns what
  it would have returned before them.\<close>

theorem mini_snapshot_isolation:
  assumes "\<forall>op \<in> set ops. \<not> of_tx t op"
  shows "fst (mini_get t key (mini_run ops db)) = fst (mini_get t key db)"
proof -
  have "require_tx (mini_run ops db) t = require_tx db t"
    using mini_run_other_tx [OF assms] by (simp add: require_tx_def)
  then show ?thesis by (simp add: mini_get_def split: sum.splits option.splits)
qed

theorem mini_snapshot_isolation_witness:
  "fst (mini_get ''t1'' ''k'' (mini_run [Commit ''t2''] ex_db)) = Inr (Some ''1'')"
proof -
  have "fst (mini_get ''t1'' ''k'' (mini_run [Commit ''t2''] ex_db)) =
    fst (mini_get ''t1'' ''k'' ex_db)"
    by (rule mini_snapshot_isolation) (simp add: of_tx_def)
  then show ?thesis by (simp add: ex_db_eq mini_get_def require_tx_def)
qed

text \<open>C15: only commits change the stored data, and each changes it atomically: any
  operation that changes the store is the commit of an open transaction and adds exactly its
  writes, or the commit of a tree transaction with a winner and adds exactly the writes on the
  winner's path, which are the values the winner shows.\<close>

theorem mini_store_changes_by_commit_only:
  assumes inv: "mini_inv db" and ch: "mdb_store (mini_exec op db) \<noteq> mdb_store db"
  shows "(\<exists>t tx. op = Commit t \<and> dget (mdb_tx_map db) t = Some tx \<and>
            map_of (mdb_store (mini_exec op db)) =
              map_of (mdb_store db) ++ map_of (txc_writes tx)) \<or>
         (\<exists>t ctx w. op = Tcommit t \<and> dget (mdb_tree_map db) t = Some ctx \<and>
            mtc_winner_branch_id ctx = Some w \<and>
            map_of (mdb_store (mini_exec op db)) =
              map_of (mdb_store db) ++ first_write (lineage ctx w) \<and>
            (\<forall>key v. first_write (lineage ctx w) key = Some v \<longleftrightarrow> branch_shows ctx w key v))"
proof (cases op)
  case (Commit t)
  with ch obtain tx where r: "require_tx db t = Inr tx"
    by (auto simp: mini_commit_def split: sum.splits)
  with inv have tx: "dget (mdb_tx_map db) t = Some tx" by (simp add: require_tx_iff)
  with mini_inv_tx [OF inv] have "dict_ok (txc_writes tx)" by (auto simp: tx_ok_def)
  with Commit r tx show ?thesis by (simp add: mini_commit_def dget_dict_update)
next
  case (Tcommit t)
  with ch obtain ctx w where "require_tree_tx db t = Inr ctx" "mtc_winner_branch_id ctx = Some w"
    by (auto simp: mini_tcommit_retry_def split: sum.splits option.splits)
  with inv have "dget (mdb_tree_map db) t = Some ctx" "mtc_winner_branch_id ctx = Some w"
    by (simp_all add: require_tree_tx_iff)
  moreover from this have ok: "tree_ok (t, ctx)" using inv by (blast intro: mini_inv_tree)
  with \<open>mtc_winner_branch_id ctx = Some w\<close> obtain br
    where "dget (mtc_branches ctx) w = Some br" by (auto simp: tree_ok_def dhas_iff)
  ultimately show ?thesis
    using Tcommit mini_tcommit_eq [OF inv, of t ctx w] branch_shows_iff [OF ok] by simp
qed (use ch in \<open>auto simp: mini_defs Let_def split: sum.splits option.splits if_splits\<close>)

theorem mini_store_changes_by_commit_only_witness:
  "mdb_store (mini_exec (Commit ''t1'') ex_db) \<noteq> mdb_store ex_db \<and>
   (\<exists>t. Commit ''t1'' = Commit t \<and> dget (mdb_tx_map ex_db) t \<noteq> None)"
proof -
  have ch: "mdb_store (mini_exec (Commit ''t1'') ex_db) \<noteq> mdb_store ex_db"
    by (simp add: ex_db_eq mini_commit_def require_tx_def)
  from mini_store_changes_by_commit_only [OF ex_db_inv this] ch show ?thesis by auto
qed

text \<open>C16: branches are isolated from each other: a write into branch \<open>b\<close> does not change
  what is read through a branch that does not descend from \<open>b\<close>.\<close>

theorem mini_branch_isolation:
  assumes inv: "mini_inv db" and t: "dget (mdb_tree_map db) t = Some ctx"
    and c: "dhas (mtc_branches ctx) c" and no: "b \<notin> mtb_branch_id ` set (lineage ctx c)"
  shows "fst (mini_tget t c key False (snd (mini_tput t b k v db))) =
         fst (mini_tget t c key False db)"
proof (cases "\<exists>br. dget (mtc_branches ctx) b = Some br \<and> b \<noteq> 0")
  case False
  then have "snd (mini_tput t b k v db) = db"
    using inv t by (auto simp: mini_tput_def require_tree_tx_iff [THEN iffD2] split: option.splits)
  then show ?thesis by simp
next
  case True
  then obtain br where br: "dget (mtc_branches ctx) b = Some br" and nz: "b \<noteq> 0" by blast
  let ?ctx = "ctx\<lparr>mtc_branches := dset (mtc_branches ctx) b
                 (br\<lparr>mtb_writes := dset (mtb_writes br) k v\<rparr>)\<rparr>"
  let ?db = "db\<lparr>mdb_tree_map := dset (mdb_tree_map db) t ?ctx\<rparr>"
  have db': "snd (mini_tput t b k v db) = ?db"
    using inv t br nz by (simp add: mini_tput_def require_tree_tx_iff [THEN iffD2])
  have inv': "mini_inv ?db" using mini_tput_inv [OF inv, of t b k v] by (simp add: db')
  have ok: "tree_ok (t, ctx)" using inv t by (rule mini_inv_tree)
  from c obtain cr where "dget (mtc_branches ctx) c = Some cr" by (auto simp: dhas_iff)
  from lineage_frame [OF ok br nz refl this no] have "lineage ?ctx c = lineage ctx c" .
  with inv inv' t c show ?thesis by (simp add: db' mini_tget_eq split: option.split)
qed

lemma ex_lineage_3:
  "dget (mdb_tree_map ex_db) ''tr'' = Some ctx \<Longrightarrow> map mtb_branch_id (lineage ctx 3) = [3, 0]"
  by (auto simp: ex_db_eq lineage_def lineage_loop.simps)

theorem mini_branch_isolation_witness:
  "fst (mini_tget ''tr'' 3 ''k'' False (snd (mini_tput ''tr'' 2 ''k'' ''z'' ex_db))) =
   fst (mini_tget ''tr'' 3 ''k'' False ex_db)"
proof -
  obtain ctx where t: "dget (mdb_tree_map ex_db) ''tr'' = Some ctx"
    and c: "dhas (mtc_branches ctx) 3" by (simp add: ex_db_eq)
  have "2 \<notin> set (map mtb_branch_id (lineage ctx 3))" by (simp add: ex_lineage_3 [OF t])
  then have "2 \<notin> mtb_branch_id ` set (lineage ctx 3)" by simp
  with t c show ?thesis by (rule mini_branch_isolation [OF ex_db_inv])
qed

text \<open>A new branch gets an id no branch of the transaction had and starts out showing
  exactly what its parent shows.\<close>

theorem mini_tbranch_inherits:
  assumes inv: "mini_inv db" and t: "dget (mdb_tree_map db) t = Some ctx"
    and p: "dhas (mtc_branches ctx) parent"
  shows "\<exists>b db'. mini_tbranch t parent db = (Inr b, db') \<and> \<not> dhas (mtc_branches ctx) b \<and>
    (\<forall>key. fst (mini_tget t b key False db') = fst (mini_tget t parent key False db))"
proof -
  let ?b = "mtc_next_branch_id ctx"
  let ?ctx = "ctx\<lparr>mtc_next_branch_id := ?b + 1,
     mtc_branches := dset (mtc_branches ctx) ?b (new_branch ?b parent)\<rparr>"
  let ?db = "db\<lparr>mdb_tree_map := dset (mdb_tree_map db) t ?ctx\<rparr>"
  have ok: "tree_ok (t, ctx)" using inv t by (rule mini_inv_tree)
  have eq: "mini_tbranch t parent db = (Inr ?b, ?db)"
    using inv t p by (simp add: mini_tbranch_def require_tree_tx_iff [THEN iffD2] Let_def)
  have inv': "mini_inv ?db" using mini_tbranch_inv [OF inv, of t parent] by (simp add: eq)
  have new: "\<not> dhas (mtc_branches ctx) ?b" by (rule tree_ok_next_new [OF ok])
  have "lineage ?ctx ?b = new_branch ?b parent # lineage ctx parent"
    by (rule lineage_tbranch [OF ok p refl])
  then have "fst (mini_tget t ?b key False ?db) = fst (mini_tget t parent key False db)" for key
    using inv inv' t p by (simp add: mini_tget_eq new_branch_def split: option.split)
  with eq new show ?thesis by blast
qed

theorem mini_tbranch_inherits_witness:
  "\<exists>b db'. mini_tbranch ''tr'' 1 ex_db = (Inr b, db') \<and>
    fst (mini_tget ''tr'' b ''k'' False db') = Inr (Some ''x'')"
proof -
  obtain ctx where t: "dget (mdb_tree_map ex_db) ''tr'' = Some ctx"
    and p: "dhas (mtc_branches ctx) 1" by (simp add: ex_db_eq)
  have "fst (mini_tget ''tr'' 1 ''k'' False ex_db) = Inr (Some ''x'')"
    by (simp add: ex_db_eq mini_tget_def require_tree_tx_def resolve_branch_value_def
        resolve_loop.simps)
  with mini_tbranch_inherits [OF ex_db_inv t p] show ?thesis by metis
qed

text \<open>A finished transaction is really finished: after a commit or a rollback every
  further operation on its id raises \<open>RuntimeError\<close> and changes nothing.\<close>

theorem mini_finished_tx_rejected:
  assumes "mini_inv db" and "dhas (mdb_tx_map db) t" and "op = Commit t \<or> op = Rollback t"
    and "db' = mini_exec op db"
  shows "\<exists>e. exc_cls e = RuntimeError \<and> mini_get t k db' = (Inl e, db') \<and>
    mini_put t k v db' = (Inl e, db') \<and> mini_commit t db' = (Inl e, db') \<and>
    mini_rollback t db' = (Inl e, db')"
proof -
  obtain tx where "dget (mdb_tx_map db) t = Some tx" using assms(2) by (auto simp: dhas_iff)
  then have "require_tx db t = Inr tx" using assms(1) by (simp add: require_tx_iff)
  with assms(3) have "dget (mdb_tx_map db') t = None"
    by (auto simp: assms(4) mini_commit_def mini_rollback_def)
  moreover have "mini_inv db'" unfolding assms(4) using assms(1) by (rule mini_exec_inv)
  ultimately show ?thesis
    using mini_tx.closed_law [of db' t k v] by (simp add: mini_tx_of_def)
qed

theorem mini_finished_tx_rejected_witness:
  "\<exists>e. exc_cls e = RuntimeError \<and>
    mini_get ''t1'' ''k'' (mini_exec (Commit ''t1'') ex_db) =
      (Inl e, mini_exec (Commit ''t1'') ex_db)"
proof -
  have "dhas (mdb_tx_map ex_db) ''t1''" by (simp add: ex_db_eq)
  from mini_finished_tx_rejected [OF ex_db_inv this disjI1 [OF refl] refl, of "''k''" "[]"]
  show ?thesis by blast
qed

text \<open>C17: \<open>trefresh_winner\<close> does not refresh: whatever other clients have committed since
  the tree transaction began, it returns the value of the snapshot taken at the start.\<close>

theorem mini_refresh_returns_snapshot:
  assumes inv: "mini_inv db" and t: "dget (mdb_tree_map db) t = Some ctx"
    and w: "mtc_winner_branch_id ctx = Some b" and other: "\<forall>op \<in> set ops. \<not> of_tree t op"
  shows "mini_trefresh_winner t b key (mini_run ops db) =
    (Inr (dget (mtc_snapshot ctx) key), mini_run ops db)"
proof -
  have "mini_inv (mini_run ops db)" using inv by (rule mini_run_inv)
  moreover have "dget (mdb_tree_map (mini_run ops db)) t = Some ctx"
    using mini_run_other_tree [OF other] t by simp
  ultimately show ?thesis
    using w by (simp add: mini_trefresh_winner_def require_tree_tx_iff [THEN iffD2])
qed

theorem mini_refresh_returns_snapshot_witness:
  "fst (mini_trefresh_winner ''tr'' 2 ''k'' (mini_run [Commit ''t1''] ex_db)) = Inr (Some ''0'') \<and>
   dget (mdb_store (mini_run [Commit ''t1''] ex_db)) ''k'' = Some ''1''"
proof -
  obtain ctx where t: "dget (mdb_tree_map ex_db) ''tr'' = Some ctx"
    and w: "mtc_winner_branch_id ctx = Some 2"
    and sn: "dget (mtc_snapshot ctx) ''k'' = Some ''0''" by (simp add: ex_db_eq)
  have "fst (mini_trefresh_winner ''tr'' 2 ''k'' (mini_run [Commit ''t1''] ex_db)) =
      Inr (Some ''0'')"
    using mini_refresh_returns_snapshot [OF ex_db_inv t w, of "[Commit ''t1'']" "''k''"] sn
    by (simp add: of_tree_def)
  then show ?thesis by (simp add: mini_run_def ex_db_eq mini_commit_def require_tx_def)
qed

text \<open>C18: commits are not validated: two transactions that began on the same data and both
  write a key both commit, and the first one's update of that key is lost.\<close>

theorem mini_lost_update:
  assumes inv: "mini_inv db" and "dget (mdb_tx_map db) t = Some tx"
    and "dget (mdb_tx_map db) u = Some ux" and "t \<noteq> u"
    and "dget (txc_writes tx) key = Some v" and "dget (txc_writes ux) key = Some v'"
  shows "\<exists>db'. bnd (mini_commit t) (\<lambda>_. mini_commit u) db = (Inr (), db') \<and>
    dget (mdb_store db') key = Some v'"
  using mini_tx.last_commit_wins [OF inv, of t "map_of (txc_snapshot tx)" "map_of (txc_writes tx)"
      u "map_of (txc_snapshot ux)" "map_of (txc_writes ux)" key v'] assms(2-)
  by (simp add: mini_tx_of_def mini_store_of_def)

theorem mini_lost_update_witness:
  "\<exists>db'. bnd (mini_commit ''t1'') (\<lambda>_. mini_commit ''t2'') ex_db = (Inr (), db') \<and>
    dget (mdb_store db') ''k'' = Some ''2''"
proof -
  obtain tx ux where "dget (mdb_tx_map ex_db) ''t1'' = Some tx"
    "dget (mdb_tx_map ex_db) ''t2'' = Some ux" "''t1'' \<noteq> ''t2''"
    "dget (txc_writes tx) ''k'' = Some ''1''" "dget (txc_writes ux) ''k'' = Some ''2''"
    by (simp add: ex_db_eq)
  from mini_lost_update [OF ex_db_inv this] show ?thesis .
qed

end
