(* ===== verification/Tree_Session.thy ===== *)
theory Tree_Session
  imports Py_Text
begin

text \<open>
  The client end of one connection, \<open>TreeDBSession\<close> of \<open>Agent/db_client.py\<close>: a
  socket, a receive buffer, and the framing of the reply stream into lines. The operating
  system's sockets, the server behind them and the source of random transaction ids are the
  parameter \<open>peer\<close>: functions over an abstract state of the network. A call that fails
  or times out is an \<open>Inl\<close> result.
\<close>

subsection \<open>The network\<close>

record 'w peer =
  pr_connect :: "string \<Rightarrow> int \<Rightarrow> 'w \<Rightarrow> int res \<times> 'w"
  pr_send :: "int \<Rightarrow> string \<Rightarrow> 'w \<Rightarrow> unit res \<times> 'w"
  pr_recv :: "int \<Rightarrow> nat \<Rightarrow> 'w \<Rightarrow> string res \<times> 'w"
  pr_close :: "int \<Rightarrow> 'w \<Rightarrow> unit res \<times> 'w"
  pr_uuid :: "'w \<Rightarrow> string \<times> 'w"

subsection \<open>The session\<close>

record tree_db_session =
  tds_host :: string
  tds_port :: int
  tds_sock :: "int option"
  tds_buf :: string

type_synonym ('w, 'a) sess_prog = "(tree_db_session \<times> 'w, 'a) prog"

definition session_init :: "string \<Rightarrow> int \<Rightarrow> tree_db_session" where
  "session_init host port =
     \<lparr>tds_host = host, tds_port = port, tds_sock = None, tds_buf = []\<rparr>"

text \<open>
  The loop of \<open>_readline\<close> receives until the buffer holds a line feed. Its result is its
  outcome, the buffer and the network; \<open>None\<close> is a peer that keeps sending and never ends
  the line.
\<close>

partial_function (option) readline_loop ::
  "'w peer \<Rightarrow> int \<Rightarrow> string \<Rightarrow> 'w \<Rightarrow> (unit res \<times> string \<times> 'w) option" where
  "readline_loop p h buf w =
     (if CHR 0x0A \<in> set buf then Some (Inr (), buf, w)
      else (case pr_recv p h 4096 w of
              (Inl e, w') \<Rightarrow> Some (Inl e, buf, w')
            | (Inr chunk, w') \<Rightarrow>
                (if chunk = []
                 then Some (Inl (PyExc RuntimeError ''server closed connection''), buf, w')
                 else readline_loop p h (buf @ chunk) w')))"

declare readline_loop.simps [code]

definition line_of :: "string \<Rightarrow> string" where
  "line_of buf = takeWhile (\<lambda>c. c \<noteq> CHR 0x0A) buf"

definition after_line :: "string \<Rightarrow> string" where
  "after_line buf = tl (dropWhile (\<lambda>c. c \<noteq> CHR 0x0A) buf)"

definition session_readline :: "'w peer \<Rightarrow> ('w, string) sess_prog" where
  "session_readline p = (\<lambda>(s, w).
     case tds_sock s of
       None \<Rightarrow> (Inl (PyExc RuntimeError ''Tree-DB session is not connected''), (s, w))
     | Some h \<Rightarrow>
         (case readline_loop p h (tds_buf s) w of
            None \<Rightarrow> (Inl (PyExc NonTermination []), (s, w))
          | Some (Inl e, buf, w') \<Rightarrow> (Inl e, (s\<lparr>tds_buf := buf\<rparr>, w'))
          | Some (Inr _, buf, w') \<Rightarrow>
              (Inr (strip (line_of buf)), (s\<lparr>tds_buf := after_line buf\<rparr>, w'))))"

definition session_connect :: "'w peer \<Rightarrow> ('w, unit) sess_prog" where
  "session_connect p = (\<lambda>(s, w).
     case pr_connect p (tds_host s) (tds_port s) w of
       (Inl e, w') \<Rightarrow> (Inl e, (s, w'))
     | (Inr h, w') \<Rightarrow>
         bnd (session_readline p) (\<lambda>_. ret ()) (s\<lparr>tds_sock := Some h\<rparr>, w'))"

text \<open>An exception of the socket's \<open>close\<close> is dropped.\<close>

definition session_close :: "'w peer \<Rightarrow> ('w, unit) sess_prog" where
  "session_close p = (\<lambda>(s, w).
     case tds_sock s of
       None \<Rightarrow> (Inr (), (s, w))
     | Some h \<Rightarrow> (case pr_close p h w of (r, w') \<Rightarrow>
         (Inr (), (s\<lparr>tds_sock := None, tds_buf := []\<rparr>, w'))))"

definition session_request :: "'w peer \<Rightarrow> string \<Rightarrow> ('w, string) sess_prog" where
  "session_request p cmd = (\<lambda>(s, w).
     case tds_sock s of
       None \<Rightarrow> (Inl (PyExc RuntimeError ''Tree-DB session is not connected''), (s, w))
     | Some h \<Rightarrow>
         (case pr_send p h (cmd @ [CHR 0x0A]) w of
            (Inl e, w') \<Rightarrow> (Inl e, (s, w'))
          | (Inr _, w') \<Rightarrow> session_readline p (s, w')))"

text \<open>\<open>_open_session\<close> of \<open>AgentDBClient\<close>.\<close>

definition open_session :: "'w peer \<Rightarrow> string \<Rightarrow> int \<Rightarrow> ('w, tree_db_session) prog" where
  "open_session p host port w =
     (case session_connect p (session_init host port, w) of
        (Inl e, (s, w')) \<Rightarrow> (Inl e, w')
      | (Inr _, (s, w')) \<Rightarrow> (Inr s, w'))"

subsection \<open>Framing\<close>

text \<open>
  \<open>delivers p h w cs w'\<close>: the next receives on the socket return the chunks \<open>cs\<close>, none
  of them empty.
\<close>

fun delivers :: "'w peer \<Rightarrow> int \<Rightarrow> 'w \<Rightarrow> string list \<Rightarrow> 'w \<Rightarrow> bool" where
  "delivers p h w [] w' = (w = w')"
| "delivers p h w (c # cs) w' =
     (case pr_recv p h 4096 w of
        (Inl e, w1) \<Rightarrow> False
      | (Inr d, w1) \<Rightarrow> d = c \<and> c \<noteq> [] \<and> delivers p h w1 cs w')"

lemma line_of_append [simp]: "CHR 0x0A \<notin> set line \<Longrightarrow> line_of (line @ CHR 0x0A # rest) = line"
  unfolding line_of_def by (induction line) auto

lemma after_line_append [simp]: "CHR 0x0A \<notin> set line \<Longrightarrow> after_line (line @ CHR 0x0A # rest) = rest"
  unfolding after_line_def by (induction line) auto

lemma line_of_split:
  "CHR 0x0A \<in> set buf \<Longrightarrow> buf = line_of buf @ CHR 0x0A # after_line buf"
  unfolding line_of_def after_line_def by (induction buf) auto

text \<open>
  The last chunk is the one that completes the line: what is buffered and received before it
  has no line feed.
\<close>

lemma readline_loop_delivers:
  "delivers p h w (cs @ [c]) w' \<Longrightarrow> CHR 0x0A \<notin> set (buf @ concat cs) \<Longrightarrow> CHR 0x0A \<in> set c \<Longrightarrow>
   readline_loop p h buf w = Some (Inr (), buf @ concat cs @ c, w')"
proof (induction cs arbitrary: buf w)
  case Nil
  then show ?case
    by (auto simp: readline_loop.simps [of p h buf w] readline_loop.simps [of p h "buf @ c"]
        split: prod.splits sum.splits)
next
  case (Cons d cs)
  then obtain w1 where w1: "pr_recv p h 4096 w = (Inr d, w1)" "d \<noteq> []" "delivers p h w1 (cs @ [c]) w'"
    by (auto split: prod.splits sum.splits)
  with Cons.IH [of w1 "buf @ d"] Cons.prems show ?case
    by (simp add: readline_loop.simps [of p h buf w])
qed

lemma readline_loop_buffered:
  "CHR 0x0A \<in> set buf \<Longrightarrow> readline_loop p h buf w = Some (Inr (), buf, w)"
  by (simp add: readline_loop.simps)

lemma session_request_sock:
  "session_request p cmd (s, w) = (r, (s', w')) \<Longrightarrow> tds_sock s' = tds_sock s"
  by (auto simp: session_request_def session_readline_def
      split: option.splits prod.splits sum.splits)

lemma session_close_sock [simp]: "tds_sock (fst (snd (session_close p sw))) = None"
  by (auto simp: session_close_def split: option.splits prod.splits)

lemma session_close_Inr [simp]: "fst (session_close p sw) = Inr ()"
  by (auto simp: session_close_def split: option.splits prod.splits)

end
