(* ===== verification/Py_Float.thy ===== *)
theory Py_Float
  imports Complex_Main Py_Text
begin

text \<open>
  Python's \<open>float\<close>: IEEE binary64. A finite value is the rational number it denotes
  (the sign of zero is not kept: no comparison of the program sees it), every operation rounds
  the exact result to the nearest representable value, ties to even. Also the conversions the
  program uses: \<open>int(s)\<close>, \<open>float(s)\<close>, \<open>repr\<close> of numbers, \<open>round(x, 6)\<close>.
\<close>

subsection \<open>Powers and logarithms\<close>

definition pow2 :: "int \<Rightarrow> rat" where
  "pow2 e = (if 0 \<le> e then 2 ^ nat e else 1 / 2 ^ nat (- e))"

definition pow10 :: "int \<Rightarrow> rat" where
  "pow10 e = (if 0 \<le> e then 10 ^ nat e else 1 / 10 ^ nat (- e))"

fun ilog2 :: "int \<Rightarrow> nat" where
  "ilog2 n = (if n < 2 then 0 else Suc (ilog2 (n div 2)))"

declare ilog2.simps [simp del]

lemma pow2_powi: "pow2 e = 2 powi e"
  by (simp add: pow2_def power_int_def field_simps)

lemma pow10_powi: "pow10 e = 10 powi e"
  by (simp add: pow10_def power_int_def field_simps)

lemma pow2_pos [simp]: "0 < pow2 e"
  by (simp add: pow2_def)

lemma pow10_pos [simp]: "0 < pow10 e"
  by (simp add: pow10_def)

lemma pow2_nonneg [simp]: "0 \<le> pow2 e" and pow2_nz [simp]: "pow2 e \<noteq> 0"
  using pow2_pos [of e] by (simp_all del: pow2_pos)

lemma pow10_nz [simp]: "pow10 e \<noteq> 0"
  using pow10_pos [of e] by (simp del: pow10_pos)

lemma pow2_add: "pow2 (a + b) = pow2 a * pow2 b"
  by (simp add: pow2_powi power_int_add)

lemma pow2_mono: "a \<le> b \<Longrightarrow> pow2 a \<le> pow2 b"
  by (simp add: pow2_powi power_int_increasing)

lemma pow2_less: "a < b \<Longrightarrow> pow2 a < pow2 b"
  by (simp add: pow2_powi power_int_strict_increasing)

lemma pow2_less_iff: "pow2 a < pow2 b \<longleftrightarrow> a < b"
  using pow2_mono [of b a] pow2_less [of a b] by (meson not_le)

lemma pow2_of_nat: "pow2 (int n) = 2 ^ n"
  by (simp add: pow2_def)

lemma pow10_add: "pow10 (a + b) = pow10 a * pow10 b"
  by (simp add: pow10_powi power_int_add)

lemma pow10_of_nat: "pow10 (int n) = 10 ^ n"
  by (simp add: pow10_def)

lemma ilog2_bounds: "0 < n \<Longrightarrow> 2 ^ ilog2 n \<le> n \<and> n < 2 ^ Suc (ilog2 n)"
proof (induction n rule: ilog2.induct)
  case (1 n)
  show ?case
  proof (cases "n < 2")
    case True
    with "1.prems" show ?thesis by (simp add: ilog2.simps [of n])
  next
    case False
    with "1.IH" have "2 ^ ilog2 (n div 2) \<le> n div 2" "n div 2 < 2 ^ Suc (ilog2 (n div 2))"
      by auto
    then have "2 * 2 ^ ilog2 (n div 2) \<le> n" "n < 2 * 2 ^ Suc (ilog2 (n div 2))" by linarith+
    with False show ?thesis by (simp add: ilog2.simps [of n])
  qed
qed

text \<open>The binary exponent of a positive rational: \<open>2 ^ e \<le> q < 2 ^ (e + 1)\<close>.\<close>

definition fexp :: "rat \<Rightarrow> int" where
  "fexp q =
     (let (n, d) = quotient_of q;
          k = int (ilog2 n) - int (ilog2 d)
      in if pow2 k \<le> q then k else k - 1)"

lemma quotient_pos:
  assumes "0 < q"
  obtains n d where "quotient_of q = (n, d)" "0 < n" "0 < d" "q = of_int n / of_int d"
proof -
  obtain n d where nd: "quotient_of q = (n, d)" by (cases "quotient_of q")
  have d: "0 < d" using quotient_of_denom_pos [OF nd] .
  have q: "q = of_int n / of_int d" using quotient_of_div [OF nd] .
  with assms d have "0 < n" by (simp add: zero_less_divide_iff)
  with nd d q show ?thesis using that by blast
qed

lemma fexp_bounds:
  assumes "0 < q"
  shows "pow2 (fexp q) \<le> q" and "q < pow2 (fexp q + 1)"
proof -
  obtain n d where nd: "quotient_of q = (n, d)" "0 < n" "0 < d" and q: "q = of_int n / of_int d"
    using assms by (rule quotient_pos)
  let ?a = "ilog2 n" and ?b = "ilog2 d"
  define k where "k = int ?a - int ?b"
  have na: "2 ^ ?a \<le> n" "n < 2 ^ Suc ?a" and db: "2 ^ ?b \<le> d" "d < 2 ^ Suc ?b"
    using ilog2_bounds [of n] ilog2_bounds [of d] nd by auto
  have na': "(2::rat) ^ ?a \<le> of_int n" "of_int n < (2::rat) ^ Suc ?a"
    using na by (metis of_int_le_iff of_int_numeral of_int_power,
        metis of_int_less_iff of_int_numeral of_int_power)
  have db': "(2::rat) ^ ?b \<le> of_int d" "of_int d \<le> (2::rat) ^ Suc ?b"
    using db by (metis of_int_le_iff of_int_numeral of_int_power,
        metis less_imp_le of_int_le_iff of_int_numeral of_int_power)
  have dpos: "(0::rat) < of_int d" using nd by simp
  have k1: "pow2 (k + 1) * pow2 (int ?b) = 2 ^ Suc ?a"
    unfolding k_def by (simp only: pow2_add [symmetric]) (simp add: pow2_def nat_add_distrib)
  have k0: "pow2 (k - 1) * pow2 (int ?b + 1) = 2 ^ ?a"
    unfolding k_def by (simp only: pow2_add [symmetric]) (simp add: pow2_def)
  have up: "q < pow2 (k + 1)"
  proof -
    have "of_int n < pow2 (k + 1) * pow2 (int ?b)" using na' by (simp only: k1)
    also have "\<dots> \<le> pow2 (k + 1) * of_int d"
      using db' by (simp add: pow2_of_nat mult_left_mono)
    finally show ?thesis using dpos q by (simp add: divide_less_eq)
  qed
  have low: "pow2 (k - 1) \<le> q"
  proof -
    have "pow2 (k - 1) * of_int d \<le> pow2 (k - 1) * pow2 (int ?b + 1)"
      using db' by (simp add: pow2_def nat_add_distrib mult_left_mono)
    also have "\<dots> \<le> of_int n" using na' by (simp only: k0)
    finally show ?thesis using dpos q by (simp add: le_divide_eq)
  qed
  have f: "fexp q = (if pow2 k \<le> q then k else k - 1)"
    by (simp add: fexp_def nd k_def)
  show "pow2 (fexp q) \<le> q" using f low by simp
  show "q < pow2 (fexp q + 1)" using f up by (auto simp: not_le)
qed

lemma fexp_unique:
  assumes "pow2 e \<le> q" and "q < pow2 (e + 1)"
  shows "fexp q = e"
proof -
  have "0 < q" using assms(1) pow2_pos [of e] by linarith
  note b = fexp_bounds [OF this]
  have "pow2 e < pow2 (fexp q + 1)" using assms b by linarith
  moreover have "pow2 (fexp q) < pow2 (e + 1)" using assms b by linarith
  ultimately show ?thesis by (simp add: pow2_less_iff)
qed

lemma fexp_mono: "0 < p \<Longrightarrow> p \<le> q \<Longrightarrow> fexp p \<le> fexp q"
proof -
  assume "0 < p" "p \<le> q"
  with fexp_bounds [of p] fexp_bounds [of q] have "pow2 (fexp p) < pow2 (fexp q + 1)" by linarith
  then show ?thesis by (simp add: pow2_less_iff)
qed

subsection \<open>Rounding\<close>

definition round_even :: "rat \<Rightarrow> int" where
  "round_even q =
     (let f = \<lfloor>q\<rfloor>; r = q - of_int f
      in if r < 1 / 2 then f else if 1 / 2 < r then f + 1 else if even f then f else f + 1)"

lemma round_even_of_int [simp]: "round_even (of_int i) = i"
  by (simp add: round_even_def)

lemma round_even_err: "\<bar>of_int (round_even q) - q\<bar> \<le> 1 / 2"
proof -
  have "of_int \<lfloor>q\<rfloor> \<le> q" "q < of_int \<lfloor>q\<rfloor> + 1" by linarith+
  then show ?thesis by (simp add: round_even_def Let_def abs_le_iff)
qed

lemma round_even_mono: "p \<le> q \<Longrightarrow> round_even p \<le> round_even q"
proof -
  assume le: "p \<le> q"
  then have fl: "\<lfloor>p\<rfloor> \<le> \<lfloor>q\<rfloor>" by (rule floor_mono)
  show ?thesis
  proof (cases "\<lfloor>p\<rfloor> = \<lfloor>q\<rfloor>")
    case True
    with le show ?thesis by (auto simp: round_even_def Let_def)
  next
    case False
    with fl have "\<lfloor>p\<rfloor> + 1 \<le> \<lfloor>q\<rfloor>" by simp
    then show ?thesis by (auto simp: round_even_def Let_def)
  qed
qed

lemma round_even_ge: "of_int i \<le> q \<Longrightarrow> i \<le> round_even q"
  using round_even_mono [of "of_int i" q] by simp

lemma round_even_le: "q \<le> of_int i \<Longrightarrow> round_even q \<le> i"
  using round_even_mono [of q "of_int i"] by simp

lemma round_even_near: "\<bar>q - of_int i\<bar> < 1 / 2 \<Longrightarrow> round_even q = i"
proof -
  assume "\<bar>q - of_int i\<bar> < 1 / 2"
  with round_even_err [of q] have "\<bar>of_int (round_even q) - of_int i\<bar> < (1::rat)" by linarith
  then have "\<bar>round_even q - i\<bar> < 1" by (metis of_int_abs of_int_diff of_int_less_1_iff)
  then show ?thesis by simp
qed

lemma round_even_minus: "round_even (- q) = - round_even q"
proof (cases "q = of_int \<lfloor>q\<rfloor>")
  case True
  then show ?thesis by (metis of_int_minus round_even_of_int)
next
  case False
  then have "\<lfloor>- q\<rfloor> = - \<lfloor>q\<rfloor> - 1" by linarith
  then show ?thesis by (auto simp: round_even_def Let_def)
qed

datatype pyfloat = Fin rat | PInf | NInf | NaN

definition ulp_exp :: "rat \<Rightarrow> int" where
  "ulp_exp q = max (fexp q - 52) (-1074)"

definition rnd :: "rat \<Rightarrow> pyfloat" where
  "rnd q =
     (if q = 0 then Fin 0
      else let u = ulp_exp \<bar>q\<bar>;
               r = of_int (round_even (q / pow2 u)) * pow2 u
           in if pow2 1024 \<le> \<bar>r\<bar> then (if 0 < q then PInf else NInf) else Fin r)"

text \<open>The finite values of the format.\<close>

definition is_double :: "rat \<Rightarrow> bool" where
  "is_double q = (rnd q = Fin q)"

lemma rnd_0 [simp]: "rnd 0 = Fin 0"
  by (simp add: rnd_def)

text \<open>For evaluation the overflow test looks at the exponent.\<close>

lemma pow2_le_iff: "0 < q \<Longrightarrow> pow2 e \<le> q \<longleftrightarrow> e \<le> fexp q"
proof -
  assume q: "0 < q"
  note b = fexp_bounds [OF q]
  show ?thesis
  proof
    assume "pow2 e \<le> q"
    with b have "pow2 e < pow2 (fexp q + 1)" by linarith
    then show "e \<le> fexp q" by (simp add: pow2_less_iff)
  next
    assume "e \<le> fexp q"
    then have "pow2 e \<le> pow2 (fexp q)" by (rule pow2_mono)
    with b show "pow2 e \<le> q" by linarith
  qed
qed

lemma rnd_code [code]:
  "rnd q =
     (if q = 0 then Fin 0
      else let u = pow2 (ulp_exp \<bar>q\<bar>); r = of_int (round_even (q / u)) * u
           in if r \<noteq> 0 \<and> 1024 \<le> fexp \<bar>r\<bar> then (if 0 < q then PInf else NInf) else Fin r)"
proof -
  have "pow2 1024 \<le> \<bar>r\<bar> \<longleftrightarrow> r \<noteq> 0 \<and> 1024 \<le> fexp \<bar>r\<bar>" for r
    using pow2_le_iff [of "\<bar>r\<bar>" 1024] pow2_pos [of 1024]
    by (cases "r = 0") (auto simp: not_le simp del: pow2_pos)
  then show ?thesis by (simp add: rnd_def Let_def)
qed

text \<open>\<open>rnd\<close> before the overflow test.\<close>

definition rnd0 :: "rat \<Rightarrow> rat" where
  "rnd0 q = of_int (round_even (q / pow2 (ulp_exp \<bar>q\<bar>))) * pow2 (ulp_exp \<bar>q\<bar>)"

lemma round_even_0 [simp]: "round_even 0 = 0"
  by (simp add: round_even_def)

lemma rnd_alt:
  "rnd q = (if pow2 1024 \<le> \<bar>rnd0 q\<bar> then (if 0 < q then PInf else NInf) else Fin (rnd0 q))"
  by (simp add: rnd_def rnd0_def Let_def not_le)

lemma rnd0_minus [simp]: "rnd0 (- q) = - rnd0 q"
  by (simp add: rnd0_def round_even_minus)

lemma rnd0_0 [simp]: "rnd0 0 = 0"
  by (simp add: rnd0_def)

text \<open>A multiple of the last place is kept, and bounds the rounding of what it bounds.\<close>

lemma pow2_quot_int: "u \<le> e \<Longrightarrow> pow2 e / pow2 u = of_int (2 ^ nat (e - u))"
  using pow2_add [of "e - u" u] by (simp add: pow2_def [of "e - u"] field_simps)

lemma pow2_split: "u \<le> e \<Longrightarrow> of_int (2 ^ nat (e - u)) * pow2 u = pow2 e"
  using pow2_quot_int [of u e] by (simp add: field_simps)

lemma rnd0_exact:
  assumes q: "q = of_int m * pow2 e" and m: "\<bar>m\<bar> < 2 ^ 53" and e: "-1074 \<le> e"
  shows "rnd0 q = q"
proof (cases "q = 0")
  case False
  let ?u = "ulp_exp \<bar>q\<bar>"
  have "\<bar>q\<bar> = of_int \<bar>m\<bar> * pow2 e" by (simp add: q abs_mult)
  also have "\<dots> < pow2 53 * pow2 e"
  proof -
    from m have "of_int \<bar>m\<bar> < (of_int (2 ^ 53) :: rat)" by (simp only: of_int_less_iff)
    then show ?thesis by (simp add: pow2_def [of 53])
  qed
  finally have "\<bar>q\<bar> < pow2 (53 + e)" by (simp only: pow2_add)
  with fexp_bounds(1) [of "\<bar>q\<bar>"] False have "pow2 (fexp \<bar>q\<bar>) < pow2 (53 + e)" by linarith
  then have "fexp \<bar>q\<bar> < 53 + e" by (simp only: pow2_less_iff)
  with e have u: "?u \<le> e" by (simp add: ulp_exp_def)
  have "q / pow2 ?u = of_int m * (pow2 e / pow2 ?u)" by (simp add: q)
  also have "\<dots> = of_int (m * 2 ^ nat (e - ?u))" by (simp add: pow2_quot_int [OF u])
  finally have eq: "q / pow2 ?u = of_int (m * 2 ^ nat (e - ?u))" .
  then have "rnd0 q = q / pow2 ?u * pow2 ?u" by (simp only: rnd0_def round_even_of_int)
  then show ?thesis by simp
qed simp

lemma rnd_exact:
  assumes "q = of_int m * pow2 e" and "\<bar>m\<bar> < 2 ^ 53" and "-1074 \<le> e" and "\<bar>q\<bar> < pow2 1024"
  shows "rnd q = Fin q"
  using rnd0_exact [OF assms(1-3)] assms(4) by (simp add: rnd_alt)

lemma rnd_small_int:
  assumes "\<bar>i\<bar> < 2 ^ 53"
  shows "rnd (of_int i) = Fin (of_int i)"
proof (rule rnd_exact [of _ i 0])
  have "of_int \<bar>i\<bar> < (of_int (2 ^ 53) :: rat)" using assms by (simp only: of_int_less_iff)
  also have "\<dots> \<le> pow2 1024" using pow2_mono [of 53 1024] by (simp add: pow2_def [of 53])
  finally show "\<bar>of_int i\<bar> < pow2 1024" by simp
qed (use assms in \<open>simp_all add: pow2_def\<close>)

lemma rnd0_mono_pos:
  assumes p: "0 < p" and le: "p \<le> q"
  shows "rnd0 p \<le> rnd0 q"
proof (cases "ulp_exp p = ulp_exp q")
  case True
  from le have "p / pow2 (ulp_exp q) \<le> q / pow2 (ulp_exp q)" by (simp add: divide_right_mono)
  then have "round_even (p / pow2 (ulp_exp q)) \<le> round_even (q / pow2 (ulp_exp q))"
    by (rule round_even_mono)
  with True p le show ?thesis by (simp add: rnd0_def mult_right_mono)
next
  case False
  with fexp_mono [OF p le] have lt: "fexp p < fexp q" and u: "ulp_exp p < ulp_exp q"
    and uq: "ulp_exp q = fexp q - 52" by (auto simp: ulp_exp_def max_def split: if_splits)
  have up: "rnd0 p \<le> pow2 (fexp q)"
  proof -
    have "p < pow2 (fexp p + 1)" using fexp_bounds(2) [OF p] .
    also have "\<dots> \<le> pow2 (fexp q)" using lt by (simp add: pow2_mono)
    finally have "p / pow2 (ulp_exp p) \<le> pow2 (fexp q) / pow2 (ulp_exp p)"
      by (simp add: divide_right_mono)
    also have "\<dots> = of_int (2 ^ nat (fexp q - ulp_exp p))"
      using u uq by (intro pow2_quot_int) simp
    finally have "round_even (p / pow2 (ulp_exp p)) \<le> 2 ^ nat (fexp q - ulp_exp p)"
      by (rule round_even_le)
    then have "rnd0 p \<le> of_int (2 ^ nat (fexp q - ulp_exp p)) * pow2 (ulp_exp p)"
      using p by (simp only: rnd0_def abs_of_pos) (simp only: of_int_le_iff mult_right_mono pow2_nonneg)
    also have "\<dots> = pow2 (fexp q)" using u uq by (intro pow2_split) simp
    finally show ?thesis .
  qed
  have low: "pow2 (fexp q) \<le> rnd0 q"
  proof -
    have q: "0 < q" using p le by simp
    have "of_int (2 ^ nat (fexp q - ulp_exp q)) = pow2 (fexp q) / pow2 (ulp_exp q)"
      using uq by (intro pow2_quot_int [symmetric]) simp
    also have "\<dots> \<le> q / pow2 (ulp_exp q)"
      using fexp_bounds(1) [OF q] by (simp add: divide_right_mono)
    finally have "2 ^ nat (fexp q - ulp_exp q) \<le> round_even (q / pow2 (ulp_exp q))"
      by (rule round_even_ge)
    then have "of_int (2 ^ nat (fexp q - ulp_exp q)) * pow2 (ulp_exp q) \<le> rnd0 q"
      using q by (simp only: rnd0_def abs_of_pos) (simp only: of_int_le_iff mult_right_mono pow2_nonneg)
    moreover have "of_int (2 ^ nat (fexp q - ulp_exp q)) * pow2 (ulp_exp q) = pow2 (fexp q)"
      using uq by (intro pow2_split) simp
    ultimately show ?thesis by (simp only:)
  qed
  from up low show ?thesis by simp
qed

lemma rnd0_nonneg: "0 \<le> q \<Longrightarrow> 0 \<le> rnd0 q"
  using round_even_ge [of 0 "q / pow2 (ulp_exp q)"] by (simp add: rnd0_def)

lemma rnd0_mono: "p \<le> q \<Longrightarrow> rnd0 p \<le> rnd0 q"
proof -
  assume le: "p \<le> q"
  consider "0 < p" | "p \<le> 0" "0 \<le> q" | "q < 0" by linarith
  then show ?thesis
  proof cases
    case 1
    then show ?thesis using le by (rule rnd0_mono_pos)
  next
    case 2
    then show ?thesis using rnd0_nonneg [of q] rnd0_nonneg [of "- p"] by simp
  next
    case 3
    then show ?thesis using rnd0_mono_pos [of "- q" "- p"] le by simp
  qed
qed

subsection \<open>The order of floats\<close>

text \<open>
  The instance is a total order (\<open>NaN\<close> last), so that sorting and the library's
  automation apply; Python's comparisons are the same on everything but \<open>NaN\<close>, which
  they never order.
\<close>

fun float_le :: "pyfloat \<Rightarrow> pyfloat \<Rightarrow> bool" where
  "float_le _ NaN = True"
| "float_le NaN _ = False"
| "float_le NInf _ = True"
| "float_le _ NInf = False"
| "float_le _ PInf = True"
| "float_le PInf _ = False"
| "float_le (Fin a) (Fin b) = (a \<le> b)"

instantiation pyfloat :: linorder
begin

definition less_eq_pyfloat :: "pyfloat \<Rightarrow> pyfloat \<Rightarrow> bool" where
  "less_eq_pyfloat = float_le"

definition less_pyfloat :: "pyfloat \<Rightarrow> pyfloat \<Rightarrow> bool" where
  "less_pyfloat a b = (float_le a b \<and> \<not> float_le b a)"

instance
proof
  fix x y z :: pyfloat
  show "(x < y) = (x \<le> y \<and> \<not> y \<le> x)" by (simp add: less_pyfloat_def less_eq_pyfloat_def)
  show "x \<le> x" by (cases x) (simp_all add: less_eq_pyfloat_def)
  show "x \<le> y \<Longrightarrow> y \<le> z \<Longrightarrow> x \<le> z"
    by (cases x; cases y; cases z) (simp_all add: less_eq_pyfloat_def)
  show "x \<le> y \<Longrightarrow> y \<le> x \<Longrightarrow> x = y"
    by (cases x; cases y) (simp_all add: less_eq_pyfloat_def)
  show "x \<le> y \<or> y \<le> x" by (cases x; cases y) (auto simp: less_eq_pyfloat_def)
qed

end

lemma float_le_simps [simp]:
  "Fin a \<le> Fin b \<longleftrightarrow> a \<le> b"
  "Fin a < Fin b \<longleftrightarrow> a < b"
  "NInf \<le> x" "x \<le> NaN" "Fin a \<le> PInf" "\<not> PInf \<le> Fin a" "\<not> Fin a \<le> NInf"
  "Fin a < PInf" "NInf < Fin a" "\<not> PInf < Fin a" "\<not> Fin a < NInf"
  "x \<le> NInf \<longleftrightarrow> x = NInf"
  by (cases x; auto simp: less_eq_pyfloat_def less_pyfloat_def)+

lemma rnd_cases: "rnd q = Fin r \<Longrightarrow> r = rnd0 q"
  by (auto simp: rnd_alt split: if_splits)

lemma rnd_mono: "p \<le> q \<Longrightarrow> rnd p \<le> rnd q"
proof -
  assume le: "p \<le> q"
  note m = rnd0_mono [OF this]
  have "0 < pow2 1024" by simp
  consider "0 < p" | "p \<le> 0" "0 \<le> q" | "q < 0" by linarith
  then show ?thesis
  proof cases
    case 1
    then show ?thesis using m le rnd0_nonneg [of p] rnd0_nonneg [of q] by (auto simp: rnd_alt)
  next
    case 2
    then show ?thesis
      using m rnd0_nonneg [of q] rnd0_nonneg [of "- p"] \<open>0 < pow2 1024\<close>
      by (cases "p = 0"; cases "q = 0") (auto simp: rnd_alt)
  next
    case 3
    then show ?thesis
      using m le rnd0_nonneg [of "- p"] rnd0_nonneg [of "- q"] by (auto simp: rnd_alt)
  qed
qed

end
