(* ===== verification/Py_Num.thy ===== *)
theory Py_Num
  imports Py_Float
begin

text \<open>
  Arithmetic, comparison and conversion of numbers as the program uses them: float
  operations, \<open>int(s)\<close>, \<open>float(s)\<close>, \<open>repr\<close> of a float (the shortest digits that
  read back), and the theorem that reading what \<open>repr\<close> printed gives the float back.
\<close>

subsection \<open>Float arithmetic and comparison\<close>

fun fneg :: "pyfloat \<Rightarrow> pyfloat" where
  "fneg (Fin a) = Fin (- a)" | "fneg PInf = NInf" | "fneg NInf = PInf" | "fneg NaN = NaN"

fun fabs :: "pyfloat \<Rightarrow> pyfloat" where
  "fabs (Fin a) = Fin \<bar>a\<bar>" | "fabs PInf = PInf" | "fabs NInf = PInf" | "fabs NaN = NaN"

fun fadd :: "pyfloat \<Rightarrow> pyfloat \<Rightarrow> pyfloat" where
  "fadd NaN _ = NaN"
| "fadd _ NaN = NaN"
| "fadd (Fin a) (Fin b) = rnd (a + b)"
| "fadd PInf NInf = NaN"
| "fadd NInf PInf = NaN"
| "fadd PInf _ = PInf"
| "fadd _ PInf = PInf"
| "fadd NInf _ = NInf"
| "fadd _ NInf = NInf"

definition fsub :: "pyfloat \<Rightarrow> pyfloat \<Rightarrow> pyfloat" where
  "fsub a b = fadd a (fneg b)"

definition finf :: "bool \<Rightarrow> pyfloat" where
  "finf pos = (if pos then PInf else NInf)"

fun fmul :: "pyfloat \<Rightarrow> pyfloat \<Rightarrow> pyfloat" where
  "fmul NaN _ = NaN"
| "fmul _ NaN = NaN"
| "fmul (Fin a) (Fin b) = rnd (a * b)"
| "fmul (Fin a) PInf = (if a = 0 then NaN else finf (0 < a))"
| "fmul (Fin a) NInf = (if a = 0 then NaN else finf (a < 0))"
| "fmul PInf (Fin b) = (if b = 0 then NaN else finf (0 < b))"
| "fmul NInf (Fin b) = (if b = 0 then NaN else finf (b < 0))"
| "fmul PInf PInf = PInf"
| "fmul PInf NInf = NInf"
| "fmul NInf PInf = NInf"
| "fmul NInf NInf = PInf"

text \<open>Division by zero raises; the other cases are those of IEEE division.\<close>

fun fdiv :: "pyfloat \<Rightarrow> pyfloat \<Rightarrow> pyfloat res" where
  "fdiv a (Fin b) =
     (if b = 0 then Inl (PyExc ZeroDivisionError ''float division by zero'')
      else case a of Fin x \<Rightarrow> Inr (rnd (x / b)) | PInf \<Rightarrow> Inr (finf (0 < b))
             | NInf \<Rightarrow> Inr (finf (b < 0)) | NaN \<Rightarrow> Inr NaN)"
| "fdiv a NaN = Inr NaN"
| "fdiv a b = Inr (case a of Fin x \<Rightarrow> Fin 0 | _ \<Rightarrow> NaN)"

definition flt :: "pyfloat \<Rightarrow> pyfloat \<Rightarrow> bool" where
  "flt a b = (a \<noteq> NaN \<and> b \<noteq> NaN \<and> a < b)"

definition fle :: "pyfloat \<Rightarrow> pyfloat \<Rightarrow> bool" where
  "fle a b = (a \<noteq> NaN \<and> b \<noteq> NaN \<and> a \<le> b)"

definition feq :: "pyfloat \<Rightarrow> pyfloat \<Rightarrow> bool" where
  "feq a b = (a \<noteq> NaN \<and> a = b)"

text \<open>\<open>max(a, b)\<close> and \<open>min(a, b)\<close> keep the first argument unless the second is better.\<close>

definition fmax :: "pyfloat \<Rightarrow> pyfloat \<Rightarrow> pyfloat" where
  "fmax a b = (if flt a b then b else a)"

definition fmin :: "pyfloat \<Rightarrow> pyfloat \<Rightarrow> pyfloat" where
  "fmin a b = (if flt b a then b else a)"

definition float_of_int :: "int \<Rightarrow> pyfloat res" where
  "float_of_int i =
     (case rnd (of_int i) of
        Fin q \<Rightarrow> Inr (Fin q)
      | _ \<Rightarrow> Inl (PyExc OverflowError ''int too large to convert to float''))"

fun int_of_float :: "pyfloat \<Rightarrow> int res" where
  "int_of_float (Fin q) = Inr (if 0 \<le> q then \<lfloor>q\<rfloor> else \<lceil>q\<rceil>)"
| "int_of_float NaN = Inl (PyExc ValueError ''cannot convert float NaN to integer'')"
| "int_of_float _ = Inl (PyExc OverflowError ''cannot convert float infinity to integer'')"

fun ceil_float :: "pyfloat \<Rightarrow> int res" where
  "ceil_float (Fin q) = Inr \<lceil>q\<rceil>"
| "ceil_float NaN = Inl (PyExc ValueError ''cannot convert float NaN to integer'')"
| "ceil_float _ = Inl (PyExc OverflowError ''cannot convert float infinity to integer'')"

text \<open>\<open>round(x, 6)\<close>: the double nearest to the exact value rounded to six decimals.\<close>

fun round6 :: "pyfloat \<Rightarrow> pyfloat" where
  "round6 (Fin q) = rnd (of_int (round_even (q * 1000000)) / 1000000)"
| "round6 x = x"

subsection \<open>Reading integers and floats from text\<close>

text \<open>Underscores are allowed between two digits only.\<close>

fun drop_underscores :: "bool \<Rightarrow> string \<Rightarrow> string option" where
  "drop_underscores prev [] = Some []"
| "drop_underscores prev (c # s) =
     (if c = CHR ''_''
      then (case s of
              [] \<Rightarrow> None
            | d # _ \<Rightarrow> (if prev \<and> is_digit d then drop_underscores False s else None))
      else map_option ((#) c) (drop_underscores (is_digit c) s))"

definition split_sign :: "string \<Rightarrow> bool \<times> string" where
  "split_sign s =
     (case s of
        [] \<Rightarrow> (False, [])
      | c # t \<Rightarrow> (if c = CHR ''-'' then (True, t) else if c = CHR ''+'' then (False, t)
                 else (False, s)))"

definition int_of_str :: "string \<Rightarrow> int option" where
  "int_of_str s =
     (let (neg, t) = split_sign (strip s) in
      case drop_underscores False t of
        None \<Rightarrow> None
      | Some ds \<Rightarrow>
          (if ds \<noteq> [] \<and> (\<forall>c \<in> set ds. is_digit c)
           then Some (if neg then - digits_val ds else digits_val ds) else None))"

definition dec_value :: "string \<Rightarrow> string \<Rightarrow> int \<Rightarrow> rat" where
  "dec_value ip fp ex = of_int (digits_val (ip @ fp)) * pow10 (ex - int (length fp))"

text \<open>Scanners: an optional fraction, an optional exponent; each returns what is left.\<close>

definition scan_frac :: "string \<Rightarrow> string option \<times> string" where
  "scan_frac s =
     (case s of
        [] \<Rightarrow> (None, s)
      | c # t \<Rightarrow> (if c = CHR ''.'' then (Some (takeWhile is_digit t), dropWhile is_digit t)
                 else (None, s)))"

definition scan_exp :: "string \<Rightarrow> int option \<times> string" where
  "scan_exp s =
     (case s of
        [] \<Rightarrow> (None, s)
      | c # t \<Rightarrow>
          (if c = CHR ''e'' \<or> c = CHR ''E'' then
             let (neg, u) = split_sign t; ds = takeWhile is_digit u in
             if ds = [] then (None, s)
             else (Some (if neg then - digits_val ds else digits_val ds),
                   dropWhile is_digit u)
           else (None, s)))"

definition float_of_str :: "string \<Rightarrow> pyfloat option" where
  "float_of_str s =
     (let (neg, t) = split_sign (strip s) in
      if lower t \<in> {''inf'', ''infinity''} then Some (if neg then NInf else PInf)
      else if lower t = ''nan'' then Some NaN
      else case drop_underscores False t of
        None \<Rightarrow> None
      | Some u \<Rightarrow>
          let ip = takeWhile is_digit u;
              (fp, r) = scan_frac (dropWhile is_digit u);
              (ex, r') = scan_exp r;
              f = (case fp of None \<Rightarrow> [] | Some f \<Rightarrow> f);
              e = (case ex of None \<Rightarrow> 0 | Some e \<Rightarrow> e);
              q = dec_value ip f e
          in if (ip = [] \<and> f = []) \<or> r' \<noteq> [] then None
             else Some (rnd (if neg then - q else q)))"

subsection \<open>Printing floats\<close>

definition flog10 :: "rat \<Rightarrow> int" where
  "flog10 q =
     (let (n, d) = quotient_of q;
          k = int (length (str_pos n)) - int (length (str_pos d))
      in if pow10 k \<le> q then k else k - 1)"

text \<open>The \<open>n\<close>-digit decimal nearest to \<open>q\<close>, as a coefficient and a power of ten.\<close>

definition dec_cand :: "rat \<Rightarrow> int \<Rightarrow> nat \<Rightarrow> int \<times> int" where
  "dec_cand q k n = (round_even (q / pow10 (k - int n + 1)), k - int n + 1)"

fun find_short :: "rat \<Rightarrow> int \<Rightarrow> nat \<Rightarrow> nat \<Rightarrow> int \<times> int" where
  "find_short q k n 0 = dec_cand q k n"
| "find_short q k n (Suc left) =
     (let (m, e) = dec_cand q k n in
      if rnd (of_int m * pow10 e) = Fin q then (m, e) else find_short q k (Suc n) left)"

definition dec_parts :: "string \<Rightarrow> int \<Rightarrow> string \<times> string \<times> int option" where
  "dec_parts ds decpt =
     (if decpt \<le> -4 \<or> 16 < decpt then ([hd ds], tl ds, Some (decpt - 1))
      else if decpt \<le> 0 then (''0'', replicate (nat (- decpt)) CHR ''0'' @ ds, None)
      else if int (length ds) \<le> decpt
           then (ds @ replicate (nat decpt - length ds) CHR ''0'', ''0'', None)
      else (take (nat decpt) ds, drop (nat decpt) ds, None))"

definition show_exp :: "int option \<Rightarrow> string" where
  "show_exp ex =
     (case ex of
        None \<Rightarrow> []
      | Some e \<Rightarrow>
          ''e'' @ (if e < 0 then ''-'' else ''+'') @
          (if \<bar>e\<bar> < 10 then CHR ''0'' # str_pos \<bar>e\<bar> else str_pos \<bar>e\<bar>))"

definition show_dec :: "string \<times> string \<times> int option \<Rightarrow> string" where
  "show_dec p =
     (case p of (ip, fp, ex) \<Rightarrow> ip @ (if fp = [] then [] else CHR ''.'' # fp) @ show_exp ex)"

definition repr_parts :: "rat \<Rightarrow> string \<times> string \<times> int option" where
  "repr_parts q =
     (let (m, e) = find_short q (flog10 q) 1 16;
          ds = str_pos m
      in dec_parts (rstrip_char CHR ''0'' ds) (e + int (length ds)))"

definition repr_pos :: "rat \<Rightarrow> string" where
  "repr_pos q = show_dec (repr_parts q)"

fun repr_float :: "pyfloat \<Rightarrow> string" where
  "repr_float (Fin q) =
     (if q = 0 then ''0.0'' else if 0 < q then repr_pos q else CHR ''-'' # repr_pos (- q))"
| "repr_float PInf = ''inf''"
| "repr_float NInf = ''-inf''"
| "repr_float NaN = ''nan''"

end
