(* ===== verification/Py_Repr.thy ===== *)
theory Py_Repr
  imports Py_Num
begin

text \<open>
  Printing and reading numbers are inverse: \<open>int(str(i)) = i\<close>, and the digits
  \<open>repr\<close> prints for a double are read back as the same double. The second needs that
  seventeen significant digits always suffice.
\<close>

subsection \<open>Seventeen digits suffice\<close>

lemma rnd0_multiple:
  assumes "0 < q"
  shows "\<exists>m. rnd0 q = of_int m * pow2 (ulp_exp q)"
  using assms by (auto simp: rnd0_def)

lemma multiple_gap:
  assumes a: "a = of_int m * pow2 u" and b: "b = of_int n * pow2 u" and lt: "a < b"
  shows "a + pow2 u \<le> b"
proof -
  from a b lt have "of_int m < (of_int n :: rat)"
    using pow2_pos [of u] by (simp add: mult_less_cancel_right_pos)
  then have "m + 1 \<le> n" by simp
  then have "(of_int (m + 1) :: rat) \<le> of_int n" by (simp only: of_int_le_iff)
  then have "(of_int (m + 1) :: rat) * pow2 u \<le> of_int n * pow2 u"
    by (rule mult_right_mono) simp
  then show ?thesis by (simp add: a b algebra_simps)
qed

lemma scaled_diff: "\<bar>v / pow2 u - of_int m\<bar> = \<bar>v - of_int m * pow2 u\<bar> / pow2 u"
proof -
  have "v / pow2 u - of_int m = (v - of_int m * pow2 u) / pow2 u" by (simp add: field_simps)
  then show ?thesis by (simp add: abs_divide)
qed

lemma rnd0_near:
  assumes q: "0 < q" and d: "rnd0 q = q"
    and near: "\<bar>v - q\<bar> < pow2 (ulp_exp q) / 2"
    and edge: "q = pow2 (fexp q) \<Longrightarrow> \<bar>v - q\<bar> < pow2 (ulp_exp q) / 4"
  shows "rnd0 v = q"
proof -
  let ?u = "ulp_exp q" and ?f = "fexp q"
  note f = fexp_bounds [OF q]
  obtain m where m: "q = of_int m * pow2 ?u"
    using rnd0_multiple [OF q] d by metis
  have qu: "pow2 ?u \<le> q" using multiple_gap [of 0 0 ?u q m] m q by simp
  with f have "pow2 ?u < pow2 (?f + 1)" by linarith
  then have uf: "?u \<le> ?f" by (simp add: pow2_less_iff)
  have v: "0 < v" using near qu pow2_pos [of ?u] by linarith
  have vup: "v < pow2 (?f + 1)"
  proof -
    have "pow2 (?f + 1) = of_int (2 ^ nat (?f + 1 - ?u)) * pow2 ?u"
      using uf by (intro pow2_split [symmetric]) simp
    from multiple_gap [OF m this f(2)] near pow2_pos [of ?u] show ?thesis by linarith
  qed
  show ?thesis
  proof (cases "pow2 ?f \<le> v")
    case True
    have "fexp v = ?f" using True vup by (rule fexp_unique)
    then have uv: "ulp_exp v = ?u" by (simp add: ulp_exp_def)
    have "\<bar>v / pow2 ?u - of_int m\<bar> = \<bar>v - q\<bar> / pow2 ?u"
      by (simp only: scaled_diff m [symmetric])
    also have "\<dots> < 1 / 2" using near by (simp add: divide_less_eq)
    finally have "round_even (v / pow2 ?u) = m" by (rule round_even_near)
    with uv v m [symmetric] show ?thesis by (simp add: rnd0_def)
  next
    case False
    have pf: "pow2 ?f = of_int (2 ^ nat (?f - ?u)) * pow2 ?u"
      using uf by (rule pow2_split [symmetric])
    have qf: "q = pow2 ?f"
    proof (rule ccontr)
      assume "q \<noteq> pow2 ?f"
      with f have "pow2 ?f < q" by simp
      from multiple_gap [OF pf m this] near False pow2_pos [of ?u] show False by linarith
    qed
    then have e4: "\<bar>v - q\<bar> < pow2 ?u / 4" by (rule edge)
    have half: "pow2 e = 2 * pow2 (e - 1)" for e
      using pow2_add [of "e - 1" 1] by (simp add: pow2_def [of 1])
    show ?thesis
    proof (cases "?u = -1074")
      case True
      have "fexp v < ?f"
      proof -
        have "pow2 (fexp v) < pow2 ?f" using fexp_bounds(1) [OF v] False by linarith
        then show ?thesis by (simp add: pow2_less_iff)
      qed
      with True have "ulp_exp v = ?u" by (auto simp: ulp_exp_def max_def split: if_splits)
      moreover have "\<bar>v / pow2 ?u - of_int m\<bar> = \<bar>v - q\<bar> / pow2 ?u"
        by (simp only: scaled_diff m [symmetric])
      then have "\<bar>v / pow2 ?u - of_int m\<bar> < 1 / 2" using near by (simp add: divide_less_eq)
      then have "round_even (v / pow2 ?u) = m" by (rule round_even_near)
      ultimately show ?thesis using v m [symmetric] by (simp add: rnd0_def)
    next
      case False
      then have u: "?u = ?f - 52" "-1074 < ?u" by (auto simp: ulp_exp_def max_def split: if_splits)
      have "pow2 (?f - 1) \<le> v"
      proof -
        have "pow2 ?u \<le> pow2 (?f - 1)" using u by (simp add: pow2_mono)
        then show ?thesis using e4 qf half [of ?f] by linarith
      qed
      moreover have "v < pow2 (?f - 1 + 1)" using \<open>\<not> pow2 ?f \<le> v\<close> by simp
      ultimately have "fexp v = ?f - 1" by (rule fexp_unique)
      with u have uv: "ulp_exp v = ?u - 1" by (simp add: ulp_exp_def)
      have q': "q = of_int (2 ^ 53) * pow2 (?u - 1)"
        using pow2_split [of "?u - 1" ?f] qf u by simp
      have "\<bar>v / pow2 (?u - 1) - of_int (2 ^ 53)\<bar> = \<bar>v - q\<bar> / pow2 (?u - 1)"
        by (simp only: scaled_diff q' [symmetric])
      also have "\<dots> < 1 / 2"
        using e4 half [of ?u] pow2_pos [of "?u - 1"] by (simp add: divide_less_eq)
      finally have "round_even (v / pow2 (?u - 1)) = 2 ^ 53" by (rule round_even_near)
      with uv v q' [symmetric] show ?thesis by (simp add: rnd0_def)
    qed
  qed
qed

lemma is_double_iff: "is_double q \<longleftrightarrow> rnd0 q = q \<and> \<bar>q\<bar> < pow2 1024"
  by (auto simp: is_double_def rnd_alt not_le split: if_splits)

lemma rnd0_idem: "rnd0 (rnd0 q) = rnd0 q"
proof -
  have pos: "rnd0 (rnd0 p) = rnd0 p" if p: "0 < p" for p
  proof -
    obtain m where m: "rnd0 p = of_int m * pow2 (ulp_exp p)" using rnd0_multiple [OF p] by blast
    have "rnd0 p \<le> pow2 (fexp p + 1)"
    proof (cases "ulp_exp p \<le> fexp p + 1")
      case True
      have "p / pow2 (ulp_exp p) \<le> pow2 (fexp p + 1) / pow2 (ulp_exp p)"
        using fexp_bounds(2) [OF p] by (simp add: divide_right_mono)
      then have "round_even (p / pow2 (ulp_exp p)) \<le> 2 ^ nat (fexp p + 1 - ulp_exp p)"
        using pow2_quot_int [OF True] by (intro round_even_le) simp
      then have "rnd0 p \<le> of_int (2 ^ nat (fexp p + 1 - ulp_exp p)) * pow2 (ulp_exp p)"
        using p by (simp only: rnd0_def abs_of_pos) (simp only: of_int_le_iff mult_right_mono pow2_nonneg)
      also have "\<dots> = pow2 (fexp p + 1)" by (rule pow2_split [OF True])
      finally show ?thesis .
    next
      case False
      then have "pow2 (fexp p + 1) \<le> pow2 (ulp_exp p - 1)" by (intro pow2_mono) simp
      also have "\<dots> = pow2 (ulp_exp p) / 2"
        using pow2_add [of "ulp_exp p - 1" 1] by (simp add: pow2_def [of 1])
      finally have "p < pow2 (ulp_exp p) / 2" using fexp_bounds(2) [OF p] by linarith
      then have "\<bar>p / pow2 (ulp_exp p) - of_int 0\<bar> < 1 / 2" using p by (simp add: divide_less_eq)
      then have "round_even (p / pow2 (ulp_exp p)) = 0" by (rule round_even_near)
      then show ?thesis using p by (simp add: rnd0_def)
    qed
    then have "\<bar>of_int m * pow2 (ulp_exp p)\<bar> \<le> pow2 (fexp p + 1)"
      using rnd0_nonneg [of p] p m by simp
    then consider "\<bar>of_int m * pow2 (ulp_exp p)\<bar> < pow2 (fexp p + 1)"
      | "of_int m * pow2 (ulp_exp p) = pow2 (fexp p + 1)"
      using rnd0_nonneg [of p] p m by force
    then show ?thesis
    proof cases
      case 1
      have "pow2 (fexp p + 1) \<le> pow2 (ulp_exp p + 53)"
        by (intro pow2_mono) (simp add: ulp_exp_def)
      with 1 have "\<bar>of_int m * pow2 (ulp_exp p)\<bar> < pow2 (53 + ulp_exp p)"
        by (simp add: add.commute)
      then have "of_int \<bar>m\<bar> * pow2 (ulp_exp p) < pow2 53 * pow2 (ulp_exp p)"
        by (simp only: pow2_add abs_mult of_int_abs) simp
      then have "of_int \<bar>m\<bar> < pow2 53" by (simp add: mult_less_cancel_right_pos)
      then have "of_int \<bar>m\<bar> < (of_int (2 ^ 53) :: rat)" by (simp add: pow2_def)
      then have "\<bar>m\<bar> < 2 ^ 53" by (simp only: of_int_less_iff)
      from rnd0_exact [OF m this] show ?thesis by (simp add: ulp_exp_def)
    next
      case 2
      show ?thesis
      proof (cases "- 1074 \<le> fexp p + 1")
        case True
        have "rnd0 p = of_int 1 * pow2 (fexp p + 1)" using 2 m by simp
        from rnd0_exact [OF this] True show ?thesis by simp
      next
        case False
        then have "ulp_exp p = -1074" "pow2 (fexp p + 1) < pow2 (- 1074)"
          by (simp_all add: ulp_exp_def pow2_less)
        with 2 multiple_gap [of 0 0 "-1074" "pow2 (fexp p + 1)" m] have False by simp
        then show ?thesis ..
      qed
    qed
  qed
  consider "0 < q" | "q = 0" | "0 < - q" by linarith
  then show ?thesis using pos [of q] pos [of "- q"] by cases simp_all
qed

text \<open>The result of rounding is a double.\<close>

lemma rnd_is_double: "rnd q = Fin r \<Longrightarrow> is_double r"
  using rnd0_idem [of q] by (auto simp: is_double_iff rnd_alt not_le split: if_splits)

lemma flog10_bound:
  assumes "0 < q"
  shows "pow10 (flog10 q) \<le> q"
proof -
  obtain n d where nd: "quotient_of q = (n, d)" "0 < n" "0 < d" and q: "q = of_int n / of_int d"
    using assms by (rule quotient_pos)
  let ?a = "length (str_pos n)" and ?b = "length (str_pos d)"
  define k where "k = int ?a - int ?b"
  have l: "0 < ?a" by simp
  have "10 ^ (?a - 1) \<le> n" "d < 10 ^ ?b"
    using str_pos_length [of n] str_pos_length [of d] nd by auto
  then have na: "(10::rat) ^ (?a - 1) \<le> of_int n" and db: "of_int d \<le> (10::rat) ^ ?b"
    by (metis of_int_le_iff of_int_numeral of_int_power,
        metis less_imp_le of_int_le_iff of_int_numeral of_int_power)
  have "pow10 (k - 1) * pow10 (int ?b) = 10 ^ (?a - 1)"
    unfolding k_def using l by (simp only: pow10_add [symmetric]) (simp add: pow10_def nat_diff_distrib)
  moreover have "pow10 (k - 1) * of_int d \<le> pow10 (k - 1) * pow10 (int ?b)"
    using db by (intro mult_left_mono) (simp_all add: pow10_of_nat less_imp_le)
  ultimately have "pow10 (k - 1) * of_int d \<le> of_int n" using na by linarith
  then have "pow10 (k - 1) \<le> q" using nd by (simp add: q le_divide_eq)
  then show ?thesis by (simp add: flog10_def nd k_def Let_def)
qed

lemma dec_cand_17:
  assumes q: "0 < q" and d: "is_double q" and c: "dec_cand q (flog10 q) 17 = (m, e)"
  shows "rnd (of_int m * pow10 e) = Fin q"
proof -
  let ?v = "of_int m * pow10 e" and ?u = "ulp_exp q" and ?f = "fexp q"
  from c have e: "e = flog10 q - 16" and m: "m = round_even (q / pow10 e)"
    by (auto simp: dec_cand_def)
  have half: "\<bar>of_int m - q / pow10 e\<bar> \<le> 1 / 2" unfolding m by (rule round_even_err)
  have "?v - q = (of_int m - q / pow10 e) * pow10 e" by (simp add: field_simps)
  then have "\<bar>?v - q\<bar> = \<bar>of_int m - q / pow10 e\<bar> * pow10 e"
    by (simp only: abs_mult abs_of_pos pow10_pos)
  also have "\<dots> \<le> 1 / 2 * pow10 e" using half by (rule mult_right_mono) (simp add: less_imp_le)
  finally have err: "\<bar>?v - q\<bar> \<le> pow10 e / 2" by simp
  have "pow10 e * pow10 16 \<le> q"
    using flog10_bound [OF q] by (simp add: pow10_add [symmetric] e)
  then have lo: "pow10 e * 10 ^ 16 \<le> q" by (simp add: pow10_def [of 16])
  have uf: "?f + 1 \<le> 53 + ?u" by (simp add: ulp_exp_def)
  have "q < 2 ^ 53 * pow2 ?u"
    using fexp_bounds(2) [OF q] pow2_mono [OF uf] by (simp add: pow2_add pow2_def [of 53])
  then have "q < 9007199254740992 * pow2 ?u" by simp
  moreover have "pow10 e * 10000000000000000 \<le> q" using lo by simp
  ultimately have near: "pow10 e / 2 < pow2 ?u / 2" using pow2_pos [of ?u] by linarith
  have "rnd0 ?v = q"
  proof (rule rnd0_near [OF q])
    show "rnd0 q = q" using d by (simp add: is_double_iff)
    show "\<bar>?v - q\<bar> < pow2 ?u / 2" using err near by linarith
    assume "q = pow2 ?f"
    moreover have "pow2 ?f \<le> 2 ^ 52 * pow2 ?u"
      using pow2_mono [of ?f "52 + ?u"] uf by (simp add: pow2_add pow2_def [of 52])
    ultimately have "q \<le> 4503599627370496 * pow2 ?u" by simp
    moreover have "pow10 e * 10000000000000000 \<le> q" using lo by simp
    ultimately show "\<bar>?v - q\<bar> < pow2 ?u / 4"
      using err pow2_pos [of ?u] by linarith
  qed
  with d q show ?thesis by (simp add: rnd_alt is_double_iff)
qed

lemma find_short_ok:
  assumes q: "0 < q" and d: "is_double q"
  shows "n + left = 17 \<Longrightarrow> find_short q (flog10 q) n left = (m, e) \<Longrightarrow>
    rnd (of_int m * pow10 e) = Fin q"
proof (induction left arbitrary: n)
  case 0
  with dec_cand_17 [OF q d] show ?case by simp
next
  case (Suc left)
  from Suc.prems(1) have "Suc n + left = 17" by simp
  note IH = Suc.IH [OF this]
  from Suc.prems(2) IH show ?case by (auto split: prod.splits if_splits)
qed

lemma find_short_pos:
  assumes "0 < q" and "is_double q" and "find_short q (flog10 q) 1 16 = (m, e)"
  shows "0 < m"
proof (rule ccontr)
  assume "\<not> 0 < m"
  then have "of_int m * pow10 e \<le> 0" by (simp add: mult_nonpos_nonneg less_imp_le)
  then have "rnd (of_int m * pow10 e) \<le> rnd 0" by (rule rnd_mono)
  with find_short_ok [OF assms(1,2) _ assms(3)] assms(1) show False by simp
qed

subsection \<open>Decimal text\<close>

definition parts_ok :: "string \<times> string \<times> int option \<Rightarrow> bool" where
  "parts_ok p = (case p of (ip, fp, ex) \<Rightarrow>
     ip \<noteq> [] \<and> (\<forall>c \<in> set ip. is_digit c) \<and> (\<forall>c \<in> set fp. is_digit c) \<and>
     (tl ip \<noteq> [] \<longrightarrow> hd ip \<noteq> CHR ''0''))"

definition parts_value :: "string \<times> string \<times> int option \<Rightarrow> rat" where
  "parts_value p = (case p of (ip, fp, ex) \<Rightarrow>
     dec_value ip fp (case ex of None \<Rightarrow> 0 | Some e \<Rightarrow> e))"

definition all_digits :: "string \<Rightarrow> bool" where
  "all_digits ds = (\<forall>c \<in> set ds. is_digit c)"

text \<open>The text after a number: what cannot continue it.\<close>

definition num_end :: "string \<Rightarrow> bool" where
  "num_end r = (r = [] \<or> (\<not> is_digit (hd r) \<and> hd r \<noteq> CHR ''.'' \<and> hd r \<noteq> CHR ''e'' \<and> hd r \<noteq> CHR ''E''))"

lemma is_digit_consts [simp]:
  "is_digit CHR ''0''" "\<not> is_digit CHR ''.''" "\<not> is_digit CHR ''e''" "\<not> is_digit CHR ''E''"
  "\<not> is_digit CHR ''-''" "\<not> is_digit CHR ''+''" "\<not> is_digit CHR ''_''"
  by (simp_all add: is_digit_def)

lemma takeWhile_digits:
  "all_digits ds \<Longrightarrow> r = [] \<or> \<not> is_digit (hd r) \<Longrightarrow>
   takeWhile is_digit (ds @ r) = ds \<and> dropWhile is_digit (ds @ r) = r"
  by (cases r) (auto simp: all_digits_def)

lemma show_exp_end: "num_end r \<Longrightarrow> show_exp ex @ r = [] \<or> \<not> is_digit (hd (show_exp ex @ r))"
  by (auto simp: show_exp_def num_end_def split: option.splits)

lemma scan_exp_show:
  assumes "num_end r"
  shows "scan_exp (show_exp ex @ r) = (ex, r)"
proof (cases ex)
  case None
  with assms show ?thesis by (cases r) (auto simp: show_exp_def scan_exp_def num_end_def)
next
  case (Some e)
  let ?ds = "if \<bar>e\<bar> < 10 then CHR ''0'' # str_pos \<bar>e\<bar> else str_pos \<bar>e\<bar>"
  have dg: "all_digits ?ds" using str_pos_digits [of "\<bar>e\<bar>"] by (simp add: all_digits_def)
  have "digits_val (CHR ''0'' # ds) = digits_val ds" for ds
    by (simp add: digits_val_def digit_val_def)
  then have val: "digits_val ?ds = \<bar>e\<bar>" by simp
  have "r = [] \<or> \<not> is_digit (hd r)" using assms by (auto simp: num_end_def)
  from takeWhile_digits [OF dg this]
  have tw: "takeWhile is_digit (?ds @ r) = ?ds" "dropWhile is_digit (?ds @ r) = r" by auto
  have ne: "?ds \<noteq> []" by simp
  show ?thesis
    using tw ne val unfolding Some show_exp_def option.case scan_exp_def
    by (cases "e < 0") (simp_all only: append.simps append_assoc list.case split_sign_def
        Let_def prod.case if_True if_False char.inject simp_thms, simp_all)
qed

lemma scan_show_dec:
  assumes ok: "parts_ok (ip, fp, ex)" and r: "num_end r"
  defines "s \<equiv> show_dec (ip, fp, ex) @ r"
  shows "takeWhile is_digit s = ip"
    and "scan_frac (dropWhile is_digit s) = (if fp = [] then None else Some fp, show_exp ex @ r)"
proof -
  let ?t = "(if fp = [] then [] else CHR ''.'' # fp) @ show_exp ex @ r"
  have s: "s = ip @ ?t" by (simp add: s_def show_dec_def)
  have ip: "all_digits ip" and fp: "all_digits fp" using ok by (auto simp: parts_ok_def all_digits_def)
  have tend: "?t = [] \<or> \<not> is_digit (hd ?t)" using show_exp_end [OF r, of ex] by auto
  from takeWhile_digits [OF ip tend] show "takeWhile is_digit s = ip" by (simp add: s)
  have dw: "dropWhile is_digit s = ?t" using takeWhile_digits [OF ip tend] by (simp add: s)
  show "scan_frac (dropWhile is_digit s) = (if fp = [] then None else Some fp, show_exp ex @ r)"
  proof (cases "fp = []")
    case True
    have "show_exp ex @ r = [] \<or> hd (show_exp ex @ r) \<noteq> CHR ''.''"
      using r by (auto simp: show_exp_def num_end_def split: option.splits)
    with True show ?thesis unfolding dw
      by (cases "show_exp ex @ r") (auto simp: scan_frac_def)
  next
    case False
    with takeWhile_digits [OF fp show_exp_end [OF r]] show ?thesis
      unfolding dw by (simp add: scan_frac_def)
  qed
qed

subsection \<open>What \<open>repr\<close> prints reads back\<close>

lemma dec_parts_ok:
  assumes ds: "ds \<noteq> []" "all_digits ds" "hd ds \<noteq> CHR ''0''"
  shows "parts_ok (dec_parts ds decpt)"
    and "parts_value (dec_parts ds decpt) =
      of_int (digits_val ds) * pow10 (decpt - int (length ds))"
proof -
  obtain c cs where c: "ds = c # cs" using ds(1) by (cases ds) auto
  have dg: "\<forall>x \<in> set ds. is_digit x" using ds(2) by (simp add: all_digits_def)
  let ?g = "parts_ok (dec_parts ds decpt) \<and> parts_value (dec_parts ds decpt) =
      of_int (digits_val ds) * pow10 (decpt - int (length ds))"
  consider "decpt \<le> -4 \<or> 16 < decpt" | "- 4 < decpt" "decpt \<le> 0"
    | "0 < decpt" "decpt \<le> 16" "int (length ds) \<le> decpt"
    | "0 < decpt" "decpt \<le> 16" "decpt < int (length ds)" by linarith
  then have ?g
  proof cases
    case 1
    with c dg show ?thesis
      by (auto simp: dec_parts_def parts_ok_def parts_value_def dec_value_def algebra_simps)
  next
    case 2
    have z: "digits_val (CHR ''0'' # replicate (nat (- decpt)) CHR ''0'' @ ds) = digits_val ds"
      using digits_val_append [of "replicate (Suc (nat (- decpt))) CHR ''0''" ds]
        digits_val_zeros [of "Suc (nat (- decpt))"] by simp
    with 2 dg show ?thesis
      by (auto simp: dec_parts_def parts_ok_def parts_value_def dec_value_def algebra_simps)
  next
    case 3
    let ?k = "nat decpt - length ds"
    have "digits_val (ds @ replicate ?k CHR ''0'' @ ''0'') = digits_val ds * 10 ^ Suc ?k"
      using digits_val_append [of ds "replicate (Suc ?k) CHR ''0''"]
      by (simp add: replicate_append_same)
    moreover have "(10::rat) ^ Suc ?k * pow10 (-1) = pow10 (decpt - int (length ds))"
    proof -
      have "(10::rat) ^ Suc ?k = pow10 (int (Suc ?k))" by (simp only: pow10_of_nat)
      moreover have "int (Suc ?k) + (-1) = decpt - int (length ds)" using 3 by simp
      ultimately show ?thesis by (simp only: pow10_add [symmetric])
    qed
    ultimately have "of_int (digits_val (ds @ replicate ?k CHR ''0'' @ ''0'')) * pow10 (-1) =
        of_int (digits_val ds) * pow10 (decpt - int (length ds))"
      by (simp only: of_int_mult of_int_power of_int_numeral mult.assoc)
    then show ?thesis using 3 c dg ds(3)
      by (auto simp: dec_parts_def parts_ok_def parts_value_def dec_value_def)
  next
    case 4
    have t: "take (nat decpt) ds @ drop (nat decpt) ds = ds" by simp
    have tk: "take (nat decpt) ds = c # take (nat decpt - 1) cs"
      using 4 c by (cases "nat decpt") auto
    have dgs: "\<forall>x \<in> set (take (nat decpt) ds). is_digit x" "\<forall>x \<in> set (drop (nat decpt) ds). is_digit x"
      using dg by (auto dest: in_set_takeD in_set_dropD)
    have len: "- int (length (drop (nat decpt) ds)) = decpt - int (length ds)" using 4 by simp
    have dp: "dec_parts ds decpt = (take (nat decpt) ds, drop (nat decpt) ds, None)"
      using 4 by (simp add: dec_parts_def)
    have "parts_ok (dec_parts ds decpt)"
      unfolding dp parts_ok_def prod.case using dgs tk c ds(3) by simp
    moreover have "parts_value (dec_parts ds decpt) =
      of_int (digits_val ds) * pow10 (decpt - int (length ds))"
      unfolding dp parts_value_def dec_value_def prod.case option.case t diff_0 len ..
    ultimately show ?thesis by blast
  qed
  then show "parts_ok (dec_parts ds decpt)" and "parts_value (dec_parts ds decpt) =
      of_int (digits_val ds) * pow10 (decpt - int (length ds))" by blast+
qed

lemma rstrip_zeros:
  "\<exists>k. ds = rstrip_char c ds @ replicate k c"
proof -
  have "rev ds = takeWhile (\<lambda>x. x = c) (rev ds) @ dropWhile (\<lambda>x. x = c) (rev ds)" by simp
  moreover have "takeWhile (\<lambda>x. x = c) xs = replicate (length (takeWhile (\<lambda>x. x = c) xs)) c" for xs
    by (induction xs) auto
  ultimately have "rev ds = replicate (length (takeWhile (\<lambda>x. x = c) (rev ds))) c @
      dropWhile (\<lambda>x. x = c) (rev ds)" by metis
  then have "ds = rev (dropWhile (\<lambda>x. x = c) (rev ds)) @
      replicate (length (takeWhile (\<lambda>x. x = c) (rev ds))) c"
    by (metis rev_append rev_replicate rev_rev_ident)
  then show ?thesis unfolding rstrip_char_def by blast
qed

lemma rstrip_str_pos: "0 < m \<Longrightarrow> rstrip_char CHR ''0'' (str_pos m) \<noteq> []"
proof
  assume m: "0 < m" and e: "rstrip_char CHR ''0'' (str_pos m) = []"
  obtain k where "str_pos m = rstrip_char CHR ''0'' (str_pos m) @ replicate k CHR ''0''"
    using rstrip_zeros by blast
  with e str_pos_hd [OF m] show False by (cases k) auto
qed

lemma repr_parts_ok:
  assumes q: "0 < q" and d: "is_double q"
  shows "parts_ok (repr_parts q)" and "rnd (parts_value (repr_parts q)) = Fin q"
proof -
  obtain m e where me: "find_short q (flog10 q) 1 16 = (m, e)" by (cases "find_short q (flog10 q) 1 16")
  have m: "0 < m" by (rule find_short_pos [OF q d me])
  have r: "rnd (of_int m * pow10 e) = Fin q" by (rule find_short_ok [OF q d _ me]) simp
  let ?ds = "str_pos m" and ?t = "rstrip_char CHR ''0'' (str_pos m)"
  obtain k where k: "?ds = ?t @ replicate k CHR ''0''" using rstrip_zeros by blast
  have hd: "hd ?ds \<noteq> CHR ''0''" using m by (rule str_pos_hd)
  have "?t \<noteq> []" using m by (rule rstrip_str_pos)
  moreover have "all_digits ?t"
    using k str_pos_digits [of m] m by (auto simp: all_digits_def) (metis Un_iff set_append)
  moreover have "hd ?t \<noteq> CHR ''0''" using hd k \<open>?t \<noteq> []\<close> by (metis hd_append2)
  ultimately have t: "?t \<noteq> []" "all_digits ?t" "hd ?t \<noteq> CHR ''0''" by auto
  have rp: "repr_parts q = dec_parts ?t (e + int (length ?ds))"
    by (simp only: repr_parts_def me prod.case Let_def)
  show "parts_ok (repr_parts q)" unfolding rp by (rule dec_parts_ok(1) [OF t])
  have "m = digits_val ?t * 10 ^ k"
    using digits_val_append [of ?t "replicate k CHR ''0''"] k digits_val_str_pos [of m] m by simp
  moreover have "int (length ?ds) - int (length ?t) = int k"
    using arg_cong [OF k, of length] by simp
  ultimately have "of_int (digits_val ?t) * pow10 (e + int (length ?ds) - int (length ?t)) =
      of_int m * pow10 e"
    by (simp add: pow10_add pow10_of_nat add_diff_eq [symmetric] mult.commute)
      (metis mult.commute of_int_mult of_int_numeral of_int_power)
  with r show "rnd (parts_value (repr_parts q)) = Fin q"
    unfolding rp dec_parts_ok(2) [OF t] by simp
qed

end
