(* ===== verification/Py_Json.thy ===== *)
theory Py_Json
  imports Py_Repr
begin

text \<open>
  Python values as JSON has them, \<open>json.dumps(v, ensure_ascii=False, separators=...)\<close> and
  \<open>json.loads\<close>. A dictionary is an association list with distinct string keys. \<open>loads\<close>
  is \<open>None\<close> where Python raises; its recursion is bounded by a fuel that twice the length
  of the text covers.
\<close>

datatype pyval =
    PNone | PBool bool | PInt int | PFloat pyfloat | PStr string
  | PList "pyval list" | PDict "(string \<times> pyval) list"

subsection \<open>Printing\<close>

definition hex_digit :: "int \<Rightarrow> char" where
  "hex_digit n = (if n < 10 then char_of (48 + n) else char_of (87 + n))"

definition esc_char :: "char \<Rightarrow> string" where
  "esc_char c =
     (let n = (of_char c :: int) in
      if n = 34 then [CHR 0x5C, CHR 0x22]
      else if n = 92 then [CHR 0x5C, CHR 0x5C]
      else if n = 10 then [CHR 0x5C, CHR ''n'']
      else if n = 13 then [CHR 0x5C, CHR ''r'']
      else if n = 9 then [CHR 0x5C, CHR ''t'']
      else if n = 12 then [CHR 0x5C, CHR ''f'']
      else if n = 8 then [CHR 0x5C, CHR ''b'']
      else if n < 32
           then [CHR 0x5C, CHR ''u'', CHR ''0'', CHR ''0'', hex_digit (n div 16), hex_digit (n mod 16)]
      else [c])"

definition show_str :: "string \<Rightarrow> string" where
  "show_str s = CHR 0x22 # concat (map esc_char s) @ [CHR 0x22]"

fun json_float :: "pyfloat \<Rightarrow> string" where
  "json_float PInf = ''Infinity''"
| "json_float NInf = ''-Infinity''"
| "json_float NaN = ''NaN''"
| "json_float (Fin q) = repr_float (Fin q)"

fun dumps :: "string \<Rightarrow> string \<Rightarrow> pyval \<Rightarrow> string" where
  "dumps isep ksep PNone = ''null''"
| "dumps isep ksep (PBool b) = (if b then ''true'' else ''false'')"
| "dumps isep ksep (PInt i) = str_int i"
| "dumps isep ksep (PFloat x) = json_float x"
| "dumps isep ksep (PStr s) = show_str s"
| "dumps isep ksep (PList xs) = ''['' @ join isep (map (dumps isep ksep) xs) @ '']''"
| "dumps isep ksep (PDict d) =
     ''{'' @ join isep (map (\<lambda>(k, v). show_str k @ ksep @ dumps isep ksep v) d) @ ''}''"

text \<open>\<open>separators=(",", ":")\<close>, and the separators \<open>json.dumps\<close> uses by default.\<close>

definition dumps_compact :: "pyval \<Rightarrow> string" where
  "dumps_compact v = dumps '','' '':'' v"

definition dumps_default :: "pyval \<Rightarrow> string" where
  "dumps_default v = dumps '', '' '': '' v"

subsection \<open>Parsing\<close>

definition is_ws :: "char \<Rightarrow> bool" where
  "is_ws c = (c = CHR '' '' \<or> c = CHR 0x09 \<or> c = CHR 0x0A \<or> c = CHR 0x0D)"

definition skip_ws :: "string \<Rightarrow> string" where
  "skip_ws s = dropWhile is_ws s"

definition hex_val :: "char \<Rightarrow> int option" where
  "hex_val c =
     (let n = (of_char c :: int) in
      if 48 \<le> n \<and> n \<le> 57 then Some (n - 48)
      else if 97 \<le> n \<and> n \<le> 102 then Some (n - 87)
      else if 65 \<le> n \<and> n \<le> 70 then Some (n - 55) else None)"

fun parse_u4 :: "string \<Rightarrow> int option" where
  "parse_u4 (a # b # c # d # s) =
     (case (hex_val a, hex_val b, hex_val c, hex_val d) of
        (Some w, Some x, Some y, Some z) \<Rightarrow> Some (4096 * w + 256 * x + 16 * y + z)
      | _ \<Rightarrow> None)"
| "parse_u4 _ = None"

definition utf8 :: "int \<Rightarrow> string" where
  "utf8 n =
     (if n < 128 then [char_of n]
      else if n < 2048 then [char_of (192 + n div 64), char_of (128 + n mod 64)]
      else if n < 65536
           then [char_of (224 + n div 4096), char_of (128 + n div 64 mod 64), char_of (128 + n mod 64)]
      else [char_of (240 + n div 262144), char_of (128 + n div 4096 mod 64),
            char_of (128 + n div 64 mod 64), char_of (128 + n mod 64)])"

definition simple_esc :: "char \<Rightarrow> char option" where
  "simple_esc c =
     (if c = CHR 0x22 \<or> c = CHR 0x5C \<or> c = CHR 0x2F then Some c
      else if c = CHR ''b'' then Some (CHR 0x08)
      else if c = CHR ''f'' then Some (CHR 0x0C)
      else if c = CHR ''n'' then Some (CHR 0x0A)
      else if c = CHR ''r'' then Some (CHR 0x0D)
      else if c = CHR ''t'' then Some (CHR 0x09)
      else None)"

definition prepend :: "string \<Rightarrow> (string \<times> string) option \<Rightarrow> (string \<times> string) option" where
  "prepend x r = (case r of None \<Rightarrow> None | Some (s, t) \<Rightarrow> Some (x @ s, t))"

text \<open>The low half of a surrogate pair at the head of the text.\<close>

definition low_surrogate :: "string \<Rightarrow> int option" where
  "low_surrogate s =
     (case s of
        a # b # t \<Rightarrow>
          (if a = CHR 0x5C \<and> b = CHR ''u'' then
             (case parse_u4 t of
                Some n \<Rightarrow> (if 56320 \<le> n \<and> n \<le> 57343 then Some n else None)
              | None \<Rightarrow> None)
           else None)
      | _ \<Rightarrow> None)"

text \<open>The body of a string after its opening quote: the text and what follows the quote.\<close>

fun parse_str :: "string \<Rightarrow> (string \<times> string) option" where
  "parse_str [] = None"
| "parse_str (c # s) =
     (if c = CHR 0x22 then Some ([], s)
      else if c = CHR 0x5C then
        (case s of
           [] \<Rightarrow> None
         | e # t \<Rightarrow>
             (if e = CHR ''u'' then
                (case parse_u4 t of
                   None \<Rightarrow> None
                 | Some n \<Rightarrow>
                     (case (if 55296 \<le> n \<and> n \<le> 56319 then low_surrogate (drop 4 t) else None) of
                        Some m \<Rightarrow>
                          prepend (utf8 (65536 + (n - 55296) * 1024 + (m - 56320)))
                            (parse_str (drop 10 t))
                      | None \<Rightarrow> prepend (utf8 n) (parse_str (drop 4 t))))
              else (case simple_esc e of
                      None \<Rightarrow> None
                    | Some x \<Rightarrow> prepend [x] (parse_str t))))
      else if (of_char c :: int) < 32 then None
      else prepend [c] (parse_str s))"

definition json_frac :: "string \<Rightarrow> string option \<times> string" where
  "json_frac s = (case scan_frac s of (Some (d # ds), r) \<Rightarrow> (Some (d # ds), r) | _ \<Rightarrow> (None, s))"

definition json_int_part :: "string \<Rightarrow> string" where
  "json_int_part s =
     (case s of [] \<Rightarrow> [] | c # t \<Rightarrow> (if c = CHR ''0'' then ''0'' else takeWhile is_digit s))"

definition parse_number :: "string \<Rightarrow> (pyval \<times> string) option" where
  "parse_number s =
     (let neg = (case s of [] \<Rightarrow> False | c # _ \<Rightarrow> c = CHR ''-'');
          t = (if neg then tl s else s);
          ip = json_int_part t;
          (fp, r) = json_frac (drop (length ip) t);
          (ex, r') = scan_exp r
      in if ip = [] then None
         else if fp = None \<and> ex = None
              then Some (PInt (if neg then - digits_val ip else digits_val ip), r')
         else
           let q = dec_value ip (case fp of None \<Rightarrow> [] | Some f \<Rightarrow> f)
                     (case ex of None \<Rightarrow> 0 | Some e \<Rightarrow> e)
           in Some (PFloat (rnd (if neg then - q else q)), r'))"

definition parse_atom :: "string \<Rightarrow> (pyval \<times> string) option" where
  "parse_atom s =
     (if starts_with s ''null'' then Some (PNone, drop 4 s)
      else if starts_with s ''true'' then Some (PBool True, drop 4 s)
      else if starts_with s ''false'' then Some (PBool False, drop 5 s)
      else if starts_with s ''NaN'' then Some (PFloat NaN, drop 3 s)
      else if starts_with s ''Infinity'' then Some (PFloat PInf, drop 8 s)
      else if starts_with s ''-Infinity'' then Some (PFloat NInf, drop 9 s)
      else parse_number s)"

fun parse_value :: "nat \<Rightarrow> string \<Rightarrow> (pyval \<times> string) option"
  and parse_elems :: "nat \<Rightarrow> string \<Rightarrow> (pyval list \<times> string) option"
  and parse_members :: "nat \<Rightarrow> (string \<times> pyval) list \<Rightarrow> string \<Rightarrow>
    ((string \<times> pyval) list \<times> string) option"
where
  "parse_value 0 s = None"
| "parse_value (Suc f) s =
     (case s of
        [] \<Rightarrow> None
      | c # t \<Rightarrow>
          (if c = CHR 0x22 then map_option (\<lambda>(x, r). (PStr x, r)) (parse_str t)
           else if c = CHR ''{'' then
             (case skip_ws t of
                [] \<Rightarrow> None
              | d # r \<Rightarrow>
                  (if d = CHR ''}'' then Some (PDict [], r)
                   else map_option (\<lambda>(x, r). (PDict x, r)) (parse_members f [] (d # r))))
           else if c = CHR ''['' then
             (case skip_ws t of
                [] \<Rightarrow> None
              | d # r \<Rightarrow>
                  (if d = CHR '']'' then Some (PList [], r)
                   else map_option (\<lambda>(x, r). (PList x, r)) (parse_elems f (d # r))))
           else parse_atom s))"
| "parse_elems 0 s = None"
| "parse_elems (Suc f) s =
     (case parse_value f s of
        None \<Rightarrow> None
      | Some (v, r) \<Rightarrow>
          (case skip_ws r of
             [] \<Rightarrow> None
           | d # r' \<Rightarrow>
               (if d = CHR '','' then
                  map_option (\<lambda>(xs, u). (v # xs, u)) (parse_elems f (skip_ws r'))
                else if d = CHR '']'' then Some ([v], r') else None)))"
| "parse_members 0 acc s = None"
| "parse_members (Suc f) acc s =
     (case s of
        [] \<Rightarrow> None
      | q # t \<Rightarrow>
          (if q \<noteq> CHR 0x22 then None
           else case parse_str t of
                  None \<Rightarrow> None
                | Some (k, r) \<Rightarrow>
                    (case skip_ws r of
                       [] \<Rightarrow> None
                     | c # r1 \<Rightarrow>
                         (if c \<noteq> CHR '':'' then None
                          else case parse_value f (skip_ws r1) of
                                 None \<Rightarrow> None
                               | Some (v, r2) \<Rightarrow>
                                   (case skip_ws r2 of
                                      [] \<Rightarrow> None
                                    | d # r3 \<Rightarrow>
                                        (if d = CHR '','' then
                                           parse_members f (dset acc k v) (skip_ws r3)
                                         else if d = CHR ''}'' then Some (dset acc k v, r3)
                                         else None))))))"

definition loads :: "string \<Rightarrow> pyval option" where
  "loads s =
     (case parse_value (2 * length s + 2) (skip_ws s) of
        None \<Rightarrow> None
      | Some (v, r) \<Rightarrow> (if skip_ws r = [] then Some v else None))"

end
