(* ===== verification/Py_Json_Trip.thy ===== *)
theory Py_Json_Trip
  imports Py_Json
begin

text \<open>
  What \<open>json.dumps\<close> prints, \<open>json.loads\<close> reads back: strings with every escape,
  integers, finite doubles through their shortest decimal, nested lists and dictionaries.
\<close>

subsection \<open>Strings\<close>

lemma parse_str_prepend: "parse_str s = Some (x, r) \<Longrightarrow> prepend [c] (parse_str s) = Some (c # x, r)"
  by (simp add: prepend_def)

lemma char_range: "0 \<le> (of_char c :: int)" "(of_char c :: int) < 256"
  by (cases c; simp add: of_char_def)+

lemma of_char_eq: "(of_char c :: int) = of_char d \<longleftrightarrow> c = d"
  by simp

lemma hex_val_digit: "0 \<le> n \<Longrightarrow> n < 16 \<Longrightarrow> hex_val (hex_digit n) = Some n"
  by (auto simp: hex_val_def hex_digit_def Let_def take_bit_int_eq_self)

lemma parse_str_u00:
  assumes "0 \<le> n" "n < 128"
  shows "parse_str (CHR 0x5C # CHR ''u'' # CHR ''0'' # CHR ''0'' # hex_digit (n div 16) #
    hex_digit (n mod 16) # t) = prepend [char_of n] (parse_str t)"
proof -
  have "hex_val (CHR ''0'') = Some 0" by (simp add: hex_val_def)
  moreover have "hex_val (hex_digit (n div 16)) = Some (n div 16)"
    by (rule hex_val_digit) (use assms in auto)
  moreover have "hex_val (hex_digit (n mod 16)) = Some (n mod 16)"
    by (rule hex_val_digit) auto
  moreover have "16 * (n div 16) + n mod 16 = n" by simp
  ultimately have "parse_u4 (CHR ''0'' # CHR ''0'' # hex_digit (n div 16) # hex_digit (n mod 16) # t) = Some n"
    by simp
  then show ?thesis using assms by (simp add: utf8_def)
qed

lemma simple_esc_simps:
  "simple_esc CHR 0x22 = Some (CHR 0x22)" "simple_esc CHR 0x5C = Some (CHR 0x5C)"
  "simple_esc CHR ''n'' = Some (CHR 0x0A)" "simple_esc CHR ''r'' = Some (CHR 0x0D)"
  "simple_esc CHR ''t'' = Some (CHR 0x09)" "simple_esc CHR ''f'' = Some (CHR 0x0C)"
  "simple_esc CHR ''b'' = Some (CHR 0x08)"
  by (simp_all add: simple_esc_def)

lemma of_char_is:
  "(of_char c :: int) = 34 \<longleftrightarrow> c = CHR 0x22" "(of_char c :: int) = 92 \<longleftrightarrow> c = CHR 0x5C"
  "(of_char c :: int) = 10 \<longleftrightarrow> c = CHR 0x0A" "(of_char c :: int) = 13 \<longleftrightarrow> c = CHR 0x0D"
  "(of_char c :: int) = 9 \<longleftrightarrow> c = CHR 0x09" "(of_char c :: int) = 12 \<longleftrightarrow> c = CHR 0x0C"
  "(of_char c :: int) = 8 \<longleftrightarrow> c = CHR 0x08"
  using of_char_eq [of c "CHR 0x22"] of_char_eq [of c "CHR 0x5C"] of_char_eq [of c "CHR 0x0A"]
    of_char_eq [of c "CHR 0x0D"] of_char_eq [of c "CHR 0x09"] of_char_eq [of c "CHR 0x0C"]
    of_char_eq [of c "CHR 0x08"]
  by simp_all

lemma parse_str_esc: "parse_str (esc_char c @ t) = prepend [c] (parse_str t)"
proof -
  let ?n = "of_char c :: int"
  consider "?n = 34" | "?n = 92" | "?n = 10" | "?n = 13" | "?n = 9" | "?n = 12" | "?n = 8"
    | "?n < 32" "?n \<notin> {34, 92, 10, 13, 9, 12, 8}" | "32 \<le> ?n" "?n \<notin> {34, 92}"
    by fastforce
  then show ?thesis
  proof cases
    case 8
    then have "esc_char c @ t = CHR 0x5C # CHR ''u'' # CHR ''0'' # CHR ''0'' #
        hex_digit (?n div 16) # hex_digit (?n mod 16) # t"
      by (simp add: esc_char_def Let_def)
    with parse_str_u00 [of ?n t] 8 char_range [of c] show ?thesis by simp
  next
    case 9
    then have "esc_char c = [c]" by (simp add: esc_char_def Let_def)
    moreover have "c \<noteq> CHR 0x22" "c \<noteq> CHR 0x5C" using 9 by auto
    ultimately show ?thesis using 9 by simp
  qed (simp_all add: of_char_is, simp_all add: esc_char_def Let_def simple_esc_simps)
qed

lemma parse_str_show: "parse_str (concat (map esc_char s) @ CHR 0x22 # r) = Some (s, r)"
  by (induction s) (simp_all add: parse_str_esc prepend_def)

subsection \<open>Numbers\<close>

lemma parts_int_part:
  assumes "parts_ok (ip, fp, ex)" and "num_end r"
  shows "json_int_part (show_dec (ip, fp, ex) @ r) = ip"
proof -
  have tw: "takeWhile is_digit (show_dec (ip, fp, ex) @ r) = ip" by (rule scan_show_dec(1) [OF assms])
  obtain c cs where c: "ip = c # cs" using assms(1) by (cases ip) (auto simp: parts_ok_def)
  then have s: "show_dec (ip, fp, ex) @ r = c # (cs @ drop (length ip) (show_dec (ip, fp, ex) @ r))"
    by (simp add: show_dec_def)
  show ?thesis
  proof (cases "c = CHR ''0''")
    case True
    with assms(1) c have "cs = []" by (auto simp: parts_ok_def)
    with True c s show ?thesis by (simp add: json_int_part_def)
  next
    case False
    with s tw show ?thesis by (simp add: json_int_part_def)
  qed
qed

lemma parse_number_parts:
  assumes ok: "parts_ok (ip, fp, ex)" and fl: "fp \<noteq> [] \<or> ex \<noteq> None" and r: "num_end r"
  shows "parse_number ((if neg then ''-'' else []) @ show_dec (ip, fp, ex) @ r) =
    Some (PFloat (rnd (if neg then - parts_value (ip, fp, ex) else parts_value (ip, fp, ex))), r)"
proof -
  let ?t = "show_dec (ip, fp, ex) @ r" and ?s = "(if neg then ''-'' else []) @ show_dec (ip, fp, ex) @ r"
  obtain c cs where c: "ip = c # cs" "is_digit c" using ok by (cases ip) (auto simp: parts_ok_def)
  then have "c \<noteq> CHR ''-''" by auto
  then have neg: "(case ?s of [] \<Rightarrow> False | c # _ \<Rightarrow> c = CHR ''-'') = neg"
    by (cases neg) (simp_all add: c(1) show_dec_def)
  have t: "(if neg then tl ?s else ?s) = ?t" by simp
  have ip: "json_int_part ?t = ip" by (rule parts_int_part [OF ok r])
  have dr: "drop (length ip) ?t = dropWhile is_digit ?t"
    using scan_show_dec(1) [OF ok r] by (metis dropWhile_eq_drop)
  have "json_frac (dropWhile is_digit ?t) = (if fp = [] then None else Some fp, show_exp ex @ r)"
    using scan_show_dec(2) [OF ok r]
  proof (cases "fp = []")
    case True
    with r have "dropWhile is_digit ?t = show_exp ex @ r"
      using ok takeWhile_digits [of ip "show_exp ex @ r"] show_exp_end [OF r, of ex]
      by (simp add: show_dec_def parts_ok_def all_digits_def)
    with True scan_show_dec(2) [OF ok r] show ?thesis by (simp only: json_frac_def) simp
  next
    case False
    then obtain d ds where "fp = d # ds" by (cases fp) auto
    with scan_show_dec(2) [OF ok r] show ?thesis by (simp add: json_frac_def)
  qed
  then have fr: "json_frac (drop (length ip) ?t) = (if fp = [] then None else Some fp, show_exp ex @ r)"
    by (simp only: dr)
  show ?thesis
    using fl unfolding parse_number_def neg t Let_def ip fr prod.case scan_exp_show [OF r]
    by (auto simp: c(1) parts_value_def split: option.splits)
qed


lemma repr_parts_float:
  assumes q: "0 < q" and d: "is_double q" and p: "repr_parts q = (ip, fp, ex)"
  shows "fp \<noteq> [] \<or> ex \<noteq> None"
proof -
  obtain m e where me: "find_short q (flog10 q) 1 16 = (m, e)" by (cases "find_short q (flog10 q) 1 16")
  have m: "0 < m" by (rule find_short_pos [OF q d me])
  let ?ds = "rstrip_char CHR ''0'' (str_pos m)"
  have "dec_parts ?ds (e + int (length (str_pos m))) = (ip, fp, ex)"
    using p by (simp only: repr_parts_def me prod.case Let_def)
  with rstrip_str_pos [OF m] show ?thesis
    by (cases "fp = []") (auto simp: dec_parts_def split: if_splits)
qed

lemma parse_number_float:
  assumes d: "is_double q" and r: "num_end r"
  shows "parse_number (json_float (Fin q) @ r) = Some (PFloat (Fin q), r)"
proof -
  consider "q = 0" | "0 < q" | "q < 0" by linarith
  then show ?thesis
  proof cases
    case 1
    have "parts_ok (''0'', ''0'', None)" by (simp add: parts_ok_def)
    from parse_number_parts [OF this _ r, of False] 1 show ?thesis
      by (simp add: show_dec_def show_exp_def parts_value_def dec_value_def digits_val_def digit_val_def)
  next
    case 2
    obtain ip fp ex where p: "repr_parts q = (ip, fp, ex)" by (cases "repr_parts q")
    with parse_number_parts [of ip fp ex r False] repr_parts_ok [OF 2 d] repr_parts_float [OF 2 d p] r 2
    show ?thesis by (simp add: repr_pos_def)
  next
    case 3
    then have m: "0 < - q" and dm: "is_double (- q)" using d by (simp_all add: is_double_iff)
    obtain ip fp ex where p: "repr_parts (- q) = (ip, fp, ex)" by (cases "repr_parts (- q)")
    have "rnd (- parts_value (ip, fp, ex)) = Fin q"
      using repr_parts_ok(2) [OF m dm] p d
      by (auto simp: rnd_alt is_double_iff split: if_splits)
    with parse_number_parts [of ip fp ex r True] repr_parts_ok(1) [OF m dm] repr_parts_float [OF m dm p]
      r 3 p
    show ?thesis by (simp add: repr_pos_def)
  qed
qed

lemma str_pos_0: "str_pos 0 = ''0''"
  by code_simp

lemma json_int_part_str_pos:
  assumes "0 \<le> n" and r: "num_end r"
  shows "json_int_part (str_pos n @ r) = str_pos n"
proof (cases "n = 0")
  case True
  then show ?thesis by (simp add: str_pos_0 json_int_part_def)
next
  case False
  with assms have "hd (str_pos n) \<noteq> CHR ''0''" by (intro str_pos_hd) simp
  moreover have "takeWhile is_digit (str_pos n @ r) = str_pos n"
    using takeWhile_digits [of "str_pos n" r] str_pos_digits [OF assms(1)] r
    by (auto simp: all_digits_def num_end_def)
  ultimately show ?thesis
    by (cases "str_pos n") (auto simp: json_int_part_def)
qed

lemma json_frac_end: "num_end r \<Longrightarrow> json_frac r = (None, r)"
  by (cases r) (auto simp: json_frac_def scan_frac_def num_end_def)

lemma scan_exp_end: "num_end r \<Longrightarrow> scan_exp r = (None, r)"
  by (cases r) (auto simp: scan_exp_def num_end_def)

lemma parse_number_int:
  assumes r: "num_end r"
  shows "parse_number (str_int i @ r) = Some (PInt i, r)"
proof -
  have st: "str_int i = (if i < 0 then ''-'' else []) @ str_pos \<bar>i\<bar>" by (simp add: str_int_def)
  have "hd (str_pos \<bar>i\<bar>) \<noteq> CHR ''-''"
    using str_pos_digits [of "\<bar>i\<bar>"] hd_in_set [of "str_pos \<bar>i\<bar>"] by fastforce
  then have neg: "(case str_int i @ r of [] \<Rightarrow> False | c # _ \<Rightarrow> c = CHR ''-'') = (i < 0)"
    by (cases "str_pos \<bar>i\<bar>") (auto simp: st)
  have t: "(if i < 0 then tl (str_int i @ r) else str_int i @ r) = str_pos \<bar>i\<bar> @ r"
    by (simp add: st)
  show ?thesis
    unfolding parse_number_def neg t Let_def
    by (simp add: json_int_part_str_pos [OF _ r] json_frac_end [OF r] scan_exp_end [OF r])
qed

text \<open>A number starts with a digit or a minus sign before a digit, so no keyword matches.\<close>

lemma parse_atom_number:
  assumes "s = (if neg then ''-'' else []) @ c # t" and "is_digit c"
  shows "parse_atom s = parse_number s"
proof -
  have "c \<noteq> CHR ''n''" "c \<noteq> CHR ''t''" "c \<noteq> CHR ''f''" "c \<noteq> CHR ''N''" "c \<noteq> CHR ''I''"
    "c \<noteq> CHR ''-''"
    using assms(2) by (auto simp: is_digit_def)
  with assms show ?thesis by (cases neg) (simp_all add: parse_atom_def)
qed

lemma str_int_start: "\<exists>neg c t. str_int i = (if neg then ''-'' else []) @ c # t \<and> is_digit c"
proof -
  obtain c t where "str_pos \<bar>i\<bar> = c # t" by (cases "str_pos \<bar>i\<bar>") auto
  moreover have "is_digit c" using str_pos_digits [of "\<bar>i\<bar>"] calculation by simp
  ultimately show ?thesis by (intro exI [of _ "i < 0"]) (auto simp: str_int_def)
qed

lemma repr_float_start:
  assumes "is_double q"
  shows "\<exists>neg c t. repr_float (Fin q) = (if neg then ''-'' else []) @ c # t \<and> is_digit c"
proof -
  have pos: "\<exists>c t. repr_pos p = c # t \<and> is_digit c" if "0 < p" "is_double p" for p
  proof -
    obtain ip fp ex where p: "repr_parts p = (ip, fp, ex)" by (cases "repr_parts p")
    with repr_parts_ok(1) [OF that] show ?thesis
      by (cases ip) (auto simp: repr_pos_def parts_ok_def show_dec_def)
  qed
  consider "q = 0" | "0 < q" | "q < 0" by linarith
  then show ?thesis
  proof cases
    case 1
    then show ?thesis by (intro exI [of _ False]) auto
  next
    case 2
    with pos assms show ?thesis by (intro exI [of _ False]) auto
  next
    case 3
    with assms pos [of "- q"] show ?thesis
      by (intro exI [of _ True]) (auto simp: is_double_iff)
  qed
qed

subsection \<open>Values\<close>

fun json_ok :: "pyval \<Rightarrow> bool" where
  "json_ok (PFloat (Fin q)) = is_double q"
| "json_ok (PList xs) = (\<forall>x \<in> set xs. json_ok x)"
| "json_ok (PDict d) = (dict_ok d \<and> (\<forall>(k, v) \<in> set d. json_ok v))"
| "json_ok _ = True"

lemma parse_value_atom:
  assumes "parse_atom s = Some (v, r)" and "s = c # t"
    and "c \<noteq> CHR 0x22" and "c \<noteq> CHR ''{''" and "c \<noteq> CHR ''[''" and "0 < f"
  shows "parse_value f s = Some (v, r)"
  using assms by (cases f) simp_all

lemma parse_value_number:
  assumes s: "x = (if neg then ''-'' else []) @ c # t" "is_digit c"
    and p: "parse_number (x @ r) = Some (v, r')" and f: "0 < f"
  shows "parse_value f (x @ r) = Some (v, r')"
proof -
  have "parse_atom (x @ r) = Some (v, r')"
    using parse_atom_number [of "x @ r" neg c "t @ r"] s p by simp
  moreover have "c \<noteq> CHR 0x22" "c \<noteq> CHR ''{''" "c \<noteq> CHR ''[''" using s(2) by (auto simp: is_digit_def)
  ultimately show ?thesis using s(1) f by (cases f; cases neg) simp_all
qed

lemma parse_value_int:
  assumes "num_end r" and "0 < f"
  shows "parse_value f (str_int i @ r) = Some (PInt i, r)"
proof -
  obtain neg c t where "str_int i = (if neg then ''-'' else []) @ c # t" "is_digit c"
    using str_int_start by blast
  then show ?thesis by (rule parse_value_number [OF _ _ parse_number_int [OF assms(1)] assms(2)])
qed

lemma parse_value_float:
  assumes "json_ok (PFloat x)" and "num_end r" and "0 < f"
  shows "parse_value f (json_float x @ r) = Some (PFloat x, r)"
proof (cases x)
  case (Fin q)
  with assms(1) have d: "is_double q" by simp
  then obtain neg c t where "json_float (Fin q) = (if neg then ''-'' else []) @ c # t" "is_digit c"
    using repr_float_start [OF d] by (simp only: json_float.simps) blast
  then have "parse_value f (json_float (Fin q) @ r) = Some (PFloat (Fin q), r)"
    by (rule parse_value_number [OF _ _ parse_number_float [OF d assms(2)] assms(3)])
  then show ?thesis by (simp only: Fin)
qed (use assms(3) in \<open>cases f; simp add: parse_atom_def\<close>)+

text \<open>The first character of a printed value is no white space and closes no bracket.\<close>

lemma dumps_start:
  assumes "json_ok v"
  shows "\<exists>c t. dumps isep ksep v = c # t \<and> \<not> is_ws c \<and> c \<noteq> CHR '']''"
proof -
  have num: "\<exists>c' t'. (if neg then ''-'' else []) @ c # t = c' # t' \<and> \<not> is_ws c' \<and> c' \<noteq> CHR '']''"
    if "is_digit c" for neg c t
    using that by (cases neg) (auto simp: is_ws_def is_digit_def)
  show ?thesis
  proof (cases v)
    case (PInt i)
    then show ?thesis using str_int_start [of i] num by (metis dumps.simps(3))
  next
    case (PFloat x)
    show ?thesis
    proof (cases x)
      case (Fin q)
      with PFloat assms have "is_double q" by simp
      from repr_float_start [OF this] num show ?thesis
        unfolding PFloat Fin dumps.simps json_float.simps by metis
    qed (auto simp: PFloat is_ws_def)
  qed (auto simp: is_ws_def show_str_def)
qed

definition ws_only :: "string \<Rightarrow> bool" where
  "ws_only w = (\<forall>c \<in> set w. is_ws c)"

lemma skip_ws_app: "ws_only w \<Longrightarrow> skip_ws (w @ s) = skip_ws s"
  by (induction w) (auto simp: ws_only_def skip_ws_def)

lemma skip_ws_Cons [simp]: "\<not> is_ws c \<Longrightarrow> skip_ws (c # s) = c # s"
  by (simp add: skip_ws_def)

lemma is_ws_consts [simp]:
  "\<not> is_ws CHR '',''" "\<not> is_ws CHR '':''" "\<not> is_ws CHR ''}''" "\<not> is_ws CHR '']''" "\<not> is_ws CHR 0x22"
  by (simp_all add: is_ws_def)

lemma num_end_consts [simp]:
  "num_end []" "num_end (CHR '','' # s)" "num_end (CHR '']'' # s)" "num_end (CHR ''}'' # s)"
  by (simp_all add: num_end_def is_digit_def)

lemma join_Cons: "xs \<noteq> [] \<Longrightarrow> join sep (x # xs) = x @ sep @ join sep xs"
  by (cases xs) auto


lemma num_end_ws:
  assumes "ws_only w" and "num_end r"
  shows "num_end (w @ r)"
proof (cases w)
  case (Cons c t)
  with assms(1) have "c \<in> {CHR '' '', CHR 0x09, CHR 0x0A, CHR 0x0D}" by (simp add: ws_only_def is_ws_def)
  then show ?thesis unfolding Cons by (elim insertE emptyE) (simp_all add: num_end_def is_digit_def)
qed (simp add: assms)

text \<open>
  A text is a print of a value when, followed by text that cannot continue a number, it parses to
  the value and that text, with the length of the print as fuel.
\<close>

definition printed :: "string \<Rightarrow> pyval \<Rightarrow> bool" where
  "printed s v =
     ((\<exists>c t. s = c # t \<and> \<not> is_ws c \<and> c \<noteq> CHR '']'') \<and>
      (\<forall>f r. num_end r \<longrightarrow> length s \<le> f \<longrightarrow> parse_value f (s @ r) = Some (v, r)))"

lemma printedD: "printed s v \<Longrightarrow> num_end r \<Longrightarrow> length s \<le> f \<Longrightarrow> parse_value f (s @ r) = Some (v, r)"
  by (simp add: printed_def)

lemma printed_start: "printed s v \<Longrightarrow> \<exists>c t. s = c # t \<and> \<not> is_ws c \<and> c \<noteq> CHR '']''"
  by (simp add: printed_def)

lemma skip_ws_printed: "printed s v \<Longrightarrow> skip_ws (s @ r) = s @ r"
  using printed_start [of s v] by auto

lemma printed_length: "printed s v \<Longrightarrow> 0 < length s"
  using printed_start [of s v] by auto

lemma parse_elems_printed:
  assumes w: "ws_only w" and e: "ws_only e"
  shows "xs \<noteq> [] \<Longrightarrow> \<forall>x \<in> set xs. printed (P x) x \<Longrightarrow> length (join (CHR '','' # w) (map P xs)) < f \<Longrightarrow>
    parse_elems f (join (CHR '','' # w) (map P xs) @ e @ CHR '']'' # r) = Some (xs, r)"
proof (induction xs arbitrary: f)
  case Nil
  then show ?case by simp
next
  case (Cons x xs)
  from Cons.prems(3) obtain g where f: "f = Suc g" by (cases f) auto
  have x: "printed (P x) x" using Cons.prems(2) by simp
  have end_e: "num_end (e @ CHR '']'' # r)" by (simp add: num_end_ws [OF e])
  show ?case
  proof (cases "xs = []")
    case True
    with Cons.prems(3) f have "parse_value g (P x @ e @ CHR '']'' # r) = Some (x, e @ CHR '']'' # r)"
      by (intro printedD [OF x end_e]) simp_all
    with True f show ?thesis by (simp add: skip_ws_app [OF e])
  next
    case False
    let ?j = "join (CHR '','' # w) (map P xs)"
    have j: "join (CHR '','' # w) (map P (x # xs)) = P x @ CHR '','' # w @ ?j"
      using False by (simp add: join_Cons)
    have len: "length (P x) \<le> g" "length ?j < g"
      using Cons.prems(3) printed_length [OF x] unfolding j f by simp_all
    have "parse_value g (P x @ CHR '','' # w @ ?j @ e @ CHR '']'' # r) =
        Some (x, CHR '','' # w @ ?j @ e @ CHR '']'' # r)"
      using len by (intro printedD [OF x]) simp_all
    moreover have "skip_ws (w @ ?j @ e @ CHR '']'' # r) = ?j @ e @ CHR '']'' # r"
    proof -
      obtain y ys where xs: "xs = y # ys" using False by (cases xs) auto
      then have "printed (P y) y" using Cons.prems(2) by simp
      then show ?thesis
        using skip_ws_printed [of "P y" y] skip_ws_app [OF w] by (cases ys) (simp_all add: xs)
    qed
    moreover have "parse_elems g (?j @ e @ CHR '']'' # r) = Some (xs, r)"
      using Cons.prems(2) len(2) by (intro Cons.IH [OF False]) auto
    ultimately show ?thesis unfolding j f by simp
  qed
qed

lemma dset_new: "k \<notin> fst ` set acc \<Longrightarrow> AList.update k v acc = acc @ [(k, v)]"
  by (induction acc) auto

definition show_member :: "string \<Rightarrow> (pyval \<Rightarrow> string) \<Rightarrow> string \<times> pyval \<Rightarrow> string" where
  "show_member ksep P p = show_str (fst p) @ ksep @ P (snd p)"

lemma parse_members_printed:
  assumes w: "ws_only w" and w': "ws_only w'" and e: "ws_only e"
  defines "isep \<equiv> CHR '','' # w" and "ksep \<equiv> CHR '':'' # w'"
  shows "kvs \<noteq> [] \<Longrightarrow> \<forall>p \<in> set kvs. printed (P (snd p)) (snd p) \<Longrightarrow> dict_ok (acc @ kvs) \<Longrightarrow>
    length (join isep (map (show_member ksep P) kvs)) < f \<Longrightarrow>
    parse_members f acc (join isep (map (show_member ksep P) kvs) @ e @ CHR ''}'' # r) =
      Some (acc @ kvs, r)"
proof (induction kvs arbitrary: f acc)
  case Nil
  then show ?case by simp
next
  case (Cons p kvs)
  obtain k v where p: "p = (k, v)" by (cases p)
  from Cons.prems(4) obtain g where f: "f = Suc g" by (cases f) auto
  have v: "printed (P v) v" using Cons.prems(2) p by auto
  have acc: "AList.update k v acc = acc @ [(k, v)]"
    using Cons.prems(3) by (intro dset_new) (auto simp: p dict_ok_def)
  have m: "show_member ksep P (k, v) = CHR 0x22 # concat (map esc_char k) @ CHR 0x22 # CHR '':'' # w' @ P v"
    by (simp add: show_member_def show_str_def ksep_def)
  have key: "parse_str (concat (map esc_char k) @ CHR 0x22 # s) = Some (k, s)" for s
    by (rule parse_str_show)
  have val: "skip_ws (w' @ P v @ s) = P v @ s" for s
    using skip_ws_app [OF w'] skip_ws_printed [OF v] by simp
  have end_e: "num_end (e @ CHR ''}'' # r)" by (simp add: num_end_ws [OF e])
  show ?case
  proof (cases "kvs = []")
    case True
    with Cons.prems(4) f have "parse_value g (P v @ e @ CHR ''}'' # r) = Some (v, e @ CHR ''}'' # r)"
      by (intro printedD [OF v end_e]) (simp_all add: m p)
    with True show ?thesis
      unfolding True list.map join.simps p m f by (simp add: key val acc skip_ws_app [OF e])
  next
    case False
    let ?j = "join isep (map (show_member ksep P) kvs)"
    have j: "join isep (map (show_member ksep P) (p # kvs)) = show_member ksep P (k, v) @ CHR '','' # w @ ?j"
      using False by (simp add: join_Cons isep_def p)
    have len: "length (P v) \<le> g" "length ?j < g"
      using Cons.prems(4) printed_length [OF v] unfolding j f m by simp_all
    have "parse_value g (P v @ CHR '','' # w @ ?j @ e @ CHR ''}'' # r) =
        Some (v, CHR '','' # w @ ?j @ e @ CHR ''}'' # r)"
      using len by (intro printedD [OF v]) simp_all
    moreover have "skip_ws (w @ ?j @ e @ CHR ''}'' # r) = ?j @ e @ CHR ''}'' # r"
    proof -
      obtain y ys where kvs: "kvs = y # ys" using False by (cases kvs) auto
      then show ?thesis
        using skip_ws_app [OF w] by (cases ys) (simp_all add: show_member_def show_str_def)
    qed
    moreover have "parse_members g (acc @ [(k, v)]) (?j @ e @ CHR ''}'' # r) = Some ((acc @ [(k, v)]) @ kvs, r)"
      using Cons.prems(2,3) len(2) by (intro Cons.IH [OF False]) (auto simp: p)
    ultimately show ?thesis unfolding j f m by (simp add: key val acc p)
  qed
qed

text \<open>How prints are put together: white space is allowed after the opening and before the closing bracket.\<close>

lemma printed_list:
  assumes o: "ws_only b" and w: "ws_only w" and e: "ws_only e" and ok: "\<forall>x \<in> set xs. printed (P x) x"
  shows "xs \<noteq> [] \<Longrightarrow> printed (''['' @ b @ join (CHR '','' # w) (map P xs) @ e @ '']'') (PList xs)"
    and "printed ''[]'' (PList [])"
proof -
  let ?j = "join (CHR '','' # w) (map P xs)"
  show "printed ''[]'' (PList [])" by (auto simp: printed_def is_ws_def dest!: Suc_le_D)
  show "printed (''['' @ b @ ?j @ e @ '']'') (PList xs)" if ne: "xs \<noteq> []"
    unfolding printed_def
  proof (intro conjI allI impI)
    fix f r
    assume r: "num_end r" and len: "length (''['' @ b @ ?j @ e @ '']'') \<le> f"
    then obtain g where f: "f = Suc g" and g: "length ?j < g" by (cases f) auto
    from ne obtain x ys where xs: "xs = x # ys" by (cases xs) auto
    then have "printed (P x) x" using ok by simp
    from printed_start [OF this] obtain c t where c: "P x = c # t" "\<not> is_ws c" "c \<noteq> CHR '']''" by blast
    then obtain u where u: "?j @ e @ CHR '']'' # r = c # u" by (cases ys) (auto simp: xs)
    have "skip_ws (b @ ?j @ e @ CHR '']'' # r) = c # u"
      using skip_ws_app [OF o] u c(2) by simp
    with parse_elems_printed [OF w e ne ok g, of r] c f u
    show "parse_value f ((''['' @ b @ ?j @ e @ '']'') @ r) = Some (PList xs, r)" by simp
  qed (auto simp: is_ws_def)
qed

lemma printed_dict:
  assumes o: "ws_only b" and w: "ws_only w" and w': "ws_only w'" and e: "ws_only e"
    and ok: "\<forall>p \<in> set d. printed (P (snd p)) (snd p)" and dist: "dict_ok d"
  shows "d \<noteq> [] \<Longrightarrow>
      printed (''{'' @ b @ join (CHR '','' # w) (map (show_member (CHR '':'' # w') P) d) @ e @ ''}'') (PDict d)"
    and "printed ''{}'' (PDict [])"
proof -
  let ?j = "join (CHR '','' # w) (map (show_member (CHR '':'' # w') P) d)"
  show "printed ''{}'' (PDict [])" by (auto simp: printed_def is_ws_def dest!: Suc_le_D)
  show "printed (''{'' @ b @ ?j @ e @ ''}'') (PDict d)" if ne: "d \<noteq> []"
    unfolding printed_def
  proof (intro conjI allI impI)
    fix f r
    assume r: "num_end r" and len: "length (''{'' @ b @ ?j @ e @ ''}'') \<le> f"
    then obtain g where f: "f = Suc g" and g: "length ?j < g" by (cases f) auto
    from ne obtain p ps where d: "d = p # ps" by (cases d) auto
    then obtain u where u: "?j @ e @ CHR ''}'' # r = CHR 0x22 # u"
      by (cases ps) (auto simp: show_member_def show_str_def)
    have "skip_ws (b @ ?j @ e @ CHR ''}'' # r) = CHR 0x22 # u"
      using skip_ws_app [OF o] u by simp
    moreover have "parse_members g [] (CHR 0x22 # u) = Some (d, r)"
      using parse_members_printed [OF w w' e ne ok _ g, of "[]" r] dist by (simp add: u)
    ultimately show "parse_value f ((''{'' @ b @ ?j @ e @ ''}'') @ r) = Some (PDict d, r)"
      using f by simp
  qed (auto simp: is_ws_def)
qed

text \<open>The values that are no containers are printed the same whatever the separators.\<close>

definition is_atom :: "pyval \<Rightarrow> bool" where
  "is_atom v = (case v of PList _ \<Rightarrow> False | PDict _ \<Rightarrow> False | _ \<Rightarrow> True)"

lemma printed_atom:
  assumes atom: "is_atom v" and ok: "json_ok v"
  shows "printed (dumps isep ksep v) v"
proof -
  from dumps_start [OF ok, of isep ksep] have start: "\<exists>c t. dumps isep ksep v = c # t \<and> \<not> is_ws c \<and> c \<noteq> CHR '']''" .
  have "parse_value f (dumps isep ksep v @ r) = Some (v, r)"
    if r: "num_end r" and len: "length (dumps isep ksep v) \<le> f" for f r
  proof -
    have f: "0 < f" using start len by auto
    show ?thesis
    proof (cases v)
      case PNone
      with f show ?thesis by (auto simp: parse_atom_def gr0_conv_Suc)
    next
      case (PBool b)
      with f show ?thesis by (auto simp: parse_atom_def gr0_conv_Suc)
    next
      case (PInt i)
      with parse_value_int [OF r f] show ?thesis by simp
    next
      case (PFloat x)
      with ok parse_value_float [OF _ r f] show ?thesis by simp
    next
      case (PStr s)
      with f show ?thesis by (auto simp: show_str_def parse_str_show gr0_conv_Suc)
    qed (use atom in \<open>simp_all add: is_atom_def\<close>)
  qed
  with start show ?thesis by (simp add: printed_def)
qed

lemma printed_dumps:
  assumes w: "ws_only w" and w': "ws_only w'"
  shows "json_ok v \<Longrightarrow> printed (dumps (CHR '','' # w) (CHR '':'' # w') v) v"
proof (induction v)
  case (PList xs)
  have nil: "ws_only []" by (simp add: ws_only_def)
  show ?case
    using printed_list [OF nil w nil, of xs "dumps (CHR '','' # w) (CHR '':'' # w')"] PList
    by (cases "xs = []") auto
next
  case (PDict d)
  have nil: "ws_only []" by (simp add: ws_only_def)
  have "\<forall>p \<in> set d. printed (dumps (CHR '','' # w) (CHR '':'' # w') (snd p)) (snd p)" "dict_ok d"
    using PDict by (auto simp: snds.simps)
  then show ?case
    using printed_dict [OF nil w w' nil, of d "dumps (CHR '','' # w) (CHR '':'' # w')"]
    by (cases "d = []") (auto simp: show_member_def [abs_def] case_prod_unfold)
qed (rule printed_atom; simp add: is_atom_def)+

lemma loads_printed: "printed s v \<Longrightarrow> loads s = Some v"
proof -
  assume p: "printed s v"
  have "parse_value (2 * length s + 2) (s @ []) = Some (v, [])" by (rule printedD [OF p]) simp_all
  moreover have "skip_ws s = s" using skip_ws_printed [OF p, of "[]"] by simp
  ultimately show ?thesis by (simp add: loads_def skip_ws_def)
qed

lemma loads_dumps:
  assumes "ws_only w" and "ws_only w'" and ok: "json_ok v"
  shows "loads (dumps (CHR '','' # w) (CHR '':'' # w') v) = Some v"
  by (rule loads_printed [OF printed_dumps [OF assms]])

lemma loads_dumps_compact [simp]: "json_ok v \<Longrightarrow> loads (dumps_compact v) = Some v"
  using loads_dumps [of "[]" "[]" v] by (simp add: dumps_compact_def ws_only_def)

lemma loads_dumps_default [simp]: "json_ok v \<Longrightarrow> loads (dumps_default v) = Some v"
  using loads_dumps [of "'' ''" "'' ''" v] by (simp add: dumps_default_def ws_only_def is_ws_def)

subsection \<open>Lines\<close>

text \<open>A printed value has no line break.\<close>

abbreviation newline :: char where
  "newline \<equiv> CHR 0x0A"

lemma hex_digit_no_newline:
  assumes "0 \<le> n" and "n < 16"
  shows "newline \<noteq> hex_digit n"
proof
  assume "newline = hex_digit n"
  then have "(of_char (hex_digit n) :: int) = 10" by (metis of_char_is(3))
  then show False using assms by (auto simp: hex_digit_def take_bit_eq_mod split: if_splits)
qed

lemma esc_char_no_newline: "newline \<notin> set (esc_char c)"
  using char_range [of c] of_char_is(3) [of c] hex_digit_no_newline [of "of_char c div 16"]
    hex_digit_no_newline [of "of_char c mod 16"]
  by (auto simp: esc_char_def Let_def)

lemma digits_no_newline: "\<forall>c \<in> set s. is_digit c \<Longrightarrow> newline \<notin> set s"
  by (auto simp: is_digit_def)

lemma str_int_no_newline: "newline \<notin> set (str_int i)"
  using digits_no_newline [OF str_pos_digits, of i] digits_no_newline [OF str_pos_digits, of "- i"]
  by (auto simp: str_int_def)

lemma show_dec_no_newline: "parts_ok p \<Longrightarrow> newline \<notin> set (show_dec p)"
  using digits_no_newline [OF str_pos_digits]
  by (auto simp: parts_ok_def show_dec_def show_exp_def digits_no_newline split: option.splits if_splits)

lemma json_float_no_newline:
  assumes "json_ok (PFloat x)"
  shows "newline \<notin> set (json_float x)"
proof (cases x)
  case (Fin q)
  with assms have "is_double q" by simp
  then show ?thesis
    using show_dec_no_newline [OF repr_parts_ok(1), of q] show_dec_no_newline [OF repr_parts_ok(1), of "- q"]
    by (auto simp: Fin repr_pos_def is_double_iff split: if_splits)
qed auto

lemma join_no_newline:
  "newline \<notin> set sep \<Longrightarrow> \<forall>s \<in> set ss. newline \<notin> set s \<Longrightarrow> newline \<notin> set (join sep ss)"
  by (induction sep ss rule: join.induct) auto

lemma dumps_no_newline:
  assumes "newline \<notin> set isep" and "newline \<notin> set ksep"
  shows "json_ok v \<Longrightarrow> newline \<notin> set (dumps isep ksep v)"
proof (induction v)
  case (PFloat x)
  then show ?case using json_float_no_newline [of x] by simp
next
  case (PStr s)
  show ?case using esc_char_no_newline by (auto simp: show_str_def)
next
  case (PList xs)
  then have "newline \<notin> set (join isep (map (dumps isep ksep) xs))"
    using assms(1) by (intro join_no_newline) auto
  then show ?case by simp
next
  case (PDict d)
  then have "newline \<notin> set (join isep (map (\<lambda>(k, v). show_str k @ ksep @ dumps isep ksep v) d))"
    using assms esc_char_no_newline by (intro join_no_newline) (fastforce simp: show_str_def snds.simps)+
  then show ?case by simp
qed (use str_int_no_newline in auto)

end
