(* ===== verification/Py_Value.thy ===== *)
theory Py_Value
  imports Py_Json_Trip
begin

text \<open>
  What the program does with JSON-like values: \<open>str\<close> and \<open>repr\<close>, truth, equality,
  \<open>int(...)\<close>, \<open>float(...)\<close>, \<open>.get\<close>, with CPython's exceptions and messages.
\<close>

subsection \<open>Text of values\<close>

definition repr_char :: "char \<Rightarrow> char \<Rightarrow> string" where
  "repr_char q c =
     (let n = (of_char c :: int) in
      if c = q \<or> n = 92 then [CHR 0x5C, c]
      else if n = 10 then [CHR 0x5C, CHR ''n'']
      else if n = 13 then [CHR 0x5C, CHR ''r'']
      else if n = 9 then [CHR 0x5C, CHR ''t'']
      else if n < 32 \<or> n = 127
           then [CHR 0x5C, CHR ''x'', hex_digit (n div 16), hex_digit (n mod 16)]
      else [c])"

definition repr_str :: "string \<Rightarrow> string" where
  "repr_str s =
     (let q = (if CHR 0x27 \<in> set s \<and> CHR 0x22 \<notin> set s then CHR 0x22 else CHR 0x27)
      in q # concat (map (repr_char q) s) @ [q])"

fun py_repr :: "pyval \<Rightarrow> string" where
  "py_repr PNone = ''None''"
| "py_repr (PBool b) = (if b then ''True'' else ''False'')"
| "py_repr (PInt i) = str_int i"
| "py_repr (PFloat x) = repr_float x"
| "py_repr (PStr s) = repr_str s"
| "py_repr (PList xs) = ''['' @ join '', '' (map py_repr xs) @ '']''"
| "py_repr (PDict d) =
     ''{'' @ join '', '' (map (\<lambda>(k, v). repr_str k @ '': '' @ py_repr v) d) @ ''}''"

fun py_str :: "pyval \<Rightarrow> string" where
  "py_str (PStr s) = s"
| "py_str v = py_repr v"

fun type_name :: "pyval \<Rightarrow> string" where
  "type_name PNone = ''NoneType''"
| "type_name (PBool _) = ''bool''"
| "type_name (PInt _) = ''int''"
| "type_name (PFloat _) = ''float''"
| "type_name (PStr _) = ''str''"
| "type_name (PList _) = ''list''"
| "type_name (PDict _) = ''dict''"

definition quoted :: "string \<Rightarrow> string" where
  "quoted s = CHR 0x27 # s @ [CHR 0x27]"

subsection \<open>Truth and equality\<close>

fun truthy :: "pyval \<Rightarrow> bool" where
  "truthy PNone = False"
| "truthy (PBool b) = b"
| "truthy (PInt i) = (i \<noteq> 0)"
| "truthy (PFloat x) = (x \<noteq> Fin 0)"
| "truthy (PStr s) = (s \<noteq> [])"
| "truthy (PList xs) = (xs \<noteq> [])"
| "truthy (PDict d) = (d \<noteq> [])"

text \<open>The exact value of a number; Python compares integers and floats exactly.\<close>

fun num_of :: "pyval \<Rightarrow> pyfloat option" where
  "num_of (PBool b) = Some (Fin (if b then 1 else 0))"
| "num_of (PInt i) = Some (Fin (of_int i))"
| "num_of (PFloat x) = Some x"
| "num_of _ = None"

lemma size_list_mem: "x \<in> set xs \<Longrightarrow> f x < Suc (size_list f xs)"
  by (induction xs) auto

lemma size_dict_mem:
  "(k, v) \<in> set d \<Longrightarrow> size v < Suc (size_list (size_prod (\<lambda>x. 0) size) d)"
  using size_list_mem [of "(k, v)" d "size_prod (\<lambda>x. 0) size"] by simp

function (sequential) py_eq :: "pyval \<Rightarrow> pyval \<Rightarrow> bool" where
  "py_eq (PStr s) (PStr t) = (s = t)"
| "py_eq PNone PNone = True"
| "py_eq (PList xs) (PList ys) =
     (length xs = length ys \<and> (\<forall>(x, y) \<in> set (zip xs ys). py_eq x y))"
| "py_eq (PDict d) (PDict e) =
     (length d = length e \<and>
      (\<forall>(k, v) \<in> set d. case dget e k of None \<Rightarrow> False | Some w \<Rightarrow> py_eq v w))"
| "py_eq v w =
     (case (num_of v, num_of w) of (Some a, Some b) \<Rightarrow> feq a b | _ \<Rightarrow> False)"
  by pat_completeness auto

termination
proof (relation "measure (size \<circ> fst)", goal_cases)
  case 1
  then show ?case by simp
next
  case (2 xs ys p x y)
  then have "x \<in> set xs" by (auto dest: set_zip_leftD)
  then show ?case by (simp add: size_list_mem)
next
  case (3 d e p k v w)
  then have "(k, v) \<in> set d" by simp
  then show ?case using size_dict_mem by simp
qed

text \<open>Values without NaN equal themselves.\<close>

fun no_nan :: "pyval \<Rightarrow> bool" where
  "no_nan (PFloat x) = (x \<noteq> NaN)"
| "no_nan (PList xs) = (\<forall>x \<in> set xs. no_nan x)"
| "no_nan (PDict d) = (dict_ok d \<and> (\<forall>(k, v) \<in> set d. no_nan v))"
| "no_nan _ = True"

lemma py_eq_refl: "no_nan v \<Longrightarrow> py_eq v v"
proof (induction v)
  case (PList xs)
  then show ?case by (auto simp: set_zip)
next
  case (PDict d)
  have "py_eq v v \<and> dget d k = Some v" if kv: "(k, v) \<in> set d" for k v
  proof
    show "dget d k = Some v" using PDict.prems kv by (intro dget_ok) auto
    show "py_eq v v"
    proof (rule PDict.IH [OF kv])
      show "v \<in> Basic_BNFs.snds (k, v)" by (simp add: snds.simps)
      show "no_nan v" using PDict.prems kv by auto
    qed
  qed
  then show ?case by auto
qed (auto simp: feq_def)

subsection \<open>Conversions\<close>

fun to_int :: "pyval \<Rightarrow> int res" where
  "to_int (PBool b) = Inr (if b then 1 else 0)"
| "to_int (PInt i) = Inr i"
| "to_int (PFloat x) = int_of_float x"
| "to_int (PStr s) =
     (case int_of_str s of
        Some i \<Rightarrow> Inr i
      | None \<Rightarrow> Inl (PyExc ValueError (''invalid literal for int() with base 10: '' @ repr_str s)))"
| "to_int v =
     Inl (PyExc TypeError
       (''int() argument must be a string, a bytes-like object or a real number, not '' @
        quoted (type_name v)))"

fun to_float :: "pyval \<Rightarrow> pyfloat res" where
  "to_float (PBool b) = Inr (Fin (if b then 1 else 0))"
| "to_float (PInt i) = float_of_int i"
| "to_float (PFloat x) = Inr x"
| "to_float (PStr s) =
     (case float_of_str s of
        Some x \<Rightarrow> Inr x
      | None \<Rightarrow> Inl (PyExc ValueError (''could not convert string to float: '' @ repr_str s)))"
| "to_float v =
     Inl (PyExc TypeError
       (''float() argument must be a string or a real number, not '' @ quoted (type_name v)))"

text \<open>\<open>v.get(k, d)\<close>, and \<open>v[k]\<close> for a string key.\<close>

definition vget :: "pyval \<Rightarrow> string \<Rightarrow> pyval \<Rightarrow> pyval res" where
  "vget v k d =
     (case v of
        PDict m \<Rightarrow> Inr (dget_def m k d)
      | _ \<Rightarrow> Inl (PyExc AttributeError
               (quoted (type_name v) @ '' object has no attribute '' @ quoted ''get'')))"

definition vitem :: "(string \<times> pyval) list \<Rightarrow> string \<Rightarrow> pyval res" where
  "vitem m k = (case dget m k of Some v \<Rightarrow> Inr v | None \<Rightarrow> Inl (PyExc KeyError (repr_str k)))"

text \<open>
  The items of \<open>for x in v\<close>: the elements of a list, the keys of a dictionary, the characters
  of a string.
\<close>

fun py_iter :: "pyval \<Rightarrow> pyval list res" where
  "py_iter (PList xs) = Inr xs"
| "py_iter (PDict d) = Inr (map (\<lambda>(k, v). PStr k) d)"
| "py_iter (PStr s) = Inr (map PStr (utf8_chars s))"
| "py_iter v = Inl (PyExc TypeError (quoted (type_name v) @ '' object is not iterable''))"

text \<open>\<open>v[i]\<close> for an integer \<open>i \<ge> 0\<close>, and \<open>len(v)\<close>.\<close>

definition vindex :: "pyval \<Rightarrow> nat \<Rightarrow> pyval res" where
  "vindex v i =
     (case v of
        PList xs \<Rightarrow> (if i < length xs then Inr (xs ! i)
                    else Inl (PyExc IndexError ''list index out of range''))
      | PStr s \<Rightarrow> (if i < length (utf8_chars s) then Inr (PStr (utf8_chars s ! i))
                  else Inl (PyExc IndexError ''string index out of range''))
      | PDict d \<Rightarrow> Inl (PyExc KeyError (str_int (int i)))
      | _ \<Rightarrow> Inl (PyExc TypeError (quoted (type_name v) @ '' object is not subscriptable'')))"

definition vlen :: "pyval \<Rightarrow> nat res" where
  "vlen v =
     (case v of
        PList xs \<Rightarrow> Inr (length xs)
      | PStr s \<Rightarrow> Inr (length (utf8_chars s))
      | PDict d \<Rightarrow> Inr (length d)
      | _ \<Rightarrow> Inl (PyExc TypeError (''object of type '' @ quoted (type_name v) @ '' has no len()'')))"

text \<open>
  \<open>dict(v)\<close>: a copy of a dictionary, or a dictionary from a sequence of pairs (the keys of the
  model's dictionaries are texts; a pair with another key is refused like an unhashable one).
  Then \<open>v.values()\<close>, \<open>v.keys()\<close>.
\<close>

definition pair_item :: "nat \<times> pyval \<Rightarrow> (string \<times> pyval) res" where
  "pair_item = (\<lambda>(i, v).
     case py_iter v of
       Inl _ \<Rightarrow> Inl (PyExc TypeError
         (''cannot convert dictionary update sequence element #'' @ str_int (int i) @ '' to a sequence''))
     | Inr [PStr k, x] \<Rightarrow> Inr (k, x)
     | Inr [k, x] \<Rightarrow> Inl (PyExc TypeError (''unhashable type: '' @ quoted (type_name k)))
     | Inr xs \<Rightarrow> Inl (PyExc ValueError
         (''dictionary update sequence element #'' @ str_int (int i) @ '' has length '' @
          str_int (int (length xs)) @ ''; 2 is required'')))"

definition to_dict :: "pyval \<Rightarrow> (string \<times> pyval) list res" where
  "to_dict v =
     (case v of
        PDict d \<Rightarrow> Inr d
      | _ \<Rightarrow> rbind (py_iter v) (\<lambda>xs. rbind (rmap pair_item (enumerate 0 xs)) (\<lambda>ps. Inr (dict_update [] ps))))"

lemma to_dict_PDict [simp]: "to_dict (PDict d) = Inr d"
  by (simp add: to_dict_def)

definition no_attr :: "pyval \<Rightarrow> string \<Rightarrow> pyexc" where
  "no_attr v a = PyExc AttributeError (quoted (type_name v) @ '' object has no attribute '' @ quoted a)"

definition vvalues :: "pyval \<Rightarrow> pyval list res" where
  "vvalues v = (case v of PDict d \<Rightarrow> Inr (map snd d) | _ \<Rightarrow> Inl (no_attr v ''values''))"

definition vkeys :: "pyval \<Rightarrow> string list res" where
  "vkeys v = (case v of PDict d \<Rightarrow> Inr (map fst d) | _ \<Rightarrow> Inl (no_attr v ''keys''))"

text \<open>\<open>x or y\<close>.\<close>

definition or_else :: "pyval \<Rightarrow> pyval \<Rightarrow> pyval" where
  "or_else v w = (if truthy v then v else w)"

subsection \<open>Integers print and read back\<close>

lemma strip_word [simp]: "is_word w \<Longrightarrow> strip w = w"
proof -
  assume w: "is_word w"
  have 1: "dropWhile is_space u = u" if "u \<noteq> []" "\<forall>c \<in> set u. \<not> is_space c" for u
    using that by (cases u) auto
  from w have "dropWhile is_space w = w" "dropWhile is_space (rev w) = rev w"
    by (auto simp: is_word_def intro!: 1)
  then show ?thesis by (simp add: strip_def lstrip_def rstrip_def)
qed

lemma drop_underscores_digits: "all_digits ds \<Longrightarrow> drop_underscores b ds = Some ds"
  by (induction ds arbitrary: b) (auto simp: all_digits_def is_digit_def)

lemma int_of_str_int [simp]: "int_of_str (str_int i) = Some i"
proof -
  have dg: "all_digits (str_pos \<bar>i\<bar>)" using str_pos_digits [of "\<bar>i\<bar>"] by (simp add: all_digits_def)
  obtain c t where c: "str_pos \<bar>i\<bar> = c # t" by (cases "str_pos \<bar>i\<bar>") auto
  with dg have "is_digit c" by (simp add: all_digits_def)
  then have "c \<noteq> CHR ''-''" "c \<noteq> CHR ''+''" by auto
  with c have "split_sign (str_int i) = (i < 0, str_pos \<bar>i\<bar>)"
    by (auto simp: split_sign_def str_int_def)
  moreover have "digits_val (str_pos \<bar>i\<bar>) = \<bar>i\<bar>" by simp
  ultimately show ?thesis
    using dg by (simp add: int_of_str_def drop_underscores_digits all_digits_def)
qed

end
