(* ===== verification/Agent_Db.thy ===== *)
theory Agent_Db
  imports Mini_Db_Tree Tree_Session Py_Value
begin

text \<open>
  \<open>AgentDBClient\<close> of \<open>Agent/db_client.py\<close>: the database client the agents use. With the
  back end \<open>mini\<close> every call goes to the in-memory database; otherwise each open transaction
  owns a connection to the server, filed under the transaction's id, and each call is one
  request and one reply line.
\<close>

subsection \<open>State\<close>

record 'w agent_db =
  adb_backend :: string
  adb_host :: string
  adb_port :: int
  adb_allow_fallback :: bool
  adb_mini :: mini_db
  adb_sessions :: "(string, tree_db_session) dict"
  adb_tree_sessions :: "(string, tree_db_session) dict"
  adb_net :: 'w

type_synonym ('w, 'a) db_prog = "('w agent_db, 'a) prog"

definition agent_db_init :: "(string, string) dict \<Rightarrow> mini_db \<Rightarrow> 'w \<Rightarrow> 'w agent_db res" where
  "agent_db_init env mini w =
     rbind (to_int (PStr (dget_def env ''TREE_DB_PORT'' ''19091''))) (\<lambda>port.
       Inr \<lparr>adb_backend = lower (strip (dget_def env ''TREE_DB_BACKEND'' ''socket'')),
            adb_host = dget_def env ''TREE_DB_HOST'' ''127.0.0.1'',
            adb_port = port,
            adb_allow_fallback =
              lower (strip (dget_def env ''TREE_DB_FALLBACK_TO_MINI'' ''0''))
                \<in> {''1'', ''true'', ''yes''},
            adb_mini = mini, adb_sessions = [], adb_tree_sessions = [], adb_net = w\<rparr>)"

definition using_mini :: "'w agent_db \<Rightarrow> bool" where
  "using_mini c = (adb_backend c = ''mini'')"

subsection \<open>Replies\<close>

definition is_ok :: "string \<Rightarrow> bool" where
  "is_ok resp =
     (let u = upper resp in starts_with u ''OK'' \<or> starts_with u ''VALUE'' \<or> starts_with u ''FOUND'')"

definition is_not_found :: "string \<Rightarrow> bool" where
  "is_not_found resp = contains (upper resp) ''NOT_FOUND''"

definition is_abort :: "string \<Rightarrow> bool" where
  "is_abort resp = contains (upper resp) ''ABORT''"

definition extract_value_payload :: "string \<Rightarrow> string option" where
  "extract_value_payload resp =
     (let u = upper resp in
      if starts_with u ''OK VALUE '' then Some (drop 9 resp)
      else if starts_with u ''VALUE '' then Some (drop 6 resp) else None)"

definition hex_encode :: "string \<Rightarrow> string" where
  "hex_encode v =
     concat (map (\<lambda>c. let n = (of_char c :: int) in [hex_digit (n div 16), hex_digit (n mod 16)]) v)"

text \<open>
  \<open>unhexlify\<close> gives bytes; \<open>decode("utf-8")\<close> then rejects what is no well-formed UTF-8
  (the text of a \<open>UnicodeDecodeError\<close> is left empty).
\<close>

fun unhexlify :: "string \<Rightarrow> string res" where
  "unhexlify [] = Inr []"
| "unhexlify [a] = Inl (PyExc ValueError ''Odd-length string'')"
| "unhexlify (a # b # s) =
     (case (hex_val a, hex_val b) of
        (Some x, Some y) \<Rightarrow> rbind (unhexlify s) (\<lambda>t. Inr (char_of (16 * x + y) # t))
      | _ \<Rightarrow> (if odd (length s) then Inl (PyExc ValueError ''Odd-length string'')
             else Inl (PyExc ValueError ''Non-hexadecimal digit found'')))"

fun utf8_valid :: "string \<Rightarrow> bool" where
  "utf8_valid [] = True"
| "utf8_valid (a # s) =
     (let n = (of_char a :: int) in
      if n < 128 then utf8_valid s
      else if 194 \<le> n \<and> n < 224 then
        (case s of b # t \<Rightarrow> cont_byte b \<and> utf8_valid t | _ \<Rightarrow> False)
      else if 224 \<le> n \<and> n < 240 then
        (case s of
           b # c # t \<Rightarrow>
             cont_byte b \<and> cont_byte c \<and> (n = 224 \<longrightarrow> 160 \<le> (of_char b :: int)) \<and>
             (n = 237 \<longrightarrow> (of_char b :: int) < 160) \<and> utf8_valid t
         | _ \<Rightarrow> False)
      else if 240 \<le> n \<and> n < 245 then
        (case s of
           b # c # d # t \<Rightarrow>
             cont_byte b \<and> cont_byte c \<and> cont_byte d \<and> (n = 240 \<longrightarrow> 144 \<le> (of_char b :: int)) \<and>
             (n = 244 \<longrightarrow> (of_char b :: int) < 144) \<and> utf8_valid t
         | _ \<Rightarrow> False)
      else False)"

definition hex_decode :: "string \<Rightarrow> string res" where
  "hex_decode v =
     (if \<exists>c \<in> set v. 128 \<le> (of_char c :: int) then Inl (PyExc ValueError [])
      else rbind (unhexlify v) (\<lambda>t.
        if utf8_valid t then Inr t else Inl (PyExc ValueError [])))"

subsection \<open>Calls on the back ends\<close>

definition on_mini :: "(mini_db, 'a) prog \<Rightarrow> ('w, 'a) db_prog" where
  "on_mini m c = (case m (adb_mini c) of (r, d) \<Rightarrow> (r, c\<lparr>adb_mini := d\<rparr>))"

text \<open>The in-memory database draws the id of a new transaction itself.\<close>

definition on_mini_new :: "'w peer \<Rightarrow> (string \<Rightarrow> (mini_db, 'a) prog) \<Rightarrow> ('w, 'a) db_prog" where
  "on_mini_new p m c =
     (case pr_uuid p (adb_net c) of (u, w) \<Rightarrow> on_mini (m u) (c\<lparr>adb_net := w\<rparr>))"

definition on_net :: "('w, 'a) prog \<Rightarrow> ('w, 'a) db_prog" where
  "on_net m c = (case m (adb_net c) of (r, w) \<Rightarrow> (r, c\<lparr>adb_net := w\<rparr>))"

text \<open>A call on the session of a plain or of a tree transaction, which must be known.\<close>

definition with_session :: "string \<Rightarrow> ('w, 'a) sess_prog \<Rightarrow> ('w, 'a) db_prog" where
  "with_session t f c =
     (case dget (adb_sessions c) t of
        None \<Rightarrow> (Inl (PyExc RuntimeError (''invalid or inactive tx_id: '' @ t)), c)
      | Some s \<Rightarrow> (case f (s, adb_net c) of (r, (s', w)) \<Rightarrow>
          (r, c\<lparr>adb_sessions := dset (adb_sessions c) t s', adb_net := w\<rparr>)))"

definition with_tree_session :: "string \<Rightarrow> ('w, 'a) sess_prog \<Rightarrow> ('w, 'a) db_prog" where
  "with_tree_session t f c =
     (case dget (adb_tree_sessions c) t of
        None \<Rightarrow> (Inl (PyExc RuntimeError (''invalid or inactive tree tx_id: '' @ t)), c)
      | Some s \<Rightarrow> (case f (s, adb_net c) of (r, (s', w)) \<Rightarrow>
          (r, c\<lparr>adb_tree_sessions := dset (adb_tree_sessions c) t s', adb_net := w\<rparr>)))"

definition drop_session :: "'w peer \<Rightarrow> string \<Rightarrow> ('w, unit) db_prog" where
  "drop_session p t =
     bnd (with_session t (session_close p)) (\<lambda>_ c.
       (Inr (), c\<lparr>adb_sessions := ddel (adb_sessions c) t\<rparr>))"

definition drop_tree_session :: "'w peer \<Rightarrow> string \<Rightarrow> ('w, unit) db_prog" where
  "drop_tree_session p t =
     bnd (with_tree_session t (session_close p)) (\<lambda>_ c.
       (Inr (), c\<lparr>adb_tree_sessions := ddel (adb_tree_sessions c) t\<rparr>))"

text \<open>\<open>except Exception: if self.allow_fallback: return fallback; raise\<close>.\<close>

definition or_fallback :: "('w, 'a) db_prog \<Rightarrow> ('w, 'a) db_prog \<Rightarrow> ('w, 'a) db_prog" where
  "or_fallback m fallback =
     try_except m (\<lambda>e c. if adb_allow_fallback c then fallback c else raise e c)"

definition failed :: "string \<Rightarrow> string \<Rightarrow> pyexc" where
  "failed what resp = PyExc RuntimeError (what @ '' failed: '' @ resp)"

text \<open>A request that must be answered with success.\<close>

definition expect_ok :: "'w peer \<Rightarrow> string \<Rightarrow> string \<Rightarrow> ('w, string) sess_prog" where
  "expect_ok p what cmd =
     bnd (session_request p cmd) (\<lambda>resp.
       if \<not> is_ok resp then raise (failed what resp) else ret resp)"

text \<open>A request for a value.\<close>

definition expect_value :: "'w peer \<Rightarrow> string \<Rightarrow> string \<Rightarrow> ('w, string option) sess_prog" where
  "expect_value p what cmd =
     bnd (session_request p cmd) (\<lambda>resp.
       if is_not_found resp then ret None
       else case extract_value_payload resp of
              None \<Rightarrow> raise (failed what resp)
            | Some v \<Rightarrow> ret (Some v))"

definition join_args :: "string list \<Rightarrow> string" where
  "join_args parts = join '' '' parts"

subsection \<open>Plain transactions\<close>

datatype kv_outcome = KvRetry pyexc | KvDone "string option"

text \<open>
  One attempt of \<open>kv_get\<close>: a transaction of its own on a fresh connection, aborted and
  closed at the end whatever happened. The attempt asks for a retry when the server aborted
  the read.
\<close>

definition kv_get_body :: "'w peer \<Rightarrow> string \<Rightarrow> ('w, kv_outcome) sess_prog" where
  "kv_get_body p key =
     bnd (session_request p ''START'') (\<lambda>resp.
       if \<not> is_ok resp then raise (failed ''START'' resp)
       else bnd (session_request p (''GET '' @ key)) (\<lambda>resp.
         if is_abort resp then ret (KvRetry (failed ''GET'' resp))
         else if is_not_found resp then ret (KvDone None)
         else case extract_value_payload resp of
                None \<Rightarrow> raise (failed ''GET'' resp)
              | Some v \<Rightarrow> ret (KvDone (Some v))))"

definition kv_get_attempt :: "'w peer \<Rightarrow> string \<Rightarrow> int \<Rightarrow> string \<Rightarrow> ('w, kv_outcome) prog" where
  "kv_get_attempt p host port key =
     bnd (open_session p host port) (\<lambda>s w.
       case try_finally (kv_get_body p key)
              (bnd (try_except (bnd (session_request p ''ABORT'') (\<lambda>_. ret ())) (\<lambda>_. ret ()))
                 (\<lambda>_. session_close p)) (s, w) of
         (r, (s', w')) \<Rightarrow> (r, w'))"

primrec kv_get_loop ::
  "'w peer \<Rightarrow> string \<Rightarrow> int \<Rightarrow> string \<Rightarrow> nat \<Rightarrow> pyexc option \<Rightarrow> ('w, string option) prog" where
  "kv_get_loop p host port key 0 last_exc =
     (case last_exc of
        Some e \<Rightarrow> raise e
      | None \<Rightarrow> raise (PyExc RuntimeError ''GET failed after retries''))"
| "kv_get_loop p host port key (Suc n) last_exc =
     bnd (kv_get_attempt p host port key) (\<lambda>out.
       case out of
         KvRetry e \<Rightarrow> kv_get_loop p host port key n (Some e)
       | KvDone v \<Rightarrow> ret v)"

definition mini_kv_get_prog :: "string \<Rightarrow> (mini_db, string option) prog" where
  "mini_kv_get_prog key db = (Inr (mini_kv_get db key), db)"

definition agent_kv_get :: "'w peer \<Rightarrow> string \<Rightarrow> ('w, string option) db_prog" where
  "agent_kv_get p key c =
     (if using_mini c then on_mini (mini_kv_get_prog key) c
      else or_fallback
             (on_net (kv_get_loop p (adb_host c) (adb_port c) key 10 None))
             (on_mini (mini_kv_get_prog key)) c)"

text \<open>\<open>start\<close> and \<open>tree_start\<close>: a connection that accepts the command is filed under a new id.\<close>

definition open_tx :: "'w peer \<Rightarrow> string \<Rightarrow> int \<Rightarrow> string \<Rightarrow> ('w, tree_db_session) prog" where
  "open_tx p host port cmd =
     bnd (open_session p host port) (\<lambda>s w.
       case session_request p cmd (s, w) of
         (Inl e, (s', w')) \<Rightarrow> (Inl e, w')
       | (Inr resp, (s', w')) \<Rightarrow>
           (if \<not> is_ok resp
            then (case session_close p (s', w') of (_, (_, w'')) \<Rightarrow> (Inl (failed cmd resp), w''))
            else (Inr s', w')))"

definition agent_start :: "'w peer \<Rightarrow> ('w, string) db_prog" where
  "agent_start p c =
     (if using_mini c then on_mini_new p mini_start c
      else or_fallback
             (bnd (on_net (open_tx p (adb_host c) (adb_port c) ''START'')) (\<lambda>s c.
                case pr_uuid p (adb_net c) of (t, w) \<Rightarrow>
                  (Inr t, c\<lparr>adb_net := w, adb_sessions := dset (adb_sessions c) t s\<rparr>)))
             (on_mini_new p mini_start) c)"

definition agent_get :: "'w peer \<Rightarrow> string \<Rightarrow> string \<Rightarrow> ('w, string option) db_prog" where
  "agent_get p t key c =
     (if using_mini c then on_mini (mini_get t key) c
      else with_session t (expect_value p ''GET'' (''GET '' @ key)) c)"

definition agent_put :: "'w peer \<Rightarrow> string \<Rightarrow> string \<Rightarrow> string \<Rightarrow> ('w, unit) db_prog" where
  "agent_put p t key val c =
     (if using_mini c then on_mini (mini_put t key val) c
      else bnd (with_session t (expect_ok p ''PUT'' (''PUT '' @ key @ '' '' @ val))) (\<lambda>_. ret ()) c)"

definition put_many_cmd :: "(string \<times> string) list \<Rightarrow> string" where
  "put_many_cmd requests =
     join_args ([''PUTMANY'', str_int (int (length requests))] @
       concat (map (\<lambda>(key, val). [key, hex_encode val]) requests))"

definition agent_put_many :: "'w peer \<Rightarrow> string \<Rightarrow> (string \<times> string) list \<Rightarrow> ('w, unit) db_prog" where
  "agent_put_many p t requests c =
     (if using_mini c
      then on_mini (bnd (for_each (\<lambda>(key, val). mini_put t key val) requests) (\<lambda>_. ret ())) c
      else bnd (with_session t (expect_ok p ''PUTMANY'' (put_many_cmd requests))) (\<lambda>_. ret ()) c)"

definition agent_commit :: "'w peer \<Rightarrow> string \<Rightarrow> ('w, unit) db_prog" where
  "agent_commit p t c =
     (if using_mini c then on_mini (mini_commit t) c
      else if \<not> dhas (adb_sessions c) t
      then (Inl (PyExc RuntimeError (''invalid or inactive tx_id: '' @ t)), c)
      else try_finally
             (bnd (with_session t (expect_ok p ''COMMIT'' ''COMMIT'')) (\<lambda>_. ret ()))
             (drop_session p t) c)"

definition agent_rollback :: "'w peer \<Rightarrow> string \<Rightarrow> ('w, unit) db_prog" where
  "agent_rollback p t c =
     (if using_mini c then on_mini (mini_rollback t) c
      else if \<not> dhas (adb_sessions c) t
      then (Inl (PyExc RuntimeError (''invalid or inactive tx_id: '' @ t)), c)
      else try_finally
             (with_session t (bnd (session_request p ''ABORT'') (\<lambda>resp.
                if \<not> is_ok resp \<and> \<not> contains (upper resp) ''NO_ACTIVE_TXN''
                then raise (failed ''ABORT'' resp) else ret ())))
             (drop_session p t) c)"

subsection \<open>Tree transactions\<close>

definition agent_tree_start :: "'w peer \<Rightarrow> ('w, string) db_prog" where
  "agent_tree_start p c =
     (if using_mini c then on_mini_new p mini_tstart c
      else or_fallback
             (bnd (on_net (open_tx p (adb_host c) (adb_port c) ''TSTART'')) (\<lambda>s c.
                case pr_uuid p (adb_net c) of (t, w) \<Rightarrow>
                  (Inr t, c\<lparr>adb_net := w, adb_tree_sessions := dset (adb_tree_sessions c) t s\<rparr>)))
             (on_mini_new p mini_tstart) c)"

definition unparsed :: "string \<Rightarrow> string \<Rightarrow> pyexc" where
  "unparsed what resp = PyExc RuntimeError (''failed to parse '' @ what @ '' response: '' @ resp)"

definition agent_tree_branch :: "'w peer \<Rightarrow> string \<Rightarrow> int \<Rightarrow> ('w, int) db_prog" where
  "agent_tree_branch p t parent c =
     (if using_mini c then on_mini (mini_tbranch t parent) c
      else with_tree_session t
             (bnd (expect_ok p ''TBRANCH'' (''TBRANCH '' @ str_int parent)) (\<lambda>resp.
                let parts = split_ws resp in
                if parts = [] then raise (unparsed ''TBRANCH'' resp)
                else case int_of_str (last parts) of
                       None \<Rightarrow> raise (unparsed ''TBRANCH'' resp)
                     | Some b \<Rightarrow> ret b)) c)"

definition parse_branches :: "string \<Rightarrow> int list res" where
  "parse_branches resp =
     (let parts = split_ws resp in
      if length parts < 2 \<or> upper (parts ! 1) \<noteq> ''BRANCHES''
      then Inl (unparsed ''TBRANCHMANY'' resp)
      else rmap (\<lambda>item. case int_of_str item of
                          None \<Rightarrow> Inl (unparsed ''TBRANCHMANY'' resp)
                        | Some b \<Rightarrow> Inr b) (drop 2 parts))"

definition agent_tree_branch_many :: "'w peer \<Rightarrow> string \<Rightarrow> int \<Rightarrow> int \<Rightarrow> ('w, int list) db_prog" where
  "agent_tree_branch_many p t parent count c =
     (if using_mini c then on_mini (mini_tbranch_many t parent count) c
      else with_tree_session t
             (bnd (expect_ok p ''TBRANCHMANY''
                     (''TBRANCHMANY '' @ str_int parent @ '' '' @ str_int count)) (\<lambda>resp.
                lift_res (parse_branches resp))) c)"

definition agent_tree_get ::
  "'w peer \<Rightarrow> string \<Rightarrow> int \<Rightarrow> string \<Rightarrow> bool \<Rightarrow> ('w, string option) db_prog" where
  "agent_tree_get p t b key strict c =
     (if using_mini c then on_mini (mini_tget t b key strict) c
      else let cmd = (if strict then ''TGETS'' else ''TGET'') in
           with_tree_session t (expect_value p cmd (cmd @ '' '' @ str_int b @ '' '' @ key)) c)"

text \<open>
  The reply to a batched read lists, for each request, an id and the value in hexadecimal.
\<close>

definition parse_values :: "string \<Rightarrow> string \<Rightarrow> string list res" where
  "parse_values cmd resp =
     (let parts = split_ws resp in
      if length parts < 3 \<or> upper (parts ! 1) \<noteq> ''VALUES'' then Inl (unparsed cmd resp)
      else case int_of_str (parts ! 2) of
             None \<Rightarrow> Inl (unparsed cmd resp)
           | Some count \<Rightarrow>
               (if int (length parts) \<noteq> 3 + count * 2
                then Inl (PyExc RuntimeError (''bad '' @ cmd @ '' response arity: '' @ resp))
                else rmap (\<lambda>idx. hex_decode (parts ! (4 + idx * 2))) [0..<nat count]))"

definition tree_get_many_cmd :: "bool \<Rightarrow> (int \<times> string) list \<Rightarrow> string" where
  "tree_get_many_cmd strict requests =
     join_args ([if strict then ''TGETSMANY'' else ''TGETMANY'', str_int (int (length requests))] @
       concat (map (\<lambda>(b, key). [str_int b, key]) requests))"

definition agent_tree_get_many ::
  "'w peer \<Rightarrow> string \<Rightarrow> (int \<times> string) list \<Rightarrow> bool \<Rightarrow> ('w, string option list) db_prog" where
  "agent_tree_get_many p t requests strict c =
     (if using_mini c then on_mini (mini_tget_many t requests strict) c
      else let cmd = (if strict then ''TGETSMANY'' else ''TGETMANY'') in
           with_tree_session t
             (bnd (expect_ok p cmd (tree_get_many_cmd strict requests)) (\<lambda>resp.
                bnd (lift_res (parse_values cmd resp)) (\<lambda>vs. ret (map Some vs)))) c)"

definition agent_tree_put :: "'w peer \<Rightarrow> string \<Rightarrow> int \<Rightarrow> string \<Rightarrow> string \<Rightarrow> ('w, unit) db_prog" where
  "agent_tree_put p t b key val c =
     (if using_mini c then on_mini (mini_tput t b key val) c
      else bnd (with_tree_session t (expect_ok p ''TPUT''
             (''TPUT '' @ str_int b @ '' '' @ key @ '' '' @ val))) (\<lambda>_. ret ()) c)"

definition tree_put_many_cmd :: "(int \<times> string \<times> string) list \<Rightarrow> string" where
  "tree_put_many_cmd requests =
     join_args ([''TPUTMANY'', str_int (int (length requests))] @
       concat (map (\<lambda>(b, key, val). [str_int b, key, hex_encode val]) requests))"

definition agent_tree_put_many ::
  "'w peer \<Rightarrow> string \<Rightarrow> (int \<times> string \<times> string) list \<Rightarrow> ('w, unit) db_prog" where
  "agent_tree_put_many p t requests c =
     (if using_mini c then on_mini (mini_tput_many t requests) c
      else bnd (with_tree_session t (expect_ok p ''TPUTMANY'' (tree_put_many_cmd requests)))
             (\<lambda>_. ret ()) c)"

definition agent_tree_select_winner :: "'w peer \<Rightarrow> string \<Rightarrow> int \<Rightarrow> ('w, unit) db_prog" where
  "agent_tree_select_winner p t b c =
     (if using_mini c then on_mini (mini_twinner t b) c
      else bnd (with_tree_session t (expect_ok p ''TWINNER'' (''TWINNER '' @ str_int b)))
             (\<lambda>_. ret ()) c)"

definition agent_tree_refresh_winner ::
  "'w peer \<Rightarrow> string \<Rightarrow> int \<Rightarrow> string \<Rightarrow> ('w, string option) db_prog" where
  "agent_tree_refresh_winner p t b key c =
     (if using_mini c then on_mini (mini_trefresh_winner t b key) c
      else with_tree_session t (expect_value p ''TREFRESH_WINNER''
             (''TREFRESH_WINNER '' @ str_int b @ '' '' @ key)) c)"

definition agent_tree_commit :: "'w peer \<Rightarrow> string \<Rightarrow> ('w, unit) db_prog" where
  "agent_tree_commit p t c =
     (if using_mini c then on_mini (mini_tcommit t) c
      else if \<not> dhas (adb_tree_sessions c) t
      then (Inl (PyExc RuntimeError (''invalid or inactive tree tx_id: '' @ t)), c)
      else try_finally
             (bnd (with_tree_session t (expect_ok p ''TCOMMIT'' ''TCOMMIT'')) (\<lambda>_. ret ()))
             (drop_tree_session p t) c)"

definition committed_result :: pyval where
  "committed_result =
     PDict [(''ok'', PBool True), (''committed'', PBool True), (''abort_reason'', PStr [])]"

definition retry_result :: "string \<Rightarrow> pyval res" where
  "retry_result resp =
     (if is_ok resp then Inr committed_result
      else if is_abort resp then
        (let parts = split_max CHR '' '' 2 resp;
             reason = (if 3 \<le> length parts then parts ! 2 else [])
         in Inr (PDict [(''ok'', PBool False), (''committed'', PBool False),
                        (''abort_reason'', PStr reason), (''response'', PStr resp)]))
      else Inl (failed ''TCOMMIT_RETRY'' resp))"

text \<open>
  The \<open>finally\<close> of \<open>tree_commit_retry\<close> ends the session only when the reply contains
  \<open>OK\<close>; its early \<open>return\<close> for an unknown id would drop the outcome (\<open>PNone\<close>).
\<close>

definition agent_tree_commit_retry :: "'w peer \<Rightarrow> string \<Rightarrow> ('w, pyval) db_prog" where
  "agent_tree_commit_retry p t c =
     (if using_mini c then bnd (on_mini (mini_tcommit_retry t)) (\<lambda>_. ret committed_result) c
      else case with_tree_session t (session_request p ''TCOMMIT_RETRY'') c of
             (Inl e, c') \<Rightarrow> (Inl e, c')
           | (Inr resp, c') \<Rightarrow>
               (if \<not> dhas (adb_tree_sessions c') t then (Inr PNone, c')
                else if contains (upper resp) ''OK''
                then (retry_result resp, snd (drop_tree_session p t c'))
                else (retry_result resp, c')))"

definition agent_tree_abort :: "'w peer \<Rightarrow> string \<Rightarrow> ('w, unit) db_prog" where
  "agent_tree_abort p t c =
     (if using_mini c then on_mini (mini_tabort t) c
      else if \<not> dhas (adb_tree_sessions c) t
      then (Inl (PyExc RuntimeError (''invalid or inactive tree tx_id: '' @ t)), c)
      else try_finally
             (with_tree_session t (bnd (session_request p ''ABORT'') (\<lambda>resp.
                if \<not> is_ok resp \<and> \<not> contains (upper resp) ''NO_ACTIVE_TREE_TXN'' \<and>
                   \<not> contains (upper resp) ''NO_ACTIVE_TXN''
                then raise (PyExc RuntimeError (''tree ABORT failed: '' @ resp)) else ret ())))
             (drop_tree_session p t) c)"

definition dump_hint :: string where
  "dump_hint =
     [CHR 0xE5, CHR 0xA6, CHR 0x82, CHR 0xE9, CHR 0x9C, CHR 0x80, CHR 0xE6, CHR 0x9C, CHR
     0xAC, CHR 0xE5, CHR 0x9C, CHR 0xB0, CHR 0xE8, CHR 0xB0, CHR 0x83, CHR 0xE8, CHR 0xAF,
     CHR 0x95, CHR 0xE5, CHR 0x85, CHR 0xA8, CHR 0xE9, CHR 0x87, CHR 0x8F] @ '' KV'' @
     [CHR 0xEF, CHR 0xBC, CHR 0x8C, CHR 0xE5, CHR 0x8F, CHR 0xAF, CHR 0xE8, CHR 0xAE, CHR
     0xBE, CHR 0xE7, CHR 0xBD, CHR 0xAE] @ '' TREE_DB_BACKEND=mini '' @ [CHR 0xE6, CHR
     0x88, CHR 0x96, CHR 0xE5, CHR 0x90, CHR 0x8E, CHR 0xE7, CHR 0xBB, CHR 0xAD, CHR 0xE8,
     CHR 0xA1, CHR 0xA5, CHR 0xE4, CHR 0xB8, CHR 0x80, CHR 0xE4, CHR 0xB8, CHR 0xAA, CHR
     0xE6, CHR 0x9C, CHR 0x8D, CHR 0xE5, CHR 0x8A, CHR 0xA1, CHR 0xE7, CHR 0xAB, CHR 0xAF]
     @ '' DUMP '' @ [CHR 0xE5, CHR 0x91, CHR 0xBD, CHR 0xE4, CHR 0xBB, CHR 0xA4, CHR 0xE3,
     CHR 0x80, CHR 0x82]"

definition agent_dump_all :: "'w agent_db \<Rightarrow> pyval" where
  "agent_dump_all c =
     (if using_mini c then
        (let d = mini_dump_all (adb_mini c) in
         PDict [(''ok'', PBool (dr_ok d)),
                (''data'', PDict (map (\<lambda>(k, v). (k, PStr v)) (dr_data d))),
                (''size'', PInt (dr_size d))])
      else PDict [(''ok'', PBool False),
                  (''error'', PStr ''kv_dump is not supported by the Tree-DB socket server''),
                  (''backend'', PStr ''socket''), (''hint'', PStr dump_hint)])"

end
