(* ===== verification/Agent_Db_Lemmas.thy ===== *)
theory Agent_Db_Lemmas
  imports Agent_Db
begin

text \<open>
  Facts about the database client: hexadecimal values and batched replies, the store contract
  of the in-memory back end (an interpretation of \<open>snapshot_store\<close>), and how the calls of
  the socket back end change the table of sessions.
\<close>

subsection \<open>Hexadecimal values\<close>

lemma hex_digit_range:
  assumes "0 \<le> n" and "n < 16"
  shows "(of_char (hex_digit n) :: int) < 128" and "\<not> is_space (hex_digit n)"
  using assms by (auto simp: hex_digit_def is_space_def Let_def take_bit_int_eq_self)

lemma hex_encode_Cons:
  "hex_encode (c # v) =
     hex_digit ((of_char c :: int) div 16) # hex_digit ((of_char c :: int) mod 16) # hex_encode v"
  by (simp add: hex_encode_def Let_def)

lemma char_halves:
  "0 \<le> (of_char c :: int) div 16" "(of_char c :: int) div 16 < 16"
  "0 \<le> (of_char c :: int) mod 16" "(of_char c :: int) mod 16 < 16"
  using char_range [of c] by auto

lemma hex_encode_chars: "x \<in> set (hex_encode v) \<Longrightarrow> (of_char x :: int) < 128 \<and> \<not> is_space x"
  by (induction v) (auto simp: hex_encode_def [of "[]"] hex_encode_Cons hex_digit_range char_halves)

lemma is_word_hex_encode: "v \<noteq> [] \<Longrightarrow> is_word (hex_encode v)"
  using hex_encode_chars [of _ v] by (cases v) (auto simp: is_word_def hex_encode_Cons)

lemma unhexlify_encode: "unhexlify (hex_encode v) = Inr v"
proof (induction v)
  case Nil
  then show ?case by (simp add: hex_encode_def)
next
  case (Cons c v)
  then show ?case
    using hex_val_digit [OF char_halves(1,2) [of c]] hex_val_digit [OF char_halves(3,4) [of c]]
    by (simp add: hex_encode_Cons)
qed

lemma hex_decode_encode: "utf8_valid v \<Longrightarrow> hex_decode (hex_encode v) = Inr v"
  using hex_encode_chars [of _ v] by (simp add: hex_decode_def unhexlify_encode not_le)

lemma utf8_valid_ascii: "\<forall>c \<in> set v. (of_char c :: int) < 128 \<Longrightarrow> utf8_valid v"
  by (induction v) auto

subsection \<open>Replies to batched reads\<close>

definition values_reply :: "(string \<times> string) list \<Rightarrow> string" where
  "values_reply ivs =
     join_args ([''OK'', ''VALUES'', str_int (int (length ivs))] @
       concat (map (\<lambda>(i, v). [i, hex_encode v]) ivs))"

lemma concat_pairs_nth:
  "i < length xs \<Longrightarrow> concat (map (\<lambda>(a, b). [f a, g b]) xs) ! (2 * i + 1) = g (snd (xs ! i))"
proof (induction xs arbitrary: i)
  case (Cons x xs)
  then show ?case by (cases i; cases x) auto
qed simp

lemma concat_pairs_length: "length (concat (map (\<lambda>(a, b). [f a, g b]) xs)) = 2 * length xs"
  by (induction xs) auto

lemma parse_values_reply:
  assumes "\<forall>(i, v) \<in> set ivs. is_word i \<and> v \<noteq> [] \<and> utf8_valid v"
  shows "parse_values cmd (values_reply ivs) = Inr (map snd ivs)"
proof -
  let ?parts = "[''OK'', ''VALUES'', str_int (int (length ivs))] @
       concat (map (\<lambda>(i, v). [i, hex_encode v]) ivs)"
  have "is_word ''OK'' \<and> is_word ''VALUES''" by code_simp
  moreover have "\<forall>x \<in> set (concat (map (\<lambda>(i, v). [i, hex_encode v]) ivs)). is_word x"
    using assms is_word_hex_encode by auto
  ultimately have "\<forall>x \<in> set ?parts. is_word x" by simp
  then have parts: "split_ws (values_reply ivs) = ?parts"
    unfolding values_reply_def join_args_def by (rule split_ws_join)
  have len: "length ?parts = 3 + 2 * length ivs"
    using concat_pairs_length [of id hex_encode ivs] by simp
  have "rmap (\<lambda>idx. hex_decode (?parts ! (4 + idx * 2))) [0..<length ivs] =
      Inr (map (\<lambda>idx. snd (ivs ! idx)) [0..<length ivs])"
  proof (rule rmap_total)
    fix i assume "i \<in> set [0..<length ivs]"
    then have i: "i < length ivs" by simp
    then have "?parts ! (4 + i * 2) = hex_encode (snd (ivs ! i))"
      using concat_pairs_nth [OF i, of id hex_encode] by (simp add: mult.commute)
    moreover have "utf8_valid (snd (ivs ! i))" using assms nth_mem [OF i] by (auto simp: case_prod_unfold)
    ultimately show "hex_decode (?parts ! (4 + i * 2)) = Inr (snd (ivs ! i))"
      by (simp only: hex_decode_encode)
  qed
  moreover have "map (\<lambda>idx. snd (ivs ! idx)) [0..<length ivs] = map snd ivs"
    by (rule nth_equalityI) auto
  moreover have "int_of_str (?parts ! 2) = Some (int (length ivs))" by simp
  ultimately show ?thesis
    unfolding parse_values_def parts Let_def using len by (simp add: upper_char_def is_lower_def)
qed

subsection \<open>The store contract on the in-memory back end\<close>

lemma on_mini_apply: "m (adb_mini c) = (r, d) \<Longrightarrow> on_mini m c = (r, c\<lparr>adb_mini := d\<rparr>)"
  by (simp add: on_mini_def)

lemma on_mini_state [simp]:
  "using_mini (snd (on_mini m c)) = using_mini c"
  "adb_mini (snd (on_mini m c)) = snd (m (adb_mini c))"
  "fst (on_mini m c) = fst (m (adb_mini c))"
  by (simp_all add: on_mini_def using_mini_def split: prod.splits)

lemma using_mini_update [simp]:
  "using_mini (c\<lparr>adb_mini := d\<rparr>) = using_mini c"
  "using_mini (c\<lparr>adb_net := w\<rparr>) = using_mini c"
  "using_mini (c\<lparr>adb_sessions := ss\<rparr>) = using_mini c"
  "using_mini (c\<lparr>adb_tree_sessions := ss\<rparr>) = using_mini c"
  by (simp_all add: using_mini_def)

interpretation agent_tx: snapshot_store
  "\<lambda>c. mini_store_of (adb_mini c)" "\<lambda>c. mini_tx_of (adb_mini c)"
  "\<lambda>c. fst (pr_uuid p (adb_net c))" "agent_start p" "agent_get p" "agent_put p"
  "agent_commit p" "agent_rollback p" "\<lambda>c. using_mini c \<and> mini_inv (adb_mini c)" for p
proof (unfold_locales, goal_cases)
  case (1 c)
  obtain u w where u: "pr_uuid p (adb_net c) = (u, w)" by (cases "pr_uuid p (adb_net c)")
  with 1 mini_tx.begin_law [of "adb_mini c" u] obtain d where
    "mini_start u (adb_mini c) = (Inr u, d)" "mini_inv d" "mini_store_of d = mini_store_of (adb_mini c)"
    "mini_tx_of d = (mini_tx_of (adb_mini c))(u \<mapsto> (mini_store_of (adb_mini c), Map.empty))"
    by auto
  with 1 u show ?case by (simp add: agent_start_def on_mini_new_def on_mini_def)
next
  case (2 c t sn w k)
  with mini_tx.read_law [of "adb_mini c" t sn w k] show ?case
    by (simp add: agent_get_def on_mini_def)
next
  case (3 c t sn w k v)
  with mini_tx.write_law [of "adb_mini c" t sn w k v] show ?case
    by (auto simp: agent_put_def on_mini_def)
next
  case (4 c t sn w)
  with mini_tx.commit_law [of "adb_mini c" t sn w] show ?case
    by (auto simp: agent_commit_def on_mini_def)
next
  case (5 c t sn w)
  with mini_tx.abort_law [of "adb_mini c" t sn w] show ?case
    by (auto simp: agent_rollback_def on_mini_def)
next
  case (6 c t k v)
  with mini_tx.closed_law [of "adb_mini c" t k v] show ?case
    by (auto simp: agent_get_def agent_put_def agent_commit_def agent_rollback_def on_mini_def)
qed

subsection \<open>Sessions over the socket\<close>

lemma with_session_dom:
  "with_session t f c = (r, c') \<Longrightarrow> dhas (adb_sessions c') u = dhas (adb_sessions c) u \<and>
     adb_backend c' = adb_backend c \<and> adb_allow_fallback c' = adb_allow_fallback c \<and>
     adb_mini c' = adb_mini c \<and> adb_tree_sessions c' = adb_tree_sessions c"
  by (auto simp: with_session_def dhas_iff split: option.splits prod.splits if_splits)

lemma with_session_Inr: "dhas (adb_sessions c) t \<Longrightarrow> (\<And>sw. fst (f sw) = Inr x) \<Longrightarrow>
   fst (with_session t f c) = Inr x"
  by (auto simp: with_session_def dhas_iff split: option.splits prod.splits) (metis fst_conv)

lemma drop_session_eq:
  assumes "dhas (adb_sessions c) t"
  shows "fst (drop_session p t c) = Inr ()"
    and "adb_sessions (snd (drop_session p t c)) = ddel (adb_sessions (snd (with_session t (session_close p) c))) t"
    and "adb_mini (snd (drop_session p t c)) = adb_mini c"
    and "adb_tree_sessions (snd (drop_session p t c)) = adb_tree_sessions c"
    and "adb_backend (snd (drop_session p t c)) = adb_backend c"
proof -
  obtain r c' where w: "with_session t (session_close p) c = (r, c')"
    by (cases "with_session t (session_close p) c")
  then have r: "r = Inr ()"
    using with_session_Inr [OF assms, of "session_close p" "()"] by simp
  show "fst (drop_session p t c) = Inr ()"
    and "adb_sessions (snd (drop_session p t c)) = ddel (adb_sessions (snd (with_session t (session_close p) c))) t"
    and "adb_mini (snd (drop_session p t c)) = adb_mini c"
    and "adb_tree_sessions (snd (drop_session p t c)) = adb_tree_sessions c"
    and "adb_backend (snd (drop_session p t c)) = adb_backend c"
    using with_session_dom [OF w] by (simp_all add: drop_session_def prog_simps w r)
qed

lemma drop_session_dom:
  assumes "dhas (adb_sessions c) t"
  shows "dhas (adb_sessions (snd (drop_session p t c))) u = (u \<noteq> t \<and> dhas (adb_sessions c) u)"
proof -
  obtain r c' where w: "with_session t (session_close p) c = (r, c')"
    by (cases "with_session t (session_close p) c")
  show ?thesis
    using drop_session_eq(2) [OF assms, of p] with_session_dom [OF w, of u] by (simp add: dhas_iff w)
qed

text \<open>
  \<open>try: m finally: close and forget the session\<close>: the outcome is that of \<open>m\<close>, the session is
  gone and the other sessions are kept.
\<close>

lemma finish_session:
  assumes d: "dhas (adb_sessions c) t" and m: "m c = (r, c1)"
    and dom: "\<And>u. dhas (adb_sessions c1) u = dhas (adb_sessions c) u" "adb_backend c1 = adb_backend c"
      "adb_allow_fallback c1 = adb_allow_fallback c"
    and ret: "\<forall>x. r' \<noteq> Inl (PyExc NonTermination x)"
    and fin: "try_finally m (drop_session p t) c = (r', c')"
  shows "r' = r \<and> adb_backend c' = adb_backend c \<and>
    dhas (adb_sessions c') u = (u \<noteq> t \<and> dhas (adb_sessions c) u)"
proof -
  have t1: "dhas (adb_sessions c1) t" using d dom(1) by simp
  have "\<forall>x. r \<noteq> Inl (PyExc NonTermination x)"
    using fin m ret by (auto simp: prog_simps)
  then have "case r of Inl e \<Rightarrow> catchable e | Inr _ \<Rightarrow> True"
    by (cases r) (auto simp: catchable_def, metis pyexc.collapse)
  with fin m drop_session_eq(1) [OF t1, of p] have "r' = r" "c' = snd (drop_session p t c1)"
    by (auto simp: prog_simps split: prod.splits sum.splits)
  with drop_session_eq(5) [OF t1, of p] drop_session_dom [OF t1, of p u] dom show ?thesis by simp
qed

text \<open>A commit or a rollback over the socket ends the transaction on the client.\<close>

lemma agent_finish_dom:
  assumes sock: "\<not> using_mini c" and t: "dhas (adb_sessions c) t"
    and fin: "op = agent_commit p t \<or> op = agent_rollback p t" and run: "op c = (r, c')"
    and ret: "\<forall>m. r \<noteq> Inl (PyExc NonTermination m)"
  shows "\<not> using_mini c' \<and> dhas (adb_sessions c') u = (u \<noteq> t \<and> dhas (adb_sessions c) u)"
proof -
  let ?cm = "bnd (with_session t (expect_ok p ''COMMIT'' ''COMMIT'')) (\<lambda>_. ret ())"
  let ?rm = "with_session t (bnd (session_request p ''ABORT'') (\<lambda>resp.
                if \<not> is_ok resp \<and> \<not> contains (upper resp) ''NO_ACTIVE_TXN''
                then raise (failed ''ABORT'' resp) else ret ()))"
  have step: ?thesis
    if m: "try_finally m (drop_session p t) c = (r, c')"
      and dom: "\<And>r1 c1 u. m c = (r1, c1) \<Longrightarrow> dhas (adb_sessions c1) u = dhas (adb_sessions c) u \<and>
        adb_backend c1 = adb_backend c \<and> adb_allow_fallback c1 = adb_allow_fallback c" for m
  proof -
    obtain r1 c1 where m1: "m c = (r1, c1)" by (cases "m c")
    from finish_session [OF t m1 _ _ _ ret m] dom [OF m1] sock show ?thesis
      by (simp add: using_mini_def)
  qed
  show ?thesis
  proof (rule disjE [OF fin])
    assume "op = agent_commit p t"
    with run sock t have "try_finally ?cm (drop_session p t) c = (r, c')"
      by (simp add: agent_commit_def)
    then show ?thesis
      by (rule step) (auto simp: prog_simps dest!: with_session_dom split: prod.splits sum.splits)
  next
    assume "op = agent_rollback p t"
    with run sock t have "try_finally ?rm (drop_session p t) c = (r, c')"
      by (simp add: agent_rollback_def)
    then show ?thesis by (rule step) (auto dest!: with_session_dom)
  qed
qed

end
