(* ===== verification/Agent_Db_Props.thy ===== *)
theory Agent_Db_Props
  imports Agent_Db_Lemmas
begin

text \<open>
  The properties of the database client and of its connections, each with a witness on a
  scripted peer.
\<close>

subsection \<open>A scripted peer\<close>

text \<open>
  The state of the scripted network is the stream of bytes still to be received; what is
  sent is ignored.
\<close>

definition ex_peer :: "string peer" where
  "ex_peer =
     \<lparr>pr_connect = \<lambda>host port w. (Inr 7, w),
      pr_send = \<lambda>h cmd w. (Inr (), w),
      pr_recv = \<lambda>h n w. (Inr (take n w), drop n w),
      pr_close = \<lambda>h w. (Inr (), w),
      pr_uuid = \<lambda>w. (''u1'', w)\<rparr>"

definition lf :: string where
  "lf = [CHR 0x0A]"

definition ex_session :: tree_db_session where
  "ex_session = \<lparr>tds_host = ''h'', tds_port = 1, tds_sock = Some 7, tds_buf = []\<rparr>"

definition ex_client :: "string \<Rightarrow> 'w \<Rightarrow> 'w agent_db" where
  "ex_client backend stream =
     \<lparr>adb_backend = backend, adb_host = ''h'', adb_port = 1, adb_allow_fallback = False,
      adb_mini = mini_init,
      adb_sessions = [(''t'', ex_session)],
      adb_tree_sessions = [(''t'', ex_session)],
      adb_net = stream\<rparr>"

lemma ex_request:
  assumes "CHR 0x0A \<notin> set resp" and "length resp < 4096"
  shows "session_request ex_peer cmd (ex_session, resp @ lf) = (Inr (strip resp), (ex_session, []))"
proof -
  have "readline_loop ex_peer 7 [] (resp @ lf) = Some (Inr (), [] @ concat [] @ resp @ lf, [])"
    using assms by (intro readline_loop_delivers) (simp_all add: ex_peer_def lf_def)
  with assms(1) show ?thesis
    by (simp add: session_request_def session_readline_def ex_peer_def ex_session_def lf_def)
qed

lemma ex_client_simps:
  "using_mini (ex_client b w) = (b = ''mini'')"
  "adb_sessions (ex_client b w) = [(''t'', ex_session)]"
  "adb_tree_sessions (ex_client b w) = [(''t'', ex_session)]"
  "adb_net (ex_client b w) = w" "adb_mini (ex_client b w) = mini_init"
  by (simp_all add: ex_client_def using_mini_def)

lemma hex_encode_word_or_empty: "hex_encode v = [] \<or> is_word (hex_encode v)"
  using is_word_hex_encode [of v] by (cases "v = []") (simp_all add: hex_encode_def)

subsection \<open>Framing\<close>

text \<open>C19: reply lines do not depend on how the network cuts the stream: as soon as the
  buffered and received bytes hold a line feed, \<open>_readline\<close> returns the text before the first
  one (without surrounding white space) and keeps exactly the bytes after it for the next call.\<close>

theorem session_readline_framing:
  assumes "tds_sock s = Some h" and "delivers p h w (cs @ [c]) w'"
    and "CHR 0x0A \<notin> set (tds_buf s @ concat cs)"
    and "tds_buf s @ concat (cs @ [c]) = line @ CHR 0x0A # rest" and "CHR 0x0A \<notin> set line"
  shows "session_readline p (s, w) = (Inr (strip line), (s\<lparr>tds_buf := rest\<rparr>, w'))"
proof -
  have "CHR 0x0A \<in> set (tds_buf s @ concat (cs @ [c]))" using assms(4) by simp
  then have "CHR 0x0A \<in> set c" using assms(3) by auto
  from readline_loop_delivers [OF assms(2,3) this]
  have "readline_loop p h (tds_buf s) w = Some (Inr (), line @ CHR 0x0A # rest, w')"
    using assms(4) by simp
  with assms(1,5) show ?thesis by (simp add: session_readline_def)
qed

theorem session_readline_framing_witness:
  "session_readline ex_peer (ex_session, ''OK 1'' @ lf @ ''OK'') =
    (Inr (strip ''OK 1''), (ex_session\<lparr>tds_buf := ''OK''\<rparr>, []))"
  by (rule session_readline_framing [where h = 7 and cs = "[]" and c = "''OK 1'' @ lf @ ''OK''"])
    (simp_all add: ex_session_def ex_peer_def lf_def)

subsection \<open>Transactions\<close>

text \<open>C26: on the in-memory back end a transaction that writes a key and commits changes that
  key and nothing else: whoever reads next sees the written value there and the old value at
  every other key, and no transaction stays open.\<close>

theorem agent_write_visible:
  assumes "using_mini c" and "mini_inv (adb_mini c)"
    and "mini_tx_of (adb_mini c) (fst (pr_uuid p (adb_net c))) = None"
  shows "\<exists>c'. bnd (agent_start p) (\<lambda>t. bnd (agent_put p t k v) (\<lambda>_. agent_commit p t)) c = (Inr (), c') \<and>
    (\<forall>k'. fst (agent_kv_get p k' c') =
       (if k' = k then Inr (Some v) else fst (agent_kv_get p k' c))) \<and>
    mini_tx_of (adb_mini c') = mini_tx_of (adb_mini c)"
proof -
  from agent_tx.begin_write_commit [of c p k v] assms obtain c' where c':
    "bnd (agent_start p) (\<lambda>t. bnd (agent_put p t k v) (\<lambda>_. agent_commit p t)) c = (Inr (), c')"
    "using_mini c'" "mini_store_of (adb_mini c') = (mini_store_of (adb_mini c))(k \<mapsto> v)"
    "mini_tx_of (adb_mini c') = mini_tx_of (adb_mini c)"
    by auto
  moreover have "fst (agent_kv_get p k' b) = Inr (mini_store_of (adb_mini b) k')"
    if "using_mini b" for k' b
    using that by (simp add: agent_kv_get_def mini_kv_get_prog_def mini_kv_get_def mini_store_of_def)
  ultimately show ?thesis using assms(1) by auto
qed

theorem agent_write_visible_witness:
  "\<exists>c'. bnd (agent_start ex_peer)
      (\<lambda>t. bnd (agent_put ex_peer t ''k'' ''v'') (\<lambda>_. agent_commit ex_peer t))
      (ex_client ''mini'' []) = (Inr (), c') \<and>
    (\<forall>k'. fst (agent_kv_get ex_peer k' c') =
       (if k' = ''k'' then Inr (Some ''v'') else fst (agent_kv_get ex_peer k' (ex_client ''mini'' [])))) \<and>
    mini_tx_of (adb_mini c') = mini_tx_of (adb_mini (ex_client ''mini'' ([] :: string)))"
  by (rule agent_write_visible)
    (simp_all add: ex_client_simps mini_inv_init, simp add: mini_tx_of_def mini_init_def)


text \<open>C25: the outcome of a commit or rollback never leaves a transaction half open on the
  client: whatever the server answers, and also when the connection fails or times out, the
  session is dropped, and every later call on the id raises and changes nothing.\<close>

theorem agent_finish_drops_session:
  assumes sock: "\<not> using_mini c" and t: "dhas (adb_sessions c) t"
    and fin: "op = agent_commit p t \<or> op = agent_rollback p t" and run: "op c = (r, c')"
    and ret: "\<forall>m. r \<noteq> Inl (PyExc NonTermination m)"
  shows "\<not> dhas (adb_sessions c') t \<and>
    (\<exists>e. exc_cls e = RuntimeError \<and> agent_get p t k c' = (Inl e, c') \<and>
       agent_put p t k v c' = (Inl e, c') \<and> agent_commit p t c' = (Inl e, c') \<and>
       agent_rollback p t c' = (Inl e, c'))"
proof -
  from agent_finish_dom [OF assms, of t] have "\<not> dhas (adb_sessions c') t" "\<not> using_mini c'" by auto
  then show ?thesis
    by (auto simp: using_mini_def agent_get_def agent_put_def agent_commit_def agent_rollback_def
        with_session_def prog_simps dhas_iff)
qed

definition ex_after_commit :: "string agent_db" where
  "ex_after_commit = snd (agent_commit ex_peer ''t'' (ex_client ''socket'' (''ERR'' @ lf)))"

lemma ex_commit_err:
  "fst (agent_commit ex_peer ''t'' (ex_client ''socket'' (''ERR'' @ lf))) = Inl (failed ''COMMIT'' ''ERR'')"
proof -
  have "session_request ex_peer ''COMMIT'' (ex_session, ''ERR'' @ lf) = (Inr (strip ''ERR''), (ex_session, []))"
    by (rule ex_request) simp_all
  moreover have "strip ''ERR'' = ''ERR''" "\<not> is_ok ''ERR''" by code_simp+
  ultimately show ?thesis
    by (simp add: agent_commit_def ex_client_simps prog_simps with_session_def expect_ok_def
        failed_def drop_session_def session_close_def ex_session_def ex_peer_def)
qed

lemma ex_commit_run:
  "agent_commit ex_peer ''t'' (ex_client ''socket'' (''ERR'' @ lf)) =
    (Inl (failed ''COMMIT'' ''ERR''), ex_after_commit)"
  by (simp add: ex_after_commit_def ex_commit_err [symmetric])

theorem agent_finish_drops_session_witness:
  "\<not> dhas (adb_sessions ex_after_commit) ''t'' \<and>
   (\<exists>e. exc_cls e = RuntimeError \<and>
      agent_get ex_peer ''t'' ''k'' ex_after_commit = (Inl e, ex_after_commit) \<and>
      agent_put ex_peer ''t'' ''k'' ''v'' ex_after_commit = (Inl e, ex_after_commit) \<and>
      agent_commit ex_peer ''t'' ex_after_commit = (Inl e, ex_after_commit) \<and>
      agent_rollback ex_peer ''t'' ex_after_commit = (Inl e, ex_after_commit))"
  by (rule agent_finish_drops_session [where op = "agent_commit ex_peer ''t''", OF _ _ _ ex_commit_run])
    (simp_all add: ex_client_simps failed_def)

text \<open>C28: a batched tree read returns the values the server sent, for indices that are words and
  values that are non-empty and valid UTF-8: within these bounds they may contain blanks, line
  feeds and the words of the protocol. (An empty value breaks the batch, see C30;
  bytes that are no UTF-8 make the decoding raise.)\<close>

theorem agent_tree_get_many_decodes:
  assumes "\<not> using_mini c" and "dget (adb_tree_sessions c) t = Some s"
    and "\<forall>(i, v) \<in> set ivs. is_word i \<and> v \<noteq> [] \<and> utf8_valid v"
    and "session_request p (tree_get_many_cmd strict reqs) (s, adb_net c) = (Inr (values_reply ivs), sw')"
  shows "fst (agent_tree_get_many p t reqs strict c) = Inr (map (\<lambda>(i, v). Some v) ivs)"
proof -
  have "starts_with (values_reply ivs) ''OK ''"
    by (simp add: values_reply_def join_args_def)
  then have "is_ok (values_reply ivs)"
    by (auto simp: is_ok_def Let_def starts_with_iff upper_def upper_char_def is_lower_def)
  with assms show ?thesis
    by (simp add: agent_tree_get_many_def with_tree_session_def expect_ok_def prog_simps
        parse_values_reply case_prod_unfold Let_def split: prod.splits)
qed


definition ex_values :: "(string \<times> string) list" where
  "ex_values = [(''0'', ''a b''), (''1'', ''ABORT'')]"

theorem agent_tree_get_many_decodes_witness:
  "fst (agent_tree_get_many ex_peer ''t'' [(0, ''x''), (1, ''y'')] False
      (ex_client ''socket'' (values_reply ex_values @ lf))) = Inr (map (\<lambda>(i, v). Some v) ex_values)"
proof (rule agent_tree_get_many_decodes)
  show "\<forall>(i, v) \<in> set ex_values. is_word i \<and> v \<noteq> [] \<and> utf8_valid v" by code_simp
  have "CHR 0x0A \<notin> set (values_reply ex_values) \<and> length (values_reply ex_values) < 4096"
    by code_simp
  moreover have "strip (values_reply ex_values) = values_reply ex_values" by code_simp
  ultimately show "session_request ex_peer (tree_get_many_cmd False [(0, ''x''), (1, ''y'')])
      (ex_session, adb_net (ex_client ''socket'' (values_reply ex_values @ lf))) =
      (Inr (values_reply ex_values), (ex_session, []))"
    using ex_request by (simp add: ex_client_simps)
qed (simp_all add: ex_client_simps)

text \<open>C30: but an empty value breaks the batch: its encoding is the empty word, the reply is
  one word short, and the whole read raises instead of returning the values.\<close>

theorem parse_values_empty_raises:
  assumes "\<forall>(i, v) \<in> set ivs. is_word i \<and> utf8_valid v" and "[] \<in> snd ` set ivs"
  shows "\<exists>e. parse_values cmd (values_reply ivs) = Inl e \<and> exc_cls e = RuntimeError"
proof -
  let ?ps = "concat (map (\<lambda>(i, v). [i, hex_encode v]) ivs)"
  let ?parts = "[''OK'', ''VALUES'', str_int (int (length ivs))] @ ?ps"
  have w: "is_word ''OK'' \<and> is_word ''VALUES''" by code_simp
  moreover have "\<forall>x \<in> set ?ps. x = [] \<or> is_word x"
    using assms(1) hex_encode_word_or_empty by auto
  ultimately have "\<forall>x \<in> set ?parts. x = [] \<or> is_word x" by simp
  then have "split_ws (values_reply ivs) = filter (\<lambda>x. x \<noteq> []) ?parts"
    unfolding values_reply_def join_args_def by (rule split_ws_join_empty)
  then have parts: "split_ws (values_reply ivs) =
      [''OK'', ''VALUES'', str_int (int (length ivs))] @ filter (\<lambda>x. x \<noteq> []) ?ps"
    using is_word_str_int [of "int (length ivs)"] by (simp add: is_word_def)
  obtain i where "(i, []) \<in> set ivs" using assms(2) by auto
  moreover have "[] \<in> set ((\<lambda>(i, v). [i, hex_encode v]) (i, []))" by (simp add: hex_encode_def)
  ultimately have "[] \<in> set ?ps" unfolding set_concat set_map by blast
  then have "length (filter (\<lambda>x. x \<noteq> []) ?ps) < length ?ps"
    by (rule length_filter_less) simp
  also have "length ?ps = 2 * length ivs" using concat_pairs_length [of id hex_encode ivs] by simp
  finally show ?thesis
    by (simp add: parse_values_def parts Let_def upper_char_def is_lower_def)
qed

theorem parse_values_empty_raises_witness:
  "\<exists>e. parse_values ''TGETMANY'' (values_reply [(''0'', [])]) = Inl e \<and> exc_cls e = RuntimeError"
proof (rule parse_values_empty_raises)
  show "\<forall>(i, v) \<in> set [(''0'', [])]. is_word i \<and> utf8_valid v" by code_simp
qed simp

text \<open>C29: a batched write whose keys are words (not empty, no white space) and whose values are
  non-empty texts puts exactly one word per field on the wire, and hexadecimal decoding the words
  at the value positions gives the values back, blanks, line feeds and protocol words included.
  (The word of an empty value is empty, so the server would count one field fewer; a text is
  valid UTF-8.)\<close>

theorem put_many_cmd_carries_values:
  assumes "\<forall>(k, v) \<in> set reqs. is_word k \<and> v \<noteq> [] \<and> utf8_valid v"
  shows "split_ws (put_many_cmd reqs) =
      [''PUTMANY'', str_int (int (length reqs))] @ concat (map (\<lambda>(k, v). [k, hex_encode v]) reqs) \<and>
    (\<forall>(k, v) \<in> set reqs. hex_decode (hex_encode v) = Inr v)"
proof
  have "is_word ''PUTMANY''" by code_simp
  moreover have "\<forall>x \<in> set (concat (map (\<lambda>(k, v). [k, hex_encode v]) reqs)). is_word x"
    using assms is_word_hex_encode by auto
  ultimately show "split_ws (put_many_cmd reqs) =
      [''PUTMANY'', str_int (int (length reqs))] @ concat (map (\<lambda>(k, v). [k, hex_encode v]) reqs)"
    unfolding put_many_cmd_def join_args_def by (intro split_ws_join) simp
  show "\<forall>(k, v) \<in> set reqs. hex_decode (hex_encode v) = Inr v"
    using assms by (auto simp: hex_decode_encode)
qed

theorem put_many_cmd_carries_values_witness:
  "split_ws (put_many_cmd [(''k'', ''a b'')]) =
      [''PUTMANY'', str_int 1] @ concat (map (\<lambda>(k, v). [k, hex_encode v]) [(''k'', ''a b'')]) \<and>
    hex_decode (hex_encode ''a b'') = Inr ''a b''"
proof -
  have "\<forall>(k, v) \<in> set [(''k'', ''a b'')]. is_word k \<and> v \<noteq> [] \<and> utf8_valid v" by code_simp
  from put_many_cmd_carries_values [OF this] show ?thesis by simp
qed

subsection \<open>Single replies\<close>

text \<open>The client strips a reply line, so white space at the end of a value or reason is lost.\<close>

lemma rstrip_Nil [simp]: "rstrip [] = []"
  by (simp add: rstrip_def)

lemma rstrip_Cons: "rstrip (c # v) = (if rstrip v = [] \<and> is_space c then [] else c # rstrip v)"
  by (auto simp: rstrip_def dropWhile_append)

lemma rstrip_append: "w = [] \<or> \<not> is_space (last w) \<Longrightarrow> rstrip (w @ v) = w @ rstrip v"
  by (induction w) (auto simp: rstrip_Cons split: if_splits)

lemma strip_reply:
  assumes "w \<noteq> []" and "\<not> is_space (hd w)" and "\<not> is_space (last w)"
  shows "strip (w @ '' '' @ v) = (if rstrip v = [] then w else w @ '' '' @ rstrip v)" and "strip w = w"
proof -
  have "is_space CHR '' ''" by code_simp
  moreover have "lstrip (w @ u) = w @ u" for u using assms by (cases w) (simp_all add: lstrip_def)
  from this [of "'' '' @ v"] this [of "[]"] have "lstrip (w @ '' '' @ v) = w @ '' '' @ v" "lstrip w = w"
    by simp_all
  ultimately show "strip (w @ '' '' @ v) = (if rstrip v = [] then w else w @ '' '' @ rstrip v)" and "strip w = w"
    using assms rstrip_append [of w "'' '' @ v"] rstrip_append [of w "[]"]
    by (simp_all add: strip_def rstrip_Cons)
qed

lemma reply_heads:
  "strip (''OK VALUE '' @ v) = (if rstrip v = [] then ''OK VALUE'' else ''OK VALUE '' @ rstrip v)"
  "strip (''ERR ABORT '' @ v) = (if rstrip v = [] then ''ERR ABORT'' else ''ERR ABORT '' @ rstrip v)"
  "strip ''ERR ABORT'' = ''ERR ABORT''"
proof -
  have ns: "\<not> is_space CHR ''O''" "\<not> is_space CHR ''E''" "\<not> is_space CHR ''T''" by code_simp+
  show "strip (''OK VALUE '' @ v) = (if rstrip v = [] then ''OK VALUE'' else ''OK VALUE '' @ rstrip v)"
    using strip_reply(1) [of "''OK VALUE''" v] ns by simp
  show "strip (''ERR ABORT '' @ v) = (if rstrip v = [] then ''ERR ABORT'' else ''ERR ABORT '' @ rstrip v)"
    and "strip ''ERR ABORT'' = ''ERR ABORT''"
    using strip_reply(1) [of "''ERR ABORT''" v] strip_reply(2) [of "''ERR ABORT''"] ns by simp_all
qed

text \<open>C31: a read of a key for which the server answers with the line \<open>OK VALUE v\<close>, for any \<open>v\<close>:
  the caller gets \<open>v\<close> without the white space at its end, except that an empty or blank \<open>v\<close> makes
  the call raise, and a \<open>v\<close> which contains the letters \<open>NOT_FOUND\<close>, in any case, is reported as a
  missing key. (A stored value with a line feed reaches the client cut at the first one: \<open>v\<close> is
  what is on the line.)\<close>

theorem agent_get_value:
  assumes "\<not> using_mini c" and "dget (adb_sessions c) t = Some s"
    and rq: "session_request p (''GET '' @ key) (s, adb_net c) = (Inr (strip (''OK VALUE '' @ v)), sw')"
  shows "fst (agent_get p t key c) =
    (if contains (upper (rstrip v)) ''NOT_FOUND'' then Inr None
     else if rstrip v = [] then Inl (PyExc RuntimeError ''GET failed: OK VALUE'')
     else Inr (Some (rstrip v)))"
proof (cases "rstrip v = []")
  case True
  have "\<not> is_not_found ''OK VALUE''" "extract_value_payload ''OK VALUE'' = None" by code_simp+
  moreover have "session_request p (''GET '' @ key) (s, adb_net c) = (Inr ''OK VALUE'', sw')"
    using rq unfolding reply_heads if_P [OF True] .
  ultimately show ?thesis
    using assms(1,2) True
    by (simp add: agent_get_def with_session_def expect_value_def prog_simps failed_def upper_def
        split: prod.splits)
next
  case False
  then have "is_not_found (''OK VALUE '' @ rstrip v) = contains (upper (rstrip v)) ''NOT_FOUND''"
    by (simp add: is_not_found_def upper_char_def is_lower_def)
  moreover have "extract_value_payload (''OK VALUE '' @ rstrip v) = Some (rstrip v)"
    by (simp add: extract_value_payload_def upper_char_def is_lower_def)
  moreover have "session_request p (''GET '' @ key) (s, adb_net c) = (Inr (''OK VALUE '' @ rstrip v), sw')"
    using rq unfolding reply_heads if_not_P [OF False] .
  ultimately show ?thesis
    using assms(1,2) False
    by (simp add: agent_get_def with_session_def expect_value_def prog_simps split: prod.splits)
qed

text \<open>A value that loses the blank at its end.\<close>

theorem agent_get_value_witness:
  "fst (agent_get ex_peer ''t'' ''k'' (ex_client ''socket'' (''OK VALUE a b '' @ lf))) = Inr (Some ''a b'')"
proof -
  have "session_request ex_peer (''GET '' @ ''k'') (ex_session, adb_net (ex_client ''socket'' (''OK VALUE a b '' @ lf))) =
      (Inr (strip (''OK VALUE '' @ ''a b '')), (ex_session, []))"
    using ex_request [of "''OK VALUE a b ''"] by (simp add: ex_client_simps)
  from agent_get_value [OF _ _ this, of "''t''"] 
  have "fst (agent_get ex_peer ''t'' ''k'' (ex_client ''socket'' (''OK VALUE a b '' @ lf))) =
    (if contains (upper (rstrip ''a b '')) ''NOT_FOUND'' then Inr None
     else if rstrip ''a b '' = [] then Inl (PyExc RuntimeError ''GET failed: OK VALUE'')
     else Inr (Some (rstrip ''a b '')))"
    by (simp add: ex_client_simps)
  moreover have "rstrip ''a b '' = ''a b''" "\<not> contains (upper ''a b'') ''NOT_FOUND''" by code_simp+
  ultimately show ?thesis by simp
qed

text \<open>C32: \<open>tree_commit_retry\<close> on an abort, which the server reports as the line
  \<open>ERR ABORT reason\<close>, or \<open>ERR ABORT\<close> when it has no reason (\<open>src/Server/session.cpp\<close>): the caller gets
  the reason (without white space at its end) and keeps the transaction to try again, except when
  the letters \<open>OK\<close> occur anywhere in the reason: then the session is dropped and the promised
  retry is impossible.\<close>

theorem agent_commit_retry_abort:
  assumes sock: "\<not> using_mini c" and s: "dget (adb_tree_sessions c) t = Some s"
    and rq: "session_request p ''TCOMMIT_RETRY'' (s, adb_net c) = (Inr (strip line), sw')"
    and line: "line = (if reason = [] then ''ERR ABORT'' else ''ERR ABORT '' @ reason)"
    and run: "agent_tree_commit_retry p t c = (r, c')"
  shows "r = Inr (PDict [(''ok'', PBool False), (''committed'', PBool False),
      (''abort_reason'', PStr (rstrip reason)), (''response'', PStr (strip line))]) \<and>
    dhas (adb_tree_sessions c') t = (\<not> contains (upper (rstrip reason)) ''OK'')"
proof -
  have resp: "strip line = (if rstrip reason = [] then ''ERR ABORT'' else ''ERR ABORT '' @ rstrip reason)"
    unfolding line if_distrib [of strip] reply_heads by auto
  have "retry_result (strip line) = Inr (PDict [(''ok'', PBool False), (''committed'', PBool False),
      (''abort_reason'', PStr (rstrip reason)), (''response'', PStr (strip line))]) \<and>
    contains (upper (strip line)) ''OK'' = contains (upper (rstrip reason)) ''OK''"
  proof (cases "rstrip reason = []")
    case True
    have "retry_result ''ERR ABORT'' = Inr (PDict [(''ok'', PBool False), (''committed'', PBool False),
        (''abort_reason'', PStr []), (''response'', PStr ''ERR ABORT'')])"
      and "\<not> contains (upper ''ERR ABORT'') ''OK''" and "\<not> contains (upper []) ''OK''" by code_simp+
    with True show ?thesis by (simp add: resp)
  next
    case False
    have "split_max CHR '' '' 2 (''ERR ABORT '' @ w) = [''ERR'', ''ABORT'', w]" for w
      using split_max_at(1) [of "CHR '' ''" "''ERR''" 1 "''ABORT '' @ w"]
        split_max_at(1) [of "CHR '' ''" "''ABORT''" 0 w]
      by (simp add: numeral_2_eq_2)
    moreover have "\<not> is_ok (''ERR ABORT '' @ w)" "is_abort (''ERR ABORT '' @ w)" for w
      by (simp_all add: is_ok_def is_abort_def Let_def upper_char_def is_lower_def)
    ultimately show ?thesis
      using False by (simp add: resp retry_result_def upper_char_def is_lower_def)
  qed
  then have rr: "retry_result (strip line) = Inr (PDict [(''ok'', PBool False), (''committed'', PBool False),
      (''abort_reason'', PStr (rstrip reason)), (''response'', PStr (strip line))])"
    and ok: "contains (upper (strip line)) ''OK'' = contains (upper (rstrip reason)) ''OK''" by blast+
  obtain s1 w1 where sw: "sw' = (s1, w1)" by (cases sw')
  let ?c1 = "c\<lparr>adb_tree_sessions := dset (adb_tree_sessions c) t s1, adb_net := w1\<rparr>"
  have c1: "with_tree_session t (session_request p ''TCOMMIT_RETRY'') c = (Inr (strip line), ?c1)"
    using s rq by (simp add: with_tree_session_def sw)
  have "\<not> dhas (adb_tree_sessions (snd (drop_tree_session p t ?c1))) t"
    using session_close_Inr [of p "(s1, w1)"]
    by (cases "session_close p (s1, w1)") (auto simp: drop_tree_session_def with_tree_session_def prog_simps dhas_iff
        split: prod.splits sum.splits)
  then show ?thesis
    using run sock c1 rr ok by (auto simp: agent_tree_commit_retry_def split: if_splits)
qed

text \<open>An abort whose reason names a key with \<open>token\<close>: the session is gone.\<close>

definition ex_retry :: "pyval res \<times> string agent_db" where
  "ex_retry = agent_tree_commit_retry ex_peer ''t'' (ex_client ''socket'' (''ERR ABORT conflict on token:1'' @ lf))"

theorem agent_commit_retry_abort_witness:
  "fst ex_retry = Inr (PDict [(''ok'', PBool False), (''committed'', PBool False),
      (''abort_reason'', PStr ''conflict on token:1''),
      (''response'', PStr ''ERR ABORT conflict on token:1'')]) \<and>
   \<not> dhas (adb_tree_sessions (snd ex_retry)) ''t''"
proof -
  let ?c = "ex_client ''socket'' (''ERR ABORT conflict on token:1'' @ lf)"
  have rq: "session_request ex_peer ''TCOMMIT_RETRY'' (ex_session, adb_net ?c) =
      (Inr (strip ''ERR ABORT conflict on token:1''), (ex_session, []))"
    using ex_request [of "''ERR ABORT conflict on token:1''"] by (simp add: ex_client_simps)
  have run: "agent_tree_commit_retry ex_peer ''t'' ?c = (fst ex_retry, snd ex_retry)"
    by (simp only: ex_retry_def prod.collapse)
  have c: "\<not> using_mini ?c" "dget (adb_tree_sessions ?c) ''t'' = Some ex_session"
    by (simp_all add: ex_client_simps)
  have l: "''ERR ABORT conflict on token:1'' =
      (if ''conflict on token:1'' = [] then ''ERR ABORT'' else ''ERR ABORT '' @ ''conflict on token:1'')"
    by simp
  have "rstrip ''conflict on token:1'' = ''conflict on token:1''"
    "strip ''ERR ABORT conflict on token:1'' = ''ERR ABORT conflict on token:1''"
    "contains (upper ''conflict on token:1'') ''OK''" by code_simp+
  with agent_commit_retry_abort [OF c rq l run] show ?thesis by (simp only: simp_thms)
qed

subsection \<open>Connections of \<open>kv_get\<close>\<close>

text \<open>A peer that also counts the connections made and the connections closed.\<close>

definition counted :: "'w peer \<Rightarrow> ('w \<times> nat \<times> nat) peer" where
  "counted p =
     \<lparr>pr_connect = \<lambda>host port (w, n, k).
        (case pr_connect p host port w of
           (Inl e, w') \<Rightarrow> (Inl e, (w', n, k))
         | (Inr h, w') \<Rightarrow> (Inr h, (w', n + 1, k))),
      pr_send = \<lambda>h cmd (w, n, k). (case pr_send p h cmd w of (r, w') \<Rightarrow> (r, (w', n, k))),
      pr_recv = \<lambda>h m (w, n, k). (case pr_recv p h m w of (r, w') \<Rightarrow> (r, (w', n, k))),
      pr_close = \<lambda>h (w, n, k). (case pr_close p h w of (r, w') \<Rightarrow> (r, (w', n, k + 1))),
      pr_uuid = \<lambda>(w, n, k). (case pr_uuid p w of (u, w') \<Rightarrow> (u, (w', n, k)))\<rparr>"

lemma counted_sel:
  "pr_send (counted p) h cmd (w, m) = (case pr_send p h cmd w of (r, w') \<Rightarrow> (r, (w', m)))"
  "pr_recv (counted p) h i (w, m) = (case pr_recv p h i w of (r, w') \<Rightarrow> (r, (w', m)))"
  "pr_close (counted p) h (w, n, k) = (case pr_close p h w of (r, w') \<Rightarrow> (r, (w', n, k + 1)))"
  "pr_connect (counted p) host port (w, n, k) =
     (case pr_connect p host port w of
        (Inl e, w') \<Rightarrow> (Inl e, (w', n, k))
      | (Inr h, w') \<Rightarrow> (Inr h, (w', n + 1, k)))"
  by (auto simp: counted_def split: prod.splits)

lemma readline_loop_counted:
  assumes "readline_loop (counted p) h buf x = Some (r, b, x')"
  shows "snd x' = snd x"
proof -
  have "q = counted p \<longrightarrow> snd (snd (snd y)) = snd x" if "readline_loop q h buf x = Some y" for q h buf x y
  proof (rule readline_loop.raw_induct [where P = "\<lambda>q h buf x y. q = counted p \<longrightarrow> snd (snd (snd y)) = snd x"],
      intro impI)
    fix rl q h buf x y
    assume IH: "\<And>q h buf x y. rl q h buf x = Some y \<Longrightarrow> q = counted p \<longrightarrow> snd (snd (snd y)) = snd x"
      and run: "(if CHR 0x0A \<in> set buf then Some (Inr (), buf, x)
         else case pr_recv q h 4096 x of
             (Inl e, w') \<Rightarrow> Some (Inl e, buf, w')
           | (Inr chunk, w') \<Rightarrow>
               if chunk = [] then Some (Inl (PyExc RuntimeError ''server closed connection''), buf, w')
               else rl q h (buf @ chunk) w') = Some y"
      and q: "q = counted p"
    obtain w m where x: "x = (w, m)" by (cases x)
    obtain r w' where rv: "pr_recv p h 4096 w = (r, w')" by (cases "pr_recv p h 4096 w")
    show "snd (snd (snd y)) = snd x"
      using run IH [of q h _ "(w', m)" y] unfolding q x counted_sel rv
      by (cases r) (auto split: if_splits)
  qed (rule that)
  with assms show ?thesis by fastforce
qed

lemma session_readline_counted:
  "session_readline (counted p) (s, x) = (r, (s', x')) \<Longrightarrow>
   snd x' = snd x \<and> tds_sock s' = tds_sock s"
  by (auto simp: session_readline_def split: option.splits prod.splits sum.splits
      dest!: readline_loop_counted)

lemma session_request_counted:
  "session_request (counted p) cmd (s, x) = (r, (s', x')) \<Longrightarrow>
   snd x' = snd x \<and> tds_sock s' = tds_sock s"
  by (cases x) (auto simp: session_request_def counted_sel
      split: option.splits prod.splits sum.splits dest!: session_readline_counted)


lemma session_close_counted:
  assumes "tds_sock s \<noteq> None" and "session_close (counted p) (s, (w, n, k)) = (r, (s', x'))"
  shows "snd x' = (n, k + 1)"
  using assms by (auto simp: session_close_def counted_sel split: prod.splits)

text \<open>What an attempt does to the counters: \<open>a\<close> connections made, \<open>b\<close> closed.\<close>

lemma open_session_counted:
  assumes "open_session (counted p) host port (w, n, k) = (r, x')"
  shows "case r of
      Inr s \<Rightarrow> tds_sock s \<noteq> None \<and> snd x' = (n + 1, k)
    | Inl e \<Rightarrow> snd x' = (n, k) \<or> snd x' = (n + 1, k)"
proof -
  obtain rc w1 where c: "pr_connect p host port w = (rc, w1)" by (cases "pr_connect p host port w")
  show ?thesis
  proof (cases rc)
    case (Inl e)
    with assms c show ?thesis
      by (auto simp: open_session_def session_connect_def session_init_def counted_sel)
  next
    case (Inr h)
    let ?s = "session_init host port\<lparr>tds_sock := Some h\<rparr>"
    obtain r1 s1 x1 where rl: "session_readline (counted p) (?s, (w1, n + 1, k)) = (r1, (s1, x1))"
      by (cases "session_readline (counted p) (?s, (w1, n + 1, k))") auto
    from session_readline_counted [OF rl] have s1: "snd x1 = (n + 1, k)" "tds_sock s1 = Some h" by auto
    have "tds_host (session_init host port) = host" "tds_port (session_init host port) = port"
      by (simp_all add: session_init_def)
    then show ?thesis using assms c Inr rl s1
      by (cases r1) (auto simp: open_session_def session_connect_def counted_sel prog_simps)
  qed
qed

lemma kv_get_body_counted:
  assumes "kv_get_body (counted p) key (s, x) = (r, (s', x'))"
  shows "snd x' = snd x \<and> tds_sock s' = tds_sock s"
proof -
  obtain r1 s1 x1 where 1: "session_request (counted p) ''START'' (s, x) = (r1, (s1, x1))"
    by (cases "session_request (counted p) ''START'' (s, x)") auto
  obtain r2 s2 x2 where 2: "session_request (counted p) (''GET '' @ key) (s1, x1) = (r2, (s2, x2))"
    by (cases "session_request (counted p) (''GET '' @ key) (s1, x1)") auto
  from assms session_request_counted [OF 1] session_request_counted [OF 2] 1 2 show ?thesis
    by (auto simp: kv_get_body_def prog_simps split: sum.splits if_splits option.splits)
qed

lemma kv_get_attempt_counted:
  assumes "kv_get_attempt (counted p) host port key (w, n, k) = (r, x')"
  shows "\<exists>a b. snd x' = (n + a, k + b) \<and> a \<le> 1 \<and> b \<le> a \<and> ((\<exists>v. r = Inr v) \<longrightarrow> a = 1 \<and> b = 1)"
proof -
  obtain ro xo where o: "open_session (counted p) host port (w, n, k) = (ro, xo)"
    by (cases "open_session (counted p) host port (w, n, k)")
  note oc = open_session_counted [OF o]
  show ?thesis
  proof (cases ro)
    case (Inl e)
    with assms o oc show ?thesis by (auto simp: kv_get_attempt_def prog_simps)
  next
    case (Inr s)
    with oc have s: "tds_sock s \<noteq> None" "snd xo = (n + 1, k)" by auto
    obtain rb sb xb where b: "kv_get_body (counted p) key (s, xo) = (rb, (sb, xb))"
      by (cases "kv_get_body (counted p) key (s, xo)") auto
    obtain ra sa xa where a: "session_request (counted p) ''ABORT'' (sb, xb) = (ra, (sa, xa))"
      by (cases "session_request (counted p) ''ABORT'' (sb, xb)") auto
    obtain rc sc xc where c: "session_close (counted p) (sa, xa) = (rc, (sc, xc))"
      by (cases "session_close (counted p) (sa, xa)") auto
    from kv_get_body_counted [OF b] session_request_counted [OF a] s
    have sa: "snd xb = (n + 1, k)" "snd xa = (n + 1, k)" "tds_sock sa \<noteq> None" by auto
    have xc: "snd xc = (n + 1, k + 1)"
      using session_close_counted [OF sa(3), of p "fst xa" "n + 1" k] c sa(2)
      by (metis prod.collapse)
    have "rc = Inr ()" using session_close_Inr [of "counted p" "(sa, xa)"] c by simp
    with assms o Inr b a c sa xc show ?thesis
      by (auto simp: kv_get_attempt_def prog_simps split: sum.splits if_splits)
  qed
qed

lemma kv_get_loop_counted:
  "kv_get_loop (counted p) host port key m le (w, n, k) = (r, x') \<Longrightarrow>
   \<exists>a b. snd x' = (n + a, k + b) \<and> a \<le> m \<and> b \<le> a \<and> a \<le> b + 1 \<and> ((\<exists>v. r = Inr v) \<longrightarrow> a = b)"
proof (induction m arbitrary: le w n k)
  case 0
  then show ?case by (auto simp: prog_simps split: option.splits)
next
  case (Suc m)
  obtain r1 x1 where at: "kv_get_attempt (counted p) host port key (w, n, k) = (r1, x1)"
    by (cases "kv_get_attempt (counted p) host port key (w, n, k)")
  from kv_get_attempt_counted [OF at] obtain a b where
    ab: "snd x1 = (n + a, k + b)" "a \<le> 1" "b \<le> a" "(\<exists>v. r1 = Inr v) \<longrightarrow> a = 1 \<and> b = 1" by blast
  then obtain w1 where x1: "x1 = (w1, n + a, k + b)" by (cases x1) auto
  show ?case
  proof (cases "\<exists>e. r1 = Inr (KvRetry e)")
    case True
    then obtain e where e: "r1 = Inr (KvRetry e)" by blast
    with Suc.prems at x1 have "kv_get_loop (counted p) host port key m (Some e) (w1, n + a, k + b) = (r, x')"
      by (simp add: prog_simps)
    from Suc.IH [OF this] obtain a' b' where
      "snd x' = (n + a + a', k + b + b')" "a' \<le> m" "b' \<le> a'" "a' \<le> b' + 1" "(\<exists>v. r = Inr v) \<longrightarrow> a' = b'"
      by blast
    with ab(4) e show ?thesis by (intro exI [of _ "a + a'"] exI [of _ "b + b'"]) auto
  next
    case False
    with Suc.prems at ab x1 show ?thesis
      by (intro exI [of _ a] exI [of _ b])
        (auto simp: prog_simps split: sum.splits kv_outcome.splits)
  qed
qed

text \<open>C27: a single read over the socket makes at most ten connections and leaves at most one of
  them open (the one whose greeting failed); with the fallback to the in-memory database switched
  off it closes all of them when it returns a value. (With the fallback a value may come from the
  in-memory database while a connection is left open.) It touches no open transaction.\<close>

theorem agent_kv_get_connections:
  assumes "\<not> using_mini c" and "adb_net c = (w, n, k)" and "agent_kv_get (counted p) key c = (r, c')"
  shows "\<exists>a b. snd (adb_net c') = (n + a, k + b) \<and> a \<le> 10 \<and> b \<le> a \<and> a \<le> b + 1 \<and>
      (\<not> adb_allow_fallback c \<and> (\<exists>v. r = Inr v) \<longrightarrow> a = b) \<and>
      adb_sessions c' = adb_sessions c \<and> adb_tree_sessions c' = adb_tree_sessions c \<and>
      adb_mini c' = adb_mini c"
proof -
  obtain r1 x1 where lp: "kv_get_loop (counted p) (adb_host c) (adb_port c) key 10 None (w, n, k) = (r1, x1)"
    by (cases "kv_get_loop (counted p) (adb_host c) (adb_port c) key 10 None (w, n, k)")
  from kv_get_loop_counted [OF lp] obtain a b where
    ab: "snd x1 = (n + a, k + b)" "a \<le> 10" "b \<le> a" "a \<le> b + 1" "(\<exists>v. r1 = Inr v) \<longrightarrow> a = b"
    by blast
  with assms lp show ?thesis
    by (intro exI [of _ a] exI [of _ b])
      (auto simp: agent_kv_get_def or_fallback_def on_net_def on_mini_def mini_kv_get_prog_def
        prog_simps split: sum.splits if_splits)
qed


definition ex_count_client :: "(string \<times> nat \<times> nat) agent_db" where
  "ex_count_client =
     ex_client ''socket'' (''READY'' @ lf @ ''OK'' @ lf @ ''OK VALUE 1'' @ lf @ ''OK'' @ lf, 0, 0)"

theorem agent_kv_get_connections_witness:
  "\<exists>a b. snd (adb_net (snd (agent_kv_get (counted ex_peer) ''k'' ex_count_client))) = (a, b) \<and>
      a \<le> 10 \<and> b \<le> a \<and> a \<le> b + 1 \<and>
      adb_sessions (snd (agent_kv_get (counted ex_peer) ''k'' ex_count_client)) =
        adb_sessions ex_count_client \<and>
      adb_tree_sessions (snd (agent_kv_get (counted ex_peer) ''k'' ex_count_client)) =
        adb_tree_sessions ex_count_client"
proof -
  have "\<not> using_mini ex_count_client" by (simp add: ex_count_client_def ex_client_simps)
  moreover have "adb_net ex_count_client =
      (''READY'' @ lf @ ''OK'' @ lf @ ''OK VALUE 1'' @ lf @ ''OK'' @ lf, 0, 0)"
    by (simp only: ex_count_client_def ex_client_simps)
  ultimately show ?thesis
    using agent_kv_get_connections [of ex_count_client _ 0 0 ex_peer "''k''" "fst _" "snd _"]
    by (metis add_0 prod.collapse)
qed

subsection \<open>The fallback\<close>

text \<open>C36: the fallback of \<open>start\<close> is a dead end: when the server cannot be reached and
  \<open>TREE_DB_FALLBACK_TO_MINI\<close> is set, \<open>start\<close> succeeds with the id of a transaction of the
  in-memory database, but every further call looks the id up among the socket sessions and
  raises; the transaction stays open in the in-memory database for ever.\<close>

theorem agent_fallback_tx_unusable:
  assumes "\<not> using_mini c" and "adb_allow_fallback c"
    and "open_tx p (adb_host c) (adb_port c) ''START'' (adb_net c) = (Inl e, w)" and "catchable e"
    and "pr_uuid p w = (t, w')" and "\<not> dhas (adb_sessions c) t"
  shows "\<exists>c'. agent_start p c = (Inr t, c') \<and> dhas (mdb_tx_map (adb_mini c')) t \<and>
    (\<exists>x. exc_cls x = RuntimeError \<and> agent_get p t k c' = (Inl x, c') \<and>
       agent_put p t k v c' = (Inl x, c') \<and> agent_commit p t c' = (Inl x, c') \<and>
       agent_rollback p t c' = (Inl x, c'))"
  using assms
  by (simp add: agent_start_def or_fallback_def on_net_def on_mini_new_def on_mini_def mini_start_def
      prog_simps agent_get_def agent_put_def agent_commit_def agent_rollback_def with_session_def
      dhas_iff)

definition ex_fallback_client :: "string agent_db" where
  "ex_fallback_client = ex_client ''socket'' []\<lparr>adb_allow_fallback := True\<rparr>"

theorem agent_fallback_tx_unusable_witness:
  "\<exists>c'. agent_start ex_peer ex_fallback_client = (Inr ''u1'', c') \<and>
    dhas (mdb_tx_map (adb_mini c')) ''u1'' \<and>
    (\<exists>x. exc_cls x = RuntimeError \<and> agent_get ex_peer ''u1'' ''k'' c' = (Inl x, c') \<and>
       agent_put ex_peer ''u1'' ''k'' ''v'' c' = (Inl x, c') \<and>
       agent_commit ex_peer ''u1'' c' = (Inl x, c') \<and>
       agent_rollback ex_peer ''u1'' c' = (Inl x, c'))"
proof (rule agent_fallback_tx_unusable)
  have "readline_loop ex_peer 7 [] [] =
      Some (Inl (PyExc RuntimeError ''server closed connection''), [], [])"
    by (simp add: readline_loop.simps ex_peer_def)
  then show "open_tx ex_peer (adb_host ex_fallback_client) (adb_port ex_fallback_client) ''START''
      (adb_net ex_fallback_client) = (Inl (PyExc RuntimeError ''server closed connection''), [])"
    by (simp add: open_tx_def open_session_def session_connect_def session_init_def
        session_readline_def prog_simps ex_peer_def ex_fallback_client_def ex_client_def)
qed (simp_all add: ex_fallback_client_def ex_client_def using_mini_def ex_peer_def)

end
