(* ===== verification/Kv_Tools.thy ===== *)
theory Kv_Tools
  imports Agent_Db_Lemmas
begin

text \<open>
  The tools a language model may call (\<open>Agent/tools/kv_tools.py\<close>): each takes the JSON object
  of its arguments and returns a JSON object with an \<open>ok\<close> flag. A tool is a program over the
  state of the database client; an \<open>Inl\<close> outcome is an exception that leaves the tool.
\<close>

subsection \<open>Results and arguments\<close>

type_synonym args = "(string \<times> pyval) list"

definition tool_ok :: "args \<Rightarrow> pyval" where
  "tool_ok data = PDict (dict_update [(''ok'', PBool True)] data)"

definition tool_err :: "string \<Rightarrow> args \<Rightarrow> pyval" where
  "tool_err message extra =
     PDict (dict_update [(''ok'', PBool False), (''error'', PStr message)] extra)"

definition parse_json_value :: "string option \<Rightarrow> pyval \<Rightarrow> pyval" where
  "parse_json_value raw dflt =
     (case raw of
        None \<Rightarrow> dflt
      | Some s \<Rightarrow> (if s = [] then dflt
                 else case loads s of None \<Rightarrow> dflt | Some v \<Rightarrow> v))"

definition tool_key :: "string \<Rightarrow> string \<Rightarrow> string" where
  "tool_key namespace suffix = rstrip_char CHR '':'' namespace @ '':'' @ lstrip_char CHR '':'' suffix"

text \<open>\<open>str(args.get(k, "")).strip()\<close>, \<open>str(args.get(k, ""))\<close>, \<open>int(args.get(k, 0))\<close>.\<close>

definition sarg :: "args \<Rightarrow> string \<Rightarrow> string" where
  "sarg args k = strip (py_str (dget_def args k (PStr [])))"

definition varg :: "args \<Rightarrow> string \<Rightarrow> string" where
  "varg args k = py_str (dget_def args k (PStr []))"

definition iarg :: "args \<Rightarrow> string \<Rightarrow> int res" where
  "iarg args k = to_int (dget_def args k (PInt 0))"

definition opt_val :: "string option \<Rightarrow> pyval" where
  "opt_val v = (case v of None \<Rightarrow> PNone | Some s \<Rightarrow> PStr s)"

text \<open>\<open>try: ... except Exception as exc: return _err(str(exc), **extra)\<close>.\<close>

definition tool_try :: "('w, pyval) db_prog \<Rightarrow> args \<Rightarrow> ('w, pyval) db_prog" where
  "tool_try m extra = try_except m (\<lambda>e. ret (tool_err (exc_msg e) extra))"

subsection \<open>Plain transactions\<close>

definition tool_kv_get :: "'w peer \<Rightarrow> args \<Rightarrow> ('w, pyval) db_prog" where
  "tool_kv_get p args =
     (let key = sarg args ''key'' in
      if key = [] then ret (tool_err ''missing key'' [])
      else tool_try
        (bnd (agent_kv_get p key) (\<lambda>v.
           ret (tool_ok [(''key'', PStr key), (''value'', opt_val v), (''found'', PBool (v \<noteq> None))])))
        [(''key'', PStr key)])"

definition tx_start :: "'w peer \<Rightarrow> args \<Rightarrow> ('w, pyval) db_prog" where
  "tx_start p args =
     tool_try (bnd (agent_start p) (\<lambda>t. ret (tool_ok [(''tx_id'', PStr t)]))) []"

definition tx_get :: "'w peer \<Rightarrow> args \<Rightarrow> ('w, pyval) db_prog" where
  "tx_get p args =
     (let t = sarg args ''tx_id''; key = sarg args ''key'' in
      if t = [] \<or> key = [] then ret (tool_err ''missing tx_id or key'' [])
      else tool_try
        (bnd (agent_get p t key) (\<lambda>v.
           ret (tool_ok [(''tx_id'', PStr t), (''key'', PStr key), (''value'', opt_val v),
                         (''found'', PBool (v \<noteq> None))])))
        [(''tx_id'', PStr t), (''key'', PStr key)])"

definition tx_put :: "'w peer \<Rightarrow> args \<Rightarrow> ('w, pyval) db_prog" where
  "tx_put p args =
     (let t = sarg args ''tx_id''; key = sarg args ''key''; val = varg args ''value'' in
      if t = [] \<or> key = [] then ret (tool_err ''missing tx_id or key'' [])
      else tool_try
        (bnd (agent_put p t key val) (\<lambda>_.
           ret (tool_ok [(''tx_id'', PStr t), (''key'', PStr key), (''value'', PStr val)])))
        [(''tx_id'', PStr t), (''key'', PStr key)])"

definition tx_commit :: "'w peer \<Rightarrow> args \<Rightarrow> ('w, pyval) db_prog" where
  "tx_commit p args =
     (let t = sarg args ''tx_id'' in
      if t = [] then ret (tool_err ''missing tx_id'' [])
      else tool_try
        (bnd (agent_commit p t) (\<lambda>_.
           ret (tool_ok [(''tx_id'', PStr t), (''committed'', PBool True)])))
        [(''tx_id'', PStr t)])"

definition tx_rollback :: "'w peer \<Rightarrow> args \<Rightarrow> ('w, pyval) db_prog" where
  "tx_rollback p args =
     (let t = sarg args ''tx_id'' in
      if t = [] then ret (tool_err ''missing tx_id'' [])
      else tool_try
        (bnd (agent_rollback p t) (\<lambda>_.
           ret (tool_ok [(''tx_id'', PStr t), (''rolled_back'', PBool True)])))
        [(''tx_id'', PStr t)])"

subsection \<open>Tree transactions\<close>

text \<open>The conversions to \<open>int\<close> happen before the \<open>try\<close>: what they raise leaves the tool.\<close>

definition tree_tx_start :: "'w peer \<Rightarrow> args \<Rightarrow> ('w, pyval) db_prog" where
  "tree_tx_start p args =
     tool_try (bnd (agent_tree_start p) (\<lambda>t.
       ret (tool_ok [(''tx_id'', PStr t), (''root_branch_id'', PInt 0)]))) []"

definition tree_tx_branch :: "'w peer \<Rightarrow> args \<Rightarrow> ('w, pyval) db_prog" where
  "tree_tx_branch p args =
     bnd (lift_res (iarg args ''parent_branch_id'')) (\<lambda>parent.
       let t = sarg args ''tx_id'' in
       if t = [] then ret (tool_err ''missing tx_id'' [])
       else tool_try
         (bnd (agent_tree_branch p t parent) (\<lambda>b.
            ret (tool_ok [(''tx_id'', PStr t), (''parent_branch_id'', PInt parent),
                          (''branch_id'', PInt b)])))
         [(''tx_id'', PStr t), (''parent_branch_id'', PInt parent)])"

definition tree_tx_get :: "'w peer \<Rightarrow> args \<Rightarrow> ('w, pyval) db_prog" where
  "tree_tx_get p args =
     bnd (lift_res (iarg args ''branch_id'')) (\<lambda>b.
       let t = sarg args ''tx_id''; key = sarg args ''key'';
           strict = truthy (dget_def args ''strict'' (PBool False)) in
       if t = [] \<or> key = [] then ret (tool_err ''missing tx_id or key'' [])
       else tool_try
         (bnd (agent_tree_get p t b key strict) (\<lambda>v.
            ret (tool_ok [(''tx_id'', PStr t), (''branch_id'', PInt b), (''key'', PStr key),
                          (''value'', opt_val v), (''found'', PBool (v \<noteq> None)),
                          (''strict'', PBool strict)])))
         [(''tx_id'', PStr t), (''branch_id'', PInt b), (''key'', PStr key),
          (''strict'', PBool strict)])"

definition tree_tx_put :: "'w peer \<Rightarrow> args \<Rightarrow> ('w, pyval) db_prog" where
  "tree_tx_put p args =
     bnd (lift_res (iarg args ''branch_id'')) (\<lambda>b.
       let t = sarg args ''tx_id''; key = sarg args ''key''; val = varg args ''value'' in
       if t = [] \<or> key = [] then ret (tool_err ''missing tx_id or key'' [])
       else tool_try
         (bnd (agent_tree_put p t b key val) (\<lambda>_.
            ret (tool_ok [(''tx_id'', PStr t), (''branch_id'', PInt b), (''key'', PStr key),
                          (''value'', PStr val)])))
         [(''tx_id'', PStr t), (''branch_id'', PInt b), (''key'', PStr key)])"

definition tree_tx_winner :: "'w peer \<Rightarrow> args \<Rightarrow> ('w, pyval) db_prog" where
  "tree_tx_winner p args =
     bnd (lift_res (iarg args ''branch_id'')) (\<lambda>b.
       let t = sarg args ''tx_id'' in
       if t = [] then ret (tool_err ''missing tx_id'' [])
       else tool_try
         (bnd (agent_tree_select_winner p t b) (\<lambda>_.
            ret (tool_ok [(''tx_id'', PStr t), (''branch_id'', PInt b),
                          (''winner_selected'', PBool True)])))
         [(''tx_id'', PStr t), (''branch_id'', PInt b)])"

definition tree_tx_refresh_winner :: "'w peer \<Rightarrow> args \<Rightarrow> ('w, pyval) db_prog" where
  "tree_tx_refresh_winner p args =
     bnd (lift_res (iarg args ''branch_id'')) (\<lambda>b.
       let t = sarg args ''tx_id''; key = sarg args ''key'' in
       if t = [] \<or> key = [] then ret (tool_err ''missing tx_id or key'' [])
       else tool_try
         (bnd (agent_tree_refresh_winner p t b key) (\<lambda>v.
            ret (tool_ok [(''tx_id'', PStr t), (''branch_id'', PInt b), (''key'', PStr key),
                          (''value'', opt_val v), (''found'', PBool (v \<noteq> None))])))
         [(''tx_id'', PStr t), (''branch_id'', PInt b), (''key'', PStr key)])"

definition tree_tx_commit_retry :: "'w peer \<Rightarrow> args \<Rightarrow> ('w, pyval) db_prog" where
  "tree_tx_commit_retry p args =
     (let t = sarg args ''tx_id'' in
      if t = [] then ret (tool_err ''missing tx_id'' [])
      else tool_try
        (bnd (agent_tree_commit_retry p t) (\<lambda>result.
         bnd (lift_res (vget result ''ok'' PNone)) (\<lambda>okv.
           if truthy okv then ret (tool_ok [(''tx_id'', PStr t), (''committed'', PBool True)])
           else bnd (lift_res (vget result ''abort_reason'' (PStr []))) (\<lambda>reason.
                bnd (lift_res (vget result ''response'' (PStr []))) (\<lambda>response.
                  ret (tool_err ''tree commit aborted''
                    [(''tx_id'', PStr t), (''committed'', PBool False),
                     (''abort_reason'', reason), (''response'', response)]))))))
        [(''tx_id'', PStr t)])"

definition tree_tx_abort :: "'w peer \<Rightarrow> args \<Rightarrow> ('w, pyval) db_prog" where
  "tree_tx_abort p args =
     (let t = sarg args ''tx_id'' in
      if t = [] then ret (tool_err ''missing tx_id'' [])
      else tool_try
        (bnd (agent_tree_abort p t) (\<lambda>_.
           ret (tool_ok [(''tx_id'', PStr t), (''aborted'', PBool True)])))
        [(''tx_id'', PStr t)])"

subsection \<open>Submitting an answer\<close>

text \<open>
  \<open>submit_final_answer\<close> runs a transaction of its own; when a step fails after the
  transaction began it is rolled back, and what the rollback raises is dropped.
\<close>

definition submit_in_tx :: "'w peer \<Rightarrow> string \<Rightarrow> string \<Rightarrow> string \<Rightarrow> ('w, pyval) db_prog" where
  "submit_in_tx p t key val =
     try_except
       (bnd (agent_put p t key val) (\<lambda>_.
        bnd (agent_commit p t) (\<lambda>_.
          ret (tool_ok [(''key'', PStr key), (''value'', PStr val), (''committed'', PBool True)]))))
       (\<lambda>e. bnd (if t = [] then ret ()
                 else try_except (agent_rollback p t) (\<lambda>_. ret ())) (\<lambda>_.
              ret (tool_err (exc_msg e) [(''key'', PStr key)])))"

definition submit_final_answer :: "'w peer \<Rightarrow> args \<Rightarrow> ('w, pyval) db_prog" where
  "submit_final_answer p args =
     (let key = sarg args ''key''; val = varg args ''value'' in
      if key = [] then ret (tool_err ''missing key'' [])
      else (\<lambda>c. case agent_start p c of
              (Inl e, c') \<Rightarrow>
                (if catchable e then (Inr (tool_err (exc_msg e) [(''key'', PStr key)]), c')
                 else (Inl e, c'))
            | (Inr t, c') \<Rightarrow> submit_in_tx p t key val c'))"

definition build_product :: "pyval \<Rightarrow> pyval res" where
  "build_product product =
     (case product of
        PDict d \<Rightarrow>
          rbind (to_float (dget_def d ''price'' (PInt 0))) (\<lambda>price.
          rbind (to_int (dget_def d ''quantity'' (PInt 0))) (\<lambda>quantity.
            Inr (PDict [(''product_id'', PStr (varg d ''product_id'')), (''price'', PFloat price),
                        (''quantity'', PInt quantity), (''attributes'', PStr (varg d ''attributes''))])))
      | _ \<Rightarrow> Inl (PyExc ValueError ''product item must be an object''))"

definition build_order :: "args \<Rightarrow> args \<Rightarrow> pyval list \<Rightarrow> pyval res" where
  "build_order args location products =
     rbind (rmap build_product products) (\<lambda>normalized.
     rbind (to_float (dget_def location ''longitude'' (PFloat (Fin 0)))) (\<lambda>lon.
     rbind (to_float (dget_def location ''latitude'' (PFloat (Fin 0)))) (\<lambda>lat.
     rbind (to_float (dget_def args ''total_price'' (PInt 0))) (\<lambda>total.
       Inr (PDict
         [(''order_id'', PStr (varg args ''order_id'')),
          (''order_type'', PStr (py_str (dget_def args ''order_type'' (PStr ''delivery'')))),
          (''user_id'', PStr (varg args ''user_id'')),
          (''store_id'', PStr (varg args ''store_id'')),
          (''note'', PStr (varg args ''note'')),
          (''location'', PDict [(''address'', PStr (varg location ''address'')),
                                (''longitude'', PFloat lon), (''latitude'', PFloat lat)]),
          (''dispatch_time'', PStr (varg args ''dispatch_time'')),
          (''shipping_time'', dget_def args ''shipping_time'' PNone),
          (''delivery_time'', PStr (varg args ''delivery_time'')),
          (''total_price'', PFloat total),
          (''create_time'', PStr (varg args ''create_time'')),
          (''update_time'', PStr (varg args ''update_time'')),
          (''status'', PStr (varg args ''status'')),
          (''products'', PList normalized)])))))"

definition build_delivery_order_payload :: "args \<Rightarrow> pyval res" where
  "build_delivery_order_payload args =
     (case or_else (dget_def args ''location'' PNone) (PDict []) of
        PDict location \<Rightarrow>
          (case or_else (dget_def args ''products'' PNone) (PList []) of
             PList (x # xs) \<Rightarrow> build_order args location (x # xs)
           | _ \<Rightarrow> Inl (PyExc ValueError ''products must be a non-empty array''))
      | _ \<Rightarrow> Inl (PyExc ValueError ''location must be an object''))"

text \<open>\<open>json.dumps([order], ensure_ascii=False, separators=(",", ":"))\<close>.\<close>

definition order_json :: "pyval \<Rightarrow> string" where
  "order_json order = dumps_compact (PList [order])"

definition bad_order :: "pyexc \<Rightarrow> args \<Rightarrow> pyval" where
  "bad_order e extra = tool_err (''bad order payload: '' @ exc_msg e) extra"

definition submit_delivery_order :: "'w peer \<Rightarrow> args \<Rightarrow> ('w, pyval) db_prog" where
  "submit_delivery_order p args =
     (let key = sarg args ''key'' in
      if key = [] then ret (tool_err ''missing key'' [])
      else case build_delivery_order_payload args of
             Inl e \<Rightarrow> ret (bad_order e [(''key'', PStr key)])
           | Inr order \<Rightarrow>
               submit_final_answer p [(''key'', PStr key), (''value'', PStr (order_json order))])"

definition submit_task_delivery_order :: "'w peer \<Rightarrow> args \<Rightarrow> ('w, pyval) db_prog" where
  "submit_task_delivery_order p args =
     (let namespace = sarg args ''namespace''; task_id = sarg args ''task_id'' in
      if namespace = [] \<or> task_id = [] then ret (tool_err ''missing namespace or task_id'' [])
      else case build_delivery_order_payload args of
             Inl e \<Rightarrow> ret (bad_order e [(''namespace'', PStr namespace), (''task_id'', PStr task_id)])
           | Inr order \<Rightarrow>
               submit_final_answer p [(''key'', PStr (tool_key namespace ''answer:final'')),
                                      (''value'', PStr (order_json order))])"

definition tree_submit_task_delivery_order :: "'w peer \<Rightarrow> args \<Rightarrow> ('w, pyval) db_prog" where
  "tree_submit_task_delivery_order p args =
     bnd (lift_res (iarg args ''branch_id'')) (\<lambda>b.
       let namespace = sarg args ''namespace''; task_id = sarg args ''task_id'';
           t = sarg args ''tx_id'' in
       if namespace = [] \<or> task_id = [] \<or> t = []
       then ret (tool_err ''missing namespace, task_id or tx_id'' [])
       else case build_delivery_order_payload args of
              Inl e \<Rightarrow> ret (bad_order e [(''namespace'', PStr namespace),
                             (''task_id'', PStr task_id), (''tx_id'', PStr t)])
            | Inr order \<Rightarrow>
                (let key = tool_key namespace ''answer:final'' in
                 tool_try
                   (bnd (agent_tree_put p t b key (order_json order)) (\<lambda>_.
                      ret (tool_ok [(''namespace'', PStr namespace), (''task_id'', PStr task_id),
                                    (''tx_id'', PStr t), (''branch_id'', PInt b),
                                    (''key'', PStr key), (''staged'', PBool True)])))
                   [(''namespace'', PStr namespace), (''task_id'', PStr task_id),
                    (''tx_id'', PStr t), (''branch_id'', PInt b)]))"

subsection \<open>Reading the projected task\<close>

text \<open>\<open>_parse_json_value(agent_db.kv_get(_task_key(namespace, suffix)), default)\<close>.\<close>

definition read_json :: "'w peer \<Rightarrow> string \<Rightarrow> string \<Rightarrow> pyval \<Rightarrow> ('w, pyval) db_prog" where
  "read_json p namespace suffix dflt =
     bnd (agent_kv_get p (tool_key namespace suffix)) (\<lambda>raw. ret (parse_json_value raw dflt))"

definition get_task_context :: "'w peer \<Rightarrow> args \<Rightarrow> ('w, pyval) db_prog" where
  "get_task_context p args =
     (let ns = sarg args ''namespace''; task_id = sarg args ''task_id'' in
      if ns = [] \<or> task_id = [] then ret (tool_err ''missing namespace or task_id'' [])
      else tool_try
        (bnd (read_json p ns ''meta:task'' (PDict [])) (\<lambda>meta.
         bnd (read_json p ns ''user:profile'' (PDict [])) (\<lambda>profile.
         bnd (read_json p ns ''user:history'' (PDict [])) (\<lambda>history.
         bnd (read_json p ns ''weather:index'' (PList [])) (\<lambda>weather.
         bnd (read_json p ns ''location:index'' (PList [])) (\<lambda>locations.
         bnd (read_json p ns ''orders:current'' (PList [])) (\<lambda>orders.
           ret (tool_ok [(''task_id'', PStr task_id), (''meta'', meta), (''user_profile'', profile),
                         (''user_history'', history), (''weather'', weather),
                         (''locations'', locations), (''current_orders'', orders)]))))))))
        [(''namespace'', PStr ns), (''task_id'', PStr task_id)])"

definition submission_rule :: string where
  "submission_rule =
     [CHR 0xE6, CHR 0x8F, CHR 0x90, CHR 0xE4, CHR 0xBA, CHR 0xA4, CHR 0xE5, CHR 0x89, CHR
     0x8D, CHR 0xE8, CHR 0xAF, CHR 0xB7, CHR 0xE9, CHR 0x80, CHR 0x90, CHR 0xE5, CHR 0xAD,
     CHR 0x97, CHR 0xE6, CHR 0xAE, CHR 0xB5, CHR 0xE5, CHR 0xA4, CHR 0x8D, CHR 0xE7, CHR
     0x94, CHR 0xA8] @ '' template'' @ [CHR 0xEF, CHR 0xBC, CHR 0x9B, CHR 0xE4, CHR 0xB8,
     CHR 0x8D, CHR 0xE8, CHR 0xA6, CHR 0x81, CHR 0xE8, CHR 0x87, CHR 0xAA, CHR 0xE9, CHR
     0x80, CHR 0xA0] @ '' order_id'' @ [CHR 0xE3, CHR 0x80, CHR 0x81] @ ''status'' @ [CHR
     0xE3, CHR 0x80, CHR 0x81] @ ''dispatch_time'' @ [CHR 0xE3, CHR 0x80, CHR 0x81] @
     ''shipping_time'' @ [CHR 0xE3, CHR 0x80, CHR 0x81] @ ''delivery_time'' @ [CHR 0xE3, CHR
     0x80, CHR 0x81] @ ''note'' @ [CHR 0xE3, CHR 0x80, CHR 0x81] @ ''attributes '' @ [CHR
     0xE7, CHR 0xAD, CHR 0x89, CHR 0xE5, CHR 0xAD, CHR 0x97, CHR 0xE6, CHR 0xAE, CHR 0xB5,
     CHR 0xE3, CHR 0x80, CHR 0x82]"

definition get_expected_order_template :: "'w peer \<Rightarrow> args \<Rightarrow> ('w, pyval) db_prog" where
  "get_expected_order_template p args =
     (let ns = sarg args ''namespace''; task_id = sarg args ''task_id'' in
      if ns = [] \<or> task_id = [] then ret (tool_err ''missing namespace or task_id'' [])
      else tool_try
        (bnd (read_json p ns ''meta:expected_orders'' (PList [])) (\<lambda>expected.
         bnd (read_json p ns ''meta:state_rubrics'' (PList [])) (\<lambda>state_rubrics.
         bnd (read_json p ns ''meta:overall_rubrics'' (PList [])) (\<lambda>overall_rubrics.
           let tmpl = (case expected of PList (x # xs) \<Rightarrow> x | _ \<Rightarrow> PDict []) in
           ret (tool_ok [(''task_id'', PStr task_id), (''template'', tmpl),
                         (''state_rubrics'', state_rubrics), (''overall_rubrics'', overall_rubrics),
                         (''submission_rule'', PStr submission_rule)])))))
        [(''namespace'', PStr ns), (''task_id'', PStr task_id)])"

definition store_suffix :: "string \<Rightarrow> string" where
  "store_suffix store_id = ''store:'' @ store_id @ '':detail''"

definition product_suffix :: "string \<Rightarrow> string" where
  "product_suffix product_id = ''product:'' @ product_id @ '':detail''"

text \<open>The stores the loop appends for one id: one or none.\<close>

definition candidate_store :: "'w peer \<Rightarrow> string \<Rightarrow> bool \<Rightarrow> pyval \<Rightarrow> ('w, pyval list) db_prog" where
  "candidate_store p ns include_details store_id =
     (if include_details
      then bnd (read_json p ns (store_suffix (py_str store_id)) (PDict [])) (\<lambda>store.
             ret (if truthy store then [store] else []))
      else ret [PDict [(''store_id'', PStr (py_str store_id))]])"

definition list_candidate_stores :: "'w peer \<Rightarrow> args \<Rightarrow> ('w, pyval) db_prog" where
  "list_candidate_stores p args =
     (let ns = sarg args ''namespace''; task_id = sarg args ''task_id'';
          include_details = truthy (dget_def args ''include_details'' (PBool True)) in
      if ns = [] \<or> task_id = [] then ret (tool_err ''missing namespace or task_id'' [])
      else tool_try
        (bnd (read_json p ns ''index:stores'' (PList [])) (\<lambda>ids.
         bnd (lift_res (py_iter ids)) (\<lambda>store_ids.
         bnd (for_each (candidate_store p ns include_details) store_ids) (\<lambda>found.
           let stores = concat found in
           ret (tool_ok [(''task_id'', PStr task_id), (''stores'', PList stores),
                         (''count'', PInt (int (length stores)))])))))
        [(''namespace'', PStr ns), (''task_id'', PStr task_id)])"

definition get_store_detail :: "'w peer \<Rightarrow> args \<Rightarrow> ('w, pyval) db_prog" where
  "get_store_detail p args =
     (let ns = sarg args ''namespace''; store_id = sarg args ''store_id'';
          extra = [(''namespace'', PStr ns), (''store_id'', PStr store_id)] in
      if ns = [] \<or> store_id = [] then ret (tool_err ''missing namespace or store_id'' [])
      else tool_try
        (bnd (read_json p ns (store_suffix store_id) (PDict [])) (\<lambda>detail.
           if \<not> truthy detail then ret (tool_err ''store not found'' extra)
           else ret (tool_ok [(''store'', detail)]))) extra)"

definition get_product_detail :: "'w peer \<Rightarrow> args \<Rightarrow> ('w, pyval) db_prog" where
  "get_product_detail p args =
     (let ns = sarg args ''namespace''; product_id = sarg args ''product_id'';
          extra = [(''namespace'', PStr ns), (''product_id'', PStr product_id)] in
      if ns = [] \<or> product_id = [] then ret (tool_err ''missing namespace or product_id'' [])
      else tool_try
        (bnd (read_json p ns (product_suffix product_id) (PDict [])) (\<lambda>detail.
           if \<not> truthy detail then ret (tool_err ''product not found'' extra)
           else ret (tool_ok [(''product'', detail)]))) extra)"

definition tool_kv_dump :: "args \<Rightarrow> ('w, pyval) db_prog" where
  "tool_kv_dump args c = (Inr (agent_dump_all c), c)"

end
