(* ===== verification/Tool_Registry.thy ===== *)
theory Tool_Registry
  imports Kv_Tools
begin

text \<open>
  \<open>Agent/tool_registry.py\<close> and \<open>Agent/tools/image_tools.py\<close>: the schemas under which the tools
  are offered to the model (names, parameters and types; the descriptions are prose), what it
  means for arguments to conform to a schema, the image tool, and the router.
\<close>

subsection \<open>Schemas\<close>

datatype schema_ty =
    SString | SNumber | SInteger | SBoolean | SStringOrNull | SEnum "string list"
  | SArray schema_ty nat
  | SObject "(string \<times> schema_ty) list" "string list"

record tool_schema =
  ts_name :: string
  ts_params :: "(string \<times> schema_ty) list"
  ts_required :: "string list"

definition delivery_order_schema :: "(string \<times> schema_ty) list" where
  "delivery_order_schema =
     [(''order_id'', SString), (''order_type'', SString), (''user_id'', SString),
       (''store_id'', SString), (''note'', SString), (''location'', (SObject [(''address'',
       SString), (''longitude'', SNumber), (''latitude'', SNumber)] [''address'',
       ''longitude'', ''latitude''])), (''dispatch_time'', SString), (''shipping_time'',
       SStringOrNull), (''delivery_time'', SString), (''total_price'', SNumber),
       (''create_time'', SString), (''update_time'', SString), (''status'', SString),
       (''products'', (SArray (SObject [(''product_id'', SString), (''price'', SNumber),
       (''quantity'', SInteger), (''attributes'', SString)] [''product_id'', ''price'',
       ''quantity'', ''attributes'']) 1))]"

definition schema_kv_get :: tool_schema where
  "schema_kv_get =
     \<lparr>ts_name = ''kv_get'', ts_params = [(''key'', SString)],
      ts_required = [''key'']\<rparr>"

definition schema_tx_start :: tool_schema where
  "schema_tx_start =
     \<lparr>ts_name = ''tx_start'', ts_params = [],
      ts_required = []\<rparr>"

definition schema_tx_get :: tool_schema where
  "schema_tx_get =
     \<lparr>ts_name = ''tx_get'', ts_params = [(''tx_id'', SString), (''key'', SString)],
      ts_required = [''tx_id'', ''key'']\<rparr>"

definition schema_tx_put :: tool_schema where
  "schema_tx_put =
     \<lparr>ts_name = ''tx_put'', ts_params = [(''tx_id'', SString), (''key'', SString),
       (''value'', SString)],
      ts_required = [''tx_id'', ''key'', ''value'']\<rparr>"

definition schema_tx_commit :: tool_schema where
  "schema_tx_commit =
     \<lparr>ts_name = ''tx_commit'', ts_params = [(''tx_id'', SString)],
      ts_required = [''tx_id'']\<rparr>"

definition schema_tx_rollback :: tool_schema where
  "schema_tx_rollback =
     \<lparr>ts_name = ''tx_rollback'', ts_params = [(''tx_id'', SString)],
      ts_required = [''tx_id'']\<rparr>"

definition schema_tree_tx_start :: tool_schema where
  "schema_tree_tx_start =
     \<lparr>ts_name = ''tree_tx_start'', ts_params = [],
      ts_required = []\<rparr>"

definition schema_tree_tx_branch :: tool_schema where
  "schema_tree_tx_branch =
     \<lparr>ts_name = ''tree_tx_branch'', ts_params = [(''tx_id'', SString),
       (''parent_branch_id'', SInteger)],
      ts_required = [''tx_id'', ''parent_branch_id'']\<rparr>"

definition schema_tree_tx_get :: tool_schema where
  "schema_tree_tx_get =
     \<lparr>ts_name = ''tree_tx_get'', ts_params = [(''tx_id'', SString), (''branch_id'',
       SInteger), (''key'', SString), (''strict'', SBoolean)],
      ts_required = [''tx_id'', ''branch_id'', ''key'']\<rparr>"

definition schema_tree_tx_put :: tool_schema where
  "schema_tree_tx_put =
     \<lparr>ts_name = ''tree_tx_put'', ts_params = [(''tx_id'', SString), (''branch_id'',
       SInteger), (''key'', SString), (''value'', SString)],
      ts_required = [''tx_id'', ''branch_id'', ''key'', ''value'']\<rparr>"

definition schema_tree_tx_winner :: tool_schema where
  "schema_tree_tx_winner =
     \<lparr>ts_name = ''tree_tx_winner'', ts_params = [(''tx_id'', SString),
       (''branch_id'', SInteger)],
      ts_required = [''tx_id'', ''branch_id'']\<rparr>"

definition schema_tree_tx_refresh_winner :: tool_schema where
  "schema_tree_tx_refresh_winner =
     \<lparr>ts_name = ''tree_tx_refresh_winner'', ts_params = [(''tx_id'', SString),
       (''branch_id'', SInteger), (''key'', SString)],
      ts_required = [''tx_id'', ''branch_id'', ''key'']\<rparr>"

definition schema_tree_tx_commit_retry :: tool_schema where
  "schema_tree_tx_commit_retry =
     \<lparr>ts_name = ''tree_tx_commit_retry'', ts_params = [(''tx_id'', SString)],
      ts_required = [''tx_id'']\<rparr>"

definition schema_tree_tx_abort :: tool_schema where
  "schema_tree_tx_abort =
     \<lparr>ts_name = ''tree_tx_abort'', ts_params = [(''tx_id'', SString)],
      ts_required = [''tx_id'']\<rparr>"

definition schema_get_expected_order_template :: tool_schema where
  "schema_get_expected_order_template =
     \<lparr>ts_name = ''get_expected_order_template'', ts_params = [(''namespace'',
       SString), (''task_id'', SString)],
      ts_required = [''namespace'', ''task_id'']\<rparr>"

definition schema_get_task_context :: tool_schema where
  "schema_get_task_context =
     \<lparr>ts_name = ''get_task_context'', ts_params = [(''namespace'', SString),
       (''task_id'', SString)],
      ts_required = [''namespace'', ''task_id'']\<rparr>"

definition schema_list_candidate_stores :: tool_schema where
  "schema_list_candidate_stores =
     \<lparr>ts_name = ''list_candidate_stores'', ts_params = [(''namespace'', SString),
       (''task_id'', SString), (''include_details'', SBoolean)],
      ts_required = [''namespace'', ''task_id'']\<rparr>"

definition schema_get_store_detail :: tool_schema where
  "schema_get_store_detail =
     \<lparr>ts_name = ''get_store_detail'', ts_params = [(''namespace'', SString),
       (''store_id'', SString)],
      ts_required = [''namespace'', ''store_id'']\<rparr>"

definition schema_get_product_detail :: tool_schema where
  "schema_get_product_detail =
     \<lparr>ts_name = ''get_product_detail'', ts_params = [(''namespace'', SString),
       (''product_id'', SString)],
      ts_required = [''namespace'', ''product_id'']\<rparr>"

definition schema_submit_final_answer :: tool_schema where
  "schema_submit_final_answer =
     \<lparr>ts_name = ''submit_final_answer'', ts_params = [(''key'', SString), (''value'',
       SString)],
      ts_required = [''key'', ''value'']\<rparr>"

definition schema_submit_delivery_order :: tool_schema where
  "schema_submit_delivery_order =
     \<lparr>ts_name = ''submit_delivery_order'', ts_params = [(''key'', SString)] @
       delivery_order_schema,
      ts_required = [''key'', ''order_id'', ''order_type'', ''user_id'', ''store_id'',
        ''note'', ''location'', ''dispatch_time'', ''shipping_time'', ''delivery_time'',
        ''total_price'', ''create_time'', ''update_time'', ''status'',
        ''products'']\<rparr>"

definition schema_submit_task_delivery_order :: tool_schema where
  "schema_submit_task_delivery_order =
     \<lparr>ts_name = ''submit_task_delivery_order'', ts_params = [(''namespace'',
       SString), (''task_id'', SString)] @ delivery_order_schema,
      ts_required = [''namespace'', ''task_id'', ''order_id'', ''order_type'', ''user_id'',
        ''store_id'', ''note'', ''location'', ''dispatch_time'', ''shipping_time'',
        ''delivery_time'', ''total_price'', ''create_time'', ''update_time'', ''status'',
        ''products'']\<rparr>"

definition schema_tree_submit_task_delivery_order :: tool_schema where
  "schema_tree_submit_task_delivery_order =
     \<lparr>ts_name = ''tree_submit_task_delivery_order'', ts_params = [(''namespace'',
       SString), (''task_id'', SString), (''tx_id'', SString), (''branch_id'', SInteger)] @
       delivery_order_schema,
      ts_required = [''namespace'', ''task_id'', ''tx_id'', ''branch_id'', ''order_id'',
        ''order_type'', ''user_id'', ''store_id'', ''note'', ''location'',
        ''dispatch_time'', ''shipping_time'', ''delivery_time'', ''total_price'',
        ''create_time'', ''update_time'', ''status'', ''products'']\<rparr>"

definition schema_kv_dump :: tool_schema where
  "schema_kv_dump =
     \<lparr>ts_name = ''kv_dump'', ts_params = [],
      ts_required = []\<rparr>"

definition schema_image_analyze :: tool_schema where
  "schema_image_analyze =
     \<lparr>ts_name = ''image_analyze'', ts_params = [(''image_path'', SString), (''task'',
       (SEnum [''describe'', ''ocr'', ''detect'']))],
      ts_required = [''image_path'']\<rparr>"

definition tools_schema :: "tool_schema list" where
  "tools_schema =
     [schema_kv_get, schema_tx_start, schema_tx_get, schema_tx_put, schema_tx_commit,
       schema_tx_rollback, schema_tree_tx_start, schema_tree_tx_branch, schema_tree_tx_get,
       schema_tree_tx_put, schema_tree_tx_winner, schema_tree_tx_refresh_winner,
       schema_tree_tx_commit_retry, schema_tree_tx_abort,
       schema_get_expected_order_template, schema_get_task_context,
       schema_list_candidate_stores, schema_get_store_detail, schema_get_product_detail,
       schema_submit_final_answer, schema_submit_delivery_order,
       schema_submit_task_delivery_order, schema_tree_submit_task_delivery_order,
       schema_kv_dump, schema_image_analyze]"

text \<open>
  JSON Schema's meaning of these keywords: a declared property that is present has its type, a
  required one is present, further properties are allowed; a number without fraction is an
  integer.
\<close>

function (sequential) conforms :: "schema_ty \<Rightarrow> pyval \<Rightarrow> bool" where
  "conforms SString (PStr s) = True"
| "conforms SNumber (PInt i) = True"
| "conforms SNumber (PFloat (Fin q)) = True"
| "conforms SInteger (PInt i) = True"
| "conforms SInteger (PFloat (Fin q)) = (q \<in> \<int>)"
| "conforms SBoolean (PBool b) = True"
| "conforms SStringOrNull (PStr s) = True"
| "conforms SStringOrNull PNone = True"
| "conforms (SEnum ss) (PStr s) = (s \<in> set ss)"
| "conforms (SArray t n) (PList xs) = (n \<le> length xs \<and> (\<forall>x \<in> set xs. conforms t x))"
| "conforms (SObject ps req) (PDict d) =
     ((\<forall>(k, t) \<in> set ps. case dget d k of None \<Rightarrow> True | Some v \<Rightarrow> conforms t v) \<and>
      (\<forall>k \<in> set req. dhas d k))"
| "conforms t v = False"
  by pat_completeness auto

termination
proof (relation "measure (\<lambda>(t, v). size t)", goal_cases)
  case 1
  then show ?case by simp
next
  case (2 t n xs x)
  then show ?case by simp
next
  case (3 ps req d p k t v)
  then have "(k, t) \<in> set ps" by simp
  then have "size t < Suc (size_list (size_prod (\<lambda>x. 0) size) ps)"
    using size_list_mem [of "(k, t)" ps "size_prod (\<lambda>x. 0) size"] by simp
  then show ?case by simp
qed

definition args_conform :: "tool_schema \<Rightarrow> args \<Rightarrow> bool" where
  "args_conform s args = conforms (SObject (ts_params s) (ts_required s)) (PDict args)"

subsection \<open>The image tool\<close>

text \<open>
  The file system is a parameter: the directory \<open>Agent\<close>, and whether a path exists
  (which may raise). \<open>path_str\<close> is \<open>str(Path(s))\<close> on POSIX: empty and \<open>.\<close> components
  vanish.
\<close>

record file_system =
  fs_base :: string
  fs_exists :: "string \<Rightarrow> bool res"

fun split_char :: "char \<Rightarrow> string \<Rightarrow> string list" where
  "split_char c [] = [[]]"
| "split_char c (x # s) =
     (if x = c then [] # split_char c s
      else case split_char c s of [] \<Rightarrow> [[x]] | w # ws \<Rightarrow> (x # w) # ws)"

definition path_str :: "string \<Rightarrow> string" where
  "path_str s =
     (let root = (if starts_with s ''//'' \<and> \<not> starts_with s ''///'' then ''//''
                  else if starts_with s ''/'' then ''/'' else []);
          parts = filter (\<lambda>w. w \<noteq> [] \<and> w \<noteq> ''.'') (split_char CHR ''/'' s)
      in if root = [] \<and> parts = [] then ''.'' else root @ join ''/'' parts)"

definition image_note :: string where
  "image_note =
     [CHR 0xE5, CHR 0xBD, CHR 0x93, CHR 0xE5, CHR 0x89, CHR 0x8D, CHR 0xE4, CHR 0xBB, CHR
     0x93, CHR 0xE5, CHR 0xBA, CHR 0x93, CHR 0xE6, CHR 0x9C, CHR 0xAA, CHR 0xE6, CHR 0x8E,
     CHR 0xA5, CHR 0xE5, CHR 0x85, CHR 0xA5, CHR 0xE7, CHR 0x9C, CHR 0x9F, CHR 0xE5, CHR
     0xAE, CHR 0x9E, CHR 0xE8, CHR 0xA7, CHR 0x86, CHR 0xE8, CHR 0xA7, CHR 0x89, CHR 0xE6,
     CHR 0xA8, CHR 0xA1, CHR 0xE5, CHR 0x9E, CHR 0x8B, CHR 0xEF, CHR 0xBC, CHR 0x8C, CHR
     0xE8, CHR 0xBF, CHR 0x99, CHR 0xE9, CHR 0x87, CHR 0x8C, CHR 0xE8, CHR 0xBF, CHR 0x94,
     CHR 0xE5, CHR 0x9B, CHR 0x9E, CHR 0xE5, CHR 0x8D, CHR 0xA0, CHR 0xE4, CHR 0xBD, CHR
     0x8D, CHR 0xE7, CHR 0xBB, CHR 0x93, CHR 0xE6, CHR 0x9E, CHR 0x9C, CHR 0xE3, CHR 0x80,
     CHR 0x82, CHR 0xE8, CHR 0x8B, CHR 0xA5, CHR 0xE9, CHR 0x9C, CHR 0x80, CHR 0xE8, CHR
     0xA6, CHR 0x81, CHR 0xEF, CHR 0xBC, CHR 0x8C, CHR 0xE5, CHR 0x8F, CHR 0xAF, CHR 0xE5,
     CHR 0x90, CHR 0x8E, CHR 0xE7, CHR 0xBB, CHR 0xAD, CHR 0xE6, CHR 0x8A, CHR 0x8A, CHR
     0xE8, CHR 0xAF, CHR 0xA5, CHR 0xE5, CHR 0xB7, CHR 0xA5, CHR 0xE5, CHR 0x85, CHR 0xB7,
     CHR 0xE6, CHR 0x8E, CHR 0xA5, CHR 0xE5, CHR 0x88, CHR 0xB0, CHR 0xE5, CHR 0x8D, CHR
     0x95, CHR 0xE7, CHR 0x8B, CHR 0xAC, CHR 0xE7, CHR 0x9A, CHR 0x84, CHR 0xE5, CHR 0xA4,
     CHR 0x9A, CHR 0xE6, CHR 0xA8, CHR 0xA1, CHR 0xE6, CHR 0x80, CHR 0x81] @ '' API'' @ [CHR
     0xE3, CHR 0x80, CHR 0x82]"

definition image_analyze :: "file_system \<Rightarrow> args \<Rightarrow> pyval res" where
  "image_analyze fs args =
     (let image_path = sarg args ''image_path'';
          task = (let s = strip (py_str (dget_def args ''task'' (PStr ''describe''))) in
                  if s = [] then ''describe'' else s) in
      if image_path = []
      then Inr (PDict [(''ok'', PBool False), (''error'', PStr ''missing image_path'')])
      else
        let path = (if starts_with image_path ''/'' then path_str image_path
                    else path_str (fs_base fs @ ''/'' @ image_path)) in
        rbind (fs_exists fs path) (\<lambda>found.
          if \<not> found
          then Inr (PDict [(''ok'', PBool False), (''error'', PStr ''image not found''),
                           (''image_path'', PStr path)])
          else Inr (PDict [(''ok'', PBool True), (''task'', PStr task), (''image_path'', PStr path),
                           (''note'', PStr image_note)])))"

subsection \<open>The router\<close>

definition tool_router :: "file_system \<Rightarrow> 'w peer \<Rightarrow> string \<Rightarrow> args \<Rightarrow> ('w, pyval) db_prog" where
  "tool_router fs p name args =
     (if name = ''kv_get'' then tool_kv_get p args
      else if name = ''tx_start'' then tx_start p args
      else if name = ''tx_get'' then tx_get p args
      else if name = ''tx_put'' then tx_put p args
      else if name = ''tx_commit'' then tx_commit p args
      else if name = ''tx_rollback'' then tx_rollback p args
      else if name = ''tree_tx_start'' then tree_tx_start p args
      else if name = ''tree_tx_branch'' then tree_tx_branch p args
      else if name = ''tree_tx_get'' then tree_tx_get p args
      else if name = ''tree_tx_put'' then tree_tx_put p args
      else if name = ''tree_tx_winner'' then tree_tx_winner p args
      else if name = ''tree_tx_refresh_winner'' then tree_tx_refresh_winner p args
      else if name = ''tree_tx_commit_retry'' then tree_tx_commit_retry p args
      else if name = ''tree_tx_abort'' then tree_tx_abort p args
      else if name = ''get_task_context'' then get_task_context p args
      else if name = ''get_expected_order_template'' then get_expected_order_template p args
      else if name = ''list_candidate_stores'' then list_candidate_stores p args
      else if name = ''get_store_detail'' then get_store_detail p args
      else if name = ''get_product_detail'' then get_product_detail p args
      else if name = ''submit_final_answer'' then submit_final_answer p args
      else if name = ''submit_delivery_order'' then submit_delivery_order p args
      else if name = ''submit_task_delivery_order'' then submit_task_delivery_order p args
      else if name = ''tree_submit_task_delivery_order'' then tree_submit_task_delivery_order p args
      else if name = ''kv_dump'' then tool_kv_dump args
      else if name = ''image_analyze'' then lift_res (image_analyze fs args)
      else ret (PDict [(''ok'', PBool False), (''error'', PStr (''unknown tool: '' @ name))]))"

end
