(* ===== verification/Prog_Logic.thy ===== *)
theory Prog_Logic
  imports Py_Prelude
begin

text \<open>
  A small total-correctness logic for the programs of the model: \<open>triple P m Q R\<close> says that \<open>m\<close>,
  started where \<open>P\<close> holds, ends with a value and \<open>Q\<close> or with an exception and \<open>R\<close> (never with the mark of
  a loop without end); \<open>keeps P m\<close> is the special case of an invariant. The collections
  \<open>tame_intros\<close> and \<open>triple_intros\<close> hold the rules.
\<close>

subsection \<open>Results that do not diverge\<close>

text \<open>A result that is a value or an exception Python knows, not the mark of a loop without end.\<close>

definition tame :: "'a res \<Rightarrow> bool" where
  "tame r = (case r of Inl e \<Rightarrow> catchable e | Inr _ \<Rightarrow> True)"

named_theorems tame_intros "what does not diverge"

lemma tame_basic [tame_intros]: "tame (Inr x)" "c \<noteq> NonTermination \<Longrightarrow> tame (Inl (PyExc c m))"
  by (simp_all add: tame_def)

lemma tame_rbind [tame_intros]: "tame r \<Longrightarrow> (\<And>x. r = Inr x \<Longrightarrow> tame (f x)) \<Longrightarrow> tame (rbind r f)"
  by (simp add: tame_def rbind_def split: sum.splits)

lemma tame_cases [tame_intros]:
  "(b \<Longrightarrow> tame r) \<Longrightarrow> (\<not> b \<Longrightarrow> tame r') \<Longrightarrow> tame (if b then r else r')"
  "tame r \<Longrightarrow> (\<And>x. tame (f x)) \<Longrightarrow> tame (case v of None \<Rightarrow> r | Some x \<Rightarrow> f x)"
  "(\<And>x y. tame (g x y)) \<Longrightarrow> tame (case p of (x, y) \<Rightarrow> g x y)"
  "(\<And>e. q = Inl e \<Longrightarrow> tame (h1 e)) \<Longrightarrow> (\<And>x. tame (h2 x)) \<Longrightarrow> tame (case q of Inl e \<Rightarrow> h1 e | Inr x \<Rightarrow> h2 x)"
  by (simp_all split: option.splits prod.splits sum.splits)

lemma tame_rmap [tame_intros]: "(\<And>x. tame (f x)) \<Longrightarrow> tame (rmap f xs)"
  by (induction xs) (auto intro!: tame_intros)

lemma tame_rfold [tame_intros]: "(\<And>x s. tame (f x s)) \<Longrightarrow> tame (rfold f xs s)"
  by (induction xs arbitrary: s) (auto intro!: tame_intros)

lemma tame_catchable: "tame (Inl e) = catchable e"
  by (simp add: tame_def)

subsection \<open>Triples\<close>

text \<open>
  \<open>triple P m Q R\<close>: started where \<open>P\<close> holds, \<open>m\<close> ends, with a value and \<open>Q\<close> or with an exception
  and \<open>R\<close>.
\<close>

definition triple ::
  "('s \<Rightarrow> bool) \<Rightarrow> ('s, 'a) prog \<Rightarrow> ('a \<Rightarrow> 's \<Rightarrow> bool) \<Rightarrow> ('s \<Rightarrow> bool) \<Rightarrow> bool" where
  "triple P m Q R =
     (\<forall>s. P s \<longrightarrow> (case m s of (Inr x, s') \<Rightarrow> Q x s' | (Inl e, s') \<Rightarrow> catchable e \<and> R s'))"

named_theorems triple_intros "how triples compose"

lemma triple_run: "triple P m Q R \<Longrightarrow> P s \<Longrightarrow> m s = (Inr x, s') \<Longrightarrow> Q x s'"
  by (fastforce simp: triple_def)

lemma triple_run_exn: "triple P m Q R \<Longrightarrow> P s \<Longrightarrow> m s = (Inl e, s') \<Longrightarrow> catchable e \<and> R s'"
  by (fastforce simp: triple_def)

lemma tripleI:
  "(\<And>s x s'. P s \<Longrightarrow> m s = (Inr x, s') \<Longrightarrow> Q x s') \<Longrightarrow>
   (\<And>s e s'. P s \<Longrightarrow> m s = (Inl e, s') \<Longrightarrow> catchable e \<and> R s') \<Longrightarrow> triple P m Q R"
  by (auto simp: triple_def split: prod.splits sum.splits)

lemma triple_bnd: "triple P m M R \<Longrightarrow> (\<And>x. triple (M x) (f x) Q R) \<Longrightarrow> triple P (bnd m f) Q R"
  by (fastforce simp: triple_def bnd_def split: prod.splits sum.splits)

lemma triple_conseq:
  "triple P' m Q' R' \<Longrightarrow> (\<And>s. P s \<Longrightarrow> P' s) \<Longrightarrow> (\<And>x s. Q' x s \<Longrightarrow> Q x s) \<Longrightarrow> (\<And>s. R' s \<Longrightarrow> R s) \<Longrightarrow>
   triple P m Q R"
  by (fastforce simp: triple_def split: prod.splits sum.splits)

lemma triple_ret: "(\<And>s. P s \<Longrightarrow> Q x s) \<Longrightarrow> triple P (ret x) Q R"
  by (simp add: triple_def ret_def)

lemma triple_raise: "(\<And>s. P s \<Longrightarrow> R s) \<Longrightarrow> catchable e \<Longrightarrow> triple P (raise e) Q R"
  by (simp add: triple_def raise_def)

lemma triple_lift:
  "(\<And>x s. r = Inr x \<Longrightarrow> P s \<Longrightarrow> Q x s) \<Longrightarrow> (\<And>s. P s \<Longrightarrow> R s) \<Longrightarrow> tame r \<Longrightarrow> triple P (lift_res r) Q R"
  by (auto simp: triple_def lift_res_def tame_def split: sum.splits)

lemma triple_try: "triple P m Q M \<Longrightarrow> (\<And>e. triple M (h e) Q R) \<Longrightarrow> triple P (try_except m h) Q R"
  by (fastforce simp: triple_def try_except_def split: prod.splits sum.splits)

lemma triple_false: "triple (\<lambda>_. False) m Q R"
  by (simp add: triple_def)

text \<open>A program keeps \<open>P\<close>, whether it returns or raises.\<close>

definition keeps :: "('s \<Rightarrow> bool) \<Rightarrow> ('s, 'a) prog \<Rightarrow> bool" where
  "keeps P m = triple P m (\<lambda>_. P) P"

lemma keeps_ret [triple_intros]: "keeps P (ret x)"
  by (simp add: keeps_def triple_ret)

lemma keeps_raise [triple_intros]: "catchable e \<Longrightarrow> keeps P (raise e)"
  by (simp add: keeps_def triple_raise)

lemma keeps_lift [triple_intros]: "tame r \<Longrightarrow> keeps P (lift_res r)"
  by (simp add: keeps_def triple_lift)

lemma keeps_bnd [triple_intros]: "keeps P m \<Longrightarrow> (\<And>x. keeps P (f x)) \<Longrightarrow> keeps P (bnd m f)"
  unfolding keeps_def by (rule triple_bnd)

lemma keeps_if [triple_intros]: "(b \<Longrightarrow> keeps P m) \<Longrightarrow> (\<not> b \<Longrightarrow> keeps P n) \<Longrightarrow> keeps P (if b then m else n)"
  by simp

lemma keeps_try [triple_intros]: "keeps P m \<Longrightarrow> (\<And>e. keeps P (h e)) \<Longrightarrow> keeps P (try_except m h)"
  unfolding keeps_def by (rule triple_try)

lemma keeps_for_each [triple_intros]: "(\<And>x. x \<in> set xs \<Longrightarrow> keeps P (f x)) \<Longrightarrow> keeps P (for_each f xs)"
  by (induction xs) (simp_all add: keeps_ret keeps_bnd)

lemma keeps_cases [triple_intros]:
  "keeps P m \<Longrightarrow> (\<And>x. keeps P (f x)) \<Longrightarrow> keeps P (case v of None \<Rightarrow> m | Some x \<Rightarrow> f x)"
  "(\<And>x y. p = (x, y) \<Longrightarrow> keeps P (g x y)) \<Longrightarrow> keeps P (case p of (x, y) \<Rightarrow> g x y)"
  "(\<And>e. q = Inl e \<Longrightarrow> keeps P (h1 e)) \<Longrightarrow> (\<And>x. keeps P (h2 x)) \<Longrightarrow> keeps P (case q of Inl e \<Rightarrow> h1 e | Inr x \<Rightarrow> h2 x)"
  by (simp_all split: option.splits prod.splits sum.splits)

lemma keeps_then:
  assumes "keeps P m" and "\<And>s. P s \<Longrightarrow> R s" and "\<And>x. triple P (f x) Q R"
  shows "triple P (bnd m f) Q R"
proof (rule triple_bnd [OF _ assms(3)])
  show "triple P m (\<lambda>_. P) R"
    by (rule triple_conseq [OF assms(1) [unfolded keeps_def] _ _ assms(2)])
qed

lemma keeps_weaken:
  assumes "keeps P m" and "\<And>s. P s \<Longrightarrow> R s"
  shows "triple P m (\<lambda>_. P) R"
  by (rule triple_conseq [OF assms(1) [unfolded keeps_def] _ _ assms(2)])

lemma keeps_same: "(\<And>s. P s \<Longrightarrow> snd (m s) = s \<and> tame (fst (m s))) \<Longrightarrow> keeps P m"
  by (fastforce simp: keeps_def triple_def tame_def split: prod.splits sum.splits)

end
