(* ===== verification/Tool_Returns.thy ===== *)
theory Tool_Returns
  imports Tool_Registry Prog_Logic Mini_Db_Tree Agent_Db_Lemmas
begin

text \<open>
  The tools on the in-memory back end: where the database is consistent (\<open>mini_ok\<close>), every tool
  comes back, with a value or with an exception Python knows, and leaves it consistent.
\<close>

subsection \<open>Arguments and values\<close>

lemma tame_args [tame_intros]:
  "tame (to_int v)" "tame (vget v k w)" "tame (py_iter v)" "tame (iarg args k)"
proof -
  have "tame (int_of_float x)" for x by (cases x) (auto simp: tame_def)
  then show "tame (to_int v)" for v by (cases v) (auto simp: tame_def split: option.splits)
  then show "tame (iarg args k)" by (simp add: iarg_def)
  show "tame (vget v k w)" by (auto simp: tame_def vget_def split: pyval.splits)
  show "tame (py_iter v)" by (cases v) (auto simp: tame_def)
qed

lemma keeps_tool_try [triple_intros]: "keeps P m \<Longrightarrow> keeps P (tool_try m extra)"
  unfolding tool_try_def by (intro triple_intros) simp

subsection \<open>Tools that only read the store\<close>

lemma keeps_kv_get:
  assumes "\<And>d. P d \<Longrightarrow> using_mini d"
  shows "keeps P (agent_kv_get p k)"
  using assms by (intro keeps_same)
    (simp add: agent_kv_get_def mini_kv_get_prog_def mini_kv_get_def on_mini_def tame_def)

lemma keeps_read_tools:
  assumes "\<And>d. P d \<Longrightarrow> using_mini d"
  shows "keeps P (tool_kv_get p args)" and "keeps P (get_task_context p args)"
    and "keeps P (get_expected_order_template p args)" and "keeps P (list_candidate_stores p args)"
    and "keeps P (get_store_detail p args)" and "keeps P (get_product_detail p args)"
proof -
  note r = keeps_kv_get [of P, OF assms]
  have j: "keeps P (read_json p ns suffix dflt)" for ns suffix dflt
    unfolding read_json_def by (intro triple_intros r)
  have c: "keeps P (candidate_store p ns inc x)" for ns inc x
    unfolding candidate_store_def by (intro triple_intros j)
  note i = triple_intros tame_intros r j c
  show "keeps P (tool_kv_get p args)" unfolding tool_kv_get_def Let_def by (intro i)
  show "keeps P (get_task_context p args)" unfolding get_task_context_def Let_def by (intro i)
  show "keeps P (get_expected_order_template p args)"
    unfolding get_expected_order_template_def Let_def by (intro i)
  show "keeps P (list_candidate_stores p args)" unfolding list_candidate_stores_def Let_def by (intro i)
  show "keeps P (get_store_detail p args)" unfolding get_store_detail_def Let_def by (intro i)
  show "keeps P (get_product_detail p args)" unfolding get_product_detail_def Let_def by (intro i)
qed

subsection \<open>Transactions of the in-memory database\<close>

lemma tame_require [simp]:
  "require_tx db t = Inl e \<Longrightarrow> tame (Inl e)"
  "require_tree_tx db t = Inl e \<Longrightarrow> tame (Inl e)"
  by (auto simp: require_tx_def require_tree_tx_def tame_def split: option.splits if_splits)

lemma keeps_iff: "keeps P m \<longleftrightarrow> (\<forall>s. P s \<longrightarrow> P (snd (m s)) \<and> tame (fst (m s)))"
  unfolding keeps_def triple_def tame_def case_prod_beta by (auto split: sum.splits)

definition mini_ok :: "'w agent_db \<Rightarrow> bool" where
  "mini_ok d = (using_mini d \<and> mini_inv (adb_mini d))"

lemma keeps_on_mini:
  assumes "\<And>db. mini_inv db \<Longrightarrow> mini_inv (snd (m db)) \<and> tame (fst (m db))"
  shows "keeps mini_ok (on_mini m)"
  using assms by (simp add: keeps_iff mini_ok_def on_mini_def using_mini_def case_prod_beta)

lemma keeps_on_mini_new:
  assumes "\<And>u db. mini_inv db \<Longrightarrow> mini_inv (snd (m u db)) \<and> tame (fst (m u db))"
  shows "keeps mini_ok (on_mini_new p m)"
  using assms
  by (simp add: keeps_iff mini_ok_def on_mini_new_def on_mini_def using_mini_def case_prod_beta)

lemma mini_tame:
  assumes "mini_inv db"
  shows "tame (fst (mini_start t db))" "tame (fst (mini_get t k db))" "tame (fst (mini_put t k v db))"
    "tame (fst (mini_commit t db))" "tame (fst (mini_rollback t db))" "tame (fst (mini_tstart t db))"
    "tame (fst (mini_tbranch t b db))" "tame (fst (mini_tput t b k v db))"
    "tame (fst (mini_twinner t b db))" "tame (fst (mini_trefresh_winner t b k db))"
    "tame (fst (mini_tabort t db))" "tame (fst (mini_tget t b k strict db))"
    "tame (fst (mini_tcommit_retry t db))"
proof -
  note o = mini_start_def mini_get_def mini_put_def mini_commit_def mini_rollback_def mini_tstart_def
    mini_tbranch_def mini_tput_def mini_twinner_def mini_trefresh_winner_def mini_tabort_def Let_def
  show "tame (fst (mini_start t db))" "tame (fst (mini_get t k db))" "tame (fst (mini_put t k v db))"
    "tame (fst (mini_commit t db))" "tame (fst (mini_rollback t db))" "tame (fst (mini_tstart t db))"
    "tame (fst (mini_tbranch t b db))" "tame (fst (mini_tput t b k v db))"
    "tame (fst (mini_twinner t b db))" "tame (fst (mini_trefresh_winner t b k db))"
    "tame (fst (mini_tabort t db))"
    by (auto simp: o intro!: tame_intros split: sum.splits option.splits)
  show "tame (fst (mini_tget t b k strict db))"
  proof (cases "require_tree_tx db t")
    case (Inr ctx)
    with assms have "tree_ok (t, ctx)" by (auto simp: require_tree_tx_iff dest: mini_inv_tree)
    with Inr show ?thesis by (auto simp: mini_tget_def resolve_branch_value_ok intro!: tame_intros)
  qed (simp add: mini_tget_def)
  show "tame (fst (mini_tcommit_retry t db))"
  proof (cases "require_tree_tx db t")
    case (Inr ctx)
    with assms have t: "dget (mdb_tree_map db) t = Some ctx" by (simp add: require_tree_tx_iff)
    show ?thesis
    proof (cases "mtc_winner_branch_id ctx")
      case (Some w)
      from mini_tcommit_eq(1) [OF assms t Some] show ?thesis by (simp add: tame_intros)
    qed (simp add: mini_tcommit_retry_def Inr tame_intros)
  qed (simp add: mini_tcommit_retry_def)
qed

lemma mini_unchanged:
  "snd (mini_get t k db) = db" "snd (mini_tget t b k strict db) = db"
  "snd (mini_trefresh_winner t b k db) = db"
  by (auto simp: mini_get_def mini_tget_def mini_trefresh_winner_def split: sum.splits option.splits)

lemma keeps_agent:
  "keeps mini_ok (agent_start p)" "keeps mini_ok (agent_get p t k)" "keeps mini_ok (agent_put p t k v)"
  "keeps mini_ok (agent_commit p t)" "keeps mini_ok (agent_rollback p t)"
  "keeps mini_ok (agent_tree_start p)" "keeps mini_ok (agent_tree_branch p t b)"
  "keeps mini_ok (agent_tree_get p t b k strict)" "keeps mini_ok (agent_tree_put p t b k v)"
  "keeps mini_ok (agent_tree_select_winner p t b)" "keeps mini_ok (agent_tree_refresh_winner p t b k)"
  "keeps mini_ok (agent_tree_commit_retry p t)" "keeps mini_ok (agent_tree_abort p t)"
proof -
  have same: "keeps mini_ok n" if "keeps mini_ok m" "\<And>d. using_mini d \<Longrightarrow> n d = m d" for m n :: "('w, 'x) db_prog"
    using that by (simp add: keeps_def triple_def mini_ok_def)
  note i = keeps_on_mini keeps_on_mini_new conjI mini_inv_ops mini_tame
  have c: "keeps mini_ok (bnd (on_mini (mini_tcommit_retry t)) (\<lambda>_. ret committed_result))"
    by (intro keeps_bnd keeps_ret i)
  show "keeps mini_ok (agent_start p)"
    by (rule same [of "on_mini_new p mini_start"]) (simp_all add: agent_start_def i)
  show "keeps mini_ok (agent_get p t k)"
    by (rule same [of "on_mini (mini_get t k)"]) (simp_all add: agent_get_def mini_unchanged i)
  show "keeps mini_ok (agent_put p t k v)"
    by (rule same [of "on_mini (mini_put t k v)"]) (simp_all add: agent_put_def i)
  show "keeps mini_ok (agent_commit p t)"
    by (rule same [of "on_mini (mini_commit t)"]) (simp_all add: agent_commit_def i)
  show "keeps mini_ok (agent_rollback p t)"
    by (rule same [of "on_mini (mini_rollback t)"]) (simp_all add: agent_rollback_def i)
  show "keeps mini_ok (agent_tree_start p)"
    by (rule same [of "on_mini_new p mini_tstart"]) (simp_all add: agent_tree_start_def i)
  show "keeps mini_ok (agent_tree_branch p t b)"
    by (rule same [of "on_mini (mini_tbranch t b)"]) (simp_all add: agent_tree_branch_def i)
  show "keeps mini_ok (agent_tree_get p t b k strict)"
    by (rule same [of "on_mini (mini_tget t b k strict)"])
      (simp_all add: agent_tree_get_def mini_unchanged i)
  show "keeps mini_ok (agent_tree_put p t b k v)"
    by (rule same [of "on_mini (mini_tput t b k v)"]) (simp_all add: agent_tree_put_def i)
  show "keeps mini_ok (agent_tree_select_winner p t b)"
    by (rule same [of "on_mini (mini_twinner t b)"]) (simp_all add: agent_tree_select_winner_def i)
  show "keeps mini_ok (agent_tree_refresh_winner p t b k)"
    by (rule same [of "on_mini (mini_trefresh_winner t b k)"])
      (simp_all add: agent_tree_refresh_winner_def mini_unchanged i)
  show "keeps mini_ok (agent_tree_commit_retry p t)"
    by (rule same [OF c]) (simp add: agent_tree_commit_retry_def)
  show "keeps mini_ok (agent_tree_abort p t)"
    by (rule same [of "on_mini (mini_tabort t)"]) (simp_all add: agent_tree_abort_def i)
qed

subsection \<open>Every tool\<close>

lemma keeps_submit: "keeps mini_ok (submit_final_answer p args)"
proof -
  have tx: "keeps mini_ok (submit_in_tx p t key val)" for t key val
    unfolding submit_in_tx_def by (intro triple_intros keeps_agent)
  have "keeps mini_ok (\<lambda>c. case agent_start p c of
              (Inl e, c') \<Rightarrow>
                (if catchable e then (Inr (tool_err (exc_msg e) [(''key'', PStr key)]), c')
                 else (Inl e, c'))
            | (Inr t, c') \<Rightarrow> submit_in_tx p t key val c')" for key val
    unfolding keeps_iff
  proof (intro allI impI)
    fix c :: "'a agent_db" assume "mini_ok c"
    with keeps_agent(1) [of p] have s: "mini_ok (snd (agent_start p c))" "tame (fst (agent_start p c))"
      by (simp_all add: keeps_iff)
    obtain r c' where r: "agent_start p c = (r, c')" by force
    from tx s(1) have "mini_ok (snd (submit_in_tx p t key val c'))"
      "tame (fst (submit_in_tx p t key val c'))" for t
      by (simp_all add: keeps_iff r)
    with s show "mini_ok (snd (case agent_start p c of
              (Inl e, c') \<Rightarrow>
                (if catchable e then (Inr (tool_err (exc_msg e) [(''key'', PStr key)]), c')
                 else (Inl e, c'))
            | (Inr t, c') \<Rightarrow> submit_in_tx p t key val c')) \<and>
          tame (fst (case agent_start p c of
              (Inl e, c') \<Rightarrow>
                (if catchable e then (Inr (tool_err (exc_msg e) [(''key'', PStr key)]), c')
                 else (Inl e, c'))
            | (Inr t, c') \<Rightarrow> submit_in_tx p t key val c'))"
      by (cases r) (simp_all add: r tame_catchable tame_basic(1))
  qed
  then show ?thesis unfolding submit_final_answer_def Let_def by (intro triple_intros)
qed

lemma keeps_router:
  assumes "name \<noteq> ''image_analyze''"
  shows "keeps mini_ok (tool_router fs p name args)"
proof -
  have u: "mini_ok d \<Longrightarrow> using_mini d" for d :: "'a agent_db" by (simp add: mini_ok_def)
  note i = triple_intros tame_intros keeps_agent keeps_submit
  have tx: "keeps mini_ok (tx_start p args)" "keeps mini_ok (tx_get p args)" "keeps mini_ok (tx_put p args)"
    "keeps mini_ok (tx_commit p args)" "keeps mini_ok (tx_rollback p args)"
    "keeps mini_ok (tree_tx_start p args)" "keeps mini_ok (tree_tx_branch p args)"
    "keeps mini_ok (tree_tx_get p args)" "keeps mini_ok (tree_tx_put p args)"
    "keeps mini_ok (tree_tx_winner p args)" "keeps mini_ok (tree_tx_refresh_winner p args)"
    "keeps mini_ok (tree_tx_commit_retry p args)" "keeps mini_ok (tree_tx_abort p args)"
    unfolding tx_start_def tx_get_def tx_put_def tx_commit_def tx_rollback_def tree_tx_start_def
      tree_tx_branch_def tree_tx_get_def tree_tx_put_def tree_tx_winner_def tree_tx_refresh_winner_def
      tree_tx_commit_retry_def tree_tx_abort_def Let_def
    by (intro i)+
  have order: "keeps mini_ok (submit_delivery_order p args)"
    "keeps mini_ok (submit_task_delivery_order p args)"
    "keeps mini_ok (tree_submit_task_delivery_order p args)"
    unfolding submit_delivery_order_def submit_task_delivery_order_def
      tree_submit_task_delivery_order_def Let_def
    by (intro i)+
  have dump: "keeps mini_ok (tool_kv_dump args)"
    by (rule keeps_same) (simp add: tool_kv_dump_def tame_intros)
  show ?thesis
    unfolding tool_router_def
    by (intro keeps_if keeps_ret keeps_read_tools [OF u] keeps_submit tx order dump) (use assms in simp_all)
qed

end
