(* ===== verification/Tool_Props.thy ===== *)
theory Tool_Props
  imports Tool_Registry Tool_Returns Agent_Db_Props
begin

text \<open>
  Properties of the tools: every call that conforms to its schema is answered, a submitted
  order is read back, and a submission leaves no transaction behind.
\<close>

subsection \<open>Every call is answered\<close>

definition flagged :: "pyval \<Rightarrow> bool" where
  "flagged v = (\<exists>d b. v = PDict d \<and> dget d ''ok'' = Some (PBool b))"

text \<open>\<open>good m\<close>: what \<open>m\<close> returns carries the flag; \<open>answers m\<close>: and it returns.\<close>

definition good :: "('s, pyval) prog \<Rightarrow> bool" where
  "good m = (\<forall>s v s'. m s = (Inr v, s') \<longrightarrow> flagged v)"

definition answers :: "('s, pyval) prog \<Rightarrow> bool" where
  "answers m = (\<forall>s r s'. m s = (r, s') \<longrightarrow>
     (case r of Inr v \<Rightarrow> flagged v | Inl e \<Rightarrow> \<not> catchable e))"

named_theorems tool_intros "how the parts of a tool keep the flag"

lemma flagged_ok [tool_intros]: "\<not> dhas data ''ok'' \<Longrightarrow> flagged (tool_ok data)"
proof -
  have "dget (dict_update d data) ''ok'' = dget d ''ok''" if "\<not> dhas data ''ok''" for d :: args
    using that by (induction data arbitrary: d) auto
  then show "\<not> dhas data ''ok'' \<Longrightarrow> flagged (tool_ok data)" by (simp add: flagged_def tool_ok_def) blast
qed

lemma flagged_err [tool_intros]: "\<not> dhas extra ''ok'' \<Longrightarrow> flagged (tool_err msg extra)"
proof -
  have "dget (dict_update d extra) ''ok'' = dget d ''ok''" if "\<not> dhas extra ''ok''" for d :: args
    using that by (induction extra arbitrary: d) auto
  then show "\<not> dhas extra ''ok'' \<Longrightarrow> flagged (tool_err msg extra)" by (simp add: flagged_def tool_err_def) blast
qed

lemma good_ret [tool_intros]: "flagged v \<Longrightarrow> good (ret v)"
  by (simp add: good_def ret_def)

lemma good_bnd [tool_intros]: "(\<And>x. good (f x)) \<Longrightarrow> good (bnd m f)"
  by (auto simp: good_def bnd_def split: prod.splits sum.splits)

lemma good_if [tool_intros]: "(b \<Longrightarrow> good m) \<Longrightarrow> (\<not> b \<Longrightarrow> good n) \<Longrightarrow> good (if b then m else n)"
  by simp

lemma answers_good: "answers m \<Longrightarrow> good m"
  by (auto simp: answers_def good_def split: sum.splits) (metis sum.simps(6))

lemma answersD:
  "answers m \<Longrightarrow> m s = (r, s') \<Longrightarrow> (\<exists>v. r = Inr v \<and> flagged v) \<or> (\<exists>e. r = Inl e \<and> \<not> catchable e)"
  by (cases r) (fastforce simp: answers_def)+

lemma answers_ret [tool_intros]: "flagged v \<Longrightarrow> answers (ret v)"
  by (simp add: answers_def ret_def)

lemma answers_if [tool_intros]:
  "(b \<Longrightarrow> answers m) \<Longrightarrow> (\<not> b \<Longrightarrow> answers n) \<Longrightarrow> answers (if b then m else n)"
  by simp

lemma answers_try [tool_intros]: "good m \<Longrightarrow> \<not> dhas extra ''ok'' \<Longrightarrow> answers (tool_try m extra)"
  using flagged_err [of extra]
  by (auto simp: answers_def good_def tool_try_def try_except_def ret_def split: prod.splits sum.splits)

lemma answers_lift [tool_intros]: "r = Inr x \<Longrightarrow> answers (f x) \<Longrightarrow> answers (bnd (lift_res r) f)"
  by (simp add: answers_def bnd_def lift_res_def)

lemma answers_submit: "answers (submit_final_answer p args)"
proof -
  have "answers (submit_in_tx p t key val)" for t key val
    by (auto simp: answers_def submit_in_tx_def try_except_def bnd_def ret_def
        intro!: flagged_ok flagged_err split: prod.splits sum.splits if_splits)
  then show ?thesis
    by (auto simp: answers_def submit_final_answer_def Let_def ret_def
        intro!: flagged_err split: prod.splits sum.splits if_splits)
qed

lemma answers_order [tool_intros]:
  "(\<And>e. answers (f e)) \<Longrightarrow> (\<And>x. answers (g x)) \<Longrightarrow>
   answers (case build_delivery_order_payload args of Inl e \<Rightarrow> f e | Inr x \<Rightarrow> g x)"
  by (simp split: sum.splits)

lemma flagged_bad_order [tool_intros]: "\<not> dhas extra ''ok'' \<Longrightarrow> flagged (bad_order e extra)"
  by (simp add: bad_order_def flagged_err)

lemmas tool_defs = tool_kv_get_def tx_start_def tx_get_def tx_put_def tx_commit_def tx_rollback_def
  tree_tx_start_def tree_tx_branch_def tree_tx_get_def tree_tx_put_def tree_tx_winner_def
  tree_tx_refresh_winner_def tree_tx_commit_retry_def tree_tx_abort_def get_task_context_def
  get_expected_order_template_def list_candidate_stores_def get_store_detail_def
  get_product_detail_def submit_delivery_order_def submit_task_delivery_order_def
  tree_submit_task_delivery_order_def

lemma answers_plain:
  "answers (tool_kv_get p args)" "answers (tx_start p args)" "answers (tx_get p args)"
  "answers (tx_put p args)" "answers (tx_commit p args)" "answers (tx_rollback p args)"
  "answers (tree_tx_start p args)" "answers (tree_tx_commit_retry p args)"
  "answers (tree_tx_abort p args)" "answers (get_task_context p args)"
  "answers (get_expected_order_template p args)" "answers (list_candidate_stores p args)"
  "answers (get_store_detail p args)" "answers (get_product_detail p args)"
  "answers (submit_delivery_order p args)" "answers (submit_task_delivery_order p args)"
  unfolding tool_defs Let_def
  by (intro tool_intros answers_submit; simp)+

lemma answers_branch:
  assumes "iarg args ''branch_id'' = Inr b"
  shows "answers (tree_tx_get p args)" "answers (tree_tx_put p args)" "answers (tree_tx_winner p args)"
    "answers (tree_tx_refresh_winner p args)" "answers (tree_submit_task_delivery_order p args)"
  unfolding tool_defs Let_def
  by (intro tool_intros; simp add: assms)+

lemma answers_parent:
  assumes "iarg args ''parent_branch_id'' = Inr b"
  shows "answers (tree_tx_branch p args)"
  unfolding tool_defs Let_def
  by (intro tool_intros; simp add: assms)+


lemma answers_dump: "answers (tool_kv_dump args)"
  by (auto simp: answers_def tool_kv_dump_def flagged_def agent_dump_all_def Let_def)

lemma image_outcome:
  "(\<exists>v. image_analyze fs args = Inr v \<and> flagged v) \<or>
   (\<exists>x e. fs_exists fs x = Inl e \<and> image_analyze fs args = Inl e)"
proof -
  let ?i = "sarg args ''image_path''"
  let ?path = "if starts_with ?i ''/'' then path_str ?i else path_str (fs_base fs @ ''/'' @ ?i)"
  show ?thesis
  proof (cases "fs_exists fs ?path")
    case (Inl e)
    then have "?i \<noteq> [] \<Longrightarrow> image_analyze fs args = Inl e"
      unfolding image_analyze_def Let_def by simp
    moreover have "?i = [] \<Longrightarrow> \<exists>v. image_analyze fs args = Inr v \<and> flagged v"
      by (auto simp: image_analyze_def flagged_def)
    ultimately show ?thesis using Inl by blast
  next
    case (Inr found)
    then have "\<exists>v. image_analyze fs args = Inr v \<and> flagged v"
      unfolding image_analyze_def Let_def by (simp add: flagged_def) blast
    then show ?thesis ..
  qed
qed

lemma conforms_int: "conforms SInteger v \<Longrightarrow> \<exists>i. to_int v = Inr i"
  by (cases "(SInteger, v)" rule: conforms.cases) auto

lemma args_int:
  assumes "args_conform s args" and "(k, SInteger) \<in> set (ts_params s)"
  shows "\<exists>i. iarg args k = Inr i"
proof (cases "dget args k")
  case None
  then show ?thesis by (simp add: iarg_def dget_def_def)
next
  case (Some v)
  with assms have "conforms SInteger v" by (auto simp: args_conform_def split: option.splits)
  then show ?thesis using conforms_int Some by (simp add: iarg_def dget_def_def)
qed

lemma args_branch:
  "args_conform s args \<Longrightarrow> (''branch_id'', SInteger) \<in> set (ts_params s) \<Longrightarrow>
   \<exists>i. iarg args ''branch_id'' = Inr i"
  by (rule args_int)

lemmas schema_defs = schema_kv_get_def schema_tx_start_def schema_tx_get_def schema_tx_put_def
  schema_tx_commit_def schema_tx_rollback_def schema_tree_tx_start_def schema_tree_tx_branch_def
  schema_tree_tx_get_def schema_tree_tx_put_def schema_tree_tx_winner_def
  schema_tree_tx_refresh_winner_def schema_tree_tx_commit_retry_def schema_tree_tx_abort_def
  schema_get_expected_order_template_def schema_get_task_context_def
  schema_list_candidate_stores_def schema_get_store_detail_def schema_get_product_detail_def
  schema_submit_final_answer_def schema_submit_delivery_order_def
  schema_submit_task_delivery_order_def schema_tree_submit_task_delivery_order_def
  schema_kv_dump_def schema_image_analyze_def

lemma router_branch_tools:
  assumes "iarg args ''branch_id'' = Inr b"
    and "name \<in> {''tree_tx_get'', ''tree_tx_put'', ''tree_tx_winner'', ''tree_tx_refresh_winner'',
      ''tree_submit_task_delivery_order''}"
  shows "answers (tool_router fs p name args)"
  using assms(2) by (elim insertE emptyE; simp add: tool_router_def answers_branch [OF assms(1)])

lemma router_plain_tools:
  assumes "name \<in> {''kv_get'', ''tx_start'', ''tx_get'', ''tx_put'', ''tx_commit'', ''tx_rollback'',
      ''tree_tx_start'', ''tree_tx_commit_retry'', ''tree_tx_abort'', ''get_task_context'',
      ''get_expected_order_template'', ''list_candidate_stores'', ''get_store_detail'',
      ''get_product_detail'', ''submit_final_answer'', ''submit_delivery_order'',
      ''submit_task_delivery_order'', ''kv_dump''}"
  shows "answers (tool_router fs p name args)"
  using assms
  by (elim insertE emptyE; simp add: tool_router_def answers_plain answers_submit answers_dump)

lemma router_answers:
  assumes s: "s \<in> set tools_schema" and args: "args_conform s args"
    and im: "s \<noteq> schema_image_analyze"
  shows "answers (tool_router fs p (ts_name s) args)"
proof -
  consider (parent) "s = schema_tree_tx_branch"
    | (branch) "s \<in> {schema_tree_tx_get, schema_tree_tx_put, schema_tree_tx_winner,
        schema_tree_tx_refresh_winner, schema_tree_submit_task_delivery_order}"
    | (plain) "s \<in> {schema_kv_get, schema_tx_start, schema_tx_get, schema_tx_put,
        schema_tx_commit, schema_tx_rollback, schema_tree_tx_start, schema_tree_tx_commit_retry,
        schema_tree_tx_abort, schema_get_task_context, schema_get_expected_order_template,
        schema_list_candidate_stores, schema_get_store_detail, schema_get_product_detail,
        schema_submit_final_answer, schema_submit_delivery_order,
        schema_submit_task_delivery_order, schema_kv_dump}"
    using s im unfolding tools_schema_def list.set by blast
  then show ?thesis
  proof cases
    case parent
    then obtain b where "iarg args ''parent_branch_id'' = Inr b"
      using args_int [OF args, of "''parent_branch_id''"] by (auto simp: schema_defs)
    from answers_parent [OF this] show ?thesis
      by (simp add: parent tool_router_def schema_tree_tx_branch_def)
  next
    case branch
    then have "(''branch_id'', SInteger) \<in> set (ts_params s)" by (auto simp: schema_defs)
    then obtain b where "iarg args ''branch_id'' = Inr b" using args_int [OF args] by blast
    moreover have "ts_name s \<in> {''tree_tx_get'', ''tree_tx_put'', ''tree_tx_winner'',
        ''tree_tx_refresh_winner'', ''tree_submit_task_delivery_order''}"
      using branch by (auto simp: schema_defs)
    ultimately show ?thesis by (rule router_branch_tools)
  next
    case plain
    then show ?thesis
      by (intro router_plain_tools) (elim insertE emptyE; simp add: schema_defs)
  qed
qed

lemma schema_name_image: "s \<in> set tools_schema \<Longrightarrow> s \<noteq> schema_image_analyze \<Longrightarrow> ts_name s \<noteq> ''image_analyze''"
  unfolding tools_schema_def list.set by (elim insertE emptyE; simp add: schema_defs)

text \<open>C23: the schemas keep their promise: a call of any offered tool with arguments that conform to
  its schema is answered with an object that has a boolean \<open>ok\<close>, with two exceptions. What the
  test for the file raises leaves \<open>image_analyze\<close> as it is, with nothing else changed. Any other
  call can fail to answer only by never returning, and not even so on the in-memory back end
  with its invariant (the states it reaches): over a socket the server may send a reply that
  never ends.\<close>

theorem schema_calls_answered:
  assumes s: "s \<in> set tools_schema" and args: "args_conform s args"
    and run: "tool_router fs p (ts_name s) args c = (r, c')"
  shows "(\<exists>d b. r = Inr (PDict d) \<and> dget d ''ok'' = Some (PBool b)) \<or>
    (ts_name s = ''image_analyze'' \<and> c' = c \<and> (\<exists>x e. fs_exists fs x = Inl e \<and> r = Inl e)) \<or>
    (\<exists>msg. r = Inl (PyExc NonTermination msg) \<and> \<not> (using_mini c \<and> mini_inv (adb_mini c)))"
proof (cases "s = schema_image_analyze")
  case True
  then have "(r, c') = (image_analyze fs args, c)" and "ts_name s = ''image_analyze''"
    using run by (simp_all add: tool_router_def schema_image_analyze_def lift_res_def)
  with image_outcome [of fs args] show ?thesis by (auto simp: flagged_def)
next
  case False
  have "using_mini c \<and> mini_inv (adb_mini c) \<Longrightarrow> tame r"
    using keeps_router [OF schema_name_image [OF s False], of fs p args] run
    by (metis keeps_iff mini_ok_def fst_conv)
  moreover have "\<not> catchable e \<Longrightarrow> \<exists>msg. e = PyExc NonTermination msg" for e
    by (cases e) simp
  ultimately show ?thesis
    using answersD [OF router_answers [OF s args False] run] by (auto simp: flagged_def tame_catchable)
qed

text \<open>
  A file system that denies access to a directory: the test for a file in it raises.
\<close>

definition ex_fs :: file_system where
  "ex_fs = \<lparr>fs_base = ''/app/Agent'',
     fs_exists = \<lambda>x. if starts_with x ''/root'' then Inl (PyExc OSError ''Permission denied'')
                     else Inr (x = ''/app/Agent/a.png'')\<rparr>"

definition ex_router_client :: "string agent_db" where
  "ex_router_client = ex_client ''mini'' ([] :: string)"

theorem schema_calls_answered_witness:
  "\<exists>d b. fst (tool_router ex_fs ex_peer (ts_name schema_tree_tx_branch)
        [(''tx_id'', PStr ''t9''), (''parent_branch_id'', PFloat (Fin 0))] ex_router_client) =
        Inr (PDict d) \<and> dget d ''ok'' = Some (PBool b)"
proof -
  have s: "schema_tree_tx_branch \<in> set tools_schema" by (simp add: tools_schema_def)
  have a: "args_conform schema_tree_tx_branch
      [(''tx_id'', PStr ''t9''), (''parent_branch_id'', PFloat (Fin 0))]"
    by (simp add: args_conform_def schema_tree_tx_branch_def)
  have "using_mini ex_router_client \<and> mini_inv (adb_mini ex_router_client)"
    by (simp add: ex_router_client_def ex_client_def using_mini_def mini_inv_init)
  with schema_calls_answered [OF s a surjective_pairing, of ex_fs ex_peer ex_router_client]
  show ?thesis by (auto simp: schema_tree_tx_branch_def)
qed

subsection \<open>Submitting\<close>

lemma json_ok_item: "json_ok (PDict d) \<Longrightarrow> json_ok w \<Longrightarrow> json_ok (dget_def d k w)"
  by (auto simp: dget_def_def split: option.splits dest!: dget_set)

lemma to_float_ok:
  assumes "json_ok v" and "to_float v = Inr x"
  shows "json_ok (PFloat x)"
proof -
  have r: "json_ok (PFloat (rnd q))" for q
    by (cases "rnd q") (auto intro: rnd_is_double)
  have 01: "rnd 0 = Fin 0" "rnd 1 = Fin 1"
    using rnd_small_int [of 0] rnd_small_int [of 1] by simp_all
  show ?thesis
  proof (cases v)
    case (PBool b)
    with assms 01 show ?thesis by (auto simp: is_double_def)
  next
    case (PInt i)
    with assms have "x = rnd (of_int i)" by (auto simp: float_of_int_def split: pyfloat.splits)
    then show ?thesis by (simp only: r)
  next
    case (PStr t)
    with assms r show ?thesis
      by (auto simp: float_of_str_def Let_def split: option.splits prod.splits if_splits)
  qed (use assms in auto)
qed

lemma to_float_item:
  "to_float (dget_def d k w) = Inr x \<Longrightarrow> json_ok (PDict d) \<Longrightarrow> json_ok w \<Longrightarrow> json_ok (PFloat x)"
  by (rule to_float_ok [OF json_ok_item])

lemma json_ok_consts: "json_ok (PInt i)" "json_ok (PFloat (Fin 0))"
  by (simp_all add: is_double_def)

lemma build_product_ok:
  assumes "json_ok v" and "build_product v = Inr w"
  shows "json_ok w"
proof -
  from assms(2) obtain d price quantity where d: "v = PDict d"
    and price: "to_float (dget_def d ''price'' (PInt 0)) = Inr price"
    and w: "w = PDict [(''product_id'', PStr (varg d ''product_id'')), (''price'', PFloat price),
      (''quantity'', PInt quantity), (''attributes'', PStr (varg d ''attributes''))]"
    by (cases v) (auto simp: build_product_def rbind_eq_Inr)
  from assms(1) d have "json_ok (PDict d)" by simp
  from to_float_item [OF price this json_ok_consts(1)] show ?thesis by (simp add: w)
qed

lemma rmap_all:
  "rmap f xs = Inr ys \<Longrightarrow> (\<And>x y. x \<in> set xs \<Longrightarrow> f x = Inr y \<Longrightarrow> P y) \<Longrightarrow> y \<in> set ys \<Longrightarrow> P y"
  by (induction xs arbitrary: ys) (fastforce simp: rbind_eq_Inr)+

lemma build_order_ok:
  assumes args: "json_ok (PDict args)" and loc: "json_ok (PDict location)"
    and ps: "\<forall>v \<in> set products. json_ok v" and b: "build_order args location products = Inr order"
  shows "json_ok order"
proof -
  from b obtain ns lon lat total where
    ns: "rmap build_product products = Inr ns" and
    fl: "to_float (dget_def location ''longitude'' (PFloat (Fin 0))) = Inr lon"
      "to_float (dget_def location ''latitude'' (PFloat (Fin 0))) = Inr lat"
      "to_float (dget_def args ''total_price'' (PInt 0)) = Inr total"
    and order: "order = PDict
         [(''order_id'', PStr (varg args ''order_id'')),
          (''order_type'', PStr (py_str (dget_def args ''order_type'' (PStr ''delivery'')))),
          (''user_id'', PStr (varg args ''user_id'')),
          (''store_id'', PStr (varg args ''store_id'')),
          (''note'', PStr (varg args ''note'')),
          (''location'', PDict [(''address'', PStr (varg location ''address'')),
                                (''longitude'', PFloat lon), (''latitude'', PFloat lat)]),
          (''dispatch_time'', PStr (varg args ''dispatch_time'')),
          (''shipping_time'', dget_def args ''shipping_time'' PNone),
          (''delivery_time'', PStr (varg args ''delivery_time'')),
          (''total_price'', PFloat total),
          (''create_time'', PStr (varg args ''create_time'')),
          (''update_time'', PStr (varg args ''update_time'')),
          (''status'', PStr (varg args ''status'')),
          (''products'', PList ns)]"
    unfolding build_order_def rbind_eq_Inr by auto
  have "json_ok (PFloat lon)" "json_ok (PFloat lat)" "json_ok (PFloat total)"
    using to_float_item [OF fl(1) loc json_ok_consts(2)] to_float_item [OF fl(2) loc json_ok_consts(2)]
      to_float_item [OF fl(3) args json_ok_consts(1)] by auto
  moreover have "\<forall>y \<in> set ns. json_ok y"
    using ps build_product_ok by (blast intro: rmap_all [OF ns])
  moreover have "json_ok (dget_def args ''shipping_time'' PNone)"
    by (rule json_ok_item [OF args]) simp
  ultimately show ?thesis by (simp add: order)
qed

lemma build_payload_ok:
  assumes args: "json_ok (PDict args)" and b: "build_delivery_order_payload args = Inr order"
  shows "json_ok order"
proof -
  let ?l = "or_else (dget_def args ''location'' PNone) (PDict [])"
  let ?p = "or_else (dget_def args ''products'' PNone) (PList [])"
  have ok: "json_ok ?l" "json_ok ?p"
    using json_ok_item [OF args, of PNone] by (simp_all add: or_else_def)
  define lv pv where lv: "lv = ?l" and pv: "pv = ?p"
  have b: "(case lv of
        PDict location \<Rightarrow>
          (case pv of
             PList (x # xs) \<Rightarrow> build_order args location (x # xs)
           | _ \<Rightarrow> Inl (PyExc ValueError ''products must be a non-empty array''))
      | _ \<Rightarrow> Inl (PyExc ValueError ''location must be an object'')) = Inr order"
    using b unfolding build_delivery_order_payload_def lv pv .
  then obtain location where l: "lv = PDict location" by (cases lv) simp_all
  with b obtain xs where p: "pv = PList xs" by (cases pv) simp_all
  with b l have "build_order args location xs = Inr order" by (cases xs) simp_all
  moreover have "json_ok (PDict location)" "json_ok (PList xs)"
    using ok unfolding lv [symmetric] pv [symmetric] l p by simp_all
  moreover have "\<forall>v \<in> set xs. json_ok v" using calculation by simp
  ultimately show ?thesis using build_order_ok [OF args] by blast
qed

lemma order_json_readback:
  assumes "json_ok (PDict args)" and "build_delivery_order_payload args = Inr order"
  shows "parse_json_value (Some (order_json order)) dflt = PList [order]"
proof -
  have "json_ok (PList [order])" using build_payload_ok [OF assms] by simp
  then have "loads (order_json order) = Some (PList [order])" by (simp add: order_json_def)
  moreover have "order_json order \<noteq> []" by (simp add: order_json_def dumps_compact_def)
  ultimately show ?thesis by (simp add: parse_json_value_def)
qed

lemma mini_read: "using_mini c \<Longrightarrow> agent_kv_get p k c = (Inr (mini_store_of (adb_mini c) k), c)"
  by (simp add: agent_kv_get_def mini_kv_get_prog_def mini_kv_get_def mini_store_of_def on_mini_def)

lemma submit_on_mini:
  assumes key: "strip key = key" "key \<noteq> []"
    and mini: "using_mini c" "mini_inv (adb_mini c)"
    and fresh: "mini_tx_of (adb_mini c) (fst (pr_uuid p (adb_net c))) = None"
  obtains c' where
    "submit_final_answer p [(''key'', PStr key), (''value'', PStr raw)] c =
      (Inr (tool_ok [(''key'', PStr key), (''value'', PStr raw), (''committed'', PBool True)]), c')"
    and "using_mini c'" and "mini_store_of (adb_mini c') = (mini_store_of (adb_mini c))(key \<mapsto> raw)"
    and "mini_tx_of (adb_mini c') = mini_tx_of (adb_mini c)"
proof -
  let ?t = "fst (pr_uuid p (adb_net c))"
  from agent_tx.begin_write_commit [of c p key raw] mini fresh obtain c' where
    run: "bnd (agent_start p) (\<lambda>t. bnd (agent_put p t key raw) (\<lambda>_. agent_commit p t)) c = (Inr (), c')"
    and c': "using_mini c'" "mini_store_of (adb_mini c') = (mini_store_of (adb_mini c))(key \<mapsto> raw)"
      "mini_tx_of (adb_mini c') = mini_tx_of (adb_mini c)"
    by auto
  from agent_tx.begin_law [of c p] mini fresh obtain c1 where st: "agent_start p c = (Inr ?t, c1)" by auto
  from run st obtain c2 where c2: "agent_put p ?t key raw c1 = (Inr (), c2)" "agent_commit p ?t c2 = (Inr (), c')"
    by (auto simp: prog_simps split: prod.splits sum.splits)
  with st key have
    "submit_final_answer p [(''key'', PStr key), (''value'', PStr raw)] c =
      (Inr (tool_ok [(''key'', PStr key), (''value'', PStr raw), (''committed'', PBool True)]), c')"
    by (simp add: submit_final_answer_def submit_in_tx_def sarg_def varg_def dget_def_def prog_simps)
  from that [OF this c'] show ?thesis .
qed

text \<open>C21: an order submitted through the tool is the order that is read back: on the in-memory
  back end the submission commits, the JSON stored under the key parses to the list of exactly
  the order that was built from the arguments, every other key keeps its value, and no
  transaction stays open.\<close>

theorem submit_order_readback:
  assumes args: "json_ok (PDict args)" and order: "build_delivery_order_payload args = Inr order"
    and key: "sarg args ''key'' = key" "key \<noteq> []"
    and mini: "using_mini c" "mini_inv (adb_mini c)"
    and fresh: "mini_tx_of (adb_mini c) (fst (pr_uuid p (adb_net c))) = None"
  shows "\<exists>c' raw. submit_delivery_order p args c =
      (Inr (tool_ok [(''key'', PStr key), (''value'', PStr raw), (''committed'', PBool True)]), c') \<and>
    fst (agent_kv_get p key c') = Inr (Some raw) \<and> parse_json_value (Some raw) PNone = PList [order] \<and>
    (\<forall>k. k \<noteq> key \<longrightarrow> fst (agent_kv_get p k c') = fst (agent_kv_get p k c)) \<and>
    mini_tx_of (adb_mini c') = mini_tx_of (adb_mini c)"
proof -
  let ?raw = "order_json order"
  have "strip key = key" using key(1) by (auto simp: sarg_def)
  from submit_on_mini [OF this key(2) mini fresh, where raw = ?raw] obtain c' where
    run: "submit_final_answer p [(''key'', PStr key), (''value'', PStr ?raw)] c =
      (Inr (tool_ok [(''key'', PStr key), (''value'', PStr ?raw), (''committed'', PBool True)]), c')"
    and c': "using_mini c'" "mini_store_of (adb_mini c') = (mini_store_of (adb_mini c))(key \<mapsto> ?raw)"
      "mini_tx_of (adb_mini c') = mini_tx_of (adb_mini c)" .
  from run have "submit_delivery_order p args c =
      (Inr (tool_ok [(''key'', PStr key), (''value'', PStr ?raw), (''committed'', PBool True)]), c')"
    using key order by (simp add: submit_delivery_order_def)
  then show ?thesis
    using c' mini(1) order_json_readback [OF args order]
    by (intro exI [of _ c'] exI [of _ ?raw]) (simp add: mini_read)
qed

definition ex_order_args :: args where
  "ex_order_args =
     [(''key'', PStr ''ns:answer:final''), (''order_id'', PStr ''o1''),
      (''location'', PDict [(''address'', PStr ''here''), (''longitude'', PInt 3), (''latitude'', PInt 4)]),
      (''products'', PList [PDict [(''product_id'', PStr ''p1''), (''price'', PInt 12),
                                   (''quantity'', PInt 1), (''attributes'', PStr [])]])]"

definition ex_order :: pyval where
  "ex_order = (case build_delivery_order_payload ex_order_args of Inr v \<Rightarrow> v | Inl _ \<Rightarrow> PNone)"

lemma ex_order_build: "build_delivery_order_payload ex_order_args = Inr ex_order"
proof -
  have "\<exists>v. build_delivery_order_payload ex_order_args = Inr v"
  proof (cases "build_delivery_order_payload ex_order_args")
    case (Inl e)
    moreover have "isl (build_delivery_order_payload ex_order_args) = False" by code_simp
    ultimately show ?thesis by simp
  qed blast
  then show ?thesis by (auto simp: ex_order_def)
qed

theorem submit_order_readback_witness:
  "\<exists>c' raw. submit_delivery_order ex_peer ex_order_args ex_router_client =
      (Inr (tool_ok [(''key'', PStr ''ns:answer:final''), (''value'', PStr raw), (''committed'', PBool True)]), c') \<and>
    fst (agent_kv_get ex_peer ''ns:answer:final'' c') = Inr (Some raw) \<and>
    parse_json_value (Some raw) PNone = PList [ex_order] \<and>
    mini_tx_of (adb_mini c') = mini_tx_of (adb_mini ex_router_client)"
proof -
  have "json_ok (PDict ex_order_args)" by (simp add: ex_order_args_def)
  moreover have "sarg ex_order_args ''key'' = ''ns:answer:final''" by code_simp
  moreover have "using_mini ex_router_client" "mini_inv (adb_mini ex_router_client)"
    by (simp_all add: ex_router_client_def ex_client_simps mini_inv_init)
  moreover have "mini_tx_of (adb_mini ex_router_client) (fst (pr_uuid ex_peer (adb_net ex_router_client))) = None"
    by (simp add: ex_router_client_def ex_client_simps mini_tx_of_def mini_init_def)
  ultimately show ?thesis
    using submit_order_readback [OF _ ex_order_build, of "''ns:answer:final''" ex_router_client ex_peer]
    by blast
qed

lemma open_start_session:
  assumes "\<not> using_mini c" and "\<not> adb_allow_fallback c" and "agent_start p c = (r, c1)"
  shows "(case r of
      Inr t \<Rightarrow> (\<exists>w. t = fst (pr_uuid p w)) \<and> (\<forall>u. dhas (adb_sessions c1) u = (u = t \<or> dhas (adb_sessions c) u))
    | Inl e \<Rightarrow> adb_sessions c1 = adb_sessions c) \<and> \<not> using_mini c1"
proof -
  obtain ro w1 where o: "open_tx p (adb_host c) (adb_port c) ''START'' (adb_net c) = (ro, w1)"
    by (cases "open_tx p (adb_host c) (adb_port c) ''START'' (adb_net c)")
  obtain t w2 where u: "pr_uuid p w1 = (t, w2)" by (cases "pr_uuid p w1")
  have t: "\<exists>w. t = fst (pr_uuid p w)" by (rule exI [of _ w1]) (simp add: u)
  show ?thesis
    using assms o u t by (cases ro)
      (auto simp: agent_start_def or_fallback_def on_net_def prog_simps split: if_splits)
qed

lemma agent_put_dom:
  assumes "\<not> using_mini c" and "agent_put p t k v c = (r, c')"
  shows "\<not> using_mini c' \<and> dhas (adb_sessions c') u = dhas (adb_sessions c) u"
  using assms
  by (auto simp: agent_put_def prog_simps using_mini_def dest!: with_session_dom
      split: prod.splits sum.splits)

lemma closed_rollback:
  "\<not> using_mini c \<Longrightarrow> \<not> dhas (adb_sessions c) t \<Longrightarrow>
   agent_rollback p t c = (Inl (PyExc RuntimeError (''invalid or inactive tx_id: '' @ t)), c)"
  by (simp add: agent_rollback_def)

lemma submit_in_tx_dom:
  assumes sock: "\<not> using_mini c" and t: "dhas (adb_sessions c) t" "t \<noteq> []"
    and run: "submit_in_tx p t key val c = (r, c')" and ret: "\<forall>m. r \<noteq> Inl (PyExc NonTermination m)"
  shows "dhas (adb_sessions c') u = (u \<noteq> t \<and> dhas (adb_sessions c) u)"
proof -
  obtain rp c2 where put: "agent_put p t key val c = (rp, c2)" by (cases "agent_put p t key val c")
  note pd = agent_put_dom [OF sock put]
  obtain rc c3 where com: "agent_commit p t c2 = (rc, c3)" by (cases "agent_commit p t c2")
  obtain rr c4 where roll: "agent_rollback p t c2 = (rr, c4)" by (cases "agent_rollback p t c2")
  have cat: "catchable e \<longleftrightarrow> (\<forall>m. e \<noteq> PyExc NonTermination m)" for e
    by (cases e) simp
  show ?thesis
  proof (cases rp)
    case (Inl e)
    with run put t(2) roll ret have "c' = c4" "\<forall>m. rr \<noteq> Inl (PyExc NonTermination m)"
      by (auto simp: submit_in_tx_def prog_simps cat split: sum.splits if_splits)
    then show ?thesis
      using agent_finish_dom [of c2 t "agent_rollback p t" p rr c4 u] pd roll t(1) by auto
  next
    case (Inr x)
    have nt: "\<forall>m. rc \<noteq> Inl (PyExc NonTermination m)"
      using run put com ret Inr by (auto simp: submit_in_tx_def prog_simps split: if_splits)
    have c3: "\<not> using_mini c3" "dhas (adb_sessions c3) v = (v \<noteq> t \<and> dhas (adb_sessions c) v)" for v
      using agent_finish_dom [of c2 t "agent_commit p t" p rc c3 v] agent_put_dom [OF sock put, of v]
        agent_put_dom [OF sock put, of t] com t(1) nt by auto
    then have "agent_rollback p t c3 = (Inl (PyExc RuntimeError (''invalid or inactive tx_id: '' @ t)), c3)"
      by (intro closed_rollback) auto
    then have "c' = c3"
      using run put com Inr t(2)
      by (auto simp: submit_in_tx_def prog_simps split: sum.splits if_splits)
    with c3 show ?thesis by simp
  qed
qed

subsection \<open>Connections of a submission\<close>

text \<open>A session of the table with an open connection.\<close>

definition live :: "'w agent_db \<Rightarrow> string \<Rightarrow> bool" where
  "live c t = (\<exists>s. dget (adb_sessions c) t = Some s \<and> tds_sock s \<noteq> None)"

lemma live_dhas: "live c t \<Longrightarrow> dhas (adb_sessions c) t"
  by (auto simp: live_def dhas_iff)

lemma with_session_counted:
  assumes f: "\<And>s x r s' x'. f (s, x) = (r, (s', x')) \<Longrightarrow> snd x' = snd x \<and> tds_sock s' = tds_sock s"
    and run: "with_session t f c = (r, c')"
  shows "snd (adb_net c') = snd (adb_net c) \<and> live c' u = live c u"
proof (cases "dget (adb_sessions c) t")
  case None
  with run show ?thesis by (simp add: with_session_def)
next
  case (Some s)
  obtain r1 s1 x1 where f1: "f (s, adb_net c) = (r1, (s1, x1))" by (cases "f (s, adb_net c)") auto
  with f [OF f1] run Some show ?thesis by (cases "u = t") (auto simp: with_session_def live_def dest: sym)
qed

lemma expect_ok_counted:
  "expect_ok (counted p) what cmd (s, x) = (r, (s', x')) \<Longrightarrow> snd x' = snd x \<and> tds_sock s' = tds_sock s"
  by (auto simp: expect_ok_def prog_simps split: prod.splits sum.splits if_splits
      dest!: session_request_counted)

lemma with_expect_counted:
  "with_session t (expect_ok (counted p) what cmd) c = (r, c') \<Longrightarrow>
   snd (adb_net c') = snd (adb_net c) \<and> live c' u = live c u"
  by (erule with_session_counted [rotated]) (rule expect_ok_counted)

lemma agent_put_counted:
  assumes "\<not> using_mini c" and "agent_put (counted p) t k v c = (r, c')"
  shows "snd (adb_net c') = snd (adb_net c) \<and> live c' u = live c u"
  using assms
  by (auto simp: agent_put_def prog_simps split: prod.splits sum.splits
      dest!: with_expect_counted)

lemma drop_session_counted:
  assumes "live c t" and "snd (adb_net c) = (n, k)"
  shows "snd (adb_net (snd (drop_session (counted p) t c))) = (n, k + 1)"
proof -
  from assms obtain s where s: "dget (adb_sessions c) t = Some s" "tds_sock s \<noteq> None" by (auto simp: live_def)
  obtain w where w: "adb_net c = (w, n, k)" using assms(2) by (cases "adb_net c") auto
  obtain r1 s1 x1 where cl: "session_close (counted p) (s, adb_net c) = (r1, (s1, x1))"
    by (cases "session_close (counted p) (s, adb_net c)") auto
  have "r1 = Inr ()" using session_close_Inr [of "counted p" "(s, adb_net c)"] cl by simp
  with s cl session_close_counted [OF s(2) cl [unfolded w]] show ?thesis
    by (simp add: drop_session_def with_session_def prog_simps)
qed

lemma finish_counted:
  assumes sock: "\<not> using_mini c" and t: "live c t" and n: "snd (adb_net c) = (n, k)"
    and fin: "op = agent_commit (counted p) t \<or> op = agent_rollback (counted p) t"
    and run: "op c = (r, c')" and ret: "\<forall>m. r \<noteq> Inl (PyExc NonTermination m)"
  shows "snd (adb_net c') = (n, k + 1)"
proof -
  let ?cm = "bnd (with_session t (expect_ok (counted p) ''COMMIT'' ''COMMIT'')) (\<lambda>_. ret ())"
  let ?rm = "with_session t (bnd (session_request (counted p) ''ABORT'') (\<lambda>resp.
                if \<not> is_ok resp \<and> \<not> contains (upper resp) ''NO_ACTIVE_TXN''
                then raise (failed ''ABORT'' resp) else ret ()))"
  have step: ?thesis
    if m: "try_finally m (drop_session (counted p) t) c = (r, c')"
      and cnt: "\<And>r1 c1. m c = (r1, c1) \<Longrightarrow> snd (adb_net c1) = snd (adb_net c) \<and> live c1 t = live c t" for m
  proof -
    obtain r1 c1 where m1: "m c = (r1, c1)" by (cases "m c")
    have "\<not> catchable e \<Longrightarrow> \<exists>x. e = PyExc NonTermination x" for e by (cases e) simp
    with m m1 ret have "c' = snd (drop_session (counted p) t c1)"
      by (auto simp: prog_simps split: sum.splits prod.splits if_splits)
    with drop_session_counted [of c1 t n k p] cnt [OF m1] t n show ?thesis by simp
  qed
  show ?thesis
  proof (rule disjE [OF fin])
    assume "op = agent_commit (counted p) t"
    with run sock live_dhas [OF t] have "try_finally ?cm (drop_session (counted p) t) c = (r, c')"
      by (simp add: agent_commit_def)
    then show ?thesis
      by (rule step) (auto simp: prog_simps split: prod.splits sum.splits
          dest!: with_expect_counted)
  next
    assume "op = agent_rollback (counted p) t"
    with run sock live_dhas [OF t] have "try_finally ?rm (drop_session (counted p) t) c = (r, c')"
      by (simp add: agent_rollback_def)
    then show ?thesis
    proof (rule step)
      fix r1 c1 assume rm: "?rm c = (r1, c1)"
      show "snd (adb_net c1) = snd (adb_net c) \<and> live c1 t = live c t"
        by (rule with_session_counted [OF _ rm])
          (auto simp: prog_simps split: prod.splits sum.splits if_splits dest!: session_request_counted)
    qed
  qed
qed

lemma submit_in_tx_counted:
  assumes sock: "\<not> using_mini c" and t: "live c t" "t \<noteq> []" and n: "snd (adb_net c) = (n, k)"
    and run: "submit_in_tx (counted p) t key val c = (r, c')" and ret: "\<forall>m. r \<noteq> Inl (PyExc NonTermination m)"
  shows "snd (adb_net c') = (n, k + 1)"
proof -
  obtain rp c2 where put: "agent_put (counted p) t key val c = (rp, c2)"
    by (cases "agent_put (counted p) t key val c")
  have c2: "\<not> using_mini c2" "snd (adb_net c2) = (n, k)" "live c2 t"
    using agent_put_counted [OF sock put] agent_put_dom [OF sock put] n t(1) by auto
  obtain rc c3 where com: "agent_commit (counted p) t c2 = (rc, c3)" by (cases "agent_commit (counted p) t c2")
  obtain rr c4 where roll: "agent_rollback (counted p) t c2 = (rr, c4)"
    by (cases "agent_rollback (counted p) t c2")
  have cat: "catchable e \<longleftrightarrow> (\<forall>m. e \<noteq> PyExc NonTermination m)" for e by (cases e) simp
  show ?thesis
  proof (cases rp)
    case (Inl e)
    with run put t(2) roll ret have "c' = c4" "\<forall>m. rr \<noteq> Inl (PyExc NonTermination m)"
      by (auto simp: submit_in_tx_def prog_simps cat split: sum.splits if_splits)
    then show ?thesis using finish_counted [of c2 t n k "agent_rollback (counted p) t" p rr c4] c2 roll by simp
  next
    case (Inr x)
    have nt: "\<forall>m. rc \<noteq> Inl (PyExc NonTermination m)"
      using run put com ret Inr by (auto simp: submit_in_tx_def prog_simps split: if_splits)
    then have c3: "snd (adb_net c3) = (n, k + 1)" using finish_counted [of c2 t n k "agent_commit (counted p) t" p rc c3] c2 com by simp
    have "\<not> using_mini c3" "\<not> dhas (adb_sessions c3) t"
      using agent_finish_dom [of c2 t "agent_commit (counted p) t" "counted p" rc c3 t] c2 live_dhas [OF c2(3)] com nt
      by auto
    from closed_rollback [OF this] have "c' = c3"
      using run put com Inr t(2)
      by (auto simp: submit_in_tx_def prog_simps split: sum.splits if_splits)
    with c3 show ?thesis by simp
  qed
qed

lemma open_tx_counted:
  assumes "open_tx (counted p) host port cmd (w, n, k) = (r, x')"
  shows "case r of
      Inr s \<Rightarrow> tds_sock s \<noteq> None \<and> snd x' = (n + 1, k)
    | Inl e \<Rightarrow> (\<exists>a b. snd x' = (n + a, k + b) \<and> b \<le> a \<and> a \<le> 1)"
proof -
  obtain ro xo where o: "open_session (counted p) host port (w, n, k) = (ro, xo)"
    by (cases "open_session (counted p) host port (w, n, k)")
  note oc = open_session_counted [OF o]
  show ?thesis
  proof (cases ro)
    case (Inl e)
    with assms o oc show ?thesis by (auto simp: open_tx_def prog_simps)
  next
    case (Inr s)
    obtain rq sq xq where q: "session_request (counted p) cmd (s, xo) = (rq, (sq, xq))"
      by (cases "session_request (counted p) cmd (s, xo)") auto
    have sq: "tds_sock sq \<noteq> None" "snd xq = (n + 1, k)"
      using session_request_counted [OF q] oc Inr by auto
    obtain rl sl xl where l: "session_close (counted p) (sq, xq) = (rl, (sl, xl))"
      by (cases "session_close (counted p) (sq, xq)") auto
    have "snd xl = (n + 1, k + 1)"
      using session_close_counted [OF sq(1), of p "fst xq" "n + 1" k] l sq(2) by (metis prod.collapse)
    with assms o Inr q l sq show ?thesis
      by (auto simp: open_tx_def prog_simps split: sum.splits if_splits)
  qed
qed

lemma agent_start_counted:
  assumes "\<not> using_mini c" and "\<not> adb_allow_fallback c" and "agent_start (counted p) c = (r, c1)"
    and "adb_net c = (w, n, k)"
  shows "case r of
      Inr t \<Rightarrow> live c1 t \<and> snd (adb_net c1) = (n + 1, k)
    | Inl e \<Rightarrow> (\<exists>a b. snd (adb_net c1) = (n + a, k + b) \<and> b \<le> a \<and> a \<le> 1)"
proof -
  obtain ro w1 where o: "open_tx (counted p) (adb_host c) (adb_port c) ''START'' (w, n, k) = (ro, w1)"
    by (cases "open_tx (counted p) (adb_host c) (adb_port c) ''START'' (w, n, k)")
  obtain t w2 where u: "pr_uuid (counted p) w1 = (t, w2)" by (cases "pr_uuid (counted p) w1")
  then have "snd w2 = snd w1" by (cases w1) (auto simp: counted_def split: prod.splits)
  with open_tx_counted [OF o] assms o u show ?thesis
    by (cases ro) (auto simp: agent_start_def or_fallback_def on_net_def prog_simps live_def split: if_splits)
qed

text \<open>C24: a submission over the socket, with the fallback to the in-memory database switched off,
  leaves nothing behind, whatever the server answers and wherever the connection breaks: when it
  returns, the client's table of sessions has exactly the entries it had before; at most one
  connection was made; and once the transaction had started its connection is closed again, put,
  commit and rollback failing or not. When the start itself failed its connection may stay open
  (a greeting or a request that raises; see the findings). The peer counts the connections made
  and closed.\<close>

theorem submit_leaves_no_transaction:
  assumes sock: "\<not> using_mini c" "\<not> adb_allow_fallback c" and net: "adb_net c = (w, n, k)"
    and fresh: "\<forall>x. fst (pr_uuid (counted p) x) \<noteq> [] \<and> \<not> dhas (adb_sessions c) (fst (pr_uuid (counted p) x))"
    and run: "submit_final_answer (counted p) args c = (r, c')" and ret: "\<forall>m. r \<noteq> Inl (PyExc NonTermination m)"
  shows "dhas (adb_sessions c') u = dhas (adb_sessions c) u \<and>
    (\<exists>a b. snd (adb_net c') = (n + a, k + b) \<and> b \<le> a \<and> a \<le> 1 \<and>
       ((\<exists>t. fst (agent_start (counted p) c) = Inr t) \<longrightarrow> a = b))"
proof -
  let ?key = "sarg args ''key''" and ?val = "varg args ''value''"
  obtain rs c1 where st: "agent_start (counted p) c = (rs, c1)" by (cases "agent_start (counted p) c")
  note os = open_start_session [OF sock st]
  note sc = agent_start_counted [OF sock st net]
  show ?thesis
  proof (cases "?key = []")
    case True
    with run net show ?thesis
      by (auto simp: submit_final_answer_def Let_def prog_simps intro!: exI [of _ "0 :: nat"])
  next
    case key: False
    show ?thesis
    proof (cases rs)
      case (Inl e)
      with run key st os sc show ?thesis by (auto simp: submit_final_answer_def Let_def split: if_splits)
    next
      case (Inr t)
      with os obtain x where t: "t = fst (pr_uuid (counted p) x)" by auto
      have new: "t \<noteq> []" "\<not> dhas (adb_sessions c) t" unfolding t using fresh by blast+
      from run key st Inr have tx: "submit_in_tx (counted p) t ?key ?val c1 = (r, c')"
        by (simp add: submit_final_answer_def Let_def)
      have c1: "\<not> using_mini c1" "dhas (adb_sessions c1) t" "live c1 t" "snd (adb_net c1) = (n + 1, k)"
        using os sc Inr by auto
      from submit_in_tx_counted [OF c1(1) c1(3) new(1) c1(4) tx ret]
      have "snd (adb_net c') = (n + 1, k + 1)" .
      moreover have "dhas (adb_sessions c') u = dhas (adb_sessions c) u"
        using submit_in_tx_dom [OF c1(1) c1(2) new(1) tx ret, of u] os Inr new(2) by auto
      ultimately show ?thesis by (intro conjI exI [of _ "1 :: nat"]) simp_all
    qed
  qed
qed

text \<open>
  A server that accepts the transaction, refuses the put and accepts the abort; the scripted
  network is the list of reply lines.
\<close>

definition ex_line_peer :: "string list peer" where
  "ex_line_peer =
     \<lparr>pr_connect = \<lambda>host port w. (Inr 7, w), pr_send = \<lambda>h cmd w. (Inr (), w),
      pr_recv = \<lambda>h n w. (case w of [] \<Rightarrow> (Inr [], []) | l # ls \<Rightarrow> (Inr (l @ lf), ls)),
      pr_close = \<lambda>h w. (Inr (), w), pr_uuid = \<lambda>w. (''u1'', w)\<rparr>"

definition ex_refusing_client :: "(string list \<times> nat \<times> nat) agent_db" where
  "ex_refusing_client =
     ex_client ''socket'' ([''TREE DB READY'', ''OK'', ''ERR refused'', ''OK''], 0, 0)"

lemma ex_refused:
  "fst (submit_final_answer (counted ex_line_peer) [(''key'', PStr ''k''), (''value'', PStr ''v'')] ex_refusing_client) =
   Inr (tool_err ''PUT failed: ERR refused'' [(''key'', PStr ''k'')])"
  by code_simp

lemma ex_refusing_start: "fst (agent_start (counted ex_line_peer) ex_refusing_client) = Inr ''u1''"
  by code_simp

theorem submit_leaves_no_transaction_witness:
  "fst (submit_final_answer (counted ex_line_peer) [(''key'', PStr ''k''), (''value'', PStr ''v'')] ex_refusing_client) =
     Inr (tool_err ''PUT failed: ERR refused'' [(''key'', PStr ''k'')]) \<and>
   \<not> dhas (adb_sessions (snd (submit_final_answer (counted ex_line_peer)
       [(''key'', PStr ''k''), (''value'', PStr ''v'')] ex_refusing_client))) ''u1'' \<and>
   (\<exists>a. snd (adb_net (snd (submit_final_answer (counted ex_line_peer)
       [(''key'', PStr ''k''), (''value'', PStr ''v'')] ex_refusing_client))) = (a, a) \<and> a \<le> 1)"
proof -
  let ?out = "submit_final_answer (counted ex_line_peer) [(''key'', PStr ''k''), (''value'', PStr ''v'')] ex_refusing_client"
  have run: "submit_final_answer (counted ex_line_peer) [(''key'', PStr ''k''), (''value'', PStr ''v'')] ex_refusing_client
      = (fst ?out, snd ?out)" by simp
  have uuid: "fst (pr_uuid (counted ex_line_peer) x) = ''u1''" for x
    by (cases x) (simp add: counted_def ex_line_peer_def)
  have c: "\<not> using_mini ex_refusing_client" "\<not> adb_allow_fallback ex_refusing_client"
    "adb_net ex_refusing_client = ([''TREE DB READY'', ''OK'', ''ERR refused'', ''OK''], 0, 0)"
    "\<not> dhas (adb_sessions ex_refusing_client) ''u1''"
    by (simp_all add: ex_refusing_client_def ex_client_def using_mini_def dhas_def)
  have "\<forall>x. fst (pr_uuid (counted ex_line_peer) x) \<noteq> [] \<and>
      \<not> dhas (adb_sessions ex_refusing_client) (fst (pr_uuid (counted ex_line_peer) x))"
    by (simp only: uuid) (use c in simp)
  from submit_leaves_no_transaction [OF c(1,2,3) this run, of "''u1''"] c ex_refused ex_refusing_start
  show ?thesis by auto
qed

end
