(* ===== verification/Vita_Metrics.thy ===== *)
theory Vita_Metrics
  imports Py_Value "HOL-Library.Multiset"
begin

text \<open>
  The statistics of \<open>Agent/vitabench_delivery.py\<close>: the 95th percentile, binomial coefficients
  and the pass metrics built on them, tokens of a text and the similarity of token lists. Float
  arithmetic is the rounded arithmetic of \<open>Py_Float\<close>.
\<close>

subsection \<open>Percentile\<close>

text \<open>\<open>int(math.ceil(n * 0.95)) - 1\<close>, brought into the range of the indices.\<close>

definition p95_index :: "nat \<Rightarrow> int res" where
  "p95_index n =
     rbind (ceil_float (fmul (Fin (of_nat n)) (rnd (95 / 100)))) (\<lambda>c.
       Inr (max 0 (min (c - 1) (int n - 1))))"

definition p95 :: "pyfloat list \<Rightarrow> pyfloat res" where
  "p95 values =
     (if values = [] then Inr (Fin 0)
      else let ordered = sort values in
           rbind (p95_index (length ordered)) (\<lambda>idx. Inr (ordered ! nat idx)))"

subsection \<open>Binomial coefficients and pass metrics\<close>

definition n_choose_k :: "int \<Rightarrow> int \<Rightarrow> int" where
  "n_choose_k n k =
     (if k < 0 \<or> n < k then 0
      else let k = min k (n - k) in
        if k = 0 then 1
        else let (numer, denom) =
               fold (\<lambda>i (numer, denom). (numer * (n - (k - i)), denom * i)) [1..k] (1, 1)
             in numer div denom)"

definition pass_hat_k :: "int \<Rightarrow> int \<Rightarrow> int \<Rightarrow> pyfloat res" where
  "pass_hat_k num_trials success_count k =
     (if num_trials < k \<or> success_count < k then Inr (Fin 0)
      else rbind (float_of_int (n_choose_k success_count k)) (\<lambda>a.
           rbind (float_of_int (n_choose_k num_trials k)) (\<lambda>b. fdiv a b)))"

definition pass_at_k :: "int \<Rightarrow> int \<Rightarrow> int \<Rightarrow> pyfloat res" where
  "pass_at_k num_trials success_count k =
     (if num_trials < k then Inr (Fin 0)
      else if k \<le> num_trials - success_count
      then rbind (float_of_int (n_choose_k (num_trials - success_count) k)) (\<lambda>a.
           rbind (float_of_int (n_choose_k num_trials k)) (\<lambda>b.
           rbind (fdiv a b) (\<lambda>q. Inr (fsub (Fin 1) q))))
      else Inr (Fin 1))"

subsection \<open>Tokens\<close>

text \<open>
  The Unicode character database is a parameter: what \<open>isalnum\<close>, \<open>isspace\<close> and \<open>lower\<close> say of
  a character outside ASCII.
\<close>

record unicode =
  u_alnum :: "string \<Rightarrow> bool"
  u_space :: "string \<Rightarrow> bool"
  u_lower :: "string \<Rightarrow> string"

definition ascii_or :: "(char \<Rightarrow> 'a) \<Rightarrow> (string \<Rightarrow> 'a) \<Rightarrow> string \<Rightarrow> 'a" where
  "ascii_or f g ch =
     (case ch of [c] \<Rightarrow> (if (of_char c :: int) < 128 then f c else g ch) | _ \<Rightarrow> g ch)"

definition ch_alnum :: "unicode \<Rightarrow> string \<Rightarrow> bool" where
  "ch_alnum u ch = ascii_or is_alnum (u_alnum u) ch"

definition ch_space :: "unicode \<Rightarrow> string \<Rightarrow> bool" where
  "ch_space u ch = ascii_or is_space (u_space u) ch"

definition ch_lower :: "unicode \<Rightarrow> string \<Rightarrow> string" where
  "ch_lower u ch = ascii_or (\<lambda>c. [lower_char c]) (u_lower u) ch"

definition strip_chars :: "unicode \<Rightarrow> string list \<Rightarrow> string list" where
  "strip_chars u chs = rev (dropWhile (ch_space u) (rev (dropWhile (ch_space u) chs)))"

definition lower_chars :: "unicode \<Rightarrow> string list \<Rightarrow> string list" where
  "lower_chars u chs = utf8_chars (concat (map (ch_lower u) chs))"

text \<open>The loop of \<open>_normalized_tokens\<close>: \<open>current\<close> is the token being read.\<close>

fun tokens_loop :: "unicode \<Rightarrow> string list \<Rightarrow> string \<Rightarrow> string list \<Rightarrow> string list" where
  "tokens_loop u [] current tokens = (if current = [] then tokens else tokens @ [current])"
| "tokens_loop u (ch # chs) current tokens =
     (if ch_alnum u ch then tokens_loop u chs (current @ ch) tokens
      else
        let tokens = (if current = [] then tokens else tokens @ [current]);
            tokens = (if ch_space u ch then tokens else tokens @ [ch])
        in tokens_loop u chs [] tokens)"

definition normalized_tokens :: "unicode \<Rightarrow> pyval \<Rightarrow> string list" where
  "normalized_tokens u v =
     (let text = py_str (if truthy v then v else PStr [])
      in tokens_loop u (lower_chars u (strip_chars u (utf8_chars text))) [] [])"

definition jaccard_similarity :: "string list \<Rightarrow> string list \<Rightarrow> pyfloat res" where
  "jaccard_similarity left right =
     (let left_set = set (filter (\<lambda>t. t \<noteq> []) left);
          right_set = set (filter (\<lambda>t. t \<noteq> []) right) in
      if left_set = {} \<and> right_set = {} then Inr (Fin 0)
      else let union = left_set \<union> right_set in
        if union = {} then Inr (Fin 0)
        else rbind (float_of_int (int (card (left_set \<inter> right_set)))) (\<lambda>a.
             rbind (float_of_int (int (card union))) (\<lambda>b. fdiv a b)))"

end
