(* ===== verification/Vita_Metrics_Props.thy ===== *)
theory Vita_Metrics_Props
  imports Vita_Metrics
begin

text \<open>
  The statistics mean what their names say: the percentile is the nearest-rank percentile, the
  binomial coefficients are the binomial coefficients, the pass metrics are probabilities.
\<close>

subsection \<open>Percentile\<close>

definition d95 :: rat where
  "d95 = 4278419646001971 / 4503599627370496"

lemma rnd_95: "rnd (95 / 100) = Fin d95"
  unfolding d95_def by code_simp

text \<open>Though \<open>0.95\<close> is rounded and so is the product, the rank is exact.\<close>

lemma p95_index_exact:
  assumes n: "0 < n" "n < 2 ^ 46"
  shows "p95_index n = Inr (\<lceil>19 * of_nat n / (20 :: rat)\<rceil> - 1)"
proof -
  let ?x = "19 * of_nat n / (20 :: rat)"
  define k where "k = \<lceil>?x\<rceil>"
  have nr: "(of_nat n :: rat) < 70368744177664"
    using n(2) of_nat_less_iff [of n "2 ^ 46", where 'a = rat] by simp
  have k1: "of_int k - 1 < ?x" and k2: "?x \<le> of_int k" by (simp_all add: k_def) linarith+
  have kn: "k \<le> int n" and k0: "1 \<le> k" using n by (simp_all add: k_def ceiling_le_iff le_ceiling_iff)
  have "of_int (20 * k - 20) < (of_int (19 * int n) :: rat)" using k1 by simp
  then have "20 * k - 20 < 19 * int n" by (simp only: of_int_less_iff)
  then have "20 * k - 20 + 1 \<le> 19 * int n" by simp
  then have "(of_int (20 * k - 20 + 1) :: rat) \<le> of_int (19 * int n)" by (simp only: of_int_le_iff)
  then have k3: "of_int k - 1 + 1 / 20 \<le> ?x" by simp
  define L where "L = (of_int (64 * (k - 1) + 1) :: rat) * pow2 (- 6)"
  have p6: "pow2 (- 6) = 1 / 64" by (simp add: pow2_def)
  have L: "L = of_int k - 1 + 1 / 64" by (simp add: L_def p6 field_simps)
  have lo: "L \<le> of_nat n * d95" using k3 nr by (simp add: L d95_def)
  have hi: "of_nat n * d95 \<le> of_int k" using k2 by (simp add: d95_def)
  have kb: "k < 2 ^ 46" using kn n(2) by (metis le_less_trans of_nat_less_iff of_nat_numeral of_nat_power)
  have "rnd L = Fin L"
  proof (rule rnd_exact [OF L_def])
    show "\<bar>64 * (k - 1) + 1\<bar> < 2 ^ 53" using kb k0 by simp
    show "\<bar>L\<bar> < pow2 1024"
    proof -
      have "(of_int k :: rat) < 70368744177664" using kn nr
        by (metis le_less_trans of_int_le_iff of_int_of_nat_eq)
      moreover have "pow2 47 \<le> pow2 1024" by (rule pow2_mono) simp
      moreover have "pow2 47 = 140737488355328" by (simp add: pow2_def)
      moreover have "0 \<le> L" using k0 by (simp add: L)
      ultimately show ?thesis by (simp add: L)
    qed
  qed simp
  moreover have "rnd (of_int k) = Fin (of_int k)" using kb k0 by (intro rnd_small_int) simp
  ultimately have "Fin L \<le> rnd (of_nat n * d95)" "rnd (of_nat n * d95) \<le> Fin (of_int k)"
    using rnd_mono [OF lo] rnd_mono [OF hi] by simp_all
  moreover have "rnd (of_nat n * d95) \<noteq> NaN" by (simp add: rnd_alt)
  ultimately obtain q where q: "rnd (of_nat n * d95) = Fin q" "L \<le> q" "q \<le> of_int k"
    by (cases "rnd (of_nat n * d95)") auto
  then have "\<lceil>q\<rceil> = k" using L by (intro ceiling_unique) linarith+
  with q have "p95_index n = Inr (max 0 (min (k - 1) (int n - 1)))"
    by (simp only: p95_index_def rnd_95) simp
  then show ?thesis using kn k0 by (simp add: k_def)
qed

lemma sorted_rank:
  assumes s: "sorted s" and i: "i < length s"
  shows "Suc i \<le> length (filter (\<lambda>x. x \<le> s ! i) s)" and "length (filter (\<lambda>x. x < s ! i) s) \<le> i"
proof -
  have "{..i} \<subseteq> {j. j < length s \<and> s ! j \<le> s ! i}"
    using s i by (auto simp: sorted_iff_nth_mono)
  then have "card {..i} \<le> card {j. j < length s \<and> s ! j \<le> s ! i}" by (intro card_mono) auto
  then show "Suc i \<le> length (filter (\<lambda>x. x \<le> s ! i) s)" by (simp add: length_filter_conv_card)
  have "{j. j < length s \<and> s ! j < s ! i} \<subseteq> {..<i}"
    using s i by (auto simp: sorted_iff_nth_mono) (metis leD leI)
  then have "card {j. j < length s \<and> s ! j < s ! i} \<le> card {..<i}" by (intro card_mono) auto
  then show "length (filter (\<lambda>x. x < s ! i) s) \<le> i" by (simp add: length_filter_conv_card)
qed

lemma length_filter_sort: "length (filter P (sort xs)) = length (filter P xs)"
  by (metis mset_filter mset_sort size_mset)

text \<open>C33: the reported 95th percentile is the nearest-rank percentile: it is one of the values,
  at least 95% of the values are not above it, and fewer than 95% are below it; rounding of
  floats never shifts the rank.\<close>

theorem p95_nearest_rank:
  assumes "values \<noteq> []" and "length values < 2 ^ 46"
  shows "\<exists>v. p95 values = Inr v \<and> v \<in> set values \<and>
    19 * length values \<le> 20 * length (filter (\<lambda>x. x \<le> v) values) \<and>
    20 * length (filter (\<lambda>x. x < v) values) < 19 * length values"
proof -
  let ?n = "length values" and ?s = "sort values"
  define k where "k = \<lceil>19 * of_nat ?n / (20 :: rat)\<rceil>"
  have n: "0 < ?n" using assms(1) by simp
  have k: "1 \<le> k" "k \<le> int ?n" using n by (simp_all add: k_def ceiling_le_iff le_ceiling_iff)
  have "of_int k - 1 < 19 * of_nat ?n / (20 :: rat)" "19 * of_nat ?n / (20 :: rat) \<le> of_int k"
    by (simp_all add: k_def) linarith+
  then have "of_int (20 * k - 20) < (of_int (19 * int ?n) :: rat)"
    "(of_int (19 * int ?n) :: rat) \<le> of_int (20 * k)" by simp_all
  then have kr: "20 * k - 20 < 19 * int ?n" "19 * int ?n \<le> 20 * k"
    by (simp_all only: of_int_less_iff of_int_le_iff)
  let ?i = "nat (k - 1)"
  have i: "?i < length ?s" using k by simp
  have "p95 values = Inr (?s ! ?i)"
    using p95_index_exact [OF n assms(2)] assms(1) by (simp add: p95_def k_def)
  moreover have "?s ! ?i \<in> set values" using nth_mem [OF i] by simp
  moreover have "Suc ?i \<le> length (filter (\<lambda>x. x \<le> ?s ! ?i) values)"
    "length (filter (\<lambda>x. x < ?s ! ?i) values) \<le> ?i"
    using sorted_rank [OF sorted_sort i] by (simp_all only: length_filter_sort)
  ultimately show ?thesis using kr k by (intro exI [of _ "?s ! ?i"]) linarith
qed

theorem p95_nearest_rank_witness:
  "\<exists>v. p95 [Fin 3, Fin 1, Fin 2] = Inr v \<and> v \<in> set [Fin 3, Fin 1, Fin 2] \<and>
    19 * length [Fin 3, Fin 1, Fin 2] \<le> 20 * length (filter (\<lambda>x. x \<le> v) [Fin 3, Fin 1, Fin 2]) \<and>
    20 * length (filter (\<lambda>x. x < v) [Fin 3, Fin 1, Fin 2]) < 19 * length [Fin 3, Fin 1, Fin 2]"
  by (rule p95_nearest_rank) simp_all

subsection \<open>Binomial coefficients\<close>

lemma choose_loop:
  fixes n k c :: int
  assumes c: "c = n - k" "0 \<le> c"
  shows "fold (\<lambda>i (numer, denom). (numer * (n - (k - i)), denom * i)) [1..int m] (1, 1) =
    (fact m * int ((nat c + m) choose m), fact m)"
proof (induction m)
  case 0
  then show ?case by simp
next
  case (Suc m)
  have up: "[1..int (Suc m)] = [1..int m] @ [int (Suc m)]"
    using upto_rec2 [of 1 "int (Suc m)"] by simp
  have "Suc m * ((nat c + Suc m) choose Suc m) = (nat c + Suc m) * ((nat c + m) choose m)"
    using Suc_times_binomial [of m "nat c + m"] by simp
  then have "int (Suc m) * int ((nat c + Suc m) choose Suc m) =
      (c + int (Suc m)) * int ((nat c + m) choose m)"
    using c(2) by (metis (no_types, lifting) int_nat_eq of_nat_add of_nat_mult)
  moreover have "n - (k - int (Suc m)) = c + int (Suc m)" using c(1) by simp
  ultimately show ?case
    unfolding up fold_append comp_apply Suc
    by (simp add: algebra_simps del: of_nat_Suc binomial_Suc_Suc)
qed


lemma n_choose_k_binomial: "n_choose_k (int n) (int k) = int (n choose k)"
proof (cases "n < k")
  case True
  then show ?thesis by (simp add: n_choose_k_def binomial_eq_0)
next
  case False
  let ?m = "min k (n - k)"
  have m: "?m \<le> n" "n choose ?m = n choose k"
    using False binomial_symmetric [of k n] by (auto simp: min_def)
  have "min (int k) (int n - int k) = int ?m" using False by (simp add: min_def of_nat_diff) linarith
  moreover have "nat (int n - int ?m) + ?m = n" using m(1) by simp
  ultimately show ?thesis
    using False m choose_loop [of "int n - int ?m" "int n" "int ?m" ?m]
    by (auto simp: n_choose_k_def Let_def)
qed

text \<open>C34: \<open>_n_choose_k\<close> is the binomial coefficient: for all counts its division is exact and the
  result is the number of \<open>k\<close>-element subsets; it is zero outside the range.\<close>

theorem n_choose_k_correct:
  "n_choose_k n k = (if 0 \<le> k \<and> k \<le> n then int (nat n choose nat k) else 0)"
proof (cases "0 \<le> k \<and> k \<le> n")
  case True
  then show ?thesis using n_choose_k_binomial [of "nat n" "nat k"] by simp
next
  case False
  then show ?thesis by (auto simp: n_choose_k_def)
qed

subsection \<open>Pass metrics\<close>

lemma rnd_unit: "0 \<le> q \<Longrightarrow> q \<le> 1 \<Longrightarrow> \<exists>r. rnd q = Fin r \<and> 0 \<le> r \<and> r \<le> 1"
proof -
  assume q: "0 \<le> q" "q \<le> 1"
  have "rnd q \<noteq> NaN" by (simp add: rnd_alt)
  moreover have "rnd 0 \<le> rnd q" "rnd q \<le> rnd 1" using q by (simp_all only: rnd_mono)
  moreover have "rnd 1 = Fin 1" using rnd_small_int [of 1] by simp
  ultimately show ?thesis by (cases "rnd q") auto
qed

lemma float_of_int_mono:
  assumes "0 \<le> a" "a \<le> b" "float_of_int b = Inr y"
  shows "\<exists>x z. float_of_int a = Inr (Fin x) \<and> y = Fin z \<and> 0 \<le> x \<and> x \<le> z"
proof -
  from assms(3) obtain z where z: "rnd (of_int b) = Fin z" "y = Fin z"
    by (auto simp: float_of_int_def split: pyfloat.splits)
  have "rnd (of_int a) \<noteq> NaN" by (simp add: rnd_alt)
  moreover have "rnd 0 \<le> rnd (of_int a)" "rnd (of_int a) \<le> rnd (of_int b)"
    using assms by (intro rnd_mono; simp)+
  ultimately show ?thesis using z by (cases "rnd (of_int a)") (auto simp: float_of_int_def)
qed

lemma n_choose_k_nat: "0 \<le> n \<Longrightarrow> 0 \<le> k \<Longrightarrow> n_choose_k n k = int (nat n choose nat k)"
  using n_choose_k_binomial [of "nat n" "nat k"] by simp

text \<open>The quotient of two coefficients over the same \<open>k\<close>, the larger one below: a float between 0 and 1.\<close>

lemma choose_ratio_unit:
  assumes k: "0 \<le> k" "k \<le> n" and m: "0 \<le> m" "m \<le> n" and y: "float_of_int (n_choose_k n k) = Inr y"
  shows "\<exists>r. rbind (float_of_int (n_choose_k m k)) (\<lambda>a.
      rbind (float_of_int (n_choose_k n k)) (\<lambda>b. fdiv a b)) = Inr (Fin r) \<and> 0 \<le> r \<and> r \<le> 1"
proof -
  have "n_choose_k m k \<le> n_choose_k n k" and "0 \<le> n_choose_k m k"
    using k m binomial_right_mono [of "nat m" "nat n" "nat k"] by (simp_all add: n_choose_k_nat)
  from float_of_int_mono [OF this(2,1) y] obtain x w where
    x: "float_of_int (n_choose_k m k) = Inr (Fin x)" "y = Fin w" "0 \<le> x" "x \<le> w" by blast
  have "0 < nat n choose nat k" using k by (intro zero_less_binomial) simp
  then have "1 \<le> int (nat n choose nat k)" by linarith
  then have "1 \<le> n_choose_k n k" using k by (simp add: n_choose_k_nat)
  then have "rnd (of_int 1) \<le> rnd (of_int (n_choose_k n k))" by (intro rnd_mono) simp
  moreover have "rnd (of_int 1) = Fin 1" using rnd_small_int [of 1] by simp
  ultimately have "w \<noteq> 0" using y x(2) by (auto simp: float_of_int_def split: pyfloat.splits)
  with x have "0 < w" by simp
  then obtain r where "rnd (x / w) = Fin r" "0 \<le> r" "r \<le> 1" using rnd_unit [of "x / w"] x by auto
  with x y \<open>w \<noteq> 0\<close> show ?thesis by simp
qed

text \<open>C35: the pass metrics are probabilities: with \<open>c\<close> successes in \<open>n\<close> trials both metrics are
  finite and between 0 and 1 for every \<open>k\<close> from 0 to \<open>n\<close>, unless the number of \<open>k\<close>-subsets
  exceeds the range of floats.\<close>

theorem pass_metrics_unit:
  assumes "0 \<le> k" and "0 \<le> c" and "c \<le> n" and "float_of_int (n_choose_k n k) = Inr y"
  shows "\<exists>p q. pass_hat_k n c k = Inr (Fin p) \<and> 0 \<le> p \<and> p \<le> 1 \<and>
    pass_at_k n c k = Inr (Fin q) \<and> 0 \<le> q \<and> q \<le> 1"
proof -
  have hat: "\<exists>p. pass_hat_k n c k = Inr (Fin p) \<and> 0 \<le> p \<and> p \<le> 1"
    using choose_ratio_unit [of k n c] assms by (auto simp: pass_hat_k_def)
  have "\<exists>q. pass_at_k n c k = Inr (Fin q) \<and> 0 \<le> q \<and> q \<le> 1"
  proof (cases "n < k \<or> n - c < k")
    case True
    then show ?thesis by (auto simp: pass_at_k_def)
  next
    case False
    with choose_ratio_unit [of k n "n - c"] assms obtain r where
      r: "rbind (float_of_int (n_choose_k (n - c) k)) (\<lambda>a.
        rbind (float_of_int (n_choose_k n k)) (\<lambda>b. fdiv a b)) = Inr (Fin r)" "0 \<le> r" "r \<le> 1"
      by auto
    then obtain t where t: "rnd (1 - r) = Fin t" "0 \<le> t" "t \<le> 1" using rnd_unit [of "1 - r"] by auto
    from r(1) obtain a b where "float_of_int (n_choose_k (n - c) k) = Inr a"
      "float_of_int (n_choose_k n k) = Inr b" "fdiv a b = Inr (Fin r)"
      by (auto simp: rbind_eq_Inr)
    with False t show ?thesis by (simp add: pass_at_k_def fsub_def)
  qed
  with hat show ?thesis by blast
qed

theorem pass_metrics_unit_witness:
  "\<exists>p q. pass_hat_k 4 3 2 = Inr (Fin p) \<and> 0 \<le> p \<and> p \<le> 1 \<and>
    pass_at_k 4 3 2 = Inr (Fin q) \<and> 0 \<le> q \<and> q \<le> 1"
proof -
  have "rnd (of_int 6) = Fin 6" using rnd_small_int [of 6] by simp
  moreover have "n_choose_k 4 2 = 6" by code_simp
  ultimately have "float_of_int (n_choose_k 4 2) = Inr (Fin 6)" by (simp add: float_of_int_def)
  from pass_metrics_unit [OF _ _ _ this, of 3] show ?thesis by simp
qed

end
