(* ===== verification/Py_Sha1.thy ===== *)
theory Py_Sha1
  imports Py_Text "HOL-Library.Word"
begin

unbundle bit_operations_syntax

text \<open>
  \<open>hashlib.sha1(data).hexdigest()\<close>, on 32-bit words: padding, message schedule, the eighty
  rounds and the printing of the digest.
\<close>

type_synonym w32 = "32 word"

definition rotl :: "nat \<Rightarrow> w32 \<Rightarrow> w32" where
  "rotl n x = push_bit n x OR drop_bit (32 - n) x"

definition sha1_byte :: "char \<Rightarrow> w32" where
  "sha1_byte c = word_of_int (of_char c)"

fun sha1_words :: "w32 list \<Rightarrow> w32 list" where
  "sha1_words (a # b # c # d # bs) =
     (push_bit 24 a OR push_bit 16 b OR push_bit 8 c OR d) # sha1_words bs"
| "sha1_words _ = []"

text \<open>The bytes of an integer, most significant first.\<close>

fun be_bytes :: "nat \<Rightarrow> int \<Rightarrow> w32 list" where
  "be_bytes 0 n = []"
| "be_bytes (Suc k) n = be_bytes k (n div 256) @ [word_of_int (n mod 256)]"

definition sha1_pad :: "string \<Rightarrow> w32 list" where
  "sha1_pad s =
     map sha1_byte s @ [128] @
     replicate (nat ((55 - int (length s)) mod 64)) 0 @ be_bytes 8 (8 * int (length s))"

primrec sha1_schedule :: "nat \<Rightarrow> w32 list \<Rightarrow> w32 list" where
  "sha1_schedule 0 w = w"
| "sha1_schedule (Suc n) w =
     (let k = length w in
      sha1_schedule n (w @ [rotl 1 (w ! (k - 3) XOR w ! (k - 8) XOR w ! (k - 14) XOR w ! (k - 16))]))"

type_synonym sha1_state = "w32 \<times> w32 \<times> w32 \<times> w32 \<times> w32"

definition sha1_round :: "nat \<times> w32 \<Rightarrow> sha1_state \<Rightarrow> sha1_state" where
  "sha1_round = (\<lambda>(t, w) (a, b, c, d, e).
     let (f, k) =
       (if t < 20 then ((b AND c) OR (NOT b AND d), 0x5A827999)
        else if t < 40 then (b XOR c XOR d, 0x6ED9EBA1)
        else if t < 60 then ((b AND c) OR (b AND d) OR (c AND d), 0x8F1BBCDC)
        else (b XOR c XOR d, 0xCA62C1D6))
     in (rotl 5 a + f + e + k + w, a, rotl 30 b, c, d))"

definition sha1_block :: "w32 list \<Rightarrow> sha1_state \<Rightarrow> sha1_state" where
  "sha1_block ws h =
     (case (h, fold sha1_round (zip [0..<80] (sha1_schedule 64 ws)) h) of
        ((h0, h1, h2, h3, h4), (a, b, c, d, e)) \<Rightarrow> (h0 + a, h1 + b, h2 + c, h3 + d, h4 + e))"

function sha1_blocks :: "w32 list \<Rightarrow> sha1_state \<Rightarrow> sha1_state" where
  "sha1_blocks ws h = (if ws = [] then h else sha1_blocks (drop 16 ws) (sha1_block (take 16 ws) h))"
  by auto

termination
  by (relation "measure (\<lambda>(ws, h). length ws)") (auto simp: neq_Nil_conv)

declare sha1_blocks.simps [simp del]

definition hex_char :: "int \<Rightarrow> char" where
  "hex_char n = (if n < 10 then char_of (48 + n) else char_of (87 + n))"

definition hex_word :: "w32 \<Rightarrow> string" where
  "hex_word x = map (\<lambda>i. hex_char (uint (drop_bit (4 * i) x AND 15))) (rev [0..<8])"

definition sha1_hex :: "string \<Rightarrow> string" where
  "sha1_hex s =
     (case sha1_blocks (sha1_words (sha1_pad s))
             (0x67452301, 0xEFCDAB89, 0x98BADCFE, 0x10325476, 0xC3D2E1F0) of
        (a, b, c, d, e) \<Rightarrow> hex_word a @ hex_word b @ hex_word c @ hex_word d @ hex_word e)"

lemma sha1_hex_length: "length (sha1_hex s) = 40"
  by (simp add: sha1_hex_def hex_word_def split: prod.splits)

end
