(* ===== verification/Vita_Tasks.thy ===== *)
theory Vita_Tasks
  imports Kv_Tools Py_Sha1 "HOL-Library.Char_ord" "HOL-Library.List_Lexorder"
begin

text \<open>
  Tasks of the delivery benchmark (\<open>Agent/vitabench_delivery.py\<close>): keys and namespaces, what a
  task asks for, which tasks can be run, loading them from the data sets, and their projection
  into database entries. A task is the JSON value read from the data set; accesses that Python
  would refuse are errors.
\<close>

subsection \<open>Names and keys\<close>

definition namespace_token :: "string \<Rightarrow> string" where
  "namespace_token v =
     (let token = map (\<lambda>c. if c = CHR '':'' \<or> c = CHR ''/'' \<or> c = CHR '' '' then CHR ''_'' else c) v in
      if length (utf8_chars token) \<le> 16 then token
      else concat (take 6 (utf8_chars token)) @ ''_'' @ take 8 (sha1_hex token))"

definition build_namespace :: "string \<Rightarrow> string \<Rightarrow> string \<Rightarrow> int \<Rightarrow> string" where
  "build_namespace run_id mode task_uid trial =
     ''run:'' @ run_id @ '':mode:'' @ mode @ '':trial:'' @ str_int trial @ '':task:'' @
     namespace_token task_uid"

definition task_key :: "string \<Rightarrow> string \<Rightarrow> string" where
  "task_key namespace suffix = rstrip_char CHR '':'' namespace @ '':'' @ lstrip_char CHR '':'' suffix"

definition hotspot_key :: "string \<Rightarrow> string" where
  "hotspot_key namespace = ''global:contention:hotspot''"

definition branch_candidate_key :: "string \<Rightarrow> int \<Rightarrow> string" where
  "branch_candidate_key namespace b = task_key namespace (''answer:candidate:branch:'' @ str_int b)"

definition attempt_candidate_key :: "string \<Rightarrow> int \<Rightarrow> string" where
  "attempt_candidate_key namespace i = task_key namespace (''answer:candidate:attempt:'' @ str_int i)"

subsection \<open>What a task asks for\<close>

definition required_order :: "pyval \<Rightarrow> pyval res" where
  "required_order task =
     rbind (vget task ''evaluation_criteria'' (PDict [])) (\<lambda>ec.
     rbind (vget ec ''expected_states'' (PList [])) (\<lambda>states.
       if \<not> truthy states then Inr (PDict [])
       else rbind (vindex states 0) (\<lambda>st.
            rbind (vget st ''required_orders'' (PList [])) (\<lambda>orders.
              if truthy orders then vindex orders 0 else Inr (PDict [])))))"

definition product_ids_of :: "pyval \<Rightarrow> string list res" where
  "product_ids_of store =
     rbind (vget store ''products'' PNone) (\<lambda>ps.
     rbind (py_iter (or_else ps (PList []))) (\<lambda>products.
     rbind (rmap (\<lambda>product. rbind (vget product ''product_id'' (PStr [])) (\<lambda>i. Inr (py_str i))) products)
       (\<lambda>ids. Inr (filter (\<lambda>i. i \<noteq> []) ids))))"

definition available_product_ids :: "pyval \<Rightarrow> string list res" where
  "available_product_ids stores =
     rbind (vvalues stores) (\<lambda>vs. rbind (rmap product_ids_of vs) (\<lambda>idss. Inr (concat idss)))"

definition find_store_and_product_ids :: "pyval \<Rightarrow> (string \<times> string) res" where
  "find_store_and_product_ids task =
     rbind (required_order task) (\<lambda>order.
     rbind (vget order ''products'' (PList [])) (\<lambda>products.
     rbind (if truthy products
            then rbind (vindex products 0) (\<lambda>p.
                 rbind (vget p ''product_id'' (PStr [])) (\<lambda>i. Inr (py_str i)))
            else Inr []) (\<lambda>product_id.
     rbind (if product_id = [] then Inr []
            else rbind (vget task ''environment'' (PDict [])) (\<lambda>env.
                 rbind (vget env ''stores'' (PDict [])) (\<lambda>stores.
                 rbind (available_product_ids (or_else stores (PDict []))) (\<lambda>available.
                   Inr (if product_id \<in> set available then product_id else []))))) (\<lambda>product_id.
     rbind (vget order ''store_id'' (PStr [])) (\<lambda>store_id.
       Inr (py_str store_id, product_id))))))"

text \<open>The loop of \<open>_expected_product_profile\<close> over the store's products.\<close>

fun profile_loop :: "string \<Rightarrow> (string \<times> pyval) list \<Rightarrow> pyval list \<Rightarrow> pyval res" where
  "profile_loop product_id target [] = Inr (PDict target)"
| "profile_loop product_id target (product # ps) =
     rbind (vget product ''product_id'' (PStr [])) (\<lambda>i.
       if py_str i = product_id
       then rbind (to_dict product) (\<lambda>profile.
            Inr (PDict (dset (dset profile ''expected_quantity'' (dget_def target ''quantity'' PNone))
                   ''expected_attributes'' (dget_def target ''attributes'' PNone))))
       else profile_loop product_id target ps)"

definition expected_product_profile :: "pyval \<Rightarrow> pyval res" where
  "expected_product_profile task =
     rbind (required_order task) (\<lambda>order.
     rbind (vget order ''products'' (PList [])) (\<lambda>ps.
       let order_products = or_else ps (PList []) in
       if \<not> truthy order_products then Inr (PDict [])
       else rbind (vindex order_products 0) (\<lambda>p0.
            rbind (to_dict p0) (\<lambda>target.
            rbind (vget order ''store_id'' (PStr [])) (\<lambda>sid.
            rbind (vget task ''environment'' (PDict [])) (\<lambda>env.
            rbind (vget env ''stores'' (PDict [])) (\<lambda>stores.
            rbind (vget stores (py_str sid) (PDict [])) (\<lambda>store.
            rbind (vget (or_else store (PDict [])) ''products'' (PList [])) (\<lambda>sps.
            rbind (py_iter (or_else sps (PList []))) (\<lambda>products.
              profile_loop (py_str (dget_def target ''product_id'' (PStr []))) target products))))))))))"

subsection \<open>Which tasks can be run\<close>

fun product_problem :: "string list \<Rightarrow> pyval list \<Rightarrow> string" where
  "product_problem available [] = []"
| "product_problem available (product # ps) =
     (case product of
        PDict d \<Rightarrow>
          (let product_id = py_str (dget_def d ''product_id'' (PStr [])) in
           if product_id = [] then ''missing_product_id''
           else if product_id \<notin> set available then ''expected_product_not_projectable''
           else product_problem available ps)
      | _ \<Rightarrow> ''bad_product_shape'')"

definition delivery_compatibility_reason :: "pyval \<Rightarrow> string res" where
  "delivery_compatibility_reason task =
     rbind (required_order task) (\<lambda>order.
       if \<not> truthy order then Inr ''missing_required_order''
       else rbind (vget order ''order_type'' (PStr [])) (\<lambda>ot.
         if py_str ot \<noteq> ''delivery'' then Inr ''non_delivery_order''
         else rbind (to_dict order) (\<lambda>d.
         case filter (\<lambda>field. \<not> dhas d field) [''store_id'', ''location'', ''products'', ''total_price''] of
           field # _ \<Rightarrow> Inr (''missing_order_field:'' @ field)
         | [] \<Rightarrow>
           (case dget_def d ''location'' (PDict []) of
              PDict _ \<Rightarrow>
                (case dget_def d ''products'' (PList []) of
                   PList (x # xs) \<Rightarrow>
                     rbind (vget task ''environment'' (PDict [])) (\<lambda>env.
                     rbind (vget env ''stores'' (PDict [])) (\<lambda>stores.
                       case stores of
                         PDict (s # ss) \<Rightarrow>
                           (let store_id = py_str (dget_def d ''store_id'' (PStr [])) in
                            if store_id = [] then Inr ''missing_store_id''
                            else if \<not> dhas (s # ss) store_id then Inr ''expected_store_not_projectable''
                            else rbind (available_product_ids stores) (\<lambda>available.
                                 Inr (product_problem available (x # xs))))
                       | _ \<Rightarrow> Inr ''missing_stores''))
                 | _ \<Rightarrow> Inr ''missing_products'')
            | _ \<Rightarrow> Inr ''bad_location_shape''))))"

definition normalize_task :: "pyval \<Rightarrow> string \<Rightarrow> int \<Rightarrow> (string \<times> pyval) list res" where
  "normalize_task task source ordinal =
     rbind (to_dict task) (\<lambda>d.
       let d = dset d ''_task_source'' (PStr source);
           d = dset d ''_task_uid''
                 (PStr (source @ '':'' @ py_str (dget_def d ''id'' (PInt ordinal))))
       in Inr (if dhas d ''instructions'' then d else dset d ''instructions'' (PStr [])))"

subsection \<open>Loading the data sets\<close>

text \<open>The data set files are a parameter: which paths exist, and the JSON each holds.\<close>

record data_sets =
  ds_exists :: "string \<Rightarrow> bool"
  ds_read :: "string \<Rightarrow> pyval res"

record load_state =
  ls_tasks :: "(string \<times> pyval) list list"
  ls_skipped :: "(string, int) dict"
  ls_counts :: "(string, int) dict"

definition dict_add :: "(string, int) dict \<Rightarrow> string \<Rightarrow> int \<Rightarrow> (string, int) dict" where
  "dict_add d k n = dset d k (dget_def d k 0 + n)"

definition wanted_task :: "string set \<Rightarrow> (string \<times> pyval) list \<Rightarrow> bool" where
  "wanted_task wanted task =
     (wanted = {} \<or> py_str (dget_def task ''id'' (PStr [])) \<in> wanted \<or>
      py_str (dget_def task ''_task_uid'' PNone) \<in> wanted)"

definition load_task ::
  "string \<Rightarrow> bool \<Rightarrow> string set \<Rightarrow> nat \<times> pyval \<Rightarrow> load_state \<Rightarrow> load_state res" where
  "load_task source filter_compatible wanted = (\<lambda>(idx, raw) st.
     rbind (normalize_task raw source (int idx)) (\<lambda>task.
     rbind (if filter_compatible then delivery_compatibility_reason (PDict task) else Inr []) (\<lambda>reason.
       if reason \<noteq> [] then Inr (st\<lparr>ls_skipped := dict_add (ls_skipped st) reason 1\<rparr>)
       else if \<not> wanted_task wanted task then Inr st
       else Inr (st\<lparr>ls_tasks := ls_tasks st @ [task]\<rparr>))))"

definition load_source ::
  "data_sets \<Rightarrow> string set \<Rightarrow> string \<times> string \<times> bool \<Rightarrow> load_state \<Rightarrow> load_state res" where
  "load_source ds wanted = (\<lambda>(source, path, filter_compatible) st.
     if \<not> ds_exists ds path
     then Inl (PyExc FileNotFoundError (''dataset path not found: '' @ path))
     else rbind (ds_read ds path) (\<lambda>raw_tasks.
          rbind (vlen raw_tasks) (\<lambda>n.
          rbind (py_iter raw_tasks) (\<lambda>raws.
            rfold (load_task source filter_compatible wanted) (enumerate 0 raws)
              (st\<lparr>ls_counts := dset (ls_counts st) source (int n)\<rparr>)))))"

text \<open>\<open>xs[:limit]\<close>.\<close>

definition slice_to :: "int \<Rightarrow> 'a list \<Rightarrow> 'a list" where
  "slice_to limit xs = (if 0 \<le> limit then take (nat limit) xs else take (length xs - nat (- limit)) xs)"

definition load_experiment_tasks ::
  "data_sets \<Rightarrow> string \<Rightarrow> string \<Rightarrow> string \<Rightarrow> string list \<Rightarrow> int option \<Rightarrow>
   ((string \<times> pyval) list list \<times> pyval) res" where
  "load_experiment_tasks ds delivery_path task_source cross_domain_path task_ids limit =
     (let sources =
        (if task_source \<in> {''delivery'', ''both''} then [(''delivery'', delivery_path, False)] else []) @
        (if task_source \<in> {''cross_domain'', ''both''} then [(''cross_domain'', cross_domain_path, True)]
         else []) in
      rbind (rfold (load_source ds (set task_ids)) sources
               \<lparr>ls_tasks = [], ls_skipped = [], ls_counts = []\<rparr>) (\<lambda>st.
        let tasks = (case limit of None \<Rightarrow> ls_tasks st | Some n \<Rightarrow> slice_to n (ls_tasks st)) in
        Inr (tasks, PDict
          [(''eligible_task_count'', PInt (int (length tasks))),
           (''skipped_task_count'', PInt (sum_list (map snd (ls_skipped st)))),
           (''skip_reason_distribution'', PDict (map (\<lambda>(k, n). (k, PInt n)) (ls_skipped st))),
           (''source_counts'', PDict (map (\<lambda>(k, n). (k, PInt n)) (ls_counts st))),
           (''task_source'', PStr task_source), (''cross_domain_path'', PStr cross_domain_path)])))"

definition default_cross_domain_path :: string where
  "default_cross_domain_path = ''/home/cht/datasets/VitaBench/cross_domain/tasks.json''"

definition load_delivery_tasks ::
  "data_sets \<Rightarrow> string \<Rightarrow> string list \<Rightarrow> int option \<Rightarrow> (string \<times> pyval) list list res" where
  "load_delivery_tasks ds dataset_path task_ids limit =
     rbind (load_experiment_tasks ds dataset_path ''delivery'' default_cross_domain_path task_ids limit)
       (\<lambda>(tasks, _). Inr tasks)"

subsection \<open>Projection\<close>

text \<open>\<open>environment.get(a, d)\<close> and the like, printed by \<open>_json_dumps\<close>.\<close>

definition json_of :: "pyval \<Rightarrow> string \<Rightarrow> pyval \<Rightarrow> string res" where
  "json_of v k d = rbind (vget v k d) (\<lambda>x. Inr (dumps_compact x))"

definition first_state :: "pyval \<Rightarrow> pyval res" where
  "first_state ec = rbind (vget ec ''expected_states'' (PList [PDict []])) (\<lambda>states. vindex states 0)"

definition add_entry ::
  "string \<Rightarrow> string \<Rightarrow> string \<Rightarrow> (string, pyval) dict \<Rightarrow> (string, pyval) dict" where
  "add_entry namespace suffix val entries = dset entries (task_key namespace suffix) (PStr val)"

definition project_product ::
  "string \<Rightarrow> pyval \<Rightarrow> (string, pyval) dict \<times> string list \<Rightarrow> ((string, pyval) dict \<times> string list) res" where
  "project_product namespace product = (\<lambda>(entries, product_ids).
     rbind (vget product ''product_id'' (PStr [])) (\<lambda>i.
       let product_id = py_str i in
       if product_id = [] then Inr (entries, product_ids)
       else Inr (add_entry namespace (product_suffix product_id) (dumps_compact product) entries,
                 product_ids @ [product_id])))"

definition project_store ::
  "string \<Rightarrow> (string \<times> pyval) list \<Rightarrow> string \<Rightarrow> (string, pyval) dict \<times> string list \<Rightarrow>
   ((string, pyval) dict \<times> string list) res" where
  "project_store namespace stores store_id = (\<lambda>(entries, product_ids).
     rbind (to_dict (dget_def stores store_id PNone)) (\<lambda>store.
       let products = dget_def store ''products'' (PList []);
           entries = add_entry namespace (store_suffix store_id) (dumps_compact (PDict store)) entries in
       rbind (py_iter products) (\<lambda>ps.
       rbind (rmap (\<lambda>product. vget product ''product_id'' PNone) ps) (\<lambda>ids.
         let entries = add_entry namespace (''store:'' @ store_id @ '':products'')
                         (dumps_compact (PList ids)) entries in
         rfold (project_product namespace) ps (entries, product_ids)))))"

definition project_task_to_entries :: "(string \<times> pyval) list \<Rightarrow> string \<Rightarrow> (string, pyval) dict res" where
  "project_task_to_entries task namespace =
     rbind (vitem task ''id'') (\<lambda>id_val.
       let task_id = py_str id_val;
           environment = dget_def task ''environment'' (PDict []);
           user_scenario = dget_def task ''user_scenario'' (PDict []);
           criteria = dget_def task ''evaluation_criteria'' (PDict []);
           add = add_entry namespace in
       rbind (vget environment ''stores'' (PDict [])) (\<lambda>stores.
       rbind (vget environment ''time'' (PStr [])) (\<lambda>time.
       let meta = PDict
             [(''task_id'', PStr task_id),
              (''task_uid'', dget_def task ''_task_uid'' (PStr task_id)),
              (''task_source'', dget_def task ''_task_source'' (PStr ''delivery'')),
              (''domain'', dget_def task ''domain'' (PStr ''delivery'')),
              (''time'', time),
              (''instructions'', dget_def task ''instructions'' (PStr [])),
              (''message_history'', dget_def task ''message_history'' (PList []))] in
       rbind (first_state criteria) (\<lambda>st.
       rbind (json_of st ''required_orders'' (PList [])) (\<lambda>orders.
       rbind (json_of criteria ''overall_rubrics'' (PList [])) (\<lambda>overall.
       rbind (json_of st ''state_rubrics'' (PList [])) (\<lambda>rubrics.
       rbind (json_of user_scenario ''user_profile'' (PDict [])) (\<lambda>profile.
       rbind (json_of environment ''user_historical_behaviors'' (PDict [])) (\<lambda>history.
       rbind (json_of environment ''weather'' (PList [])) (\<lambda>weather.
       rbind (json_of environment ''location'' (PList [])) (\<lambda>locations.
       rbind (json_of environment ''orders'' (PDict [])) (\<lambda>current.
       rbind (vkeys stores) (\<lambda>keys.
       rbind (to_dict stores) (\<lambda>store_map.
         let store_ids = sort keys;
             entries = add ''meta:task'' (dumps_compact meta) [];
             entries = dset entries (task_key namespace ''meta:instructions'')
                         (dget_def task ''instructions'' (PStr []));
             entries = add ''meta:message_history''
                         (dumps_compact (dget_def task ''message_history'' (PList []))) entries;
             entries = add ''meta:expected_orders'' orders entries;
             entries = add ''meta:overall_rubrics'' overall entries;
             entries = add ''meta:state_rubrics'' rubrics entries;
             entries = add ''user:profile'' profile entries;
             entries = add ''user:history'' history entries;
             entries = add ''weather:index'' weather entries;
             entries = add ''location:index'' locations entries;
             entries = add ''orders:current'' current entries;
             entries = add ''index:stores'' (dumps_compact (PList (map PStr store_ids))) entries in
         rbind (rfold (project_store namespace store_map) store_ids (entries, [])) (\<lambda>(entries, product_ids).
           Inr (add ''index:products'' (dumps_compact (PList (map PStr (sort product_ids)))) entries))))))))))))))))"

text \<open>
  A value that is no text (only \<open>instructions\<close> of a task can be one) cannot be written: over
  the socket its encoding raises \<open>AttributeError\<close>. On the in-memory back end the code would
  store the value unchanged; the stores of the model hold texts only, so this case of a task
  whose instructions are no text is outside the model, which raises there too.
\<close>

definition write_value :: "pyval \<Rightarrow> string res" where
  "write_value v = (case v of PStr s \<Rightarrow> Inr s | _ \<Rightarrow> Inl (no_attr v ''encode''))"

definition write_requests :: "(string, pyval) dict \<Rightarrow> (string \<times> string) list res" where
  "write_requests entries =
     rmap (\<lambda>(k, v). rbind (write_value v) (\<lambda>s. Inr (k, s)))
       (filter (\<lambda>(k, v). v \<noteq> PStr []) entries)"

definition read_projected_index :: "'w peer \<Rightarrow> string \<Rightarrow> string \<Rightarrow> ('w, pyval) db_prog" where
  "read_projected_index p namespace suffix =
     bnd (agent_kv_get p (task_key namespace suffix)) (\<lambda>raw.
       ret (case raw of
              None \<Rightarrow> PList []
            | Some s \<Rightarrow> (if s = [] then PList []
                       else case loads s of None \<Rightarrow> PList [] | Some v \<Rightarrow> v)))"

definition project_task ::
  "'w peer \<Rightarrow> (string \<times> pyval) list \<Rightarrow> string \<Rightarrow> string \<Rightarrow> ('w, pyval) db_prog" where
  "project_task p task namespace contention_profile =
     bnd (lift_res (project_task_to_entries task namespace)) (\<lambda>entries.
     bnd (agent_start p) (\<lambda>t.
     bnd (try_except
            (bnd (lift_res (write_requests entries)) (\<lambda>reqs.
             bnd (if reqs \<noteq> [] then agent_put_many p t reqs else ret ()) (\<lambda>_.
               agent_commit p t)))
            (\<lambda>e. bnd (agent_rollback p t) (\<lambda>_. raise e))) (\<lambda>_.
     bnd (lift_res (vitem task ''id'')) (\<lambda>id_val.
     bnd (read_projected_index p namespace ''index:stores'') (\<lambda>stores.
     bnd (lift_res (vlen stores)) (\<lambda>n_stores.
     bnd (read_projected_index p namespace ''index:products'') (\<lambda>products.
     bnd (lift_res (vlen products)) (\<lambda>n_products.
       ret (PDict
         [(''namespace'', PStr namespace), (''task_id'', PStr (py_str id_val)),
          (''task_uid'', dget_def task ''_task_uid'' (PStr (py_str id_val))),
          (''projected_key_count'', PInt (int (length entries))),
          (''store_count'', PInt (int n_stores)), (''product_count'', PInt (int n_products)),
          (''hotspot_key'', PStr (if contention_profile = ''hotspot'' then hotspot_key namespace else [])),
          (''keys_preview'', PList (map PStr (take 12 (sort (map fst entries)))))])))))))))"

end
