(* ===== verification/Vita_Eval.thy ===== *)
theory Vita_Eval
  imports Vita_Tasks
begin

text \<open>
  The evaluation of an answer (\<open>Agent/vitabench_delivery.py\<close>): reading the submitted order and
  matching it field by field against the order the task expects, and the record of a run in
  the official style.
\<close>

subsection \<open>The submitted answer\<close>

definition load_final_answer :: "'w peer \<Rightarrow> string \<Rightarrow> ('w, pyval \<times> string option) db_prog" where
  "load_final_answer p namespace =
     bnd (agent_kv_get p (task_key namespace ''answer:final'')) (\<lambda>raw.
       ret (case raw of
              None \<Rightarrow> (PNone, raw)
            | Some s \<Rightarrow> (if s = [] then (PNone, raw)
                       else case loads s of None \<Rightarrow> (PNone, raw) | Some v \<Rightarrow> (v, raw))))"

definition order_array_from_submit_args :: "pyval \<Rightarrow> (pyval \<times> string option) res" where
  "order_array_from_submit_args args =
     (if \<not> truthy args then Inr (PNone, None)
      else rbind (to_dict args) (\<lambda>d.
        let order = filter (\<lambda>(k, v). k \<notin> {''namespace'', ''task_id'', ''tx_id'', ''branch_id''}) d;
            order_array = PList [PDict order]
        in Inr (order_array, Some (dumps_compact order_array))))"

text \<open>The last submission in a trace, newest first.\<close>

fun find_submission :: "string list \<Rightarrow> pyval list \<Rightarrow> (pyval \<times> string option) res" where
  "find_submission tools [] = Inr (PNone, None)"
| "find_submission tools (item # items) =
     rbind (vget item ''tool'' PNone) (\<lambda>tool.
       if (\<exists>t \<in> set tools. tool = PStr t)
       then rbind (vget item ''args'' (PDict [])) order_array_from_submit_args
       else find_submission tools items)"

definition extract_submission_fallback :: "pyval list \<Rightarrow> string \<Rightarrow> (pyval \<times> string option) res" where
  "extract_submission_fallback trace mode =
     find_submission
       (if mode = ''tree'' then [''tree_submit_task_delivery_order'', ''submit_task_delivery_order'']
        else [''submit_task_delivery_order''])
       (rev trace)"

subsection \<open>Matching\<close>

text \<open>
  \<open>comparable_value\<close>: the empty string is nothing, numbers and texts that read as numbers are
  rounded to six decimals, everything else stands for itself.
\<close>

definition comparable_value :: "pyval \<Rightarrow> pyval res" where
  "comparable_value v =
     (case v of
        PNone \<Rightarrow> Inr PNone
      | PBool _ \<Rightarrow> rbind (to_float v) (\<lambda>x. Inr (PFloat (round6 x)))
      | PInt _ \<Rightarrow> rbind (to_float v) (\<lambda>x. Inr (PFloat (round6 x)))
      | PFloat _ \<Rightarrow> rbind (to_float v) (\<lambda>x. Inr (PFloat (round6 x)))
      | PStr s \<Rightarrow> (if s = [] then Inr PNone
                  else case to_float v of Inl _ \<Rightarrow> Inr v | Inr x \<Rightarrow> Inr (PFloat (round6 x)))
      | _ \<Rightarrow> Inr v)"

definition mismatch_text :: "string \<Rightarrow> pyval \<Rightarrow> pyval \<Rightarrow> string" where
  "mismatch_text field expected actual =
     field @ '' expected='' @ py_str expected @ '' actual='' @ py_str actual"

text \<open>The mismatches of one field: none or one.\<close>

definition field_mismatch :: "string \<Rightarrow> pyval \<Rightarrow> pyval \<Rightarrow> string list res" where
  "field_mismatch label expected actual =
     rbind (comparable_value actual) (\<lambda>a.
     rbind (comparable_value expected) (\<lambda>e.
       Inr (if py_eq a e then [] else [mismatch_text label expected actual])))"

definition exact_fields :: "string list" where
  "exact_fields =
     [''order_id'', ''order_type'', ''user_id'', ''store_id'', ''total_price'', ''create_time'',
      ''update_time'', ''status'']"

definition soft_fields :: "string list" where
  "soft_fields = [''dispatch_time'', ''delivery_time'', ''note'']"

text \<open>
  A soft field compares with the empty string as default, but its mismatch prints the value
  without the default.
\<close>

definition exact_mismatch :: "pyval \<Rightarrow> pyval \<Rightarrow> string \<Rightarrow> string list res" where
  "exact_mismatch expected actual field =
     rbind (vget actual field PNone) (\<lambda>a.
     rbind (vget expected field PNone) (\<lambda>e. field_mismatch field e a))"

definition soft_mismatch :: "pyval \<Rightarrow> pyval \<Rightarrow> string \<Rightarrow> string list res" where
  "soft_mismatch expected actual field =
     rbind (vget actual field (PStr [])) (\<lambda>a.
     rbind (comparable_value a) (\<lambda>ca.
     rbind (vget expected field (PStr [])) (\<lambda>e.
     rbind (comparable_value e) (\<lambda>ce.
       if py_eq ca ce then Inr []
       else rbind (vget expected field PNone) (\<lambda>e.
            rbind (vget actual field PNone) (\<lambda>a. Inr [mismatch_text field e a]))))))"

definition normalized_shipping :: "pyval \<Rightarrow> pyval" where
  "normalized_shipping v = (if v \<in> {PStr [], PNone, PStr ''null'', PStr ''None''} then PNone else v)"

definition shipping_mismatch :: "pyval \<Rightarrow> pyval \<Rightarrow> string list res" where
  "shipping_mismatch expected actual =
     rbind (vget expected ''shipping_time'' PNone) (\<lambda>e.
     rbind (vget actual ''shipping_time'' PNone) (\<lambda>a.
       let a = normalized_shipping a; e = normalized_shipping e in
       Inr (if py_eq a e then [] else [mismatch_text ''shipping_time'' e a])))"

definition location_mismatch :: "pyval \<Rightarrow> pyval \<Rightarrow> string \<Rightarrow> string list res" where
  "location_mismatch expected actual field =
     rbind (vget actual field PNone) (\<lambda>a.
     rbind (vget expected field PNone) (\<lambda>e.
       Inr (if py_eq a e then [] else [mismatch_text (''location.'' @ field) e a])))"

definition product_mismatch :: "pyval \<Rightarrow> nat \<times> pyval \<Rightarrow> string list res" where
  "product_mismatch actual_products = (\<lambda>(idx, expected).
     rbind (vindex actual_products idx) (\<lambda>actual.
     rbind (rmap (\<lambda>field.
              rbind (vget actual field PNone) (\<lambda>a.
              rbind (vget expected field PNone) (\<lambda>e.
                field_mismatch (''products['' @ str_int (int idx) @ ''].'' @ field) e a)))
            [''product_id'', ''price'', ''quantity'', ''attributes'']) (\<lambda>ms. Inr (concat ms))))"

definition products_mismatch :: "pyval \<Rightarrow> pyval \<Rightarrow> string list res" where
  "products_mismatch expected actual =
     rbind (vlen expected) (\<lambda>ne.
     rbind (vlen actual) (\<lambda>na.
       if ne \<noteq> na
       then Inr [''products length expected='' @ str_int (int ne) @ '' actual='' @ str_int (int na)]
       else rbind (py_iter expected) (\<lambda>es.
            rbind (rmap (product_mismatch actual) (enumerate 0 es)) (\<lambda>ms. Inr (concat ms)))))"

definition order_mismatches :: "pyval \<Rightarrow> pyval \<Rightarrow> string list res" where
  "order_mismatches expected actual =
     rbind (rmap (exact_mismatch expected actual) exact_fields) (\<lambda>m1.
     rbind (rmap (soft_mismatch expected actual) soft_fields) (\<lambda>m2.
     rbind (shipping_mismatch expected actual) (\<lambda>m3.
     rbind (vget expected ''location'' (PDict [])) (\<lambda>el.
     rbind (vget actual ''location'' (PDict [])) (\<lambda>al.
     rbind (rmap (location_mismatch el al) [''address'', ''longitude'', ''latitude'']) (\<lambda>m4.
     rbind (vget expected ''products'' (PList [])) (\<lambda>ep.
     rbind (vget actual ''products'' (PList [])) (\<lambda>ap.
     rbind (products_mismatch ep ap) (\<lambda>m5.
       Inr (concat m1 @ concat m2 @ m3 @ concat m4 @ m5))))))))))"

subsection \<open>The verdict\<close>

definition verdict :: "bool \<Rightarrow> string \<Rightarrow> string list \<Rightarrow> args \<Rightarrow> pyval" where
  "verdict success failure_type mismatches extra =
     PDict ([(''success'', PBool success), (''reward'', PFloat (Fin (if success then 1 else 0))),
             (''failure_type'', PStr failure_type), (''mismatches'', PList (map PStr mismatches))] @ extra)"

definition judge_answer :: "pyval \<Rightarrow> pyval \<Rightarrow> string option \<Rightarrow> pyval res" where
  "judge_answer expected parsed raw =
     (if raw = None \<or> raw = Some []
      then Inr (verdict False ''missing_final_answer'' [''final answer key is empty'']
             [(''expected_order'', expected), (''actual_order'', PNone)])
      else if parsed = PNone
      then Inr (verdict False ''invalid_final_answer_json'' [''final answer is not valid JSON'']
             [(''expected_order'', expected), (''actual_order_raw'', opt_val raw)])
      else case parsed of
             PList [PDict d] \<Rightarrow>
               rbind (order_mismatches expected (PDict d)) (\<lambda>ms.
                 Inr (verdict (ms = []) (if ms = [] then [] else ''hard_mismatch'') ms
                        [(''expected_order'', expected), (''actual_order'', PDict d)]))
           | _ \<Rightarrow> Inr (verdict False ''unexpected_answer_shape''
                       [''final answer must be a one-item order array'']
                       [(''expected_order'', expected), (''actual_order'', parsed)]))"

definition hard_evaluate_task ::
  "'w peer \<Rightarrow> pyval \<Rightarrow> string \<Rightarrow> pyval \<Rightarrow> string option \<Rightarrow> ('w, pyval) db_prog" where
  "hard_evaluate_task p task namespace fallback_parsed fallback_raw =
     bnd (lift_res (required_order task)) (\<lambda>expected.
     bnd (try_except (load_final_answer p namespace) (\<lambda>_. ret (fallback_parsed, fallback_raw)))
       (\<lambda>(parsed, raw). lift_res (judge_answer expected parsed raw)))"

subsection \<open>The record of a run\<close>

definition build_official_style_simulation ::
  "pyval \<Rightarrow> string \<Rightarrow> string \<Rightarrow> int \<Rightarrow> pyval \<Rightarrow> pyval \<Rightarrow> pyval res" where
  "build_official_style_simulation task namespace mode trial agent_result eval_result =
     rbind (to_dict task) (\<lambda>t.
     rbind (vitem t ''id'') (\<lambda>id_val.
     rbind (to_dict agent_result) (\<lambda>a.
     rbind (to_dict eval_result) (\<lambda>e.
     rbind (vget (dget_def t ''environment'' (PDict [])) ''time'' (PStr [])) (\<lambda>time.
       Inr (PDict
         [(''task_id'', PStr (py_str id_val)),
          (''task_uid'', dget_def t ''_task_uid'' (PStr (py_str id_val))),
          (''trial'', PInt trial), (''mode'', PStr mode),
          (''messages'', dget_def a ''messages'' (PList [])),
          (''states'', PDict
             [(''namespace'', PStr namespace),
              (''final_answer_key'', PStr (task_key namespace ''answer:final'')),
              (''final_answer'', dget_def a ''final_answer'' PNone),
              (''db_abort_reason'', dget_def a ''db_abort_reason'' (PStr []))]),
          (''reward_info'', PDict
             [(''reward'', dget_def e ''reward'' (PFloat (Fin 0))),
              (''info'', PDict
                 [(''evaluation_method'', PStr ''hard_match''),
                  (''failure_type'', dget_def e ''failure_type'' (PStr [])),
                  (''mismatches'', dget_def e ''mismatches'' (PList []))]),
              (''reward_breakdown'', PDict [(''hard_match'', dget_def e ''reward'' (PFloat (Fin 0)))])]),
          (''task'', PDict
             [(''instructions'', dget_def t ''instructions'' (PStr [])),
              (''evaluation_criteria'', dget_def t ''evaluation_criteria'' (PDict [])),
              (''environment'', PDict [(''time'', time)])])]))))))"

end
