(* ===== verification/Vita_Eval_Props.thy ===== *)
theory Vita_Eval_Props
  imports Vita_Eval Tool_Props
begin

text \<open>
  The evaluation against the tools: an order copied field by field from the expected order and
  submitted through the tool passes.
\<close>

subsection \<open>Values that evaluate to themselves\<close>

text \<open>
  \<open>readable\<close>: no text that reads as NaN, integers within the exact range of doubles, finite
  floats.
\<close>

fun readable :: "pyval \<Rightarrow> bool" where
  "readable (PStr s) = (float_of_str s \<noteq> Some NaN)"
| "readable (PInt i) = (\<bar>i\<bar> < 2 ^ 53)"
| "readable (PFloat x) = (\<exists>q \<in> (case x of Fin q \<Rightarrow> {q} | _ \<Rightarrow> {}). is_double q)"
| "readable (PList xs) = (\<forall>x \<in> set xs. readable x)"
| "readable (PDict d) = (dict_ok d \<and> (\<forall>(k, v) \<in> set d. readable v))"
| "readable v = True"

lemma readable_json_ok: "readable v \<Longrightarrow> json_ok v"
proof (induction v)
  case (PFloat x)
  then show ?case by (cases x) auto
next
  case (PDict d)
  then show ?case by (fastforce simp: snds.simps)
qed auto

lemma readable_item: "readable (PDict d) \<Longrightarrow> dget d k = Some v \<Longrightarrow> readable v"
  by (auto dest!: dget_set)

lemma conforms_string: "conforms SString v \<Longrightarrow> \<exists>s. v = PStr s"
  by (cases "(SString, v)" rule: conforms.cases) auto

lemma conforms_number: "conforms SNumber v \<Longrightarrow> (\<exists>i. v = PInt i) \<or> (\<exists>q. v = PFloat (Fin q))"
  by (cases "(SNumber, v)" rule: conforms.cases) auto

lemma conforms_object: "conforms (SObject ps req) v \<Longrightarrow> \<exists>d. v = PDict d"
  by (cases "(SObject ps req, v)" rule: conforms.cases) auto

lemma conforms_array: "conforms (SArray t n) v \<Longrightarrow> \<exists>xs. v = PList xs \<and> n \<le> length xs \<and> (\<forall>x \<in> set xs. conforms t x)"
  by (cases "(SArray t n, v)" rule: conforms.cases) auto

lemma conforms_field:
  assumes "conforms (SObject ps req) (PDict d)" and "(k, t) \<in> set ps" and "k \<in> set req"
  obtains v where "dget d k = Some v" and "conforms t v"
proof -
  from assms have "dhas d k" by simp
  then obtain v where v: "dget d k = Some v" by (auto simp: dhas_iff)
  from assms have "case dget d k of None \<Rightarrow> True | Some v \<Rightarrow> conforms t v" by (auto simp del: option.case)
  with v have "conforms t v" by simp
  with v show ?thesis by (rule that)
qed

lemma round6_not_nan: "x \<noteq> NaN \<Longrightarrow> round6 x \<noteq> NaN"
  by (cases x) (auto simp: rnd_alt)

lemma rounded_eq: "py_eq (PFloat (round6 (Fin q))) (PFloat (round6 (Fin q)))"
  using round6_not_nan [of "Fin q"] by (intro py_eq_refl) (simp del: round6.simps)

lemma comparable_float: "comparable_value (PFloat x) = Inr (PFloat (round6 x))"
  by (simp add: comparable_value_def)

lemma comparable_int: "\<bar>i\<bar> < 2 ^ 53 \<Longrightarrow> comparable_value (PInt i) = Inr (PFloat (round6 (Fin (of_int i))))"
  by (simp add: comparable_value_def float_of_int_def rnd_small_int del: round6.simps)

lemma small_double: "\<bar>i\<bar> < 2 ^ 53 \<Longrightarrow> float_of_int i = Inr (Fin (of_int i))"
  by (simp add: float_of_int_def rnd_small_int)

text \<open>What a number becomes in the order compares equal to the number.\<close>

lemma number_float:
  assumes "conforms SNumber v" and "readable v"
  obtains q where "to_float v = Inr (Fin q)" and "py_eq (PFloat (Fin q)) v"
    and "comparable_value v = Inr (PFloat (round6 (Fin q)))"
  using conforms_number [OF assms(1)]
proof
  assume "\<exists>i. v = PInt i"
  then obtain i where v: "v = PInt i" by blast
  with assms(2) have "\<bar>i\<bar> < 2 ^ 53" by simp
  then show ?thesis
    using that [of "of_int i"] small_double comparable_int
    by (simp add: v feq_def del: round6.simps)
next
  assume "\<exists>q. v = PFloat (Fin q)"
  then obtain q where v: "v = PFloat (Fin q)" by blast
  then show ?thesis using that [of q] by (simp add: comparable_float feq_def del: round6.simps)
qed


lemma integer_int:
  assumes "conforms SInteger v" and "readable v"
  obtains i w where "to_int v = Inr i" and "comparable_value v = Inr w"
    and "comparable_value (PInt i) = Inr w" and "py_eq w w"
proof -
  from assms(1) consider i where "v = PInt i" | q where "v = PFloat (Fin q)" "q \<in> \<int>"
    by (cases "(SInteger, v)" rule: conforms.cases) auto
  then show ?thesis
  proof cases
    case (1 i)
    with assms(2) have "\<bar>i\<bar> < 2 ^ 53" by simp
    then have c: "comparable_value (PInt i) = Inr (PFloat (round6 (Fin (of_int i))))"
      by (rule comparable_int)
    from 1 show ?thesis by (intro that [OF _ _ c rounded_eq]) (simp_all only: c to_int.simps)
  next
    case (2 q)
    then obtain i where i: "q = of_int i" by (auto elim: Ints_cases)
    with assms(2) 2 have "rnd (of_int i) = Fin (of_int i)" by (simp add: is_double_def)
    then have c: "comparable_value (PInt i) = Inr (PFloat (round6 (Fin q)))"
      by (simp add: comparable_value_def float_of_int_def i del: round6.simps)
    have t: "to_int v = Inr i" unfolding 2(1) i by simp
    have "comparable_value v = Inr (PFloat (round6 (Fin q)))" unfolding 2(1) by (rule comparable_float)
    then show ?thesis by (rule that [OF t _ c rounded_eq])
  qed
qed

lemma comparable_string:
  assumes "readable (PStr s)"
  shows "\<exists>w. comparable_value (PStr s) = Inr w \<and> py_eq w w"
proof (cases "s = [] \<or> float_of_str s = None")
  case True
  then show ?thesis by (auto simp: comparable_value_def)
next
  case False
  then obtain x where x: "float_of_str s = Some x" by auto
  with assms have "no_nan (PFloat (round6 x))" using round6_not_nan by (simp del: round6.simps)
  from py_eq_refl [OF this] False x show ?thesis
    by (auto simp: comparable_value_def simp del: round6.simps)
qed

lemma field_match:
  assumes "comparable_value a = Inr w" and "comparable_value e = Inr w" and "py_eq w w"
  shows "field_mismatch label e a = Inr []"
  using assms by (simp add: field_mismatch_def)

lemma string_match: "readable (PStr s) \<Longrightarrow> field_mismatch label (PStr s) (PStr s) = Inr []"
  using comparable_string [of s] field_match by blast

lemma number_match:
  "comparable_value e = Inr (PFloat (round6 (Fin q))) \<Longrightarrow> field_mismatch label e (PFloat (Fin q)) = Inr []"
  by (rule field_match [OF comparable_float _ rounded_eq])


subsection \<open>Nothing to report\<close>

lemma vget_item: "dget d k = Some x \<Longrightarrow> vget (PDict d) k w = Inr x"
  by (simp add: vget_def dget_def_def)

lemma rmap_nothing: "(\<And>x. x \<in> set xs \<Longrightarrow> f x = Inr []) \<Longrightarrow> \<exists>ms. rmap f xs = Inr ms \<and> concat ms = []"
  by (induction xs) auto

lemma order_matches:
  assumes "\<And>f. f \<in> set exact_fields \<Longrightarrow> exact_mismatch e a f = Inr []"
    and "\<And>f. f \<in> set soft_fields \<Longrightarrow> soft_mismatch e a f = Inr []"
    and "shipping_mismatch e a = Inr []"
    and "vget e ''location'' (PDict []) = Inr el" and "vget a ''location'' (PDict []) = Inr al"
    and "\<And>f. f \<in> {''address'', ''longitude'', ''latitude''} \<Longrightarrow> location_mismatch el al f = Inr []"
    and "vget e ''products'' (PList []) = Inr ep" and "vget a ''products'' (PList []) = Inr ap"
    and "products_mismatch ep ap = Inr []"
  shows "order_mismatches e a = Inr []"
proof -
  obtain m1 where 1: "rmap (exact_mismatch e a) exact_fields = Inr m1" "concat m1 = []"
    using rmap_nothing [of exact_fields "exact_mismatch e a"] assms(1) by blast
  obtain m2 where 2: "rmap (soft_mismatch e a) soft_fields = Inr m2" "concat m2 = []"
    using rmap_nothing [of soft_fields "soft_mismatch e a"] assms(2) by blast
  obtain m4 where 4: "rmap (location_mismatch el al) [''address'', ''longitude'', ''latitude''] = Inr m4" "concat m4 = []"
    using rmap_nothing [of "[''address'', ''longitude'', ''latitude'']" "location_mismatch el al"] assms(6) by auto
  show ?thesis unfolding order_mismatches_def 1 2 4 assms(3,4,5,7,8,9) rbind_simps
    using 1(2) 2(2) 4(2) by simp
qed

lemma products_match:
  assumes "length es = length as"
    and "\<And>i f. i < length es \<Longrightarrow> f \<in> {''product_id'', ''price'', ''quantity'', ''attributes''} \<Longrightarrow>
      \<exists>x y. vget (as ! i) f PNone = Inr x \<and> vget (es ! i) f PNone = Inr y \<and> (\<forall>l. field_mismatch l y x = Inr [])"
  shows "products_mismatch (PList es) (PList as) = Inr []"
proof -
  have one: "product_mismatch (PList as) p = Inr []" if "p \<in> set (enumerate 0 es)" for p
  proof -
    from that obtain i where i: "i < length es" "p = (i, es ! i)" by (auto simp: in_set_enumerate_eq)
    have "\<exists>ms. rmap (\<lambda>field.
              rbind (vget (as ! i) field PNone) (\<lambda>a.
              rbind (vget (es ! i) field PNone) (\<lambda>e.
                field_mismatch (''products['' @ str_int (int i) @ ''].'' @ field) e a)))
            [''product_id'', ''price'', ''quantity'', ''attributes''] = Inr ms \<and> concat ms = []"
    proof (rule rmap_nothing)
      fix f :: string
      assume "f \<in> set [''product_id'', ''price'', ''quantity'', ''attributes'']"
      then have "f \<in> {''product_id'', ''price'', ''quantity'', ''attributes''}" by simp
      from assms(2) [OF i(1) this] obtain x y where
        "vget (as ! i) f PNone = Inr x" "vget (es ! i) f PNone = Inr y" "\<forall>l. field_mismatch l y x = Inr []"
        by blast
      then show "rbind (vget (as ! i) f PNone) (\<lambda>a. rbind (vget (es ! i) f PNone) (\<lambda>e.
                field_mismatch (''products['' @ str_int (int i) @ ''].'' @ f) e a)) = Inr []"
        by simp
    qed
    then obtain ms where ms: "rmap (\<lambda>field.
              rbind (vget (as ! i) field PNone) (\<lambda>a.
              rbind (vget (es ! i) field PNone) (\<lambda>e.
                field_mismatch (''products['' @ str_int (int i) @ ''].'' @ field) e a)))
            [''product_id'', ''price'', ''quantity'', ''attributes''] = Inr ms" "concat ms = []" by blast
    have "vindex (PList as) i = Inr (as ! i)" using i assms(1) by (simp add: vindex_def)
    then show ?thesis unfolding product_mismatch_def i(2) prod.case by (simp only: rbind_simps ms)
  qed
  obtain ms where "rmap (product_mismatch (PList as)) (enumerate 0 es) = Inr ms" "concat ms = []"
    using rmap_nothing [of "enumerate 0 es" "product_mismatch (PList as)"] one by blast
  then show ?thesis using assms(1) by (simp add: products_mismatch_def vlen_def)
qed


subsection \<open>The order built from the expected order matches it\<close>

text \<open>A product of the expected order, and what the tool makes of it.\<close>

definition product_schema :: schema_ty where
  "product_schema = SObject [(''product_id'', SString), (''price'', SNumber), (''quantity'', SInteger),
     (''attributes'', SString)] [''product_id'', ''price'', ''quantity'', ''attributes'']"

lemma text_field:
  assumes "conforms (SObject ps req) (PDict d)" and "(k, SString) \<in> set ps" and "k \<in> set req"
  obtains s where "dget d k = Some (PStr s)"
  using conforms_field [OF assms] conforms_string by metis

lemma built_product:
  assumes c: "conforms product_schema e" and r: "readable e"
  obtains d a where "e = PDict d" and "build_product e = Inr (PDict a)"
    and "\<And>f. f \<in> {''product_id'', ''price'', ''quantity'', ''attributes''} \<Longrightarrow>
      \<exists>x y. dget a f = Some x \<and> dget d f = Some y \<and> (\<forall>l. field_mismatch l y x = Inr [])"
proof -
  from c obtain d where e: "e = PDict d" by (auto simp: product_schema_def dest: conforms_object)
  note c' = c [unfolded product_schema_def e]
  note ri = readable_item [OF r [unfolded e]]
  from text_field [OF c', of "''product_id''"] obtain i where i: "dget d ''product_id'' = Some (PStr i)" by auto
  from text_field [OF c', of "''attributes''"] obtain t where t: "dget d ''attributes'' = Some (PStr t)" by auto
  from conforms_field [OF c', of "''price''" SNumber] obtain p where p: "dget d ''price'' = Some p" "conforms SNumber p" by auto
  from conforms_field [OF c', of "''quantity''" SInteger] obtain q where q: "dget d ''quantity'' = Some q" "conforms SInteger q" by auto
  from number_float [OF p(2) ri [OF p(1)]] obtain x where x: "to_float p = Inr (Fin x)"
    "comparable_value p = Inr (PFloat (round6 (Fin x)))" by blast
  from integer_int [OF q(2) ri [OF q(1)]] obtain n w where n: "to_int q = Inr n" "comparable_value q = Inr w"
    "comparable_value (PInt n) = Inr w" "py_eq w w" by blast
  define a where "a = [(''product_id'', PStr i), (''price'', PFloat (Fin x)), (''quantity'', PInt n), (''attributes'', PStr t)]"
  have b: "build_product e = Inr (PDict a)"
    by (simp add: build_product_def e i t p(1) q(1) x(1) n(1) dget_def_def varg_def a_def)
  have f: "\<exists>x y. dget a f = Some x \<and> dget d f = Some y \<and> (\<forall>l. field_mismatch l y x = Inr [])"
    if "f \<in> {''product_id'', ''price'', ''quantity'', ''attributes''}" for f
  proof -
    from that consider "f = ''product_id''" | "f = ''price''" | "f = ''quantity''" | "f = ''attributes''" by blast
    then show ?thesis
    proof cases
      case 1
      then show ?thesis using i string_match [OF ri [OF i]] by (simp add: a_def)
    next
      case 2
      then show ?thesis using p number_match [OF x(2)] by (simp add: a_def del: round6.simps)
    next
      case 3
      then show ?thesis using q field_match [OF n(3,2,4)] by (simp add: a_def)
    next
      case 4
      then show ?thesis using t string_match [OF ri [OF t]] by (simp add: a_def)
    qed
  qed
  show ?thesis by (rule that [OF e b f])
qed

lemma built_products:
  assumes "\<forall>e \<in> set es. conforms product_schema e \<and> readable e"
  obtains as where "rmap build_product es = Inr as" and "products_mismatch (PList es) (PList as) = Inr []"
proof -
  define g where "g = (\<lambda>e. case build_product e of Inr a \<Rightarrow> a | Inl _ \<Rightarrow> PNone)"
  have g: "build_product e = Inr (g e) \<and> (\<forall>f \<in> {''product_id'', ''price'', ''quantity'', ''attributes''}.
      \<exists>x y. vget (g e) f PNone = Inr x \<and> vget e f PNone = Inr y \<and> (\<forall>l. field_mismatch l y x = Inr []))"
    if "e \<in> set es" for e
  proof -
    from assms that have "conforms product_schema e" "readable e" by auto
    then obtain d a where e: "e = PDict d" and b: "build_product e = Inr (PDict a)"
      and f: "\<And>f. f \<in> {''product_id'', ''price'', ''quantity'', ''attributes''} \<Longrightarrow>
        \<exists>x y. dget a f = Some x \<and> dget d f = Some y \<and> (\<forall>l. field_mismatch l y x = Inr [])"
      by (rule built_product) blast
    have ge: "g e = PDict a" by (simp add: g_def b)
    show ?thesis
    proof (intro conjI ballI)
      show "build_product e = Inr (g e)" by (simp add: ge b)
    next
      fix k :: string
      assume "k \<in> {''product_id'', ''price'', ''quantity'', ''attributes''}"
      from f [OF this] obtain x y where xy: "dget a k = Some x" "dget d k = Some y"
        "\<forall>l. field_mismatch l y x = Inr []" by blast
      have "vget (g e) k PNone = Inr x" unfolding ge by (rule vget_item [OF xy(1)])
      moreover have "vget e k PNone = Inr y" unfolding e by (rule vget_item [OF xy(2)])
      ultimately show "\<exists>x y. vget (g e) k PNone = Inr x \<and> vget e k PNone = Inr y \<and>
          (\<forall>l. field_mismatch l y x = Inr [])" using xy(3) by blast
    qed
  qed
  show ?thesis
  proof (rule that [of "map g es"])
    show "rmap build_product es = Inr (map g es)" using g by (intro rmap_total) simp
    show "products_mismatch (PList es) (PList (map g es)) = Inr []"
    proof (rule products_match)
      fix i f
      assume i: "i < length es" and f: "f \<in> {''product_id'', ''price'', ''quantity'', ''attributes''}"
      from g [OF nth_mem [OF i]] f show "\<exists>x y. vget (map g es ! i) f PNone = Inr x \<and> vget (es ! i) f PNone = Inr y \<and>
          (\<forall>l. field_mismatch l y x = Inr [])" by (simp only: nth_map [OF i])
    qed simp
  qed
qed


definition order_fields :: "string list" where
  "order_fields =
     [''order_id'', ''order_type'', ''user_id'', ''store_id'', ''note'', ''location'', ''dispatch_time'',
      ''shipping_time'', ''delivery_time'', ''total_price'', ''create_time'', ''update_time'', ''status'',
      ''products'']"

lemma exact_field: "dget d f = Some x \<Longrightarrow> dget a f = Some y \<Longrightarrow> field_mismatch f x y = Inr [] \<Longrightarrow>
   exact_mismatch (PDict d) (PDict a) f = Inr []"
  by (simp add: exact_mismatch_def vget_item)

lemma soft_field: "dget d f = Some (PStr s) \<Longrightarrow> dget a f = Some (PStr s) \<Longrightarrow> readable (PStr s) \<Longrightarrow>
   soft_mismatch (PDict d) (PDict a) f = Inr []"
  using comparable_string [of s] by (auto simp: soft_mismatch_def vget_item)

lemma shipping_field: "dget d ''shipping_time'' = Some v \<Longrightarrow> dget a ''shipping_time'' = Some v \<Longrightarrow>
   conforms SStringOrNull v \<Longrightarrow> shipping_mismatch (PDict d) (PDict a) = Inr []"
  by (cases "(SStringOrNull, v)" rule: conforms.cases)
    (auto simp: shipping_mismatch_def vget_item normalized_shipping_def)

lemma location_field: "dget d f = Some x \<Longrightarrow> dget a f = Some y \<Longrightarrow> py_eq y x \<Longrightarrow>
   location_mismatch (PDict d) (PDict a) f = Inr []"
  by (simp add: location_mismatch_def vget_item)

lemma built_order:
  assumes c: "conforms (SObject delivery_order_schema order_fields) (PDict d)" and r: "readable (PDict d)"
    and same: "\<And>k. k \<in> set order_fields \<Longrightarrow> dget args k = dget d k"
  obtains a where "build_delivery_order_payload args = Inr (PDict a)"
    and "order_mismatches (PDict d) (PDict a) = Inr []"
proof -
  note ri = readable_item [OF r]
  have tf: "\<exists>s. dget d k = Some (PStr s)" if "(k, SString) \<in> set delivery_order_schema" "k \<in> set order_fields" for k
    using text_field [OF c that] by blast
  have "\<exists>s. dget d ''order_id'' = Some (PStr s)" "\<exists>s. dget d ''order_type'' = Some (PStr s)"
    "\<exists>s. dget d ''user_id'' = Some (PStr s)" "\<exists>s. dget d ''store_id'' = Some (PStr s)"
    "\<exists>s. dget d ''note'' = Some (PStr s)" "\<exists>s. dget d ''dispatch_time'' = Some (PStr s)"
    "\<exists>s. dget d ''delivery_time'' = Some (PStr s)" "\<exists>s. dget d ''create_time'' = Some (PStr s)"
    "\<exists>s. dget d ''update_time'' = Some (PStr s)" "\<exists>s. dget d ''status'' = Some (PStr s)"
    by (rule tf; simp add: delivery_order_schema_def order_fields_def)+
  then obtain oi ot ui si nt dt dv ct ut st where
    t: "dget d ''order_id'' = Some (PStr oi)" "dget d ''order_type'' = Some (PStr ot)"
      "dget d ''user_id'' = Some (PStr ui)" "dget d ''store_id'' = Some (PStr si)"
      "dget d ''note'' = Some (PStr nt)" "dget d ''dispatch_time'' = Some (PStr dt)"
      "dget d ''delivery_time'' = Some (PStr dv)" "dget d ''create_time'' = Some (PStr ct)"
      "dget d ''update_time'' = Some (PStr ut)" "dget d ''status'' = Some (PStr st)"
    by blast
  let ?loc = "SObject [(''address'', SString), (''longitude'', SNumber), (''latitude'', SNumber)]
      [''address'', ''longitude'', ''latitude'']"
  obtain lv where lv: "dget d ''location'' = Some lv" "conforms ?loc lv"
    using conforms_field [OF c, of "''location''" ?loc] by (auto simp: delivery_order_schema_def order_fields_def)
  then obtain l where l: "dget d ''location'' = Some (PDict l)" and cl: "conforms ?loc (PDict l)"
    using conforms_object by metis
  note rl = readable_item [OF ri [OF l]]
  obtain ad where ad: "dget l ''address'' = Some (PStr ad)"
    using text_field [OF cl, of "''address''"] by auto
  obtain lo where lo: "dget l ''longitude'' = Some lo" "conforms SNumber lo"
    using conforms_field [OF cl, of "''longitude''" SNumber] by auto
  obtain la where la: "dget l ''latitude'' = Some la" "conforms SNumber la"
    using conforms_field [OF cl, of "''latitude''" SNumber] by auto
  obtain xlo where xlo: "to_float lo = Inr (Fin xlo)" "py_eq (PFloat (Fin xlo)) lo"
    using number_float [OF lo(2) rl [OF lo(1)]] by blast
  obtain xla where xla: "to_float la = Inr (Fin xla)" "py_eq (PFloat (Fin xla)) la"
    using number_float [OF la(2) rl [OF la(1)]] by blast
  obtain sh where sh: "dget d ''shipping_time'' = Some sh" "conforms SStringOrNull sh"
    using conforms_field [OF c, of "''shipping_time''" SStringOrNull]
    by (auto simp: delivery_order_schema_def order_fields_def)
  obtain tp where tp: "dget d ''total_price'' = Some tp" "conforms SNumber tp"
    using conforms_field [OF c, of "''total_price''" SNumber]
    by (auto simp: delivery_order_schema_def order_fields_def)
  obtain xtp where xtp: "to_float tp = Inr (Fin xtp)" "comparable_value tp = Inr (PFloat (round6 (Fin xtp)))"
    using number_float [OF tp(2) ri [OF tp(1)]] by blast
  obtain pv where pv: "dget d ''products'' = Some pv" "conforms (SArray product_schema 1) pv"
    using conforms_field [OF c, of "''products''" "SArray product_schema 1"]
    by (auto simp: delivery_order_schema_def order_fields_def product_schema_def)
  then obtain es where es: "dget d ''products'' = Some (PList es)" "1 \<le> length es"
    "\<forall>e \<in> set es. conforms product_schema e" using conforms_array by metis
  have "readable (PList es)" by (rule ri [OF es(1)])
  with es(3) obtain as where as: "rmap build_product es = Inr as" "products_mismatch (PList es) (PList as) = Inr []"
    using built_products [of es] by auto
  define a where "a =
         [(''order_id'', PStr oi), (''order_type'', PStr ot), (''user_id'', PStr ui),
          (''store_id'', PStr si), (''note'', PStr nt),
          (''location'', PDict [(''address'', PStr ad), (''longitude'', PFloat (Fin xlo)), (''latitude'', PFloat (Fin xla))]),
          (''dispatch_time'', PStr dt), (''shipping_time'', sh), (''delivery_time'', PStr dv),
          (''total_price'', PFloat (Fin xtp)), (''create_time'', PStr ct), (''update_time'', PStr ut),
          (''status'', PStr st), (''products'', PList as)]"
  have g: "dget args k = dget d k" if "k \<in> set order_fields" for k by (rule same [OF that])
  note gs = g [of "''order_id''"] g [of "''order_type''"] g [of "''user_id''"] g [of "''store_id''"]
    g [of "''note''"] g [of "''location''"] g [of "''dispatch_time''"] g [of "''shipping_time''"]
    g [of "''delivery_time''"] g [of "''total_price''"] g [of "''create_time''"] g [of "''update_time''"]
    g [of "''status''"] g [of "''products''"]
  have v: "varg args k = s" if "k \<in> set order_fields" "dget d k = Some (PStr s)" for k s
    using g [OF that(1)] that(2) by (simp add: varg_def dget_def_def)
  have build: "build_order args l es = Inr (PDict a)"
    unfolding build_order_def a_def as xlo xla xtp
    using t gs lo(1) la(1) ad sh(1) tp(1) xlo(1) xla(1) xtp(1) as(1)
    by (simp add: order_fields_def varg_def dget_def_def)
  obtain e1 es1 where e1: "es = e1 # es1" using es(2) by (cases es) auto
  have nl: "l \<noteq> []" using ad by auto
  have pay: "build_delivery_order_payload args = Inr (PDict a)"
    using build gs l es(1) nl e1
    by (simp add: build_delivery_order_payload_def order_fields_def dget_def_def or_else_def)
  have "order_mismatches (PDict d) (PDict a) = Inr []"
  proof (rule order_matches)
    fix f assume "f \<in> set exact_fields"
    then have "f = ''order_id'' \<or> f = ''order_type'' \<or> f = ''user_id'' \<or> f = ''store_id'' \<or> f = ''total_price'' \<or> f = ''create_time'' \<or> f = ''update_time'' \<or> f = ''status''"
      by (simp only: exact_fields_def list.set insert_iff empty_iff simp_thms)
    then show "exact_mismatch (PDict d) (PDict a) f = Inr []"
    proof (elim disjE)
      assume f: "f = ''order_id''"
      show ?thesis unfolding f by (rule exact_field [OF t(1) _ string_match [OF ri [OF t(1)]]]) (simp add: a_def)
    next
      assume f: "f = ''order_type''"
      show ?thesis unfolding f by (rule exact_field [OF t(2) _ string_match [OF ri [OF t(2)]]]) (simp add: a_def)
    next
      assume f: "f = ''user_id''"
      show ?thesis unfolding f by (rule exact_field [OF t(3) _ string_match [OF ri [OF t(3)]]]) (simp add: a_def)
    next
      assume f: "f = ''store_id''"
      show ?thesis unfolding f by (rule exact_field [OF t(4) _ string_match [OF ri [OF t(4)]]]) (simp add: a_def)
    next
      assume f: "f = ''total_price''"
      show ?thesis unfolding f by (rule exact_field [OF tp(1) _ number_match [OF xtp(2)]]) (simp add: a_def)
    next
      assume f: "f = ''create_time''"
      show ?thesis unfolding f by (rule exact_field [OF t(8) _ string_match [OF ri [OF t(8)]]]) (simp add: a_def)
    next
      assume f: "f = ''update_time''"
      show ?thesis unfolding f by (rule exact_field [OF t(9) _ string_match [OF ri [OF t(9)]]]) (simp add: a_def)
    next
      assume f: "f = ''status''"
      show ?thesis unfolding f by (rule exact_field [OF t(10) _ string_match [OF ri [OF t(10)]]]) (simp add: a_def)
    qed
  next
    fix f assume "f \<in> set soft_fields"
    then have "f = ''dispatch_time'' \<or> f = ''delivery_time'' \<or> f = ''note''"
      by (simp only: soft_fields_def list.set insert_iff empty_iff simp_thms)
    then show "soft_mismatch (PDict d) (PDict a) f = Inr []"
    proof (elim disjE)
      assume f: "f = ''dispatch_time''"
      show ?thesis unfolding f by (rule soft_field [OF t(6) _ ri [OF t(6)]]) (simp add: a_def)
    next
      assume f: "f = ''delivery_time''"
      show ?thesis unfolding f by (rule soft_field [OF t(7) _ ri [OF t(7)]]) (simp add: a_def)
    next
      assume f: "f = ''note''"
      show ?thesis unfolding f by (rule soft_field [OF t(5) _ ri [OF t(5)]]) (simp add: a_def)
    qed
  next
    show "shipping_mismatch (PDict d) (PDict a) = Inr []"
      using sh by (intro shipping_field) (simp_all add: a_def)
    show "vget (PDict d) ''location'' (PDict []) = Inr (PDict l)" by (rule vget_item [OF l])
    show "vget (PDict a) ''location'' (PDict []) =
        Inr (PDict [(''address'', PStr ad), (''longitude'', PFloat (Fin xlo)), (''latitude'', PFloat (Fin xla))])"
      by (rule vget_item) (simp add: a_def)
    show "vget (PDict d) ''products'' (PList []) = Inr (PList es)" by (rule vget_item [OF es(1)])
    show "vget (PDict a) ''products'' (PList []) = Inr (PList as)" by (rule vget_item) (simp add: a_def)
    show "products_mismatch (PList es) (PList as) = Inr []" by (rule as(2))
  next
    fix f :: string assume "f \<in> {''address'', ''longitude'', ''latitude''}"
    then consider "f = ''address''" | "f = ''longitude''" | "f = ''latitude''" by blast
    then show "location_mismatch (PDict l)
        (PDict [(''address'', PStr ad), (''longitude'', PFloat (Fin xlo)), (''latitude'', PFloat (Fin xla))]) f = Inr []"
      using ad lo(1) la(1) xlo(2) xla(2) by cases (auto intro!: location_field)
  qed
  with pay show ?thesis by (rule that)
qed


lemma strip_hd:
  assumes "strip s = s" and "s \<noteq> []"
  shows "\<not> is_space (hd s)"
proof
  assume "is_space (hd s)"
  with assms(2) obtain c t where s: "s = c # t" "is_space c" by (cases s) auto
  have "length (strip s) \<le> length (dropWhile is_space t)"
    using s length_dropWhile_le [of is_space "rev (dropWhile is_space t)"]
    by (simp add: strip_def lstrip_def rstrip_def)
  also have "\<dots> \<le> length t" by (rule length_dropWhile_le)
  finally show False using assms(1) s(1) by simp
qed

lemma rstrip_char_prefix: "\<exists>t. s = rstrip_char c s @ t"
  unfolding rstrip_char_def
  by (metis rev_append rev_rev_ident takeWhile_dropWhile_id)

lemma key_stripped:
  assumes "strip ns = ns"
  shows "strip (tool_key ns ''answer:final'') = tool_key ns ''answer:final''"
proof -
  define h where "h = rstrip_char CHR '':'' ns"
  obtain t where t: "ns = h @ t" using rstrip_char_prefix unfolding h_def by blast
  have key: "tool_key ns ''answer:final'' = h @ '':answer:final''"
    by (simp add: tool_key_def h_def lstrip_char_def)
  have "lstrip (h @ '':answer:final'') = h @ '':answer:final''"
  proof (cases h)
    case (Cons c u)
    with strip_hd [OF assms] t have "\<not> is_space c" by simp
    with Cons show ?thesis by (simp add: lstrip_def)
  qed (simp add: lstrip_def is_space_def)
  then show ?thesis unfolding key by (simp add: strip_def rstrip_def is_space_def)
qed

subsection \<open>Copying the expected order succeeds\<close>

text \<open>C22: the rule the agents are told, to copy the expected order field by field, is sufficient: if
  the order the task expects conforms to the tool's schema and the agent calls
  \<open>submit_task_delivery_order\<close> with exactly its fields, then the submission is accepted and the
  evaluation of the task passes with reward one; the defaults, the conversions to floats and
  integers, the JSON round trip through the database and the rounding comparison never get in the way.\<close>

theorem copied_order_passes:
  assumes order: "required_order task = Inr (PDict d)"
    and conf: "conforms (SObject delivery_order_schema order_fields) (PDict d)"
    and readable: "readable (PDict d)" "\<not> dhas d ''namespace''" "\<not> dhas d ''task_id''"
    and ns: "strip ns = ns" "ns \<noteq> []" and tid: "strip tid \<noteq> []"
    and mini: "using_mini c" "mini_inv (adb_mini c)"
    and fresh: "mini_tx_of (adb_mini c) (fst (pr_uuid p (adb_net c))) = None"
  shows "\<exists>r c' e. submit_task_delivery_order p ((''namespace'', PStr ns) # (''task_id'', PStr tid) # d) c =
      (Inr (PDict r), c') \<and> dget r ''ok'' = Some (PBool True) \<and>
    hard_evaluate_task p task ns fallback_parsed fallback_raw c' = (Inr (PDict e), c') \<and>
    dget e ''success'' = Some (PBool True) \<and> dget e ''reward'' = Some (PFloat (Fin 1)) \<and>
    dget e ''mismatches'' = Some (PList [])"
proof -
  let ?args = "(''namespace'', PStr ns) # (''task_id'', PStr tid) # d"
  have "dget ?args k = dget d k" if "k \<in> set order_fields" for k
    using that by (auto simp: order_fields_def)
  from built_order [OF conf readable(1) this] obtain a where
    a: "build_delivery_order_payload ?args = Inr (PDict a)" "order_mismatches (PDict d) (PDict a) = Inr []"
    by blast
  let ?key = "tool_key ns ''answer:final''" and ?raw = "order_json (PDict a)"
  have "?key \<noteq> []" by (simp add: tool_key_def)
  from submit_on_mini [OF key_stripped [OF ns(1)] this mini fresh, where raw = ?raw] obtain c' where
    run: "submit_final_answer p [(''key'', PStr ?key), (''value'', PStr ?raw)] c =
      (Inr (tool_ok [(''key'', PStr ?key), (''value'', PStr ?raw), (''committed'', PBool True)]), c')"
    and c': "using_mini c'" "mini_store_of (adb_mini c') = (mini_store_of (adb_mini c))(?key \<mapsto> ?raw)"
    by blast
  have ids: "sarg ?args ''namespace'' = ns" "sarg ?args ''task_id'' = strip tid"
    using ns by (simp_all add: sarg_def dget_def_def)
  have sub: "submit_task_delivery_order p ?args c =
      (Inr (tool_ok [(''key'', PStr ?key), (''value'', PStr ?raw), (''committed'', PBool True)]), c')"
    using ids a(1) run ns tid by (simp add: submit_task_delivery_order_def)
  have "json_ok (PDict ?args)"
    using readable_json_ok [OF readable(1)] readable(2,3) by (auto simp: dhas_def)
  then have raw: "parse_json_value (Some ?raw) PNone = PList [PDict a]" "?raw \<noteq> []"
    using order_json_readback [OF _ a(1)] by (simp_all add: order_json_def dumps_compact_def)
  then have "loads ?raw = Some (PList [PDict a])"
    by (auto simp: parse_json_value_def split: option.splits)
  then have load: "load_final_answer p ns c' = (Inr (PList [PDict a], Some ?raw), c')"
    using raw(2) c' by (simp add: load_final_answer_def mini_read prog_simps task_key_def tool_key_def)
  have "hard_evaluate_task p task ns fallback_parsed fallback_raw c' =
      (Inr (verdict True [] [] [(''expected_order'', PDict d), (''actual_order'', PDict a)]), c')"
    using raw(2) by (simp add: hard_evaluate_task_def order load prog_simps judge_answer_def a(2))
  with sub show ?thesis by (simp add: tool_ok_def verdict_def)
qed


definition ex_expected :: "(string \<times> pyval) list" where
  "ex_expected =
     [(''order_id'', PStr ''o1''), (''order_type'', PStr ''delivery''), (''user_id'', PStr ''7''),
      (''store_id'', PStr ''s1''), (''note'', PStr []),
      (''location'', PDict [(''address'', PStr ''here''), (''longitude'', PInt 3), (''latitude'', PInt 4)]),
      (''dispatch_time'', PStr ''1.50''), (''shipping_time'', PNone), (''delivery_time'', PStr []),
      (''total_price'', PInt 12), (''create_time'', PStr []), (''update_time'', PStr []),
      (''status'', PStr ''paid''),
      (''products'', PList [PDict [(''product_id'', PStr ''p1''), (''price'', PInt 12),
                                   (''quantity'', PInt 1), (''attributes'', PStr [])]])]"

definition ex_task :: pyval where
  "ex_task = PDict [(''evaluation_criteria'', PDict [(''expected_states'', PList [PDict
     [(''required_orders'', PList [PDict ex_expected])]])])]"

lemma ex_expected_conforms: "conforms (SObject delivery_order_schema order_fields) (PDict ex_expected)"
  by (simp add: ex_expected_def delivery_order_schema_def order_fields_def)

lemma ex_expected_texts:
  "float_of_str ''o1'' \<noteq> Some NaN" "float_of_str ''delivery'' \<noteq> Some NaN" "float_of_str ''7'' \<noteq> Some NaN"
  "float_of_str ''s1'' \<noteq> Some NaN" "float_of_str [] \<noteq> Some NaN" "float_of_str ''here'' \<noteq> Some NaN"
  "float_of_str ''1.50'' \<noteq> Some NaN" "float_of_str ''paid'' \<noteq> Some NaN" "float_of_str ''p1'' \<noteq> Some NaN"
  by code_simp+

lemma ex_expected_readable: "readable (PDict ex_expected)"
  unfolding ex_expected_def by (simp add: ex_expected_texts)

theorem copied_order_passes_witness:
  "\<exists>r c' e. submit_task_delivery_order ex_peer
        ((''namespace'', PStr ''run:1'') # (''task_id'', PStr ''t1'') # ex_expected) ex_router_client =
      (Inr (PDict r), c') \<and> dget r ''ok'' = Some (PBool True) \<and>
    hard_evaluate_task ex_peer ex_task ''run:1'' PNone None c' = (Inr (PDict e), c') \<and>
    dget e ''success'' = Some (PBool True) \<and> dget e ''reward'' = Some (PFloat (Fin 1)) \<and>
    dget e ''mismatches'' = Some (PList [])"
proof (rule copied_order_passes [OF _ ex_expected_conforms ex_expected_readable])
  show "required_order ex_task = Inr (PDict ex_expected)"
    by (simp add: ex_task_def required_order_def vget_def dget_def_def vindex_def)
  show "\<not> dhas ex_expected ''namespace''" "\<not> dhas ex_expected ''task_id''"
    by (simp_all add: ex_expected_def)
  show "strip ''run:1'' = ''run:1''" "''run:1'' \<noteq> []" "strip ''t1'' \<noteq> []" by code_simp+
  show "using_mini ex_router_client" "mini_inv (adb_mini ex_router_client)"
    by (simp_all add: ex_router_client_def ex_client_simps mini_inv_init)
  show "mini_tx_of (adb_mini ex_router_client) (fst (pr_uuid ex_peer (adb_net ex_router_client))) = None"
    by (simp add: ex_router_client_def ex_client_simps mini_tx_of_def mini_init_def)
qed

end
