(* ===== verification/Vita_Select.thy ===== *)
theory Vita_Select
  imports Vita_Tasks Vita_Metrics "HOL-Library.Product_Lexorder"
begin

text \<open>
  Candidate stores and the winner (\<open>Agent/vitabench_delivery.py\<close>): which stores are explored, how
  well a store serves the expected order, which candidate wins, and the check of the winner
  against freshly read data. The Unicode tables are a parameter, as in \<open>Vita_Metrics\<close>.
\<close>

subsection \<open>Which stores are explored\<close>

text \<open>\<open>str(store.get("store_id")) for store in stores if store.get("store_id")\<close>.\<close>

definition store_ids_of :: "pyval list \<Rightarrow> string list res" where
  "store_ids_of stores =
     rbind (rmap (\<lambda>store. vget store ''store_id'' PNone) stores) (\<lambda>ids.
       Inr (map py_str (filter truthy ids)))"

fun dedup_loop :: "string list \<Rightarrow> string set \<Rightarrow> string list" where
  "dedup_loop [] seen = []"
| "dedup_loop (store_id # ids) seen =
     (if store_id \<noteq> [] \<and> store_id \<notin> seen then store_id # dedup_loop ids (insert store_id seen)
      else dedup_loop ids seen)"

definition choose_candidate_store_ids :: "pyval list \<Rightarrow> string \<Rightarrow> int \<Rightarrow> string list res" where
  "choose_candidate_store_ids candidate_stores expected_store_id top_k =
     rbind (store_ids_of candidate_stores) (\<lambda>ids.
       let ids = (if expected_store_id \<noteq> [] \<and> expected_store_id \<notin> set ids
                  then ids @ [expected_store_id] else ids) in
       if ids = [] then Inr []
       else let top_k = (if top_k \<le> 0 then 1 else top_k);
                selected = take (nat top_k) ids;
                selected = (if expected_store_id \<noteq> [] \<and> expected_store_id \<notin> set selected
                            then (if int (length selected) < top_k then selected @ [expected_store_id]
                                  else selected[length selected - 1 := expected_store_id])
                            else selected)
            in Inr (dedup_loop selected {}))"

definition winner_store_id :: "string list \<Rightarrow> string \<Rightarrow> string" where
  "winner_store_id candidate_store_ids expected_store_id =
     (if expected_store_id \<noteq> [] \<and> expected_store_id \<in> set candidate_store_ids then expected_store_id
      else case candidate_store_ids of [] \<Rightarrow> [] | store_id # _ \<Rightarrow> store_id)"

definition candidate_payload :: "string \<Rightarrow> pyval \<Rightarrow> int \<Rightarrow> pyval" where
  "candidate_payload store_id expected_order attempt =
     PDict [(''candidate_store_id'', PStr store_id), (''candidate_attempt'', PInt attempt),
            (''expected_order'', expected_order)]"

subsection \<open>How well a product matches\<close>

definition parse_json_safely :: "pyval \<Rightarrow> pyval \<Rightarrow> pyval" where
  "parse_json_safely raw dflt =
     (case raw of
        PStr s \<Rightarrow> (if s = [] then dflt else case loads s of None \<Rightarrow> dflt | Some v \<Rightarrow> v)
      | _ \<Rightarrow> dflt)"

text \<open>\<open>str(tag).strip().lower() for tag in (tags or []) if str(tag).strip()\<close>.\<close>

definition tag_tokens :: "unicode \<Rightarrow> pyval \<Rightarrow> string list res" where
  "tag_tokens u tags =
     rbind (py_iter (or_else tags (PList []))) (\<lambda>ts.
       Inr (map (\<lambda>chs. concat (lower_chars u chs))
              (filter (\<lambda>chs. chs \<noteq> []) (map (\<lambda>tag. strip_chars u (utf8_chars (py_str tag))) ts))))"

definition price_bonus :: "pyval \<Rightarrow> pyval \<Rightarrow> pyfloat res" where
  "price_bonus price expected_price =
     rbind (to_float price) (\<lambda>a.
     rbind (to_float expected_price) (\<lambda>b.
       let price_gap = fabs (fsub a b); denom = fmax (fabs b) (Fin 1) in
       rbind (fdiv price_gap denom) (\<lambda>q.
         Inr (fmax (Fin 0) (fsub (Fin 1) (fmin q (Fin 1)))))))"

text \<open>What the scores compare with: the expected id, name, tags, attributes and price.\<close>

record product_target =
  pt_id :: string
  pt_name :: "string list"
  pt_tags :: "string list"
  pt_attrs :: "string list"
  pt_price :: pyval

definition product_target_of :: "unicode \<Rightarrow> string \<Rightarrow> pyval \<Rightarrow> product_target res" where
  "product_target_of u expected_product_id profile =
     (let profile = or_else profile (PDict []) in
      rbind (vget profile ''name'' (PStr [])) (\<lambda>name.
      rbind (vget profile ''tags'' (PList [])) (\<lambda>tags.
      rbind (tag_tokens u tags) (\<lambda>tag_toks.
      rbind (vget profile ''attributes'' (PStr [])) (\<lambda>attrs.
      rbind (vget profile ''expected_attributes'' attrs) (\<lambda>attrs.
      rbind (vget profile ''price'' PNone) (\<lambda>price.
        Inr \<lparr>pt_id = expected_product_id, pt_name = normalized_tokens u name, pt_tags = tag_toks,
             pt_attrs = normalized_tokens u attrs, pt_price = price\<rparr>)))))))"

text \<open>The score of one product and the similarity of its name.\<close>

definition product_score :: "unicode \<Rightarrow> product_target \<Rightarrow> pyval \<Rightarrow> (pyfloat \<times> pyfloat) res" where
  "product_score u t product =
     rbind (vget product ''product_id'' (PStr [])) (\<lambda>i.
     let score = (if pt_id t \<noteq> [] \<and> py_str i = pt_id t then fadd (Fin 0) (Fin 4) else Fin 0) in
     rbind (vget product ''name'' (PStr [])) (\<lambda>name.
     rbind (jaccard_similarity (normalized_tokens u name) (pt_name t)) (\<lambda>name_similarity.
     let score = fadd score (fmul (Fin 3) name_similarity) in
     rbind (vget product ''tags'' (PList [])) (\<lambda>tags.
     rbind (tag_tokens u tags) (\<lambda>product_tags.
     rbind (jaccard_similarity product_tags (pt_tags t)) (\<lambda>tag_similarity.
     let score = fadd score (fmul (Fin (3 / 2)) tag_similarity) in
     rbind (vget product ''attributes'' (PStr [])) (\<lambda>attrs.
     rbind (jaccard_similarity (normalized_tokens u attrs) (pt_attrs t)) (\<lambda>attr_similarity.
     let score = fadd score (fmul (Fin (1 / 2)) attr_similarity) in
     rbind (vget product ''price'' PNone) (\<lambda>price.
       let score = (if price \<noteq> PNone \<and> pt_price t \<noteq> PNone
                    then (case price_bonus price (pt_price t) of
                            Inl _ \<Rightarrow> score | Inr b \<Rightarrow> fadd score b)
                    else score) in
       Inr (score, name_similarity))))))))))"

text \<open>One iteration of the search for the best product.\<close>

definition best_step ::
  "unicode \<Rightarrow> product_target \<Rightarrow> pyval \<Rightarrow> args \<times> pyfloat \<Rightarrow> (args \<times> pyfloat) res" where
  "best_step u t product = (\<lambda>(best_product, best_score).
     rbind (product_score u t product) (\<lambda>(score, name_similarity).
       if flt best_score score
       then rbind (to_dict product) (\<lambda>d.
              Inr (dset (dset d ''_match_score'' (PFloat score)) ''_name_similarity'' (PFloat name_similarity),
                   score))
       else Inr (best_product, best_score)))"

definition candidate_product_from_store :: "unicode \<Rightarrow> pyval \<Rightarrow> string \<Rightarrow> pyval \<Rightarrow> args res" where
  "candidate_product_from_store u store_detail expected_product_id profile =
     rbind (product_target_of u expected_product_id profile) (\<lambda>t.
     rbind (vget store_detail ''products'' PNone) (\<lambda>ps.
     rbind (py_iter (or_else ps (PList []))) (\<lambda>products.
     rbind (rfold (best_step u t) products ([], Fin (- 1))) (\<lambda>(best_product, best_score).
       Inr best_product))))"

subsection \<open>The summary of a candidate\<close>

definition price_gap_of :: "pyval \<Rightarrow> pyval \<Rightarrow> pyval" where
  "price_gap_of matched_price expected_total_price =
     (if matched_price \<noteq> PNone \<and> expected_total_price \<noteq> PNone
      then (case rbind (to_float matched_price) (\<lambda>a.
                 rbind (to_float expected_total_price) (\<lambda>b. Inr (fabs (fsub a b)))) of
              Inl _ \<Rightarrow> PNone | Inr x \<Rightarrow> PFloat x)
      else PNone)"

definition candidate_summary_payload ::
  "unicode \<Rightarrow> string \<Rightarrow> int \<Rightarrow> pyval \<Rightarrow> pyval \<Rightarrow> string \<Rightarrow> pyval \<Rightarrow> args res" where
  "candidate_summary_payload u store_id attempt store_detail expected_order expected_product_id profile =
     rbind (candidate_product_from_store u store_detail expected_product_id profile) (\<lambda>matched.
     rbind (vget expected_order ''total_price'' PNone) (\<lambda>expected_total_price.
     let matched_price = dget_def matched ''price'' PNone;
         price_gap = price_gap_of matched_price expected_total_price in
     rbind (vget store_detail ''name'' (PStr [])) (\<lambda>name.
     rbind (vget store_detail ''tags'' (PList [])) (\<lambda>tags.
     rbind (py_iter (or_else tags (PList []))) (\<lambda>store_tags.
     rbind (vget store_detail ''products'' (PList [])) (\<lambda>ps.
     rbind (vlen (or_else ps (PList []))) (\<lambda>product_count.
     rbind (to_float (or_else (dget_def matched ''_match_score'' (PFloat (Fin 0))) (PFloat (Fin 0)))) (\<lambda>match_score.
     rbind (to_float (or_else (dget_def matched ''_name_similarity'' (PFloat (Fin 0))) (PFloat (Fin 0)))) (\<lambda>name_similarity.
       Inr
         [(''candidate_store_id'', PStr store_id), (''candidate_attempt'', PInt attempt),
          (''store_name'', PStr (py_str name)), (''store_tags'', PList store_tags),
          (''product_count'', PInt (int product_count)),
          (''matched_product_id'', PStr (varg matched ''product_id'')),
          (''matched_product_name'', PStr (varg matched ''name'')),
          (''matched_product_price'', matched_price),
          (''expected_total_price'', expected_total_price), (''price_gap'', price_gap),
          (''match_score'', PFloat match_score), (''name_similarity'', PFloat name_similarity),
          (''has_expected_product'',
             PBool (matched \<noteq> [] \<and> varg matched ''product_id'' = expected_product_id))])))))))))"

subsection \<open>The winner\<close>

text \<open>\<open>"{:06d}".format(i)\<close>.\<close>

definition pad6 :: "int \<Rightarrow> string" where
  "pad6 i =
     (let digits = str_pos \<bar>i\<bar>; sign = (if i < 0 then ''-'' else [])
      in sign @ replicate (6 - length sign - length digits) CHR ''0'' @ digits)"

type_synonym rank_key = "pyfloat \<times> int \<times> pyfloat \<times> int \<times> string"

definition candidate_rank_key :: "args \<Rightarrow> rank_key res" where
  "candidate_rank_key payload =
     rbind (to_float (or_else (dget_def payload ''match_score'' (PFloat (Fin 0))) (PFloat (Fin 0)))) (\<lambda>match_score.
     let has_expected_product = (if truthy (dget_def payload ''has_expected_product'' PNone) then 1 else 0);
         price_gap = (let g = dget_def payload ''price_gap'' PNone in if g = PNone then PInt (10 ^ 9) else g) in
     rbind (to_int (or_else (dget_def payload ''product_count'' (PInt 0)) (PInt 0))) (\<lambda>product_count.
     rbind (to_int (or_else (dget_def payload ''candidate_attempt'' (PInt 0)) (PInt 0))) (\<lambda>attempt.
     let store_id = varg payload ''candidate_store_id'' in
     rbind (to_float price_gap) (\<lambda>gap.
       Inr (fneg match_score, - has_expected_product, gap, - product_count,
            store_id @ '':'' @ pad6 attempt)))))"

text \<open>
  Tuples compare lexicographically and \<open>sorted\<close> is stable. A NaN among the keys (a store whose
  price is the JSON literal \<open>NaN\<close>) would make Python's order depend on the positions; here NaN
  is the greatest float.
\<close>

definition select_winner_payload :: "args list \<Rightarrow> args res" where
  "select_winner_payload candidate_payloads =
     (if candidate_payloads = [] then Inr []
      else rbind (rmap candidate_rank_key candidate_payloads) (\<lambda>keys.
             Inr (snd (hd (sort_key fst (zip keys candidate_payloads))))))"

subsection \<open>The check of the winner\<close>

definition price_differs :: "pyval \<Rightarrow> pyval \<Rightarrow> bool res" where
  "price_differs detail_price matched_price =
     rbind (to_float detail_price) (\<lambda>a.
     rbind (to_float matched_price) (\<lambda>b. Inr (flt (rnd (1 / 1000000)) (fabs (fsub a b)))))"

text \<open>The check of the product entry, once the store entry has been accepted.\<close>

definition recheck_product :: "string \<Rightarrow> pyval \<Rightarrow> args \<Rightarrow> bool \<times> string \<times> args" where
  "recheck_product expected_product_id product_raw refreshed =
     (let matched_price = dget_def refreshed ''matched_product_price'' PNone in
      if product_raw = PNone \<or> product_raw = PStr [] then (True, [], refreshed)
      else case parse_json_safely product_raw (PDict []) of
        PDict (e # es) \<Rightarrow>
          (let product_detail = e # es;
               product_id = varg product_detail ''product_id'';
               detail_price = dget_def product_detail ''price'' PNone in
           if expected_product_id \<noteq> [] \<and> product_id \<noteq> [] \<and> product_id \<noteq> expected_product_id
           then (False, ''WINNER_PRODUCT_DETAIL_ID_CHANGED'', refreshed)
           else if detail_price \<noteq> PNone \<and> matched_price \<noteq> PNone
           then (case price_differs detail_price matched_price of
                   Inl _ \<Rightarrow> (False, ''WINNER_PRODUCT_DETAIL_PRICE_INVALID'', refreshed)
                 | Inr differs \<Rightarrow>
                     (if differs then (False, ''WINNER_PRODUCT_DETAIL_PRICE_MISMATCH'', refreshed)
                      else (True, [], refreshed)))
           else (True, [], refreshed))
      | _ \<Rightarrow> (False, ''WINNER_PRODUCT_DETAIL_UNAVAILABLE'', refreshed))"

definition semantic_recheck_winner_payload ::
  "unicode \<Rightarrow> string \<Rightarrow> int \<Rightarrow> pyval \<Rightarrow> pyval \<Rightarrow> string \<Rightarrow> pyval \<Rightarrow> pyval \<Rightarrow> (bool \<times> string \<times> args) res" where
  "semantic_recheck_winner_payload u store_id attempt store_raw expected_order expected_product_id profile
     product_raw =
     (case parse_json_safely store_raw (PDict []) of
        PDict (e # es) \<Rightarrow>
          rbind (candidate_summary_payload u store_id attempt (PDict (e # es)) expected_order
                   expected_product_id profile) (\<lambda>refreshed.
            if expected_product_id \<noteq> [] \<and> \<not> truthy (dget_def refreshed ''has_expected_product'' PNone)
            then Inr (False, ''WINNER_EXPECTED_PRODUCT_MISSING'', refreshed)
            else if expected_product_id \<noteq> [] \<and> varg refreshed ''matched_product_id'' \<noteq> expected_product_id
            then Inr (False, ''WINNER_MATCHED_PRODUCT_CHANGED'', refreshed)
            else Inr (recheck_product expected_product_id product_raw refreshed))
      | _ \<Rightarrow> Inr (False, ''WINNER_STORE_DETAIL_UNAVAILABLE'', []))"

subsection \<open>Retrying\<close>

definition should_retry_baseline_winner :: "int \<Rightarrow> string \<Rightarrow> int \<Rightarrow> bool" where
  "should_retry_baseline_winner attempts_used retry_policy max_attempts =
     (retry_policy = ''until_success'' \<or> attempts_used < max 1 max_attempts)"

text \<open>\<open>uniform\<close> is what \<open>random.uniform(0.5, 1.5)\<close> returns.\<close>

definition baseline_retry_backoff_sec :: "int \<Rightarrow> string \<Rightarrow> pyfloat \<Rightarrow> pyfloat" where
  "baseline_retry_backoff_sec attempts_used retry_policy uniform =
     (if retry_policy \<noteq> ''until_success'' then Fin 0
      else let ex = min (max 0 (attempts_used - 1)) 6;
               base_backoff = fmin (fmul (rnd (5 / 1000)) (Fin (2 ^ nat ex))) (rnd (2 / 10))
           in fmul base_backoff uniform)"

end
