(* ===== verification/Vita_Select_Props.thy ===== *)
theory Vita_Select_Props
  imports Vita_Select
begin

text \<open>
  Properties of the candidate selection: which stores are explored, which product and which
  candidate win, and what an accepted winner guarantees.
\<close>

subsection \<open>Candidates\<close>

lemma dedup_loop_set: "set (dedup_loop ids seen) = {i \<in> set ids. i \<noteq> [] \<and> i \<notin> seen}"
  by (induction ids arbitrary: seen) auto

lemma dedup_loop_distinct: "distinct (dedup_loop ids seen)"
  by (induction ids arbitrary: seen) (auto simp: dedup_loop_set)

lemma dedup_loop_length: "length (dedup_loop ids seen) \<le> length ids"
proof (induction ids arbitrary: seen)
  case (Cons i ids)
  from Cons [of seen] Cons [of "insert i seen"] show ?case by simp
qed simp

text \<open>C40: the explored stores: at most \<open>top_k\<close> of them (one if \<open>top_k\<close> is not positive), no store twice,
  none unnamed, each listed or the expected one, and the expected store always among them.\<close>

theorem chosen_candidates:
  assumes "choose_candidate_store_ids stores expected top_k = Inr ids"
    and "store_ids_of stores = Inr listed"
  shows "distinct ids \<and> [] \<notin> set ids \<and> int (length ids) \<le> max 1 top_k \<and>
    set ids \<subseteq> set listed \<union> {expected} \<and> (expected = [] \<or> expected \<in> set ids)"
proof -
  define all where "all = (if expected \<noteq> [] \<and> expected \<notin> set listed then listed @ [expected] else listed)"
  define k where "k = (if top_k \<le> 0 then 1 else top_k)"
  define sel where "sel = take (nat k) all"
  define sel' where "sel' = (if expected \<noteq> [] \<and> expected \<notin> set sel
      then (if int (length sel) < k then sel @ [expected] else sel[length sel - 1 := expected]) else sel)"
  have k: "1 \<le> k" "k = max 1 top_k" by (auto simp: k_def)
  have ids: "ids = (if all = [] then [] else dedup_loop sel' {})"
    using assms unfolding choose_candidate_store_ids_def all_def k_def sel_def sel'_def
    by (auto simp: Let_def)
  have sel: "int (length sel) \<le> k" "set sel \<subseteq> set all" "all = [] \<or> sel \<noteq> []"
    using k(1) by (auto simp: sel_def min_def dest: in_set_takeD)
  then have sel': "int (length sel') \<le> k" "set sel' \<subseteq> set all \<union> {expected}"
    by (auto simp: sel'_def dest: set_update_subset_insert [THEN subsetD])
  have "expected \<in> set sel'" if "expected \<noteq> []" "all \<noteq> []"
    using that sel(3) set_update_memI [of "length sel - 1" sel expected] by (auto simp: sel'_def)
  moreover have "all \<noteq> []" if "expected \<noteq> []" using that by (auto simp: all_def)
  moreover have "set all \<subseteq> set listed \<union> {expected}" by (auto simp: all_def)
  ultimately show ?thesis
    using sel' k dedup_loop_length [of sel' "{}"] ids
    by (auto simp: dedup_loop_set dedup_loop_distinct)
qed

theorem chosen_candidates_witness:
  "distinct [''s1'', ''s3''] \<and> [] \<notin> set [''s1'', ''s3''] \<and> int (length [''s1'', ''s3'']) \<le> max 1 2 \<and>
   set [''s1'', ''s3''] \<subseteq> set [''s1'', ''s2''] \<union> {''s3''} \<and> (''s3'' = [] \<or> ''s3'' \<in> set [''s1'', ''s3''])"
  by (rule chosen_candidates
      [where stores = "[PDict [(''store_id'', PStr ''s1'')], PDict [(''store_id'', PStr ''s2'')]]"]) code_simp+

subsection \<open>The winner\<close>

lemma insort_first:
  assumes "ys \<noteq> []"
  shows "hd (insort_key f x ys) = (if f x \<le> f (hd ys) then x else hd ys)"
  using assms by (cases ys) auto

lemma hd_sort_key:
  fixes f :: "'a \<Rightarrow> 'b :: linorder"
  assumes "xs \<noteq> []"
  shows "\<exists>i < length xs. hd (sort_key f xs) = xs ! i \<and> (\<forall>j < length xs. f (xs ! i) \<le> f (xs ! j)) \<and>
    (\<forall>j < i. f (xs ! i) < f (xs ! j))"
  using assms
proof (induction xs)
  case (Cons x xs)
  show ?case
  proof (cases "xs = []")
    case False
    with Cons.IH obtain i where i: "i < length xs" "hd (sort_key f xs) = xs ! i"
      "\<forall>j < length xs. f (xs ! i) \<le> f (xs ! j)" "\<forall>j < i. f (xs ! i) < f (xs ! j)" by blast
    have "sort_key f xs \<noteq> []" using False by (metis length_0_conv length_sort)
    then have h: "hd (sort_key f (x # xs)) = (if f x \<le> f (xs ! i) then x else xs ! i)"
      using insort_first [of "sort_key f xs" f x] i(2) by simp
    show ?thesis
    proof (cases "f x \<le> f (xs ! i)")
      case True
      with i h show ?thesis
        by (intro exI [of _ 0]) (auto simp: nth_Cons split: nat.splits intro: order_trans)
    next
      case False
      with i h show ?thesis
        by (intro exI [of _ "Suc i"]) (auto simp: nth_Cons split: nat.splits)
    qed
  qed auto
qed simp

text \<open>
  What the selection compares, read off a payload as it stands: the match score, whether it has
  the expected product, the price gap (a thousand million when it is missing), the number of
  products and the label. The two floats are no NaN.
\<close>

record candidate_view =
  cv_score :: pyfloat
  cv_expected :: bool
  cv_gap :: pyfloat
  cv_products :: int
  cv_label :: string

definition views :: "args \<Rightarrow> candidate_view \<Rightarrow> bool" where
  "views payload v =
     (to_float (or_else (dget_def payload ''match_score'' (PFloat (Fin 0))) (PFloat (Fin 0))) = Inr (cv_score v) \<and>
      cv_expected v = truthy (dget_def payload ''has_expected_product'' PNone) \<and>
      to_float (let g = dget_def payload ''price_gap'' PNone in if g = PNone then PInt (10 ^ 9) else g) =
        Inr (cv_gap v) \<and>
      to_int (or_else (dget_def payload ''product_count'' (PInt 0)) (PInt 0)) = Inr (cv_products v) \<and>
      (\<exists>attempt. to_int (or_else (dget_def payload ''candidate_attempt'' (PInt 0)) (PInt 0)) = Inr attempt \<and>
         cv_label v = varg payload ''candidate_store_id'' @ '':'' @ pad6 attempt) \<and>
      cv_score v \<noteq> NaN \<and> cv_gap v \<noteq> NaN)"

text \<open>\<open>v\<close> is preferred to \<open>w\<close>.\<close>

definition preferred :: "candidate_view \<Rightarrow> candidate_view \<Rightarrow> bool" where
  "preferred v w =
     (cv_score w < cv_score v \<or> cv_score v = cv_score w \<and>
       (cv_expected v \<and> \<not> cv_expected w \<or> cv_expected v = cv_expected w \<and>
         (cv_gap v < cv_gap w \<or> cv_gap v = cv_gap w \<and>
           (cv_products w < cv_products v \<or> cv_products v = cv_products w \<and>
             cv_label v < cv_label w))))"

lemma fneg_less: "x \<noteq> NaN \<Longrightarrow> y \<noteq> NaN \<Longrightarrow> fneg x < fneg y \<longleftrightarrow> y < x"
  by (cases x; cases y) (auto simp: less_pyfloat_def less_eq_pyfloat_def)

lemma fneg_eq: "fneg x = fneg y \<longleftrightarrow> x = y"
  by (cases x; cases y) auto

lemma views_key:
  "views payload v \<Longrightarrow> candidate_rank_key payload =
     Inr (fneg (cv_score v), - (if cv_expected v then 1 else 0), cv_gap v, - cv_products v, cv_label v)"
  by (auto simp: views_def candidate_rank_key_def Let_def)

definition view_key :: "candidate_view \<Rightarrow> rank_key" where
  "view_key v = (fneg (cv_score v), - (if cv_expected v then 1 else 0), cv_gap v, - cv_products v, cv_label v)"

lemma view_key_less:
  "cv_score v \<noteq> NaN \<Longrightarrow> cv_score w \<noteq> NaN \<Longrightarrow> view_key v < view_key w \<longleftrightarrow> preferred v w"
  unfolding view_key_def preferred_def by (auto simp: less_prod_def' fneg_less fneg_eq)

text \<open>C38: the winner of a non-empty list of candidates is the first one that no other is preferred to:
  the highest match score, among equals one with the expected product, then the smallest price
  gap, the most products, and the smallest label of store and attempt; every earlier candidate is
  strictly worse. The fields can be read as numbers and the floats are no NaN.\<close>

theorem winner_is_first_best:
  assumes vs: "list_all2 views candidates vs" and ne: "candidates \<noteq> []"
  shows "\<exists>i < length candidates. select_winner_payload candidates = Inr (candidates ! i) \<and>
    (\<forall>j < length candidates. \<not> preferred (vs ! j) (vs ! i)) \<and> (\<forall>j < i. preferred (vs ! i) (vs ! j))"
proof -
  have len: "length vs = length candidates" using list_all2_lengthD [OF vs] by simp
  have v: "views (candidates ! i) (vs ! i)" if "i < length candidates" for i
    using list_all2_nthD [OF vs that] .
  have keys: "rmap candidate_rank_key candidates = Inr (map view_key vs)"
    using vs by (induction rule: list_all2_induct) (simp_all add: views_key view_key_def)
  have less: "view_key (vs ! i) < view_key (vs ! j) \<longleftrightarrow> preferred (vs ! i) (vs ! j)"
    if "i < length candidates" "j < length candidates" for i j
    using v [OF that(1)] v [OF that(2)] by (intro view_key_less) (simp_all add: views_def)
  have "zip (map view_key vs) candidates \<noteq> []" using ne len by (cases candidates; cases vs) auto
  from hd_sort_key [OF this, of fst] obtain i where i: "i < length candidates"
    "hd (sort_key fst (zip (map view_key vs) candidates)) = (view_key (vs ! i), candidates ! i)"
    "\<forall>j < length candidates. view_key (vs ! i) \<le> view_key (vs ! j)" "\<forall>j < i. view_key (vs ! i) < view_key (vs ! j)"
    using len by auto
  have "select_winner_payload candidates = Inr (candidates ! i)"
    using ne keys i(2) by (simp add: select_winner_payload_def)
  moreover have "\<not> preferred (vs ! j) (vs ! i)" if "j < length candidates" for j
    using i(3) that less [OF that i(1)] by (metis leD)
  moreover have "preferred (vs ! i) (vs ! j)" if "j < i" for j using i(1,4) less [OF i(1)] that by simp
  ultimately show ?thesis using i(1) by blast
qed

text \<open>The second of three candidates wins: its score is highest, and its gap smaller than that of its equal.\<close>

definition ex_candidate :: "string \<Rightarrow> int \<Rightarrow> pyfloat \<Rightarrow> pyfloat \<Rightarrow> args" where
  "ex_candidate store_id attempt score gap =
     [(''candidate_store_id'', PStr store_id), (''candidate_attempt'', PInt attempt),
      (''match_score'', PFloat score), (''price_gap'', PFloat gap)]"

definition ex_candidates :: "args list" where
  "ex_candidates =
     [ex_candidate ''s1'' 1 (Fin 2) (Fin 0), ex_candidate ''s2'' 2 (Fin 5) (Fin 1),
      ex_candidate ''s3'' 3 (Fin 5) (Fin 4)]"

theorem winner_is_first_best_witness:
  "select_winner_payload ex_candidates = Inr (ex_candidate ''s2'' 2 (Fin 5) (Fin 1))"
proof -
  let ?v = "\<lambda>score gap label. \<lparr>cv_score = score, cv_expected = False, cv_gap = gap, cv_products = 0,
      cv_label = label\<rparr>"
  let ?vs = "[?v (Fin 2) (Fin 0) ''s1:000001'', ?v (Fin 5) (Fin 1) ''s2:000002'', ?v (Fin 5) (Fin 4) ''s3:000003'']"
  have pads: "pad6 1 = ''000001''" "pad6 2 = ''000002''" "pad6 3 = ''000003''" by code_simp+
  have vs: "list_all2 views ex_candidates ?vs"
    by (simp add: ex_candidates_def ex_candidate_def views_def pads or_else_def dget_def_def varg_def)
  have ne: "ex_candidates \<noteq> []" and len: "length ex_candidates = 3" by (simp_all add: ex_candidates_def)
  from winner_is_first_best [OF vs ne, unfolded len] obtain i where
    i: "i < 3" "select_winner_payload ex_candidates = Inr (ex_candidates ! i)"
    and none: "\<forall>j < 3. \<not> preferred (?vs ! j) (?vs ! i)" by blast
  have "\<not> preferred (?vs ! 1) (?vs ! i)" by (rule none [rule_format]) simp
  moreover have "preferred (?vs ! 1) (?vs ! 0)" "preferred (?vs ! 1) (?vs ! 2)"
    by (simp_all add: preferred_def less_pyfloat_def less_eq_pyfloat_def)
  ultimately have "i \<noteq> 0" "i \<noteq> 2" by metis+
  with i(1) have "i = 1" by simp
  with i(2) show ?thesis by (simp add: ex_candidates_def)
qed

subsection \<open>The best product\<close>

definition nonneg :: "pyfloat \<Rightarrow> bool" where
  "nonneg x = (x \<noteq> NaN \<and> Fin 0 \<le> x)"

lemma nonneg_Fin [simp]: "nonneg (Fin q) = (0 \<le> q)"
  by (simp add: nonneg_def less_eq_pyfloat_def)

lemma rnd_not_NaN: "rnd q \<noteq> NaN"
  by (simp add: rnd_alt)

lemma nonneg_rnd: "0 \<le> q \<Longrightarrow> nonneg (rnd q)"
  using rnd_mono [of 0 q] rnd_not_NaN by (simp add: nonneg_def)

lemma nonneg_cases: "nonneg x \<Longrightarrow> (\<exists>q. x = Fin q \<and> 0 \<le> q) \<or> x = PInf"
  by (cases x) (auto simp: nonneg_def less_eq_pyfloat_def)

lemma nonneg_PInf [simp]: "nonneg PInf"
  by (simp add: nonneg_def less_eq_pyfloat_def)

lemma nonneg_fadd: "nonneg x \<Longrightarrow> nonneg y \<Longrightarrow> nonneg (fadd x y)"
  by (auto dest!: nonneg_cases intro!: nonneg_rnd)

lemma nonneg_fmul: "0 < q \<Longrightarrow> nonneg y \<Longrightarrow> nonneg (fmul (Fin q) y)"
  by (auto dest!: nonneg_cases intro!: nonneg_rnd simp: finf_def)

lemma nonneg_fmax: "nonneg (fmax (Fin 0) y)"
  by (auto simp: fmax_def flt_def nonneg_def)

lemma nonneg_float_of_int: "float_of_int i = Inr x \<Longrightarrow> 0 \<le> i \<Longrightarrow> \<exists>q. x = Fin q \<and> 0 \<le> q"
  using nonneg_rnd [of "of_int i"] by (cases "rnd (of_int i)") (auto simp: float_of_int_def)

lemma nonneg_jaccard:
  assumes "jaccard_similarity l r = Inr x"
  shows "nonneg x"
proof (cases "set (filter (\<lambda>t. t \<noteq> []) l) = {} \<and> set (filter (\<lambda>t. t \<noteq> []) r) = {}")
  case True
  with assms have "x = Fin 0" by (simp add: jaccard_similarity_def del: set_filter)
  then show ?thesis by simp
next
  case False
  with assms obtain m n a b where "float_of_int (int m) = Inr a" "float_of_int (int n) = Inr b" "fdiv a b = Inr x"
    by (auto simp: jaccard_similarity_def Let_def rbind_eq_Inr split: if_splits)
  with nonneg_float_of_int [of "int m" a] nonneg_float_of_int [of "int n" b] show ?thesis
    by (auto split: if_splits intro!: nonneg_rnd)
qed

lemma nonneg_score:
  assumes "product_score u t product = Inr (s, sim)"
  shows "nonneg s"
proof -
  let ?b = "\<lambda>i. if pt_id t \<noteq> [] \<and> py_str i = pt_id t then fadd (Fin 0) (Fin 4) else Fin 0"
  have b: "nonneg (?b i)" for i by (auto intro: nonneg_rnd)
  from assms obtain i n g a price where j: "jaccard_similarity (normalized_tokens u n) (pt_name t) = Inr sim"
    "\<exists>l. jaccard_similarity l (pt_tags t) = Inr g" "\<exists>l. jaccard_similarity l (pt_attrs t) = Inr a"
    and s: "s = (let score = fadd (fadd (fadd (?b i) (fmul (Fin 3) sim)) (fmul (Fin (3 / 2)) g)) (fmul (Fin (1 / 2)) a)
      in if price \<noteq> PNone \<and> pt_price t \<noteq> PNone
         then (case price_bonus price (pt_price t) of Inl _ \<Rightarrow> score | Inr b \<Rightarrow> fadd score b) else score)"
    unfolding product_score_def rbind_eq_Inr Let_def by blast
  have n: "nonneg (fadd (fadd (fadd (?b i) (fmul (Fin 3) sim)) (fmul (Fin (3 / 2)) g)) (fmul (Fin (1 / 2)) a))"
    using j by (intro nonneg_fadd nonneg_fmul b; force dest: nonneg_jaccard)
  have p: "nonneg x" if "price_bonus price e = Inr x" for e x
    using that by (auto simp: price_bonus_def rbind_eq_Inr Let_def nonneg_fmax)
  show ?thesis unfolding s Let_def
    using n p by (auto split: sum.splits intro: nonneg_fadd simp del: fadd.simps fmul.simps)
qed

lemma flt_nonneg: "nonneg x \<Longrightarrow> nonneg y \<Longrightarrow> flt x y = (x < y)"
  by (simp add: flt_def nonneg_def)

lemma flt_start: "nonneg y \<Longrightarrow> flt (Fin (- 1)) y"
  by (cases y) (auto simp: nonneg_def flt_def less_pyfloat_def less_eq_pyfloat_def)

text \<open>\<open>scored xs i s sim\<close>: the product at \<open>i\<close> is the first one with the greatest score.\<close>

definition first_best :: "unicode \<Rightarrow> product_target \<Rightarrow> pyval list \<Rightarrow> nat \<Rightarrow> pyfloat \<Rightarrow> pyfloat \<Rightarrow> bool" where
  "first_best u t ps i s sim =
     (i < length ps \<and> product_score u t (ps ! i) = Inr (s, sim) \<and>
      (\<forall>j < length ps. \<exists>s' sim'. product_score u t (ps ! j) = Inr (s', sim') \<and> s' \<le> s \<and> (j < i \<longrightarrow> s' < s)))"

definition best_entry :: "unicode \<Rightarrow> product_target \<Rightarrow> pyval list \<Rightarrow> args \<Rightarrow> pyfloat \<Rightarrow> bool" where
  "best_entry u t ps best s = (\<exists>i sim d. first_best u t ps i s sim \<and> to_dict (ps ! i) = Inr d \<and>
     best = dset (dset d ''_match_score'' (PFloat s)) ''_name_similarity'' (PFloat sim))"

lemma first_best_keep:
  assumes i: "first_best u t ps i s sim" and p: "product_score u t p = Inr (s1, sim1)" "s1 \<le> s"
  shows "first_best u t (ps @ [p]) i s sim"
proof -
  have "\<exists>s' sim'. product_score u t ((ps @ [p]) ! j) = Inr (s', sim') \<and> s' \<le> s \<and> (j < i \<longrightarrow> s' < s)"
    if "j < length (ps @ [p])" for j
    using that i p by (cases "j = length ps") (auto simp: first_best_def nth_append)
  then show ?thesis using i by (auto simp: first_best_def nth_append)
qed

lemma first_best_new:
  assumes i: "first_best u t ps i s sim" and p: "product_score u t p = Inr (s1, sim1)" "s < s1"
  shows "first_best u t (ps @ [p]) (length ps) s1 sim1"
proof -
  have "\<exists>s' sim'. product_score u t ((ps @ [p]) ! j) = Inr (s', sim') \<and> s' \<le> s1 \<and> (j < length ps \<longrightarrow> s' < s1)"
    if j: "j < length (ps @ [p])" for j
  proof (cases "j = length ps")
    case False
    with j have "j < length ps" by simp
    with i obtain s' sim' where "product_score u t (ps ! j) = Inr (s', sim')" "s' \<le> s"
      unfolding first_best_def by blast
    with p(2) False j show ?thesis by (auto simp: nth_append)
  qed (use p in simp)
  with p show ?thesis by (simp add: first_best_def)
qed

lemma best_step_cases:
  assumes "best_step u t p (b0, s0) = Inr (best, s)"
  obtains (new) s1 sim1 d where "product_score u t p = Inr (s1, sim1)" "flt s0 s1" "to_dict p = Inr d" "s = s1"
      "best = dset (dset d ''_match_score'' (PFloat s1)) ''_name_similarity'' (PFloat sim1)"
    | (keep) s1 sim1 where "product_score u t p = Inr (s1, sim1)" "\<not> flt s0 s1" "best = b0" "s = s0"
proof -
  from assms obtain s1 sim1 where sc: "product_score u t p = Inr (s1, sim1)"
    by (auto simp: best_step_def rbind_eq_Inr)
  show ?thesis
  proof (cases "flt s0 s1")
    case True
    with assms sc obtain d where "to_dict p = Inr d" "s = s1"
      "best = dset (dset d ''_match_score'' (PFloat s1)) ''_name_similarity'' (PFloat sim1)"
      by (auto simp: best_step_def rbind_eq_Inr)
    with sc True show ?thesis by (rule new)
  next
    case False
    with assms sc show ?thesis by (intro keep) (simp_all add: best_step_def)
  qed
qed

lemma best_fold:
  "rfold (best_step u t) ps ([], Fin (- 1)) = Inr (best, s) \<Longrightarrow>
   (if ps = [] then best = [] else best_entry u t ps best s)"
proof (induction ps arbitrary: best s rule: rev_induct)
  case (snoc p ps)
  from snoc.prems obtain b0 s0 where 0: "rfold (best_step u t) ps ([], Fin (- 1)) = Inr (b0, s0)"
    and st: "best_step u t p (b0, s0) = Inr (best, s)"
    by (auto simp: rfold_append rbind_eq_Inr)
  show ?case
  proof (cases "ps = []")
    case True
    with 0 have s0: "s0 = Fin (- 1)" by simp
    from st show ?thesis
    proof (cases rule: best_step_cases)
      case (new s1 sim1 d)
      with True show ?thesis by (auto simp: best_entry_def first_best_def intro!: exI [of _ 0])
    next
      case (keep s1 sim1)
      with flt_start [OF nonneg_score] s0 show ?thesis by blast
    qed
  next
    case False
    with snoc.IH [OF 0] obtain i sim0 d0 where i: "first_best u t ps i s0 sim0" and d0: "to_dict (ps ! i) = Inr d0"
      "b0 = dset (dset d0 ''_match_score'' (PFloat s0)) ''_name_similarity'' (PFloat sim0)"
      by (auto simp: best_entry_def)
    then have n0: "nonneg s0" using nonneg_score by (auto simp: first_best_def)
    from st show ?thesis
    proof (cases rule: best_step_cases)
      case (new s1 sim1 d)
      with flt_nonneg [OF n0 nonneg_score] have "first_best u t (ps @ [p]) (length ps) s1 sim1"
        by (intro first_best_new [OF i]) auto
      with new show ?thesis by (auto simp: best_entry_def nth_append intro!: exI [of _ "length ps"])
    next
      case (keep s1 sim1)
      with flt_nonneg [OF n0 nonneg_score] have "first_best u t (ps @ [p]) i s0 sim0"
        by (intro first_best_keep [OF i keep(1)]) auto
      moreover have "(ps @ [p]) ! i = ps ! i" using i by (simp add: first_best_def nth_append)
      ultimately show ?thesis using d0 keep by (auto simp: best_entry_def intro!: exI [of _ i] exI [of _ sim0])
    qed
  qed
qed simp

text \<open>C39: the product a store offers for the expected one is the first of its products with the
  greatest score; every product was scored, and its entry is kept with the score added.\<close>

theorem best_product_is_first_best:
  assumes "product_target_of u expected_product_id profile = Inr t"
    and "vget store_detail ''products'' PNone = Inr ps" and "py_iter (or_else ps (PList [])) = Inr products"
    and "products \<noteq> []"
    and "candidate_product_from_store u store_detail expected_product_id profile = Inr best"
  shows "\<exists>i s sim d. i < length products \<and> product_score u t (products ! i) = Inr (s, sim) \<and>
    to_dict (products ! i) = Inr d \<and>
    best = dset (dset d ''_match_score'' (PFloat s)) ''_name_similarity'' (PFloat sim) \<and>
    (\<forall>j < length products. \<exists>s' sim'. product_score u t (products ! j) = Inr (s', sim') \<and>
       s' \<le> s \<and> (j < i \<longrightarrow> s' < s))"
proof -
  from assms obtain s where "rfold (best_step u t) products ([], Fin (- 1)) = Inr (best, s)"
    by (auto simp: candidate_product_from_store_def rbind_eq_Inr)
  from best_fold [OF this] assms(4) show ?thesis
    by (auto simp: best_entry_def first_best_def)
qed

definition ex_unicode :: unicode where
  "ex_unicode = \<lparr>u_alnum = \<lambda>_. True, u_space = \<lambda>_. False, u_lower = \<lambda>c. c\<rparr>"

definition ex_product :: "string \<Rightarrow> string \<Rightarrow> pyval" where
  "ex_product i name = PDict [(''product_id'', PStr i), (''name'', PStr name), (''price'', PInt 3)]"

definition ex_target :: product_target where
  "ex_target = \<lparr>pt_id = ''p1'', pt_name = [''tea''], pt_tags = [], pt_attrs = [], pt_price = PNone\<rparr>"

theorem best_product_is_first_best_witness:
  "\<exists>best i. candidate_product_from_store ex_unicode (PDict [(''products'', PList [ex_product ''p0'' ''Tea'', ex_product ''p1'' ''tea''])])
      ''p1'' (PDict [(''name'', PStr ''Tea'')]) = Inr best \<and> i < 2 \<and>
    dget best ''product_id'' = dget [(''product_id'', PStr (if i = (0 :: nat) then ''p0'' else ''p1''))] ''product_id''"
proof -
  let ?store = "PDict [(''products'', PList [ex_product ''p0'' ''Tea'', ex_product ''p1'' ''tea''])]"
  have t: "product_target_of ex_unicode ''p1'' (PDict [(''name'', PStr ''Tea'')]) = Inr ex_target"
    unfolding ex_target_def by code_simp
  have "\<not> isl (candidate_product_from_store ex_unicode ?store ''p1'' (PDict [(''name'', PStr ''Tea'')]))"
    by code_simp
  then obtain best where best: "candidate_product_from_store ex_unicode ?store ''p1'' (PDict [(''name'', PStr ''Tea'')]) = Inr best"
    by (cases "candidate_product_from_store ex_unicode ?store ''p1'' (PDict [(''name'', PStr ''Tea'')])") auto
  let ?ps = "[ex_product ''p0'' ''Tea'', ex_product ''p1'' ''tea'']"
  have "vget ?store ''products'' PNone = Inr (PList ?ps)" "py_iter (or_else (PList ?ps) (PList [])) = Inr ?ps"
    by (simp_all add: vget_def dget_def_def or_else_def)
  from best_product_is_first_best [OF t this _ best] obtain i s sim d where i: "i < length ?ps"
    and d: "to_dict (?ps ! i) = Inr d"
      "best = dset (dset d ''_match_score'' (PFloat s)) ''_name_similarity'' (PFloat sim)"
    by blast
  from i have "i < 2" by simp
  with best d show ?thesis by (intro exI [of _ best] exI [of _ i]) (auto simp: less_2_cases_iff ex_product_def)
qed

subsection \<open>The check of the winner\<close>

lemma product_score_dict: "product_score u t p = Inr x \<Longrightarrow> \<exists>d. p = PDict d"
  by (auto simp: product_score_def rbind_eq_Inr vget_def split: pyval.splits)

lemma matched_product:
  assumes "candidate_product_from_store u (PDict store) pid profile = Inr best" and "best \<noteq> []"
  obtains t products i s sim d where "product_target_of u pid profile = Inr t"
    and "py_iter (or_else (dget_def store ''products'' PNone) (PList [])) = Inr products"
    and "first_best u t products i s sim" and "products ! i = PDict d"
    and "varg best ''product_id'' = varg d ''product_id''"
    and "dget_def best ''price'' PNone = dget_def d ''price'' PNone"
proof -
  from assms(1) obtain t products s where t: "product_target_of u pid profile = Inr t"
    and p: "py_iter (or_else (dget_def store ''products'' PNone) (PList [])) = Inr products"
    and f: "rfold (best_step u t) products ([], Fin (- 1)) = Inr (best, s)"
    by (auto simp: candidate_product_from_store_def rbind_eq_Inr vget_def)
  from best_fold [OF f] assms(2) have "best_entry u t products best s" by (auto split: if_splits)
  then obtain i sim d where i: "first_best u t products i s sim" "to_dict (products ! i) = Inr d"
    "best = dset (dset d ''_match_score'' (PFloat s)) ''_name_similarity'' (PFloat sim)"
    by (auto simp: best_entry_def)
  then have "product_score u t (products ! i) = Inr (s, sim)" by (simp add: first_best_def)
  from product_score_dict [OF this] obtain d' where d': "products ! i = PDict d'" by auto
  with i have "d' = d" by simp
  with d' have "products ! i = PDict d" by simp
  with t p i(1) show ?thesis by (rule that) (simp_all add: i(3) varg_def dget_def_def)
qed


text \<open>
  Example: the store sells the expected product \<open>p1\<close>, renamed, and another product that still
  carries the expected name, tags, attributes and price.
\<close>

definition ex_store_renamed :: string where
  "ex_store_renamed = dumps_compact (PDict [(''products'', PList
     [PDict [(''product_id'', PStr ''p1''), (''name'', PStr ''brew'')],
      PDict [(''product_id'', PStr ''p2''), (''name'', PStr ''tea''), (''tags'', PList [PStr ''hot'']),
             (''price'', PInt 3)]])])"

definition ex_profile :: pyval where
  "ex_profile = PDict [(''product_id'', PStr ''p1''), (''name'', PStr ''tea''),
     (''tags'', PList [PStr ''hot'']), (''price'', PInt 3)]"

definition ex_store_same :: string where
  "ex_store_same = dumps_compact (PDict [(''products'', PList [ex_profile])])"

definition ex_recheck :: "string \<Rightarrow> (bool \<times> string \<times> args) res" where
  "ex_recheck raw = semantic_recheck_winner_payload ex_unicode ''s1'' 1 (PStr raw)
     (PDict [(''total_price'', PInt 3)]) ''p1'' ex_profile PNone"


text \<open>The expected product can be outvoted: the id counts four points, name, tags and price together
  five and a half, so a store that sells the expected product under a new name is rejected as not
  selling it when another of its products has the old name, tags and price.\<close>

theorem expected_product_outvoted:
  "\<exists>refreshed. ex_recheck ex_store_renamed = Inr (False, ''WINNER_EXPECTED_PRODUCT_MISSING'', refreshed) \<and>
    dget refreshed ''matched_product_id'' = Some (PStr ''p2'')"
proof -
  have "(case ex_recheck ex_store_renamed of
      Inr (ok, reason, refreshed) \<Rightarrow> \<not> ok \<and> reason = ''WINNER_EXPECTED_PRODUCT_MISSING'' \<and>
        dget refreshed ''matched_product_id'' = Some (PStr ''p2'') | Inl _ \<Rightarrow> False)"
    by code_simp
  then show ?thesis by (auto split: sum.splits)
qed

end
