(* ===== verification/Vita_Agent.thy ===== *)
theory Vita_Agent
  imports Vita_Select Vita_Eval
begin

text \<open>
  The reference agent (\<open>_reference_agent_run\<close> in \<open>Agent/vitabench_delivery.py\<close>): a scripted run
  that explores candidate stores in transactions or in the branches of one tree transaction,
  picks a winner, checks it against freshly read data and commits the expected order.

  The local variables of the function are a record that is threaded through beside the state of
  the database client, because they keep their values when an exception is caught.
\<close>

subsection \<open>The world of a run\<close>

text \<open>
  Parameters of a run: the database peer, the Unicode tables, the clock, the random numbers, and
  what the interference workers do to the database while the agent waits for them (they run in
  other threads and share the client).
\<close>

record 'w env =
  en_peer :: "'w peer"
  en_unicode :: unicode
  en_time :: "'w \<Rightarrow> pyfloat \<times> 'w"
  en_random :: "'w \<Rightarrow> pyfloat \<times> 'w"
  en_uniform :: "'w \<Rightarrow> pyfloat \<times> 'w"
  en_interference :: "string \<Rightarrow> 'w agent_db \<Rightarrow> 'w agent_db"

text \<open>The arguments of the function and what it reads from the task first.\<close>

record run_setup =
  rs_task_id :: string
  rs_namespace :: string
  rs_mode :: string
  rs_top_k :: int
  rs_contention :: string
  rs_manager :: bool
  rs_probability :: pyfloat
  rs_policy :: string
  rs_max_attempts :: int
  rs_order :: pyval
  rs_store :: string
  rs_product :: string
  rs_profile :: pyval
  rs_hotspot :: string

text \<open>The variables of the function.\<close>

record agent_run =
  ar_trace :: "pyval list"
  ar_messages :: "pyval list"
  ar_abort_reason :: pyval
  ar_abort_reasons :: "pyval list"
  ar_recheck_reasons :: "string list"
  ar_retry_count :: int
  ar_abort_count :: int
  ar_recheck_fails :: int
  ar_committed :: int
  ar_rolled_back :: int
  ar_txn_attempts :: int
  ar_bumps :: int
  ar_winner_store :: string
  ar_candidates :: "string list"
  ar_branch_count :: int
  ar_explore_attempts :: int
  ar_winner_attempts :: int
  ar_winner_rounds :: int
  ar_select_latency :: pyfloat
  ar_explore_latency :: pyfloat
  ar_commit_latency :: pyfloat
  ar_payloads :: "args list"
  ar_bumped :: bool

record 'w agent_world =
  aw_db :: "'w agent_db"
  aw_run :: agent_run

type_synonym ('w, 'a) run_prog = "('w agent_world, 'a) prog"

definition on_db :: "('w, 'a) db_prog \<Rightarrow> ('w, 'a) run_prog" where
  "on_db m s = (case m (aw_db s) of (r, c) \<Rightarrow> (r, s\<lparr>aw_db := c\<rparr>))"

definition set_run :: "(agent_run \<Rightarrow> agent_run) \<Rightarrow> ('w, unit) run_prog" where
  "set_run f s = (Inr (), s\<lparr>aw_run := f (aw_run s)\<rparr>)"

definition get_run :: "(agent_run \<Rightarrow> 'a) \<Rightarrow> ('w, 'a) run_prog" where
  "get_run f s = (Inr (f (aw_run s)), s)"

definition ask :: "('w \<Rightarrow> pyfloat \<times> 'w) \<Rightarrow> ('w, pyfloat) run_prog" where
  "ask f s = (case f (adb_net (aw_db s)) of (x, w) \<Rightarrow> (Inr x, s\<lparr>aw_db := (aw_db s)\<lparr>adb_net := w\<rparr>\<rparr>))"

text \<open>\<open>v[k]\<close> for a string key.\<close>

definition vsub :: "pyval \<Rightarrow> string \<Rightarrow> pyval res" where
  "vsub v k =
     (case v of
        PDict d \<Rightarrow> vitem d k
      | _ \<Rightarrow> Inl (PyExc TypeError (quoted (type_name v) @ '' object is not subscriptable'')))"

subsection \<open>Recording\<close>

definition record_tool :: "string \<Rightarrow> args \<Rightarrow> pyval \<Rightarrow> agent_run \<Rightarrow> agent_run" where
  "record_tool name args result r =
     r\<lparr>ar_trace := ar_trace r @
          [PDict [(''tool'', PStr name), (''args'', PDict args), (''result'', result)]],
       ar_messages := ar_messages r @
          [PDict [(''role'', PStr ''assistant''), (''content'', PStr (''TOOL '' @ name)),
                  (''tool_name'', PStr name), (''arguments'', PDict args)],
           PDict [(''role'', PStr ''tool''), (''name'', PStr name),
                  (''content'', PStr (dumps_compact result))]]\<rparr>"

text \<open>A tool is called, and then its arguments and its result are recorded.\<close>

definition run_tool :: "string \<Rightarrow> (args \<Rightarrow> ('w, pyval) db_prog) \<Rightarrow> args \<Rightarrow> ('w, pyval) run_prog" where
  "run_tool name tool args =
     bnd (on_db (tool args)) (\<lambda>result. bnd (set_run (record_tool name args result)) (\<lambda>_. ret result))"

definition note_abort :: "pyval \<Rightarrow> agent_run \<Rightarrow> agent_run" where
  "note_abort reason r =
     r\<lparr>ar_abort_count := ar_abort_count r + 1, ar_abort_reason := reason,
       ar_abort_reasons := ar_abort_reasons r @ [reason]\<rparr>"

definition note_recheck :: "string \<Rightarrow> agent_run \<Rightarrow> agent_run" where
  "note_recheck reason r =
     r\<lparr>ar_recheck_fails := ar_recheck_fails r + 1, ar_abort_reason := PStr reason,
       ar_recheck_reasons := ar_recheck_reasons r @ [reason]\<rparr>"

definition build_agent_result ::
  "run_setup \<Rightarrow> bool \<Rightarrow> pyval \<Rightarrow> string option \<Rightarrow> string \<Rightarrow> pyval option \<Rightarrow> agent_run \<Rightarrow> pyval res" where
  "build_agent_result S submit_ok final_answer final_answer_raw selected_store_id override r =
     rbind (float_of_int (ar_abort_count r)) (\<lambda>a.
     rbind (float_of_int (max (ar_txn_attempts r) 1)) (\<lambda>b.
     rbind (fdiv a b) (\<lambda>rate.
       Inr (PDict
         [(''mode'', PStr (rs_mode S)), (''messages'', PList (ar_messages r)),
          (''tool_trace'', PList (ar_trace r)), (''db_retry_count'', PInt (ar_retry_count r)),
          (''db_abort_count'', PInt (ar_abort_count r)), (''db_abort_rate_per_attempt'', PFloat rate),
          (''abort_reasons'', PList (ar_abort_reasons r)),
          (''semantic_recheck_fail_count'', PInt (ar_recheck_fails r)),
          (''semantic_recheck_reasons'', PList (map PStr (ar_recheck_reasons r))),
          (''db_abort_reason'', case override of Some v \<Rightarrow> v | None \<Rightarrow> ar_abort_reason r),
          (''submit_ok'', PBool submit_ok), (''final_answer'', final_answer),
          (''final_answer_raw'', opt_val final_answer_raw),
          (''selected_store_id'', PStr selected_store_id),
          (''txn_attempts'', PInt (ar_txn_attempts r)),
          (''rolled_back_attempts'', PInt (ar_rolled_back r)),
          (''committed_attempts'', PInt (ar_committed r)),
          (''candidate_count'', PInt (int (length (ar_candidates r)))),
          (''branch_count'', PInt (ar_branch_count r)),
          (''explore_txn_attempts'', PInt (ar_explore_attempts r)),
          (''winner_txn_attempts'', PInt (ar_winner_attempts r)),
          (''winner_commit_rounds'', PInt (ar_winner_rounds r)),
          (''winner_selection_latency_sec'', PFloat (ar_select_latency r)),
          (''explore_phase_latency_sec'', PFloat (ar_explore_latency r)),
          (''commit_phase_latency_sec'', PFloat (ar_commit_latency r)),
          (''interference_bumps'', PInt (ar_bumps r))]))))"

definition finish_run ::
  "run_setup \<Rightarrow> bool \<Rightarrow> pyval \<Rightarrow> string option \<Rightarrow> string \<Rightarrow> pyval option \<Rightarrow> ('w, pyval) run_prog" where
  "finish_run S submit_ok final_answer final_answer_raw selected override =
     bnd (get_run (build_agent_result S submit_ok final_answer final_answer_raw selected override)) lift_res"

text \<open>After a commit: the stored answer replaces the built one unless reading it fails.\<close>

definition finish_committed :: "'w env \<Rightarrow> run_setup \<Rightarrow> string \<Rightarrow> pyval \<Rightarrow> string option \<Rightarrow> ('w, pyval) run_prog" where
  "finish_committed E S selected final_answer final_raw =
     bnd (try_except (on_db (load_final_answer (en_peer E) (rs_namespace S)))
            (\<lambda>_. ret (final_answer, final_raw))) (\<lambda>(final_answer, final_raw).
       finish_run S True final_answer final_raw selected None)"

subsection \<open>Interference\<close>

definition schedule_hotspot_bump :: "'w env \<Rightarrow> run_setup \<Rightarrow> ('w, bool) run_prog" where
  "schedule_hotspot_bump E S =
     (if rs_contention S \<noteq> ''hotspot'' \<or> \<not> rs_manager S \<or> rs_hotspot S = [] then ret False
      else if fle (rs_probability S) (Fin 0) then ret False
      else bnd (if flt (rs_probability S) (Fin 1)
                then bnd (ask (en_random E)) (\<lambda>x. ret (flt (rs_probability S) x))
                else ret False) (\<lambda>skip.
             if skip then ret False
             else (\<lambda>s. (Inr True, s\<lparr>aw_db := en_interference E (rs_hotspot S) (aw_db s)\<rparr>))))"

definition bump_hotspot :: "'w env \<Rightarrow> run_setup \<Rightarrow> ('w, unit) run_prog" where
  "bump_hotspot E S =
     bnd (schedule_hotspot_bump E S) (\<lambda>done.
       if done then set_run (\<lambda>r. r\<lparr>ar_bumps := ar_bumps r + 1\<rparr>) else ret ())"

subsection \<open>Keys\<close>

definition meta_key :: "run_setup \<Rightarrow> string" where
  "meta_key S = task_key (rs_namespace S) ''meta:task''"

definition store_key :: "run_setup \<Rightarrow> string \<Rightarrow> string" where
  "store_key S store_id = task_key (rs_namespace S) (''store:'' @ store_id @ '':detail'')"

definition product_key :: "run_setup \<Rightarrow> string" where
  "product_key S = task_key (rs_namespace S) (''product:'' @ rs_product S @ '':detail'')"

definition answer_key :: "run_setup \<Rightarrow> string" where
  "answer_key S = task_key (rs_namespace S) ''answer:final''"

text \<open>A run of steps that only matter when the task names a product, or a hot key exists.\<close>

definition when_set :: "string \<Rightarrow> ('w, pyval) run_prog \<Rightarrow> ('w, pyval) run_prog" where
  "when_set s m = (if s \<noteq> [] then m else ret PNone)"

subsection \<open>Baseline: exploring\<close>

definition base_get :: "'w env \<Rightarrow> pyval \<Rightarrow> string \<Rightarrow> ('w, pyval) run_prog" where
  "base_get E t key = run_tool ''tx_get'' (tx_get (en_peer E)) [(''tx_id'', t), (''key'', PStr key)]"

definition base_put :: "'w env \<Rightarrow> pyval \<Rightarrow> string \<Rightarrow> string option \<Rightarrow> ('w, pyval) run_prog" where
  "base_put E t key val =
     run_tool ''tx_put'' (tx_put (en_peer E)) [(''tx_id'', t), (''key'', PStr key), (''value'', opt_val val)]"

definition base_rollback :: "'w env \<Rightarrow> pyval \<Rightarrow> ('w, unit) run_prog" where
  "base_rollback E t =
     try_except
       (bnd (run_tool ''tx_rollback'' (tx_rollback (en_peer E)) [(''tx_id'', t)]) (\<lambda>_.
          set_run (\<lambda>r. r\<lparr>ar_rolled_back := ar_rolled_back r + 1\<rparr>)))
       (\<lambda>_. ret ())"

definition dict_or_empty :: "pyval \<Rightarrow> pyval" where
  "dict_or_empty v = (case v of PDict _ \<Rightarrow> v | _ \<Rightarrow> PDict [])"

definition summarize ::
  "'w env \<Rightarrow> run_setup \<Rightarrow> string \<Rightarrow> int \<Rightarrow> pyval \<Rightarrow> args res" where
  "summarize E S store_id attempt store_raw =
     candidate_summary_payload (en_unicode E) store_id attempt
       (dict_or_empty (parse_json_safely store_raw (PDict []))) (rs_order S) (rs_product S) (rs_profile S)"

definition explore_store :: "'w env \<Rightarrow> run_setup \<Rightarrow> nat \<times> string \<Rightarrow> ('w, unit) run_prog" where
  "explore_store E S = (\<lambda>(attempt_idx, store_id).
     bnd (set_run (\<lambda>r. r\<lparr>ar_txn_attempts := ar_txn_attempts r + 1,
                         ar_explore_attempts := ar_explore_attempts r + 1\<rparr>)) (\<lambda>_.
     bnd (run_tool ''tx_start'' (tx_start (en_peer E)) []) (\<lambda>start.
     bnd (lift_res (vget start ''ok'' PNone)) (\<lambda>okv.
       if \<not> truthy okv
       then bnd (lift_res (vget start ''error'' (PStr ''TX_START_FAILED''))) (\<lambda>reason.
              set_run (note_abort reason))
       else
         bnd (lift_res (vsub start ''tx_id'')) (\<lambda>t.
         bnd (try_except
                (bnd (base_get E t (meta_key S)) (\<lambda>_.
                 bnd (base_get E t (store_key S store_id)) (\<lambda>store_result.
                 bnd (when_set (rs_product S) (base_get E t (product_key S))) (\<lambda>_.
                 bnd (lift_res (vget store_result ''value'' PNone)) (\<lambda>store_raw.
                 bnd (lift_res (summarize E S store_id (int attempt_idx) store_raw)) (\<lambda>payload.
                 bnd (set_run (\<lambda>r. r\<lparr>ar_payloads := ar_payloads r @ [payload]\<rparr>)) (\<lambda>_.
                 bnd (base_put E t (attempt_candidate_key (rs_namespace S) (int attempt_idx))
                        (Some (dumps_compact (PDict payload)))) (\<lambda>_. ret ()))))))))
                (\<lambda>e. set_run (note_abort (PStr (exc_msg e))))) (\<lambda>_.
           base_rollback E t))))))"

subsection \<open>Baseline: committing the winner\<close>

datatype round_outcome = Retry | Stop | Finished pyval

datatype body_outcome = Break_loop | Return_result pyval | Fall_through

text \<open>The random wait before a retry; \<open>time.sleep\<close> has no modelled effect.\<close>

definition retry_or_stop :: "'w env \<Rightarrow> run_setup \<Rightarrow> int \<Rightarrow> ('w, round_outcome) run_prog" where
  "retry_or_stop E S used =
     (if should_retry_baseline_winner used (rs_policy S) (rs_max_attempts S)
      then bnd (set_run (\<lambda>r. r\<lparr>ar_retry_count := ar_retry_count r + 1\<rparr>)) (\<lambda>_.
           bnd (if rs_policy S = ''until_success'' then ask (en_uniform E) else ret (Fin 0)) (\<lambda>uniform.
             ret Retry))
      else ret Stop)"

definition value_of :: "pyval \<Rightarrow> pyval res" where
  "value_of result = (if truthy result then vget result ''value'' PNone else Inr PNone)"

definition winner_body :: "'w env \<Rightarrow> run_setup \<Rightarrow> string \<Rightarrow> pyfloat \<Rightarrow> int \<Rightarrow> pyval \<Rightarrow> ('w, body_outcome) run_prog" where
  "winner_body E S winner started used t =
     bnd (base_get E t (meta_key S)) (\<lambda>_.
     bnd (base_get E t (store_key S winner)) (\<lambda>store_result.
     bnd (when_set (rs_product S) (base_get E t (product_key S))) (\<lambda>product_result.
     bnd (when_set (rs_hotspot S) (base_get E t (rs_hotspot S))) (\<lambda>_.
     bnd (get_run ar_bumped) (\<lambda>bumped.
     bnd (if bumped then ret ()
          else bnd (bump_hotspot E S) (\<lambda>_. set_run (\<lambda>r. r\<lparr>ar_bumped := True\<rparr>))) (\<lambda>_.
     bnd (when_set (rs_hotspot S) (base_get E t (rs_hotspot S))) (\<lambda>_.
     bnd (lift_res (vget store_result ''value'' PNone)) (\<lambda>store_raw.
     bnd (lift_res (value_of product_result)) (\<lambda>product_raw.
     bnd (lift_res (semantic_recheck_winner_payload (en_unicode E) winner used store_raw (rs_order S)
                      (rs_product S) (rs_profile S) product_raw)) (\<lambda>(constraints_ok, reason, refreshed).
       if \<not> constraints_ok
       then bnd (set_run (note_recheck reason)) (\<lambda>_. ret Break_loop)
       else
         bnd (lift_res (order_array_from_submit_args (rs_order S))) (\<lambda>(final_answer, final_raw).
         bnd (base_put E t (answer_key S) final_raw) (\<lambda>_.
         bnd (run_tool ''tx_commit'' (tx_commit (en_peer E)) [(''tx_id'', t)]) (\<lambda>commit.
         bnd (lift_res (vget commit ''ok'' PNone)) (\<lambda>okv.
           if truthy okv
           then bnd (set_run (\<lambda>r. r\<lparr>ar_committed := ar_committed r + 1\<rparr>)) (\<lambda>_.
                bnd (ask (en_time E)) (\<lambda>now.
                bnd (set_run (\<lambda>r. r\<lparr>ar_commit_latency := fsub now started\<rparr>)) (\<lambda>_.
                bnd (finish_committed E S winner final_answer final_raw) (\<lambda>v. ret (Return_result v)))))
           else bnd (lift_res (vget commit ''error'' (PStr ''TX_COMMIT_FAILED''))) (\<lambda>reason.
                bnd (set_run (note_abort reason)) (\<lambda>_. ret Fall_through))))))))))))))))"

definition winner_round :: "'w env \<Rightarrow> run_setup \<Rightarrow> string \<Rightarrow> pyfloat \<Rightarrow> int \<Rightarrow> ('w, round_outcome) run_prog" where
  "winner_round E S winner started used =
     bnd (set_run (\<lambda>r. r\<lparr>ar_winner_attempts := ar_winner_attempts r + 1,
                         ar_winner_rounds := ar_winner_rounds r + 1,
                         ar_txn_attempts := ar_txn_attempts r + 1\<rparr>)) (\<lambda>_.
     bnd (run_tool ''tx_start'' (tx_start (en_peer E)) []) (\<lambda>start.
     bnd (lift_res (vget start ''ok'' PNone)) (\<lambda>okv.
       if \<not> truthy okv
       then bnd (lift_res (vget start ''error'' (PStr ''TX_START_FAILED''))) (\<lambda>reason.
            bnd (set_run (note_abort reason)) (\<lambda>_. retry_or_stop E S used))
       else
         bnd (lift_res (vsub start ''tx_id'')) (\<lambda>t.
         bnd (try_except (winner_body E S winner started used t)
                (\<lambda>e. bnd (set_run (note_abort (PStr (exc_msg e)))) (\<lambda>_. ret Fall_through))) (\<lambda>outcome.
           case outcome of
             Break_loop \<Rightarrow> ret Stop
           | Return_result v \<Rightarrow> ret (Finished v)
           | Fall_through \<Rightarrow> bnd (base_rollback E t) (\<lambda>_. retry_or_stop E S used))))))"

text \<open>The \<open>while True\<close> loop: the result of the run if it returned one, \<open>None\<close> if it never ends.\<close>

partial_function (option) winner_loop ::
  "(int \<Rightarrow> ('w, round_outcome) run_prog) \<Rightarrow> int \<Rightarrow> 'w agent_world \<Rightarrow>
   (pyval option res \<times> 'w agent_world) option" where
  "winner_loop one_round used s =
     (case one_round (used + 1) s of
        (Inl e, s') \<Rightarrow> Some (Inl e, s')
      | (Inr Retry, s') \<Rightarrow> winner_loop one_round (used + 1) s'
      | (Inr Stop, s') \<Rightarrow> Some (Inr None, s')
      | (Inr (Finished v), s') \<Rightarrow> Some (Inr (Some v), s'))"

declare winner_loop.simps [code]

definition loop_prog :: "('s \<Rightarrow> ('a res \<times> 's) option) \<Rightarrow> ('s, 'a) prog" where
  "loop_prog f s = (case f s of None \<Rightarrow> (Inl (PyExc NonTermination []), s) | Some x \<Rightarrow> x)"

definition baseline_run :: "'w env \<Rightarrow> run_setup \<Rightarrow> string list \<Rightarrow> ('w, pyval) run_prog" where
  "baseline_run E S candidates =
     bnd (ask (en_time E)) (\<lambda>explore_started.
     bnd (for_each (explore_store E S) (enumerate 1 candidates)) (\<lambda>_.
     bnd (ask (en_time E)) (\<lambda>now.
     bnd (set_run (\<lambda>r. r\<lparr>ar_explore_latency := fsub now explore_started\<rparr>)) (\<lambda>_.
     bnd (ask (en_time E)) (\<lambda>select_started.
     bnd (get_run ar_payloads) (\<lambda>payloads.
     bnd (lift_res (select_winner_payload payloads)) (\<lambda>winner_payload.
     bnd (ask (en_time E)) (\<lambda>now.
     bnd (set_run (\<lambda>r. r\<lparr>ar_select_latency := fsub now select_started,
                         ar_winner_store := varg winner_payload ''candidate_store_id''\<rparr>)) (\<lambda>_.
     bnd (get_run ar_abort_reason) (\<lambda>abort_reason.
     bnd (get_run ar_winner_store) (\<lambda>winner.
       if winner = []
       then finish_run S False PNone None [] (Some (or_else abort_reason (PStr ''NO_WINNER_SELECTED'')))
       else
         bnd (ask (en_time E)) (\<lambda>commit_started.
         bnd (loop_prog (winner_loop (winner_round E S winner commit_started) 0)) (\<lambda>result.
           case result of
             Some v \<Rightarrow> ret v
           | None \<Rightarrow>
               bnd (ask (en_time E)) (\<lambda>now.
               bnd (set_run (\<lambda>r. r\<lparr>ar_commit_latency := fsub now commit_started\<rparr>)) (\<lambda>_.
                 finish_run S False PNone None winner None)))))))))))))))"

subsection \<open>Tree transaction: exploring in branches\<close>

definition tree_get :: "'w env \<Rightarrow> string \<Rightarrow> int \<Rightarrow> string \<Rightarrow> ('w, pyval) run_prog" where
  "tree_get E t b key =
     run_tool ''tree_tx_get'' (tree_tx_get (en_peer E))
       [(''tx_id'', PStr t), (''branch_id'', PInt b), (''key'', PStr key), (''strict'', PBool False)]"

definition tree_abort :: "'w env \<Rightarrow> string \<Rightarrow> ('w, unit) run_prog" where
  "tree_abort E t =
     bnd (run_tool ''tree_tx_abort'' (tree_tx_abort (en_peer E)) [(''tx_id'', PStr t)]) (\<lambda>_. ret ())"

text \<open>The batched calls go to the client directly; what they did is recorded afterwards.\<close>

definition branch_candidates :: "'w env \<Rightarrow> string \<Rightarrow> string list \<Rightarrow> ('w, int list) run_prog" where
  "branch_candidates E t candidates =
     bnd (on_db (agent_tree_branch_many (en_peer E) t 0 (int (length candidates)))) (\<lambda>created.
     bnd (set_run (record_tool ''tree_tx_branch_many''
            [(''tx_id'', PStr t), (''parent_branch_id'', PInt 0), (''count'', PInt (int (length candidates)))]
            (PDict [(''ok'', PBool True), (''tx_id'', PStr t),
                    (''branch_ids'', PList (map PInt created))]))) (\<lambda>_.
       if length created \<noteq> length candidates
       then raise (PyExc RuntimeError ''TREE_BRANCH_MANY_COUNT_MISMATCH'')
       else ret created))"

definition read_stores ::
  "'w env \<Rightarrow> string \<Rightarrow> (int \<times> string) list \<Rightarrow> ('w, string option list) run_prog" where
  "read_stores E t requests =
     bnd (on_db (agent_tree_get_many (en_peer E) t requests False)) (\<lambda>store_values.
     bnd (set_run (record_tool ''tree_tx_get_many''
            [(''tx_id'', PStr t),
             (''items'', PList (map (\<lambda>(b, key). PDict
                [(''branch_id'', PInt b), (''key'', PStr key), (''strict'', PBool False)]) requests))]
            (PDict [(''ok'', PBool True), (''tx_id'', PStr t),
              (''items'', PList (map (\<lambda>((b, key), v). PDict
                [(''branch_id'', PInt b), (''key'', PStr key), (''value'', opt_val v)])
                (zip requests store_values)))]))) (\<lambda>_.
       ret store_values))"

text \<open>One branch: its payload, filed under its id, and the request that writes it.\<close>

definition branch_payload ::
  "'w env \<Rightarrow> run_setup \<Rightarrow> (int, string) dict \<Rightarrow> (int \<times> string) \<times> string option \<Rightarrow>
   (int, args) dict \<times> (int \<times> string \<times> string) list \<Rightarrow>
   ((int, args) dict \<times> (int \<times> string \<times> string) list) res" where
  "branch_payload E S branch_to_store = (\<lambda>((b, key), store_value) (payloads, puts).
     rbind (case dget branch_to_store b of
              Some store_id \<Rightarrow> Inr store_id
            | None \<Rightarrow> Inl (PyExc KeyError (str_int b))) (\<lambda>store_id.
     rbind (summarize E S store_id b (opt_val store_value)) (\<lambda>payload.
       Inr (dset payloads b payload,
            puts @ [(b, branch_candidate_key (rs_namespace S) b, dumps_compact (PDict payload))]))))"

definition write_payloads ::
  "'w env \<Rightarrow> string \<Rightarrow> (int \<times> string \<times> string) list \<Rightarrow> ('w, unit) run_prog" where
  "write_payloads E t puts =
     bnd (on_db (agent_tree_put_many (en_peer E) t puts)) (\<lambda>_.
       set_run (record_tool ''tree_tx_put_many''
         [(''tx_id'', PStr t),
          (''items'', PList (map (\<lambda>(b, key, val). PDict [(''branch_id'', PInt b), (''key'', PStr key)]) puts))]
         (PDict [(''ok'', PBool True), (''tx_id'', PStr t), (''count'', PInt (int (length puts)))])))"

text \<open>One branch per candidate: read the stores, summarize them, file and write the payloads.\<close>

definition explore_branches ::
  "'w env \<Rightarrow> run_setup \<Rightarrow> string \<Rightarrow> (string \<times> int) list \<Rightarrow> ('w, (int, args) dict) run_prog" where
  "explore_branches E S t pairs =
     (let branch_to_store = fold (\<lambda>(store_id, b) d. dset d b store_id) pairs [];
          requests = map (\<lambda>(store_id, b). (b, store_key S store_id)) pairs in
      bnd (read_stores E t requests) (\<lambda>store_values.
      bnd (lift_res (rfold (branch_payload E S branch_to_store) (zip requests store_values) ([], [])))
        (\<lambda>(payloads, puts).
      bnd (write_payloads E t puts) (\<lambda>_. ret payloads))))"

definition tree_explore :: "'w env \<Rightarrow> run_setup \<Rightarrow> string \<Rightarrow> string list \<Rightarrow> ('w, (int, args) dict) run_prog" where
  "tree_explore E S t candidates =
     bnd (ask (en_time E)) (\<lambda>explore_started.
     bnd (when_set (meta_key S) (tree_get E t 0 (meta_key S))) (\<lambda>_.
     bnd (when_set (rs_product S) (tree_get E t 0 (product_key S))) (\<lambda>_.
     bnd (branch_candidates E t candidates) (\<lambda>created.
     bnd (explore_branches E S t (zip candidates created)) (\<lambda>payloads.
     bnd (ask (en_time E)) (\<lambda>now.
     bnd (set_run (\<lambda>r. r\<lparr>ar_explore_latency := fsub now explore_started\<rparr>)) (\<lambda>_.
       ret payloads)))))))"

subsection \<open>Tree transaction: the winner branch\<close>

text \<open>The branch of the winning payload, else the least branch; \<open>None\<close> without branches.\<close>

definition find_winner_branch :: "(int, args) dict \<Rightarrow> string \<Rightarrow> (int \<times> string) option" where
  "find_winner_branch payloads winner =
     (case (if winner = [] then None
            else find (\<lambda>(b, payload). varg payload ''candidate_store_id'' = winner) payloads) of
        Some (b, payload) \<Rightarrow> Some (b, winner)
      | None \<Rightarrow>
          (if payloads = [] then None
           else let b = Min (set (map fst payloads)) in
             Some (b, varg (dget_def payloads b []) ''candidate_store_id'')))"

definition tree_select :: "'w env \<Rightarrow> (int, args) dict \<Rightarrow> ('w, int option) run_prog" where
  "tree_select E payloads =
     bnd (ask (en_time E)) (\<lambda>select_started.
     bnd (lift_res (select_winner_payload (map snd payloads))) (\<lambda>winner_payload.
     bnd (ask (en_time E)) (\<lambda>now.
     bnd (set_run (\<lambda>r. r\<lparr>ar_select_latency := fsub now select_started,
                         ar_winner_store := varg winner_payload ''candidate_store_id''\<rparr>)) (\<lambda>_.
       case find_winner_branch payloads (varg winner_payload ''candidate_store_id'') of
         None \<Rightarrow> ret None
       | Some (b, winner) \<Rightarrow>
           bnd (set_run (\<lambda>r. r\<lparr>ar_winner_store := winner\<rparr>)) (\<lambda>_. ret (Some b))))))"

definition tree_refresh :: "'w env \<Rightarrow> string \<Rightarrow> int \<Rightarrow> string \<Rightarrow> ('w, pyval) run_prog" where
  "tree_refresh E t b key =
     run_tool ''tree_tx_refresh_winner'' (tree_tx_refresh_winner (en_peer E))
       [(''tx_id'', PStr t), (''branch_id'', PInt b), (''key'', PStr key)]"

text \<open>
  Refresh the winner's data and check it again; a failed check aborts the transaction and ends
  the run with a result.
\<close>

definition tree_recheck ::
  "'w env \<Rightarrow> run_setup \<Rightarrow> string \<Rightarrow> int \<Rightarrow> string \<Rightarrow> pyfloat \<Rightarrow> ('w, pyval option) run_prog" where
  "tree_recheck E S t b winner commit_started =
     bnd (when_set (rs_hotspot S) (tree_refresh E t b (rs_hotspot S))) (\<lambda>_.
     bnd (tree_refresh E t b (store_key S winner)) (\<lambda>store_refresh.
     bnd (when_set (rs_product S) (tree_refresh E t b (product_key S))) (\<lambda>product_refresh.
     bnd (lift_res (value_of store_refresh)) (\<lambda>store_raw.
     bnd (lift_res (value_of product_refresh)) (\<lambda>product_raw.
     bnd (lift_res (semantic_recheck_winner_payload (en_unicode E) winner b store_raw (rs_order S)
                      (rs_product S) (rs_profile S) product_raw)) (\<lambda>(constraints_ok, reason, refreshed).
       if constraints_ok then ret None
       else
         bnd (set_run (note_recheck reason)) (\<lambda>_.
         bnd (tree_abort E t) (\<lambda>_.
         bnd (ask (en_time E)) (\<lambda>now.
         bnd (set_run (\<lambda>r. r\<lparr>ar_commit_latency := fsub now commit_started\<rparr>)) (\<lambda>_.
         bnd (finish_run S False PNone None winner None) (\<lambda>v. ret (Some v))))))))))))"

definition tree_put_answer ::
  "'w env \<Rightarrow> run_setup \<Rightarrow> string \<Rightarrow> int \<Rightarrow> string option \<Rightarrow> ('w, pyval) run_prog" where
  "tree_put_answer E S t b final_raw =
     bnd (run_tool ''tree_tx_put'' (tree_tx_put (en_peer E))
            [(''tx_id'', PStr t), (''branch_id'', PInt b), (''key'', PStr (answer_key S)),
             (''value'', opt_val final_raw)]) (\<lambda>_.
       run_tool ''tree_tx_commit_retry'' (tree_tx_commit_retry (en_peer E)) [(''tx_id'', PStr t)])"

definition commit_failure :: "pyval \<Rightarrow> pyval res" where
  "commit_failure result =
     rbind (vget result ''abort_reason'' (PStr [])) (\<lambda>reason.
       if truthy reason then Inr reason else vget result ''error'' (PStr ''TREE_COMMIT_FAILED''))"

text \<open>Put the answer and commit once more; an abort of this commit aborts the transaction.\<close>

definition tree_commit_again ::
  "'w env \<Rightarrow> run_setup \<Rightarrow> string \<Rightarrow> int \<Rightarrow> string option \<Rightarrow> ('w, pyval option) run_prog" where
  "tree_commit_again E S t b final_raw =
     bnd (tree_put_answer E S t b final_raw) (\<lambda>commit_result.
     bnd (lift_res (vget commit_result ''ok'' PNone)) (\<lambda>okv.
       if truthy okv then bnd (set_run (\<lambda>r. r\<lparr>ar_committed := 1\<rparr>)) (\<lambda>_. ret None)
       else
         bnd (set_run (\<lambda>r. r\<lparr>ar_abort_count := ar_abort_count r + 1\<rparr>)) (\<lambda>_.
         bnd (lift_res (commit_failure commit_result)) (\<lambda>reason.
         bnd (set_run (\<lambda>r. r\<lparr>ar_abort_reason := reason,
                             ar_abort_reasons := ar_abort_reasons r @ [reason]\<rparr>)) (\<lambda>_.
         bnd (tree_abort E t) (\<lambda>_. ret None))))))"

text \<open>
  Put the answer and commit; after an abort refresh, check, put and commit once more. The result
  is a finished run, if there is one.
\<close>

definition tree_commit ::
  "'w env \<Rightarrow> run_setup \<Rightarrow> string \<Rightarrow> int \<Rightarrow> string \<Rightarrow> pyfloat \<Rightarrow> string option \<Rightarrow>
   ('w, pyval option) run_prog" where
  "tree_commit E S t b winner commit_started final_raw =
     bnd (tree_put_answer E S t b final_raw) (\<lambda>commit_result.
     bnd (lift_res (vget commit_result ''ok'' PNone)) (\<lambda>okv.
       if truthy okv then bnd (set_run (\<lambda>r. r\<lparr>ar_committed := 1\<rparr>)) (\<lambda>_. ret None)
       else
         bnd (set_run (\<lambda>r. r\<lparr>ar_abort_count := ar_abort_count r + 1,
                             ar_retry_count := ar_retry_count r + 1,
                             ar_winner_rounds := ar_winner_rounds r + 1\<rparr>)) (\<lambda>_.
         bnd (lift_res (commit_failure commit_result)) (\<lambda>reason.
         bnd (set_run (\<lambda>r. r\<lparr>ar_abort_reason := reason,
                             ar_abort_reasons := ar_abort_reasons r @ [reason]\<rparr>)) (\<lambda>_.
         bnd (tree_recheck E S t b winner commit_started) (\<lambda>finished.
           case finished of
             Some v \<Rightarrow> ret (Some v)
           | None \<Rightarrow> tree_commit_again E S t b final_raw))))))"

text \<open>After the commit phase: a run that committed returns its result.\<close>

definition tree_conclude ::
  "'w env \<Rightarrow> run_setup \<Rightarrow> string \<Rightarrow> pyfloat \<Rightarrow> pyval \<Rightarrow> string option \<Rightarrow> ('w, pyval option) run_prog" where
  "tree_conclude E S winner commit_started final_answer final_raw =
     bnd (ask (en_time E)) (\<lambda>now.
     bnd (set_run (\<lambda>r. r\<lparr>ar_commit_latency := fsub now commit_started\<rparr>)) (\<lambda>_.
     bnd (get_run ar_committed) (\<lambda>committed.
       if committed \<noteq> 0
       then bnd (finish_committed E S winner final_answer final_raw) (\<lambda>v. ret (Some v))
       else ret None)))"

definition tree_submit ::
  "'w env \<Rightarrow> run_setup \<Rightarrow> string \<Rightarrow> int \<Rightarrow> string \<Rightarrow> pyfloat \<Rightarrow> ('w, pyval option) run_prog" where
  "tree_submit E S t b winner commit_started =
     bnd (lift_res (order_array_from_submit_args (rs_order S))) (\<lambda>(final_answer, final_raw).
     bnd (tree_commit E S t b winner commit_started final_raw) (\<lambda>finished.
       case finished of
         Some v \<Rightarrow> ret (Some v)
       | None \<Rightarrow> tree_conclude E S winner commit_started final_answer final_raw))"

definition tree_winner_phase ::
  "'w env \<Rightarrow> run_setup \<Rightarrow> string \<Rightarrow> int \<Rightarrow> ('w, pyval option) run_prog" where
  "tree_winner_phase E S t b =
     bnd (bump_hotspot E S) (\<lambda>_.
     bnd (ask (en_time E)) (\<lambda>commit_started.
     bnd (set_run (\<lambda>r. r\<lparr>ar_winner_attempts := 1, ar_winner_rounds := 1\<rparr>)) (\<lambda>_.
     bnd (run_tool ''tree_tx_winner'' (tree_tx_winner (en_peer E))
            [(''tx_id'', PStr t), (''branch_id'', PInt b)]) (\<lambda>_.
     bnd (get_run ar_winner_store) (\<lambda>winner.
     bnd (tree_recheck E S t b winner commit_started) (\<lambda>finished.
       case finished of
         Some v \<Rightarrow> ret (Some v)
       | None \<Rightarrow> tree_submit E S t b winner commit_started))))))"

definition tree_body :: "'w env \<Rightarrow> run_setup \<Rightarrow> string \<Rightarrow> string list \<Rightarrow> ('w, pyval option) run_prog" where
  "tree_body E S t candidates =
     bnd (tree_explore E S t candidates) (\<lambda>payloads.
     bnd (tree_select E payloads) (\<lambda>winner_branch.
       case winner_branch of
         None \<Rightarrow>
           bnd (tree_abort E t) (\<lambda>_.
           bnd (set_run (\<lambda>r. r\<lparr>ar_abort_count := max 1 (ar_abort_count r),
                  ar_abort_reasons := (if ar_abort_reasons r = [] then [PStr ''NO_BRANCH_CREATED'']
                                       else ar_abort_reasons r)\<rparr>)) (\<lambda>_.
           bnd (get_run ar_abort_reason) (\<lambda>reason.
           bnd (finish_run S False PNone None [] (Some (or_else reason (PStr ''NO_BRANCH_CREATED''))))
             (\<lambda>v. ret (Some v)))))
       | Some b \<Rightarrow> tree_winner_phase E S t b))"

definition tree_give_up :: "'w env \<Rightarrow> run_setup \<Rightarrow> string \<Rightarrow> ('w, pyval) run_prog" where
  "tree_give_up E S t =
     bnd (try_except (tree_abort E t) (\<lambda>_. ret ())) (\<lambda>_.
     bnd (get_run ar_winner_store) (\<lambda>winner.
       finish_run S False PNone None winner None))"

definition tree_run :: "'w env \<Rightarrow> run_setup \<Rightarrow> string list \<Rightarrow> ('w, pyval) run_prog" where
  "tree_run E S candidates =
     bnd (run_tool ''tree_tx_start'' (tree_tx_start (en_peer E)) []) (\<lambda>start.
     bnd (lift_res (vget start ''ok'' PNone)) (\<lambda>okv.
       if \<not> truthy okv
       then bnd (lift_res (vget start ''error'' (PStr ''TREE_TX_START_FAILED''))) (\<lambda>reason.
            bnd (set_run (\<lambda>r. r\<lparr>ar_abort_count := 1, ar_abort_reason := reason,
                                ar_abort_reasons := [reason]\<rparr>)) (\<lambda>_.
              finish_run S False PNone None [] (Some reason)))
       else
         bnd (lift_res (vsub start ''tx_id'')) (\<lambda>tv.
         let t = py_str tv in
         bnd (set_run (\<lambda>r. r\<lparr>ar_txn_attempts := 1, ar_explore_attempts := 1\<rparr>)) (\<lambda>_.
         bnd (try_except (tree_body E S t candidates)
                (\<lambda>e. bnd (set_run (note_abort (PStr (exc_msg e)))) (\<lambda>_. ret None))) (\<lambda>finished.
           case finished of
             Some v \<Rightarrow> ret v
           | None \<Rightarrow> tree_give_up E S t)))))"

subsection \<open>The run\<close>

definition setup_of ::
  "pyval \<Rightarrow> string \<Rightarrow> string \<Rightarrow> int \<Rightarrow> string \<Rightarrow> bool \<Rightarrow> pyfloat \<Rightarrow> string \<Rightarrow> int \<Rightarrow> run_setup res" where
  "setup_of task namespace mode top_k contention manager probability policy max_attempts =
     rbind (vsub task ''id'') (\<lambda>task_id.
     rbind (required_order task) (\<lambda>order.
     rbind (find_store_and_product_ids task) (\<lambda>(store_id, product_id).
     rbind (expected_product_profile task) (\<lambda>profile.
       Inr \<lparr>rs_task_id = py_str task_id, rs_namespace = namespace, rs_mode = mode, rs_top_k = top_k,
            rs_contention = contention, rs_manager = manager, rs_probability = probability,
            rs_policy = policy, rs_max_attempts = max_attempts, rs_order = order,
            rs_store = store_id, rs_product = product_id, rs_profile = profile,
            rs_hotspot = (if contention = ''hotspot'' then hotspot_key namespace else [])\<rparr>))))"

definition run_init :: "pyval \<Rightarrow> agent_run" where
  "run_init instructions =
     \<lparr>ar_trace = [],
      ar_messages = [PDict [(''role'', PStr ''system''),
          (''content'', PStr ''Deterministic no-agent executor for Tree-DB VitaBench experiments.'')],
        PDict [(''role'', PStr ''user''), (''content'', instructions)]],
      ar_abort_reason = PStr [], ar_abort_reasons = [], ar_recheck_reasons = [], ar_retry_count = 0,
      ar_abort_count = 0, ar_recheck_fails = 0, ar_committed = 0, ar_rolled_back = 0,
      ar_txn_attempts = 0, ar_bumps = 0, ar_winner_store = [], ar_candidates = [],
      ar_branch_count = 0, ar_explore_attempts = 0, ar_winner_attempts = 0, ar_winner_rounds = 0,
      ar_select_latency = Fin 0, ar_explore_latency = Fin 0, ar_commit_latency = Fin 0,
      ar_payloads = [], ar_bumped = False\<rparr>"

definition candidates_of :: "'w env \<Rightarrow> run_setup \<Rightarrow> ('w, string list) run_prog" where
  "candidates_of E S =
     (let ids = [(''namespace'', PStr (rs_namespace S)), (''task_id'', PStr (rs_task_id S))] in
      bnd (run_tool ''get_task_context'' (get_task_context (en_peer E)) ids) (\<lambda>_.
      bnd (run_tool ''list_candidate_stores'' (list_candidate_stores (en_peer E))
             (ids @ [(''include_details'', PBool False)])) (\<lambda>stores_result.
      bnd (lift_res (vget stores_result ''ok'' PNone)) (\<lambda>okv.
      bnd (lift_res (if truthy okv then vget stores_result ''stores'' (PList []) else Inr (PList [])))
        (\<lambda>stores.
      bnd (lift_res (py_iter stores)) (\<lambda>candidate_stores.
      bnd (lift_res (choose_candidate_store_ids candidate_stores (rs_store S) (rs_top_k S))) (\<lambda>candidates.
      bnd (set_run (\<lambda>r. r\<lparr>ar_candidates := candidates, ar_branch_count := int (length candidates)\<rparr>))
        (\<lambda>_. ret candidates))))))))"

definition agent_run_prog :: "'w env \<Rightarrow> run_setup \<Rightarrow> ('w, pyval) run_prog" where
  "agent_run_prog E S =
     bnd (candidates_of E S) (\<lambda>candidates.
       if candidates = [] then finish_run S False PNone None [] (Some (PStr ''NO_CANDIDATE_STORE''))
       else if rs_mode S = ''baseline'' then baseline_run E S candidates
       else tree_run E S candidates)"

definition reference_agent_run ::
  "'w env \<Rightarrow> pyval \<Rightarrow> string \<Rightarrow> string \<Rightarrow> int \<Rightarrow> string \<Rightarrow> bool \<Rightarrow> pyfloat \<Rightarrow> string \<Rightarrow> int \<Rightarrow>
   ('w, pyval) db_prog" where
  "reference_agent_run E task namespace mode top_k contention manager probability policy max_attempts =
     bnd (lift_res (setup_of task namespace mode top_k contention manager probability policy max_attempts))
       (\<lambda>S. bnd (lift_res (vget task ''instructions'' (PStr []))) (\<lambda>instructions c.
         case agent_run_prog E S \<lparr>aw_db = c, aw_run = run_init instructions\<rparr> of
           (r, s) \<Rightarrow> (r, aw_db s)))"

end
