(* ===== verification/Vita_Agent_Logic.thy ===== *)
theory Vita_Agent_Logic
  imports Vita_Agent Tool_Returns
begin

text \<open>
  Triples for the programs of a run of the reference agent, which carry the database client and
  the variables of the run, and the fact that the pure functions a run uses do not diverge.
\<close>

subsection \<open>Programs of a run\<close>

text \<open>What the properties look at: the client and the number of commits the run counted.\<close>

definition run_at :: "('w agent_db \<Rightarrow> int \<Rightarrow> bool) \<Rightarrow> 'w agent_world \<Rightarrow> bool" where
  "run_at P s = P (aw_db s) (ar_committed (aw_run s))"

lemma triple_on_db:
  assumes "\<And>n. triple (\<lambda>d. P d n) m (\<lambda>x d. Q x d n) (\<lambda>d. R d n)"
  shows "triple (run_at P) (on_db m) (\<lambda>x. run_at (Q x)) (run_at R)"
  using assms by (fastforce simp: triple_def on_db_def run_at_def split: prod.splits sum.splits)

lemma keeps_on_db [triple_intros]: "(\<And>n. keeps (\<lambda>d. P d n) m) \<Longrightarrow> keeps (run_at P) (on_db m)"
  unfolding keeps_def by (rule triple_on_db)

lemma keeps_set_run [triple_intros]: "(\<And>r. ar_committed (f r) = ar_committed r) \<Longrightarrow> keeps (run_at P) (set_run f)"
  by (simp add: keeps_def triple_def set_run_def run_at_def)

lemma keeps_get_run [triple_intros]: "keeps P (get_run f)"
  by (simp add: keeps_def triple_def get_run_def)

lemma keeps_ask [triple_intros]: "(\<And>d w n. P (d\<lparr>adb_net := w\<rparr>) n = P d n) \<Longrightarrow> keeps (run_at P) (ask f)"
  by (auto simp: keeps_def triple_def ask_def run_at_def split: prod.splits)

lemma committed_notes [simp]:
  "ar_committed (record_tool name args result r) = ar_committed r"
  "ar_committed (note_abort reason r) = ar_committed r"
  "ar_committed (note_recheck reas r) = ar_committed r"
  by (simp_all add: record_tool_def note_abort_def note_recheck_def)

lemma triple_run_tool:
  assumes "\<And>n. triple (\<lambda>d. P d n) (tool args) (\<lambda>x d. Q x d n) (\<lambda>d. R d n)"
  shows "triple (run_at P) (run_tool name tool args) (\<lambda>x. run_at (Q x)) (run_at R)"
  unfolding run_tool_def
proof (rule triple_bnd [OF triple_on_db [OF assms]])
  fix x
  have "keeps (run_at (Q x)) (set_run (record_tool name args x))" by (intro keeps_set_run) simp
  then show "triple (run_at (Q x)) (bnd (set_run (record_tool name args x)) (\<lambda>_. ret x)) (\<lambda>x. run_at (Q x)) (run_at R)"
    by (auto simp: keeps_def triple_def bnd_def set_run_def ret_def)
qed

lemma keeps_run_tool [triple_intros]:
  "(\<And>n. keeps (\<lambda>d. P d n) (tool args)) \<Longrightarrow> keeps (run_at P) (run_tool name tool args)"
  unfolding keeps_def by (rule triple_run_tool)

subsection \<open>The pure functions of a run do not diverge\<close>

lemma tame_values [tame_intros]:
  "tame (to_float v)" "tame (float_of_int i)" "tame (fdiv x y)" "tame (vitem d k)" "tame (vsub v k)"
  "tame (vlen v)" "tame (vindex v n)" "tame (vvalues v)" "tame (pair_item p)"
proof -
  show f: "tame (float_of_int i)" for i by (auto simp: tame_def float_of_int_def split: pyfloat.splits)
  show "tame (to_float v)" using f by (cases v) (auto simp: tame_def split: option.splits)
  show "tame (fdiv x y)" by (cases y; cases x) (auto simp: tame_def)
  show "tame (vitem d k)" "tame (vlen v)" "tame (vindex v n)" "tame (vvalues v)"
    by (auto simp: tame_def vitem_def vlen_def vindex_def vvalues_def no_attr_def split: pyval.splits option.splits)
  show "tame (vsub v k)" by (auto simp: tame_def vsub_def vitem_def split: pyval.splits option.splits)
  show "tame (pair_item p)"
    by (cases p) (auto simp: tame_def pair_item_def split: sum.splits list.splits pyval.splits)
qed

lemma tame_to_dict [tame_intros]: "tame (to_dict v)"
proof (cases v)
  case (PDict d)
  then show ?thesis by (simp add: tame_def)
qed (simp_all add: to_dict_def tame_intros)

lemma tame_selection [tame_intros]:
  "tame (jaccard_similarity l r)" "tame (tag_tokens u v)" "tame (price_bonus v w)"
  "tame (product_target_of u i v)" "tame (product_score u t v)" "tame (best_step u t v a)"
  "tame (candidate_product_from_store u v i w)"
  unfolding jaccard_similarity_def tag_tokens_def price_bonus_def product_target_of_def product_score_def
    best_step_def candidate_product_from_store_def Let_def
  by (intro tame_intros)+

lemma tame_summary [tame_intros]:
  "tame (candidate_summary_payload u s a d e i w)" "tame (candidate_rank_key p)" "tame (select_winner_payload ps)"
  "tame (semantic_recheck_winner_payload u s a raw e i w q)" "tame (store_ids_of ss)"
  "tame (choose_candidate_store_ids ss i k)"
proof -
  show s: "tame (candidate_summary_payload u s a d e i w)" for d
    unfolding candidate_summary_payload_def Let_def by (intro tame_intros)
  show k: "tame (candidate_rank_key p)" for p
    unfolding candidate_rank_key_def Let_def by (intro tame_intros)
  show "tame (select_winner_payload ps)"
    unfolding select_winner_payload_def by (intro tame_intros k)
  show "tame (semantic_recheck_winner_payload u s a raw e i w q)"
    unfolding semantic_recheck_winner_payload_def
    by (auto intro!: tame_intros s split: pyval.splits list.splits)
  show "tame (store_ids_of ss)"
    unfolding store_ids_of_def by (intro tame_intros)
  then show "tame (choose_candidate_store_ids ss i k)"
    unfolding choose_candidate_store_ids_def Let_def by (intro tame_intros)
qed

lemma tame_run [tame_intros]:
  "tame (order_array_from_submit_args a)" "tame (summarize E S s i v)" "tame (branch_payload E S bts z st)"
  "tame (value_of v)" "tame (commit_failure v)" "tame (build_agent_result S b v raw sel ov r)"
proof -
  show "tame (order_array_from_submit_args a)"
    unfolding order_array_from_submit_args_def Let_def by (intro tame_intros)
  show s: "tame (summarize E S s i v)" for s i v unfolding summarize_def by (intro tame_intros)
  show "tame (branch_payload E S bts z st)"
  proof -
    obtain b k v ps puts where "z = ((b, k), v)" "st = (ps, puts)" by (metis surj_pair)
    then show ?thesis by (simp add: branch_payload_def) (intro tame_intros s, simp)
  qed
  show "tame (value_of v)" unfolding value_of_def by (intro tame_intros)
  show "tame (commit_failure v)" unfolding commit_failure_def by (intro tame_intros)
  show "tame (build_agent_result S b v raw sel ov r)"
    unfolding build_agent_result_def by (intro tame_intros)
qed

end
