(* ===== verification/Vita_Agent_Mini.thy ===== *)
theory Vita_Agent_Mini
  imports Vita_Agent_Logic
begin

text \<open>
  One tree transaction of a run on the in-memory back end: what it may look like between the steps
  (a root and branches that hold the answer or their own private key), and what each operation and
  each tool of the client does to it.
\<close>

subsection \<open>One tree transaction on the in-memory back end\<close>

text \<open>
  What a run starts from and what it may write: the store, the open plain and tree transactions,
  the id of its own, the key and text of the answer, and the private key of each branch.
\<close>

record star =
  st_store :: "string \<Rightarrow> string option"
  st_txs :: "(string \<Rightarrow> tx_context option)"
  st_trees :: "(string \<Rightarrow> mini_tree_context option)"
  st_tid :: string
  st_answer :: string
  st_text :: string
  st_private :: "int \<Rightarrow> string"

definition star_ok :: "star \<Rightarrow> bool" where
  "star_ok F = (st_trees F (st_tid F) = None \<and> (\<forall>b. st_private F b \<noteq> st_answer F))"

text \<open>A transaction whose branches all grow from the read-only root.\<close>

definition flat_branch :: "star \<Rightarrow> mini_tree_context \<Rightarrow> int \<Rightarrow> mini_tree_branch \<Rightarrow> bool" where
  "flat_branch F ctx b br =
     (0 \<le> b \<and> b < mtc_next_branch_id ctx \<and> mtb_branch_id br = b \<and> mtb_parent_branch_id br = 0 \<and>
      dict_ok (mtb_writes br) \<and> (b = 0 \<longrightarrow> mtb_writes br = []) \<and>
      (\<forall>k v. dget (mtb_writes br) k = Some v \<longrightarrow> (k = st_answer F \<and> v = st_text F) \<or> k = st_private F b))"

definition flat_tree :: "star \<Rightarrow> mini_tree_context \<Rightarrow> bool" where
  "flat_tree F ctx =
     (mtc_active ctx \<and> 1 \<le> mtc_next_branch_id ctx \<and> dhas (mtc_branches ctx) 0 \<and>
      (\<forall>b br. dget (mtc_branches ctx) b = Some br \<longrightarrow> flat_branch F ctx b br))"

text \<open>
  \<open>facts B W A ctx\<close>: the branches \<open>B\<close> exist, the winner is one of \<open>W\<close>, and the branches \<open>A\<close> hold the
  answer.
\<close>

definition facts ::
  "star \<Rightarrow> int set \<Rightarrow> int option set \<Rightarrow> int set \<Rightarrow> mini_tree_context \<Rightarrow> bool" where
  "facts F B W A ctx =
     ((\<forall>b \<in> B. b \<noteq> 0 \<and> dhas (mtc_branches ctx) b) \<and> mtc_winner_branch_id ctx \<in> W \<and>
      (\<forall>b \<in> A. \<exists>br. dget (mtc_branches ctx) b = Some br \<and>
         dget (mtb_writes br) (st_answer F) = Some (st_text F)))"

definition mini_opened ::
  "star \<Rightarrow> int set \<Rightarrow> int option set \<Rightarrow> int set \<Rightarrow> mini_db \<Rightarrow> bool" where
  "mini_opened F B W A db =
     (map_of (mdb_store db) = st_store F \<and> map_of (mdb_tx_map db) = st_txs F \<and>
      (\<exists>ctx. map_of (mdb_tree_map db) = (st_trees F)(st_tid F \<mapsto> ctx) \<and>
         flat_tree F ctx \<and> facts F B W A ctx))"

definition mini_closed :: "star \<Rightarrow> (string \<Rightarrow> string option) \<Rightarrow> mini_db \<Rightarrow> bool" where
  "mini_closed F st db =
     (map_of (mdb_store db) = st \<and> map_of (mdb_tx_map db) = st_txs F \<and>
      map_of (mdb_tree_map db) = st_trees F)"

text \<open>The store after a commit of branch \<open>b\<close>: the answer, and that branch's private key.\<close>

definition answered :: "star \<Rightarrow> int \<Rightarrow> (string \<Rightarrow> string option) \<Rightarrow> bool" where
  "answered F b st =
     (st (st_answer F) = Some (st_text F) \<and>
      (\<forall>k. k \<noteq> st_answer F \<longrightarrow> k \<noteq> st_private F b \<longrightarrow> st k = st_store F k))"

text \<open>The states of a run: nothing committed (and the transaction open or not), or committed.\<close>

definition mini_pending ::
  "star \<Rightarrow> int set \<Rightarrow> int option set \<Rightarrow> int set \<Rightarrow> mini_db \<Rightarrow> bool" where
  "mini_pending F B W A db = (mini_opened F B W A db \<or> mini_closed F (st_store F) db)"

definition pending ::
  "star \<Rightarrow> int set \<Rightarrow> int option set \<Rightarrow> int set \<Rightarrow> 'w agent_db \<Rightarrow> int \<Rightarrow> bool" where
  "pending F B W A d n = (n = 0 \<and> using_mini d \<and> mini_pending F B W A (adb_mini d))"

definition finished :: "star \<Rightarrow> 'w agent_db \<Rightarrow> bool" where
  "finished F d = (using_mini d \<and> (\<exists>b st. answered F b st \<and> mini_closed F st (adb_mini d)))"

definition settled :: "star \<Rightarrow> 'w agent_db \<Rightarrow> int \<Rightarrow> bool" where
  "settled F d n =
     ((n = 0 \<and> using_mini d \<and> mini_closed F (st_store F) (adb_mini d)) \<or> (n = 1 \<and> finished F d))"

definition running :: "star \<Rightarrow> 'w agent_db \<Rightarrow> int \<Rightarrow> bool" where
  "running F d n = (pending F {} UNIV {} d n \<or> settled F d n)"

lemma facts_mono: "facts F B W A ctx \<Longrightarrow> B' \<subseteq> B \<Longrightarrow> W \<subseteq> W' \<Longrightarrow> A' \<subseteq> A \<Longrightarrow> facts F B' W' A' ctx"
  by (auto simp: facts_def)

lemma opened_mono:
  "mini_opened F B W A db \<Longrightarrow> B' \<subseteq> B \<Longrightarrow> W \<subseteq> W' \<Longrightarrow> A' \<subseteq> A \<Longrightarrow> mini_opened F B' W' A' db"
  unfolding mini_opened_def using facts_mono by blast

lemma pending_mono:
  "pending F B W A d n \<Longrightarrow> B' \<subseteq> B \<Longrightarrow> W \<subseteq> W' \<Longrightarrow> A' \<subseteq> A \<Longrightarrow> pending F B' W' A' d n"
  unfolding pending_def mini_pending_def using opened_mono by blast

lemma pending_running: "pending F B W A d n \<Longrightarrow> running F d n"
  unfolding running_def using pending_mono by blast

lemma settled_running: "settled F d n \<Longrightarrow> running F d n"
  by (simp add: running_def)

lemma net_irrelevant [simp]:
  "using_mini (d\<lparr>adb_net := w\<rparr>) = using_mini d"
  "pending F B W A (d\<lparr>adb_net := w\<rparr>) n = pending F B W A d n"
  "settled F (d\<lparr>adb_net := w\<rparr>) n = settled F d n"
  "running F (d\<lparr>adb_net := w\<rparr>) n = running F d n"
  by (simp_all add: using_mini_def pending_def settled_def running_def finished_def)

lemma require_opened:
  assumes "mini_opened F B W A db"
  obtains ctx where "require_tree_tx db (st_tid F) = Inr ctx"
    and "map_of (mdb_tree_map db) = (st_trees F)(st_tid F \<mapsto> ctx)"
    and "flat_tree F ctx" and "facts F B W A ctx"
proof -
  from assms obtain ctx where c: "map_of (mdb_tree_map db) = (st_trees F)(st_tid F \<mapsto> ctx)"
    "flat_tree F ctx" "facts F B W A ctx" by (auto simp: mini_opened_def)
  then have "require_tree_tx db (st_tid F) = Inr ctx" by (simp add: require_tree_tx_def flat_tree_def)
  from that [OF this c] show ?thesis .
qed

lemma require_closed:
  assumes "mini_closed F st db" and "star_ok F"
  shows "require_tree_tx db (st_tid F) =
    Inl (PyExc RuntimeError (''invalid or inactive tree tx_id: '' @ st_tid F))"
  using assms by (simp add: mini_closed_def star_ok_def require_tree_tx_def)

text \<open>Replacing the context of the transaction.\<close>

lemma opened_update:
  assumes "mini_opened F B W A db" and "flat_tree F ctx" and "facts F B' W' A' ctx"
  shows "mini_opened F B' W' A' (db\<lparr>mdb_tree_map := dset (mdb_tree_map db) (st_tid F) ctx\<rparr>)"
  using assms by (auto simp: mini_opened_def)

lemma opened_delete:
  assumes "mini_opened F B W A db" and "star_ok F" and "map_of store = st"
  shows "mini_closed F st (db\<lparr>mdb_store := store, mdb_tree_map := ddel (mdb_tree_map db) (st_tid F)\<rparr>)"
  using assms by (auto simp: mini_opened_def mini_closed_def star_ok_def fun_upd_idem)

lemma require_catchable [simp]: "require_tree_tx db t = Inl e \<Longrightarrow> catchable e"
  by (auto simp: require_tree_tx_def split: option.splits if_splits)

subsection \<open>The operations of the back end\<close>

lemma tput_opened:
  assumes kv: "(k = st_answer F \<and> v = st_text F) \<or> k = st_private F b" and F: "star_ok F"
    and A': "A' = (if k = st_answer F then insert b A else A)"
  shows "triple (mini_opened F B W A) (mini_tput (st_tid F) b k v) (\<lambda>_. mini_opened F B W A')
    (mini_opened F B W A)"
proof (rule tripleI)
  fix db x db' assume o: "mini_opened F B W A db" and run: "mini_tput (st_tid F) b k v db = (Inr x, db')"
  obtain ctx where req: "require_tree_tx db (st_tid F) = Inr ctx" and ctx: "flat_tree F ctx" "facts F B W A ctx"
    using require_opened [OF o] by metis
  with run obtain br where br: "dget (mtc_branches ctx) b = Some br" and b: "b \<noteq> 0"
    and db': "db' = db\<lparr>mdb_tree_map := dset (mdb_tree_map db) (st_tid F)
      (ctx\<lparr>mtc_branches := dset (mtc_branches ctx) b (br\<lparr>mtb_writes := dset (mtb_writes br) k v\<rparr>)\<rparr>)\<rparr>"
    by (auto simp: mini_tput_def Let_def split: option.splits if_splits)
  let ?ctx = "ctx\<lparr>mtc_branches := dset (mtc_branches ctx) b (br\<lparr>mtb_writes := dset (mtb_writes br) k v\<rparr>)\<rparr>"
  have fb: "flat_branch F ctx c cr" if "dget (mtc_branches ctx) c = Some cr" for c cr
    using ctx(1) that by (simp add: flat_tree_def)
  have "flat_tree F ?ctx"
    using ctx(1) fb [OF br] fb kv b by (auto simp: flat_tree_def flat_branch_def)
  moreover have "facts F B W A' ?ctx"
    using ctx(2) br kv F A' by (auto simp: facts_def star_ok_def)
  ultimately show "mini_opened F B W A' db'" unfolding db' by (intro opened_update [OF o])
next
  fix db e db' assume o: "mini_opened F B W A db" and run: "mini_tput (st_tid F) b k v db = (Inl e, db')"
  then have "db' = db \<and> catchable e" by (auto simp: mini_tput_def Let_def split: sum.splits option.splits if_splits)
  with o show "catchable e \<and> mini_opened F B W A db'" by simp
qed

lemma twinner_opened:
  "triple (mini_opened F B W A) (mini_twinner (st_tid F) b) (\<lambda>_. mini_opened F B {Some b} A)
    (mini_opened F B W A)"
proof (rule tripleI)
  fix db x db' assume o: "mini_opened F B W A db" and run: "mini_twinner (st_tid F) b db = (Inr x, db')"
  obtain ctx where req: "require_tree_tx db (st_tid F) = Inr ctx" and ctx: "flat_tree F ctx" "facts F B W A ctx"
    using require_opened [OF o] by metis
  with run have db': "db' = db\<lparr>mdb_tree_map := dset (mdb_tree_map db) (st_tid F) (ctx\<lparr>mtc_winner_branch_id := Some b\<rparr>)\<rparr>"
    by (auto simp: mini_twinner_def split: if_splits)
  show "mini_opened F B {Some b} A db'" unfolding db'
    using ctx by (intro opened_update [OF o]) (auto simp: flat_tree_def flat_branch_def facts_def)
next
  fix db e db' assume o: "mini_opened F B W A db" and run: "mini_twinner (st_tid F) b db = (Inl e, db')"
  then have "db' = db \<and> catchable e" by (auto simp: mini_twinner_def split: sum.splits if_splits)
  with o show "catchable e \<and> mini_opened F B W A db'" by simp
qed

lemma tbranch_opened:
  "triple (mini_opened F B W A) (mini_tbranch (st_tid F) 0) (\<lambda>b. mini_opened F (insert b B) W A)
    (mini_opened F B W A)"
proof (rule tripleI)
  fix db b db' assume o: "mini_opened F B W A db" and run: "mini_tbranch (st_tid F) 0 db = (Inr b, db')"
  obtain ctx where req: "require_tree_tx db (st_tid F) = Inr ctx" and ctx: "flat_tree F ctx" "facts F B W A ctx"
    using require_opened [OF o] by metis
  let ?ctx = "ctx\<lparr>mtc_next_branch_id := b + 1, mtc_branches := dset (mtc_branches ctx) b (new_branch b 0)\<rparr>"
  from req run ctx(1) have b: "b = mtc_next_branch_id ctx"
    and db': "db' = db\<lparr>mdb_tree_map := dset (mdb_tree_map db) (st_tid F) ?ctx\<rparr>"
    by (auto simp: mini_tbranch_def Let_def flat_tree_def)
  have fb: "flat_branch F ctx c cr" if "dget (mtc_branches ctx) c = Some cr" for c cr
    using ctx(1) that by (simp add: flat_tree_def)
  have b0: "1 \<le> b" using ctx(1) b by (simp add: flat_tree_def)
  have "flat_branch F ?ctx c cr" if "dget (mtc_branches ?ctx) c = Some cr" for c cr
  proof (cases "c = b")
    case True
    with that b0 show ?thesis by (auto simp: flat_branch_def new_branch_def)
  next
    case False
    with that fb [of c cr] b show ?thesis by (auto simp: flat_branch_def)
  qed
  then have "flat_tree F ?ctx" using ctx(1) b0 by (auto simp: flat_tree_def)
  moreover have "facts F (insert b B) W A ?ctx"
    using ctx(2) b0 fb [of b] b by (auto simp: facts_def flat_branch_def)
  ultimately show "mini_opened F (insert b B) W A db'" unfolding db' by (intro opened_update [OF o])
next
  fix db e db' assume o: "mini_opened F B W A db" and run: "mini_tbranch (st_tid F) 0 db = (Inl e, db')"
  then have "db' = db \<and> catchable e" by (auto simp: mini_tbranch_def Let_def split: sum.splits if_splits)
  with o show "catchable e \<and> mini_opened F B W A db'" by simp
qed

text \<open>A branch of a flat tree is one step from the root, so the climbs end.\<close>

lemma flat_root:
  assumes "flat_tree F ctx"
  obtains br0 where "dget (mtc_branches ctx) 0 = Some br0" and "flat_branch F ctx 0 br0"
  using assms by (auto simp: flat_tree_def dhas_iff)

lemma flat_lineage:
  assumes "flat_tree F ctx" and "dget (mtc_branches ctx) c = Some br"
  shows "\<exists>l. lineage_loop ctx [] br = Some l"
proof -
  obtain br0 where br0: "dget (mtc_branches ctx) 0 = Some br0" "flat_branch F ctx 0 br0"
    using flat_root [OF assms(1)] .
  moreover have "flat_branch F ctx c br" using assms by (simp add: flat_tree_def)
  ultimately show ?thesis
    by (cases "c = 0") (auto simp: lineage_loop.simps [of ctx "[]"] lineage_loop.simps [of ctx "[br]"]
        flat_branch_def Let_def)
qed

lemma flat_resolve:
  assumes "flat_tree F ctx"
  shows "\<exists>v. resolve_branch_value ctx c k = Some v"
proof (cases "dget (mtc_branches ctx) c")
  case (Some br)
  obtain br0 where br0: "dget (mtc_branches ctx) 0 = Some br0" "flat_branch F ctx 0 br0"
    using flat_root [OF assms(1)] .
  moreover have "flat_branch F ctx c br" using assms Some by (simp add: flat_tree_def)
  ultimately show ?thesis using Some
    by (auto simp: resolve_branch_value_def resolve_loop.simps flat_branch_def split: option.splits)
qed (simp add: resolve_branch_value_def)

lemma tcommit_opened:
  assumes F: "star_ok F" and W: "W \<subseteq> {None, Some b}" and A: "b \<in> A"
  shows "triple (mini_opened F B W A) (mini_tcommit_retry (st_tid F))
    (\<lambda>_ db. \<exists>st. answered F b st \<and> mini_closed F st db) (mini_opened F B W A)"
proof (rule tripleI)
  fix db x db' assume o: "mini_opened F B W A db" and run: "mini_tcommit_retry (st_tid F) db = (Inr x, db')"
  obtain ctx where req: "require_tree_tx db (st_tid F) = Inr ctx" and ctx: "flat_tree F ctx" "facts F B W A ctx"
    using require_opened [OF o] by metis
  from req run obtain w where w: "mtc_winner_branch_id ctx = Some w"
    by (auto simp: mini_tcommit_retry_def split: option.splits)
  with W ctx(2) have wb: "w = b" by (auto simp: facts_def)
  from ctx(2) A obtain br where br: "dget (mtc_branches ctx) b = Some br"
    and ans: "dget (mtb_writes br) (st_answer F) = Some (st_text F)" by (auto simp: facts_def)
  from ctx(1) br have fb: "flat_branch F ctx b br" by (simp add: flat_tree_def)
  with ans have b: "b \<noteq> 0" by (auto simp: flat_branch_def)
  obtain br0 where br0: "dget (mtc_branches ctx) 0 = Some br0" using ctx(1) by (auto simp: flat_tree_def dhas_iff)
  with ctx(1) have fb0: "flat_branch F ctx 0 br0" by (simp add: flat_tree_def)
  have "lineage_loop ctx [] br = Some [br, br0]"
    using fb fb0 b br0 by (simp add: lineage_loop.simps flat_branch_def)
  with req run w wb br have db': "db' = db\<lparr>mdb_store := dict_update (mdb_store db) (merge_lineage [br, br0]),
      mdb_tree_map := ddel (mdb_tree_map db) (st_tid F)\<rparr>"
    by (auto simp: mini_tcommit_retry_def)
  have m: "map_of (merge_lineage [br, br0]) = map_of (mtb_writes br)" "dict_ok (merge_lineage [br, br0])"
    using fb fb0 by (simp_all add: merge_lineage_def flat_branch_def dget_dict_update)
  have "map_of (dict_update (mdb_store db) (merge_lineage [br, br0])) = st_store F ++ map_of (mtb_writes br)"
    using o m by (simp add: dget_dict_update mini_opened_def)
  from opened_delete [OF o F this] have "mini_closed F (st_store F ++ map_of (mtb_writes br)) db'"
    unfolding db' .
  moreover have "answered F b (st_store F ++ map_of (mtb_writes br))"
    using ans fb by (auto simp: answered_def flat_branch_def map_add_def split: option.splits)
  ultimately show "\<exists>st. answered F b st \<and> mini_closed F st db'" by blast
next
  fix db e db' assume o: "mini_opened F B W A db" and run: "mini_tcommit_retry (st_tid F) db = (Inl e, db')"
  obtain ctx where req: "require_tree_tx db (st_tid F) = Inr ctx" and ctx: "flat_tree F ctx" "facts F B W A ctx"
    using require_opened [OF o] by metis
  have "lineage_loop ctx [] br \<noteq> None" if "dget (mtc_branches ctx) c = Some br" for c br
    using flat_lineage [OF ctx(1) that] by blast
  with req run have "db' = db \<and> catchable e"
    by (fastforce simp: mini_tcommit_retry_def split: option.splits)
  with o show "catchable e \<and> mini_opened F B W A db'" by simp
qed

lemma tabort_pending:
  assumes F: "star_ok F" and p: "mini_pending F B W A db"
  shows "mini_closed F (st_store F) (snd (mini_tabort (st_tid F) db))"
proof (cases "mini_opened F B W A db")
  case True
  obtain ctx where "require_tree_tx db (st_tid F) = Inr ctx" using require_opened [OF True] by metis
  moreover have "mini_closed F (st_store F) (db\<lparr>mdb_store := mdb_store db, mdb_tree_map := ddel (mdb_tree_map db) (st_tid F)\<rparr>)"
    using True by (intro opened_delete [OF True F]) (simp add: mini_opened_def)
  ultimately show ?thesis by (simp add: mini_tabort_def)
next
  case False
  with p have c: "mini_closed F (st_store F) db" by (simp add: mini_pending_def)
  with require_closed [OF c F] show ?thesis by (simp add: mini_tabort_def)
qed

text \<open>A closed transaction rejects every operation and nothing changes.\<close>

lemma closed_rejects:
  assumes "mini_closed F st db" and "star_ok F"
  shows "mini_tput (st_tid F) b k v db = (Inl (PyExc RuntimeError (''invalid or inactive tree tx_id: '' @ st_tid F)), db)"
    and "mini_twinner (st_tid F) b db = (Inl (PyExc RuntimeError (''invalid or inactive tree tx_id: '' @ st_tid F)), db)"
    and "mini_tbranch (st_tid F) 0 db = (Inl (PyExc RuntimeError (''invalid or inactive tree tx_id: '' @ st_tid F)), db)"
    and "mini_tcommit_retry (st_tid F) db = (Inl (PyExc RuntimeError (''invalid or inactive tree tx_id: '' @ st_tid F)), db)"
    and "mini_tabort (st_tid F) db = (Inl (PyExc RuntimeError (''invalid or inactive tree tx_id: '' @ st_tid F)), db)"
  using require_closed [OF assms]
  by (simp_all add: mini_tput_def mini_twinner_def mini_tbranch_def mini_tcommit_retry_def mini_tabort_def)

lemma pending_triple:
  assumes "triple (mini_opened F B W A) m (\<lambda>x. mini_opened F (B' x) (W' x) (A' x)) (mini_opened F B W A)"
    and "\<And>db st. mini_closed F st db \<Longrightarrow> \<exists>c msg. c \<noteq> NonTermination \<and> m db = (Inl (PyExc c msg), db)"
  shows "triple (mini_pending F B W A) m (\<lambda>x. mini_pending F (B' x) (W' x) (A' x)) (mini_pending F B W A)"
proof (rule tripleI)
  fix db x db' assume p: "mini_pending F B W A db" and run: "m db = (Inr x, db')"
  from assms(2) run have "\<not> mini_closed F st db" for st by fastforce
  with p have "mini_opened F B W A db" by (auto simp: mini_pending_def)
  from triple_run [OF assms(1) this run] show "mini_pending F (B' x) (W' x) (A' x) db'"
    by (simp add: mini_pending_def)
next
  fix db e db' assume p: "mini_pending F B W A db" and run: "m db = (Inl e, db')"
  show "catchable e \<and> mini_pending F B W A db'"
  proof (cases "mini_opened F B W A db")
    case True
    from triple_run_exn [OF assms(1) this run] show ?thesis by (simp add: mini_pending_def)
  next
    case False
    with p have "mini_closed F (st_store F) db" by (simp add: mini_pending_def)
    with assms(2) [OF this] run show ?thesis by (auto simp: mini_pending_def)
  qed
qed

lemma tput_pending:
  assumes "(k = st_answer F \<and> v = st_text F) \<or> k = st_private F b" and "star_ok F"
  shows "triple (mini_pending F B W A) (mini_tput (st_tid F) b k v)
    (\<lambda>_. mini_pending F B W (if k = st_answer F then insert b A else A)) (mini_pending F B W A)"
  using closed_rejects(1) [OF _ assms(2)] by (intro pending_triple tput_opened assms refl) fastforce

lemma twinner_pending:
  "star_ok F \<Longrightarrow> triple (mini_pending F B W A) (mini_twinner (st_tid F) b)
    (\<lambda>_. mini_pending F B {Some b} A) (mini_pending F B W A)"
  using closed_rejects(2) by (intro pending_triple twinner_opened) fastforce

lemma tbranch_pending:
  "star_ok F \<Longrightarrow> triple (mini_pending F B W A) (mini_tbranch (st_tid F) 0)
    (\<lambda>b. mini_pending F (insert b B) W A) (mini_pending F B W A)"
  using closed_rejects(3) by (intro pending_triple tbranch_opened) fastforce

lemma tcommit_pending:
  assumes F: "star_ok F" and "W \<subseteq> {None, Some b}" and "b \<in> A"
  shows "triple (mini_pending F B W A) (mini_tcommit_retry (st_tid F))
    (\<lambda>_ db. \<exists>st. answered F b st \<and> mini_closed F st db) (mini_pending F B W A)"
proof (rule tripleI)
  fix db x db' assume p: "mini_pending F B W A db" and run: "mini_tcommit_retry (st_tid F) db = (Inr x, db')"
  from closed_rejects(4) [OF _ F] run have "\<not> mini_closed F st db" for st by fastforce
  with p have "mini_opened F B W A db" by (auto simp: mini_pending_def)
  from triple_run [OF tcommit_opened [OF assms] this run] show "\<exists>st. answered F b st \<and> mini_closed F st db'" .
next
  fix db e db' assume p: "mini_pending F B W A db" and run: "mini_tcommit_retry (st_tid F) db = (Inl e, db')"
  show "catchable e \<and> mini_pending F B W A db'"
  proof (cases "mini_opened F B W A db")
    case True
    from triple_run_exn [OF tcommit_opened [OF assms] this run] show ?thesis by (simp add: mini_pending_def)
  next
    case False
    with p have c: "mini_closed F (st_store F) db" by (simp add: mini_pending_def)
    with closed_rejects(4) [OF c F] run show ?thesis by (auto simp: mini_pending_def)
  qed
qed

lemma tbranch_many_pending:
  assumes F: "star_ok F"
  shows "triple (mini_pending F B W A) (mini_tbranch_many (st_tid F) 0 n)
    (\<lambda>bs. mini_pending F (set bs) W A) (mini_pending F {} W A)"
proof -
  have "triple (mini_pending F B W A) (for_each (\<lambda>_. mini_tbranch (st_tid F) 0) us)
      (\<lambda>bs. mini_pending F (B \<union> set bs) W A) (mini_pending F {} W A)" for us :: "unit list" and B
  proof (induction us arbitrary: B)
    case Nil
    show ?case by (simp add: triple_ret)
  next
    case (Cons u us)
    have weak: "mini_pending F C W A db \<Longrightarrow> mini_pending F {} W A db" for C db
      unfolding mini_pending_def using opened_mono by blast
    show ?case unfolding for_each.simps
    proof (rule triple_bnd)
      show "triple (mini_pending F B W A) (mini_tbranch (st_tid F) 0)
          (\<lambda>b. mini_pending F (insert b B) W A) (mini_pending F {} W A)"
        by (rule triple_conseq [OF tbranch_pending [OF F, where B = B and W = W and A = A]]) (auto intro: weak)
      show "triple (mini_pending F (insert b B) W A)
          (bnd (for_each (\<lambda>_. mini_tbranch (st_tid F) 0) us) (\<lambda>ys. ret (b # ys)))
          (\<lambda>bs. mini_pending F (B \<union> set bs) W A) (mini_pending F {} W A)" for b
        by (rule triple_bnd [OF Cons]) (auto intro: triple_ret)
    qed
  qed
  from this [of B "replicate (nat (max 0 n)) ()"] show ?thesis
    unfolding mini_tbranch_many_def mini_pending_def
    by (rule triple_conseq) (auto intro: opened_mono)
qed

lemma tput_known:
  assumes F: "star_ok F" and b: "b \<in> B"
  shows "triple (mini_pending F B W A) (mini_tput (st_tid F) b (st_answer F) (st_text F))
    (\<lambda>_. mini_pending F B W (insert b A)) (mini_pending F B W (insert b A))"
proof (rule tripleI)
  fix db x db' assume "mini_pending F B W A db" "mini_tput (st_tid F) b (st_answer F) (st_text F) db = (Inr x, db')"
  then show "mini_pending F B W (insert b A) db'"
    using triple_run [OF tput_pending [OF _ F, of "st_answer F" "st_text F" b B W A]] by simp
next
  fix db e db'
  assume p: "mini_pending F B W A db" and run: "mini_tput (st_tid F) b (st_answer F) (st_text F) db = (Inl e, db')"
  have "\<not> mini_opened F B W A db"
  proof
    assume "mini_opened F B W A db"
    then obtain ctx where "require_tree_tx db (st_tid F) = Inr ctx" "facts F B W A ctx"
      using require_opened by metis
    moreover from this b obtain br where "dget (mtc_branches ctx) b = Some br" "b \<noteq> 0"
      by (auto simp: facts_def dhas_iff)
    ultimately show False using run by (simp add: mini_tput_def Let_def)
  qed
  with p have c: "mini_closed F (st_store F) db" by (simp add: mini_pending_def)
  with closed_rejects(1) [OF c F] run show "catchable e \<and> mini_pending F B W (insert b A) db'"
    by (auto simp: mini_pending_def)
qed

subsection \<open>The client on the in-memory back end\<close>

lemma triple_on_mini:
  assumes "triple P m Q R"
  shows "triple (\<lambda>d. using_mini d \<and> P (adb_mini d)) (on_mini m) (\<lambda>x d. using_mini d \<and> Q x (adb_mini d))
    (\<lambda>d. using_mini d \<and> R (adb_mini d))"
  using assms by (fastforce simp: triple_def on_mini_def using_mini_def split: prod.splits sum.splits)

lemma triple_const: "triple P m Q R \<Longrightarrow> triple (\<lambda>s. b \<and> P s) m (\<lambda>x s. b \<and> Q x s) (\<lambda>s. b \<and> R s)"
  by (cases b) (simp_all add: triple_def)

lemma triple_same:
  assumes "triple P m' Q R" and "\<And>s. P s \<Longrightarrow> m s = m' s"
  shows "triple P m Q R"
  using assms by (auto simp: triple_def)

lemma agent_on_mini:
  assumes "using_mini d"
  shows "agent_tree_put p t b k v d = on_mini (mini_tput t b k v) d"
    and "agent_tree_select_winner p t b d = on_mini (mini_twinner t b) d"
    and "agent_tree_abort p t d = on_mini (mini_tabort t) d"
    and "agent_tree_commit_retry p t d = bnd (on_mini (mini_tcommit_retry t)) (\<lambda>_. ret committed_result) d"
    and "agent_tree_branch_many p t b n d = on_mini (mini_tbranch_many t b n) d"
    and "agent_tree_put_many p t rs d = on_mini (mini_tput_many t rs) d"
  using assms by (simp_all add: agent_tree_put_def agent_tree_select_winner_def agent_tree_abort_def
    agent_tree_commit_retry_def agent_tree_branch_many_def agent_tree_put_many_def)

lemma pending_on_mini:
  assumes "triple (mini_pending F B W A) m (\<lambda>x. mini_pending F (B' x) (W' x) (A' x)) (mini_pending F B0 W0 A0)"
    and "\<And>d. using_mini d \<Longrightarrow> f d = on_mini m d"
  shows "triple (\<lambda>d. pending F B W A d n) f (\<lambda>x d. pending F (B' x) (W' x) (A' x) d n) (\<lambda>d. pending F B0 W0 A0 d n)"
proof (rule triple_same [of _ "on_mini m"])
  have "triple (\<lambda>d. n = 0 \<and> using_mini d \<and> mini_pending F B W A (adb_mini d)) (on_mini m)
      (\<lambda>x d. n = 0 \<and> using_mini d \<and> mini_pending F (B' x) (W' x) (A' x) (adb_mini d))
      (\<lambda>d. n = 0 \<and> using_mini d \<and> mini_pending F B0 W0 A0 (adb_mini d))"
    by (rule triple_const) (rule triple_on_mini [OF assms(1)])
  then show "triple (\<lambda>d. pending F B W A d n) (on_mini m) (\<lambda>x d. pending F (B' x) (W' x) (A' x) d n)
      (\<lambda>d. pending F B0 W0 A0 d n)" by (simp add: pending_def)
qed (simp add: assms(2) pending_def)

text \<open>Reading changes nothing, and ends where the climbs of the transaction end.\<close>

definition calm :: "string \<Rightarrow> 'w agent_db \<Rightarrow> bool" where
  "calm t d = (using_mini d \<and> (\<forall>ctx. require_tree_tx (adb_mini d) t = Inr ctx \<longrightarrow>
     (\<forall>b k. \<exists>v. resolve_branch_value ctx b k = Some v)))"

lemma pending_calm:
  assumes "pending F B W A d n" and "star_ok F"
  shows "calm (st_tid F) d"
proof -
  from assms consider "mini_opened F B W A (adb_mini d)" | "mini_closed F (st_store F) (adb_mini d)"
    by (auto simp: pending_def mini_pending_def)
  then show ?thesis
  proof cases
    case 1
    then obtain ctx where "require_tree_tx (adb_mini d) (st_tid F) = Inr ctx" "flat_tree F ctx"
      using require_opened by metis
    with flat_resolve assms(1) show ?thesis by (auto simp: calm_def pending_def)
  next
    case 2
    with require_closed [OF 2 assms(2)] assms(1) show ?thesis by (simp add: calm_def pending_def)
  qed
qed

lemma tget_calm:
  assumes "calm t d"
  shows "snd (on_mini (mini_tget t b k strict) d) = d \<and> tame (fst (on_mini (mini_tget t b k strict) d))"
proof (cases "require_tree_tx (adb_mini d) t")
  case (Inr ctx)
  with assms obtain v where "resolve_branch_value ctx b k = Some v" by (auto simp: calm_def)
  with Inr show ?thesis by (auto simp: on_mini_def mini_tget_def tame_def)
qed (auto simp: on_mini_def mini_tget_def tame_catchable)

lemma refresh_calm:
  "snd (on_mini (mini_trefresh_winner t b k) d) = d \<and> tame (fst (on_mini (mini_trefresh_winner t b k) d))"
  by (auto simp: on_mini_def mini_trefresh_winner_def tame_def split: sum.splits)

lemma on_mini_bnd: "on_mini (bnd m f) = bnd (on_mini m) (\<lambda>x. on_mini (f x))"
  by (auto simp: fun_eq_iff on_mini_def bnd_def split: prod.splits sum.splits)

lemma on_mini_ret: "on_mini (ret x) = ret x"
  by (simp add: fun_eq_iff on_mini_def ret_def)

lemma on_mini_for_each: "on_mini (for_each f xs) = for_each (\<lambda>x. on_mini (f x)) xs"
  by (induction xs) (simp_all add: on_mini_bnd on_mini_ret)

lemma keeps_reads:
  assumes "\<And>d. P d \<Longrightarrow> calm t d"
  shows "keeps P (agent_tree_get p t b k strict)" and "keeps P (agent_tree_get_many p t rs strict)"
    and "keeps P (agent_tree_refresh_winner p t b k)"
proof -
  have m: "P d \<Longrightarrow> using_mini d" for d using assms by (auto simp: calm_def)
  have g: "keeps P (on_mini (mini_tget t b k strict))" for b k
    by (rule keeps_same) (rule tget_calm, rule assms)
  then have "keeps P (on_mini (mini_tget_many t rs strict))"
    unfolding mini_tget_many_def on_mini_for_each by (intro keeps_for_each) (simp split: prod.splits)
  with m show "keeps P (agent_tree_get_many p t rs strict)"
    unfolding keeps_def by (rule_tac triple_same) (auto simp: agent_tree_get_many_def)
  from g [of b k] m show "keeps P (agent_tree_get p t b k strict)"
    unfolding keeps_def by (rule_tac triple_same) (auto simp: agent_tree_get_def)
  from m show "keeps P (agent_tree_refresh_winner p t b k)"
    by (intro keeps_same) (simp only: agent_tree_refresh_winner_def if_True refresh_calm)
qed

subsection \<open>The tools of a run\<close>

lemma arg_simps:
  "sarg ((k, v) # d) k' = (if k = k' then strip (py_str v) else sarg d k')"
  "varg ((k, v) # d) k' = (if k = k' then py_str v else varg d k')"
  "iarg ((k, v) # d) k' = (if k = k' then to_int v else iarg d k')"
  "dget_def ((k, v) # d) k' w = (if k = k' then v else dget_def d k' w)"
  by (auto simp: sarg_def varg_def iarg_def dget_def_def)

lemma lift_bnd [simp]: "bnd (lift_res (Inr x)) f = f x"
  by (simp add: bnd_def lift_res_def fun_eq_iff)

lemma triple_tool_try:
  assumes "triple P m Q R"
  shows "triple P (tool_try m extra) (\<lambda>v s. Q v s \<or> (R s \<and> (\<exists>msg. v = tool_err msg extra))) R"
  unfolding tool_try_def
proof (rule triple_try)
  show "triple P m (\<lambda>v s. Q v s \<or> (R s \<and> (\<exists>msg. v = tool_err msg extra))) R"
    by (rule triple_conseq [OF assms]) simp_all
qed (auto intro!: triple_ret)

text \<open>Tools that only read, where the climbs of the transaction end.\<close>

lemma keeps_load_answer:
  assumes "\<And>d. P d \<Longrightarrow> using_mini d"
  shows "keeps P (load_final_answer p ns)"
  unfolding load_final_answer_def Let_def by (intro triple_intros keeps_kv_get assms)

lemma keeps_tree_tools:
  assumes "\<And>d. P d \<Longrightarrow> calm (sarg args ''tx_id'') d"
  shows "keeps P (tree_tx_get p args)" and "keeps P (tree_tx_refresh_winner p args)"
proof -
  note r = keeps_reads [of P, OF assms]
  show "keeps P (tree_tx_get p args)"
    unfolding tree_tx_get_def Let_def by (intro triple_intros tame_intros r)
  show "keeps P (tree_tx_refresh_winner p args)"
    unfolding tree_tx_refresh_winner_def Let_def by (intro triple_intros tame_intros r)
qed

lemma pending_mini: "pending F B W A d n \<Longrightarrow> using_mini d"
  by (simp add: pending_def)

lemma settled_mini: "settled F d n \<Longrightarrow> using_mini d"
  by (auto simp: settled_def finished_def)

lemma running_mini: "running F d n \<Longrightarrow> using_mini d"
  by (auto simp: running_def dest: pending_mini settled_mini)

text \<open>What the run is about: its own transaction, and the keys it writes.\<close>

definition framed :: "star \<Rightarrow> run_setup \<Rightarrow> bool" where
  "framed F S =
     (star_ok F \<and> strip (st_tid F) = st_tid F \<and> st_tid F \<noteq> [] \<and> st_answer F = answer_key S \<and>
      strip (answer_key S) = answer_key S \<and> st_private F = branch_candidate_key (rs_namespace S))"

lemma answer_key_ne: "answer_key S \<noteq> []"
  by (simp add: answer_key_def task_key_def)

lemma tool_put_pending:
  assumes F: "framed F S" and b: "b \<in> B" and v: "py_str v = st_text F"
  shows "triple (\<lambda>d. pending F B W A d n)
    (tree_tx_put p [(''tx_id'', PStr (st_tid F)), (''branch_id'', PInt b), (''key'', PStr (answer_key S)), (''value'', v)])
    (\<lambda>_ d. pending F B W (insert b A) d n) (\<lambda>d. pending F B W (insert b A) d n)"
proof -
  have "triple (\<lambda>d. pending F B W A d n) (agent_tree_put p (st_tid F) b (st_answer F) (st_text F))
      (\<lambda>_ d. pending F B W (insert b A) d n) (\<lambda>d. pending F B W (insert b A) d n)"
    using F b by (intro pending_on_mini [OF tput_known agent_on_mini(1)]) (simp_all add: framed_def)
  then have "triple (\<lambda>d. pending F B W A d n)
      (bnd (agent_tree_put p (st_tid F) b (st_answer F) (st_text F)) (\<lambda>_. ret x))
      (\<lambda>_ d. pending F B W (insert b A) d n) (\<lambda>d. pending F B W (insert b A) d n)" for x :: pyval
    by (rule triple_bnd) (simp add: triple_ret)
  from triple_tool_try [OF this] have "triple (\<lambda>d. pending F B W A d n)
      (tool_try (bnd (agent_tree_put p (st_tid F) b (st_answer F) (st_text F)) (\<lambda>_. ret x)) extra)
      (\<lambda>_ d. pending F B W (insert b A) d n) (\<lambda>d. pending F B W (insert b A) d n)" for x extra
    by (rule triple_conseq) auto
  then show ?thesis
    using F v answer_key_ne [of S] by (simp add: tree_tx_put_def arg_simps framed_def Let_def)
qed


text \<open>The branch is selected, or the transaction is not open.\<close>

lemma tool_winner_pending:
  assumes F: "framed F S"
  shows "triple (\<lambda>d. pending F B {None} A d n)
    (tree_tx_winner p [(''tx_id'', PStr (st_tid F)), (''branch_id'', PInt b)])
    (\<lambda>_ d. pending F B {None, Some b} A d n) (\<lambda>d. pending F B {None, Some b} A d n)"
proof -
  have t: "triple (\<lambda>d. pending F B {None} A d n) (agent_tree_select_winner p (st_tid F) b)
      (\<lambda>_ d. pending F B {None, Some b} A d n) (\<lambda>d. pending F B {None, Some b} A d n)"
    by (rule triple_conseq [OF pending_on_mini [OF twinner_pending agent_on_mini(2)]])
      (use F in \<open>auto simp: framed_def elim: pending_mono\<close>)
  have "triple (\<lambda>d. pending F B {None} A d n) (bnd (agent_tree_select_winner p (st_tid F) b) (\<lambda>_. ret x))
      (\<lambda>_ d. pending F B {None, Some b} A d n) (\<lambda>d. pending F B {None, Some b} A d n)" for x :: pyval
    by (rule triple_bnd [OF t]) (simp add: triple_ret)
  from triple_tool_try [OF this] have "triple (\<lambda>d. pending F B {None} A d n)
      (tool_try (bnd (agent_tree_select_winner p (st_tid F) b) (\<lambda>_. ret x)) extra)
      (\<lambda>_ d. pending F B {None, Some b} A d n) (\<lambda>d. pending F B {None, Some b} A d n)" for x extra
    by (rule triple_conseq) auto
  then show ?thesis using F by (simp add: tree_tx_winner_def arg_simps framed_def Let_def)
qed

lemma abort_settles:
  assumes F: "framed F S" and r: "running F d n"
  shows "settled F (snd (agent_tree_abort p (st_tid F) d)) n"
proof -
  from r have m: "using_mini d" by (rule running_mini)
  have ok: "star_ok F" using F by (simp add: framed_def)
  have snd: "adb_mini (snd (agent_tree_abort p (st_tid F) d)) = snd (mini_tabort (st_tid F) (adb_mini d))"
    "using_mini (snd (agent_tree_abort p (st_tid F) d))"
    using m by (simp_all add: agent_on_mini on_mini_def using_mini_def split: prod.splits)
  from r consider (p) B W A where "pending F B W A d n" | (s) "settled F d n" by (auto simp: running_def)
  then show ?thesis
  proof cases
    case (p B W A)
    then show ?thesis using tabort_pending [OF ok] snd by (auto simp: settled_def pending_def)
  next
    case s
    then show ?thesis using closed_rejects(5) [OF _ ok] snd by (auto simp: settled_def finished_def)
  qed
qed

lemma abort_tame: "using_mini d \<Longrightarrow> tame (fst (agent_tree_abort p t d))"
  by (auto simp: agent_on_mini on_mini_def mini_tabort_def tame_def split: sum.splits)

lemma tool_abort_settles:
  assumes F: "framed F S"
  shows "triple (\<lambda>d. running F d n) (tree_tx_abort p [(''tx_id'', PStr (st_tid F))])
    (\<lambda>_ d. settled F d n) (\<lambda>d. settled F d n)"
proof -
  have t: "triple (\<lambda>d. running F d n) (agent_tree_abort p (st_tid F)) (\<lambda>_ d. settled F d n) (\<lambda>d. settled F d n)"
  proof (rule tripleI)
    fix d x d' assume "running F d n" and run: "agent_tree_abort p (st_tid F) d = (Inr x, d')"
    from abort_settles [OF F this(1), of p] run show "settled F d' n" by simp
  next
    fix d e d' assume "running F d n" and run: "agent_tree_abort p (st_tid F) d = (Inl e, d')"
    from abort_settles [OF F this(1), of p] abort_tame [of d p "st_tid F"] running_mini [OF this(1)] run
    show "catchable e \<and> settled F d' n" by (simp add: tame_catchable)
  qed
  have "triple (\<lambda>d. running F d n) (bnd (agent_tree_abort p (st_tid F)) (\<lambda>_. ret x))
      (\<lambda>_ d. settled F d n) (\<lambda>d. settled F d n)" for x :: pyval
    by (rule triple_bnd [OF t]) (simp add: triple_ret)
  from triple_tool_try [OF this] have "triple (\<lambda>d. running F d n)
      (tool_try (bnd (agent_tree_abort p (st_tid F)) (\<lambda>_. ret x)) extra)
      (\<lambda>_ d. settled F d n) (\<lambda>d. settled F d n)" for x extra
    by (rule triple_conseq) auto
  then show ?thesis using F by (simp add: tree_tx_abort_def arg_simps framed_def Let_def)
qed

text \<open>The commit either went through and says so, or nothing has changed.\<close>

definition says_ok :: "pyval \<Rightarrow> bool" where
  "says_ok v = (\<exists>w. vget v ''ok'' PNone = Inr w \<and> truthy w)"

lemma tool_commit_pending:
  assumes F: "framed F S" and W: "W \<subseteq> {None, Some b}" and A: "b \<in> A"
  shows "triple (\<lambda>d. pending F B W A d n) (tree_tx_commit_retry p [(''tx_id'', PStr (st_tid F))])
    (\<lambda>v d. if says_ok v then n = 0 \<and> finished F d else pending F B W A d n) (\<lambda>d. pending F B W A d n)"
proof -
  let ?P = "\<lambda>d. pending F B W A d n"
  have ok: "star_ok F" using F by (simp add: framed_def)
  have "triple (\<lambda>d. using_mini d \<and> mini_pending F B W A (adb_mini d)) (on_mini (mini_tcommit_retry (st_tid F)))
      (\<lambda>_. finished F) (\<lambda>d. using_mini d \<and> mini_pending F B W A (adb_mini d))"
    by (rule triple_conseq [OF triple_on_mini [OF tcommit_pending [OF ok W A]]]) (auto simp: finished_def)
  then have "triple (\<lambda>d. n = 0 \<and> using_mini d \<and> mini_pending F B W A (adb_mini d)) (on_mini (mini_tcommit_retry (st_tid F)))
      (\<lambda>_ d. n = 0 \<and> finished F d) (\<lambda>d. n = 0 \<and> using_mini d \<and> mini_pending F B W A (adb_mini d))"
    by (rule triple_const)
  then have t: "triple ?P (on_mini (mini_tcommit_retry (st_tid F))) (\<lambda>_ d. n = 0 \<and> finished F d) ?P"
    unfolding pending_def .
  have t: "triple ?P (agent_tree_commit_retry p (st_tid F)) (\<lambda>v d. v = committed_result \<and> n = 0 \<and> finished F d) ?P"
    by (rule triple_same [OF triple_bnd [OF t triple_ret]])
      (auto simp: agent_on_mini(4) dest: pending_mini)
  let ?x = "tool_ok [(''tx_id'', PStr (st_tid F)), (''committed'', PBool True)]"
  have "triple ?P (bnd (agent_tree_commit_retry p (st_tid F)) (\<lambda>result.
         bnd (lift_res (vget result ''ok'' PNone)) (\<lambda>okv.
           if truthy okv then ret ?x
           else bnd (lift_res (vget result ''abort_reason'' (PStr []))) (\<lambda>reason.
                bnd (lift_res (vget result ''response'' (PStr []))) (\<lambda>response.
                  ret (tool_err ''tree commit aborted''
                    [(''tx_id'', PStr (st_tid F)), (''committed'', PBool False),
                     (''abort_reason'', reason), (''response'', response)]))))))
      (\<lambda>v d. v = ?x \<and> n = 0 \<and> finished F d) ?P" (is "triple _ ?m _ _")
  proof (rule triple_bnd [OF t])
    fix v
    have "vget committed_result ''ok'' PNone = Inr (PBool True)"
      by (simp add: committed_result_def vget_def dget_def_def)
    then show "triple (\<lambda>d. v = committed_result \<and> n = 0 \<and> finished F d)
        (bnd (lift_res (vget v ''ok'' PNone)) (\<lambda>okv.
           if truthy okv then ret ?x
           else bnd (lift_res (vget v ''abort_reason'' (PStr []))) (\<lambda>reason.
                bnd (lift_res (vget v ''response'' (PStr []))) (\<lambda>response.
                  ret (tool_err ''tree commit aborted''
                    [(''tx_id'', PStr (st_tid F)), (''committed'', PBool False),
                     (''abort_reason'', reason), (''response'', response)])))))
        (\<lambda>v d. v = ?x \<and> n = 0 \<and> finished F d) ?P"
      by (cases "v = committed_result") (simp_all add: triple_def ret_def)
  qed
  from triple_tool_try [OF this] have "triple ?P (tool_try ?m extra)
      (\<lambda>v d. if says_ok v then n = 0 \<and> finished F d else ?P d) ?P"
    if "extra = [(''tx_id'', PStr (st_tid F))]" for extra
    by (rule triple_conseq)
      (auto simp: that says_ok_def vget_def tool_ok_def tool_err_def dget_def_def)
  then show ?thesis using F by (simp add: tree_tx_commit_retry_def arg_simps framed_def Let_def)
qed

end
