(* ===== verification/Vita_Agent_Steps.thy ===== *)
theory Vita_Agent_Steps
  imports Vita_Agent_Mini
begin

text \<open>
  Triples for the steps of a tree run, in the order of the code: checking, committing, the winner
  phase, exploring, selecting.
\<close>

subsection \<open>The steps of a tree run\<close>

lemma run_at_mono: "(\<And>d n. P d n \<Longrightarrow> Q d n) \<Longrightarrow> run_at P s \<Longrightarrow> run_at Q s"
  by (simp add: run_at_def)

lemma run_at_running:
  "run_at (pending F B W A) s \<Longrightarrow> run_at (running F) s"
  "run_at (settled F) s \<Longrightarrow> run_at (running F) s"
  by (auto simp: run_at_def intro: pending_running settled_running)

text \<open>A finished run: the transaction is closed, and the result tells how many commits there were.\<close>

definition result_ok :: "star \<Rightarrow> pyval \<Rightarrow> 'w agent_world \<Rightarrow> bool" where
  "result_ok F v s =
     (run_at (settled F) s \<and>
      (\<exists>d ok. v = PDict d \<and> dget d ''committed_attempts'' = Some (PInt (ar_committed (aw_run s))) \<and>
         dget d ''submit_ok'' = Some (PBool ok) \<and> (ok \<longrightarrow> ar_committed (aw_run s) = 1)))"

definition opt_post :: "star \<Rightarrow> ('w agent_world \<Rightarrow> bool) \<Rightarrow> pyval option \<Rightarrow> 'w agent_world \<Rightarrow> bool" where
  "opt_post F N r s = (case r of None \<Rightarrow> N s | Some v \<Rightarrow> result_ok F v s)"

lemma opt_post_simps [simp]: "opt_post F N None = N" "opt_post F N (Some v) = result_ok F v"
  by (simp_all add: opt_post_def fun_eq_iff)

lemma result_fields:
  assumes "build_agent_result S submit_ok fa raw sel ov r = Inr v"
  shows "\<exists>d. v = PDict d \<and> dget d ''committed_attempts'' = Some (PInt (ar_committed r)) \<and>
    dget d ''submit_ok'' = Some (PBool submit_ok)"
  using assms by (auto simp: build_agent_result_def rbind_eq_Inr)

lemma finish_result:
  assumes "\<And>s. P s \<Longrightarrow> run_at (settled F) s \<and> (submit_ok \<longrightarrow> ar_committed (aw_run s) = 1)"
  shows "triple P (finish_run S submit_ok fa raw sel ov) (result_ok F) (run_at (settled F))"
proof (rule tripleI)
  fix s v s' assume p: "P s" and run: "finish_run S submit_ok fa raw sel ov s = (Inr v, s')"
  then have s: "s' = s" and v: "build_agent_result S submit_ok fa raw sel ov (aw_run s) = Inr v"
    by (auto simp: finish_run_def bnd_def get_run_def lift_res_def split: sum.splits)
  from result_fields [OF v] assms [OF p] show "result_ok F v s'" unfolding s by (auto simp: result_ok_def)
next
  fix s e s' assume p: "P s" and run: "finish_run S submit_ok fa raw sel ov s = (Inl e, s')"
  then have "s' = s" "build_agent_result S submit_ok fa raw sel ov (aw_run s) = Inl e"
    by (auto simp: finish_run_def bnd_def get_run_def lift_res_def split: sum.splits)
  moreover from this(2) have "catchable e"
    using tame_run(6) [of S submit_ok fa raw sel ov "aw_run s"] by (simp add: tame_catchable)
  ultimately show "catchable e \<and> run_at (settled F) s'" using assms [OF p] by simp
qed

lemma finish_some:
  assumes "\<And>s. P s \<Longrightarrow> run_at (settled F) s \<and> (submit_ok \<longrightarrow> ar_committed (aw_run s) = 1)"
  shows "triple P (bnd (finish_run S submit_ok fa raw sel ov) (\<lambda>v. ret (Some v))) (opt_post F N) (run_at (settled F))"
  by (rule triple_bnd [OF finish_result [OF assms]]) (auto intro!: triple_ret)

lemma finish_committed_result:
  "triple (run_at (\<lambda>d n. n = 1 \<and> finished F d)) (finish_committed E S sel fa raw) (result_ok F) (run_at (settled F))"
proof -
  let ?P = "run_at (\<lambda>d n. n = 1 \<and> finished F d)"
  have "keeps ?P (try_except (on_db (load_final_answer (en_peer E) (rs_namespace S))) (\<lambda>_. ret (fa, raw)))"
    by (intro triple_intros keeps_load_answer) (auto simp: finished_def)
  then show ?thesis unfolding finish_committed_def
    by (rule keeps_then) (auto simp: run_at_def settled_def split: prod.splits intro!: finish_result)
qed

text \<open>An abort ends the transaction and leaves the count of commits as it is.\<close>

lemma tree_abort_counted:
  assumes "framed F S"
  shows "triple (run_at (\<lambda>d n. n = k \<and> running F d n)) (tree_abort E (st_tid F))
    (\<lambda>_. run_at (\<lambda>d n. n = k \<and> settled F d n)) (run_at (\<lambda>d n. n = k \<and> settled F d n))"
  unfolding tree_abort_def
proof (rule triple_bnd)
  show "triple (run_at (\<lambda>d n. n = k \<and> running F d n))
      (run_tool ''tree_tx_abort'' (tree_tx_abort (en_peer E)) [(''tx_id'', PStr (st_tid F))])
      (\<lambda>_. run_at (\<lambda>d n. n = k \<and> settled F d n)) (run_at (\<lambda>d n. n = k \<and> settled F d n))"
  proof (rule triple_run_tool)
    show "triple (\<lambda>d. n = k \<and> running F d n) (tree_tx_abort (en_peer E) [(''tx_id'', PStr (st_tid F))])
        (\<lambda>_ d. n = k \<and> settled F d n) (\<lambda>d. n = k \<and> settled F d n)" for n
      using tool_abort_settles [OF assms, of n "en_peer E"] by (cases "n = k") (simp_all add: triple_def)
  qed
qed (simp add: triple_ret)

lemma tree_abort_settles:
  assumes "framed F S"
  shows "triple (run_at (running F)) (tree_abort E (st_tid F)) (\<lambda>_. run_at (settled F)) (run_at (settled F))"
  unfolding triple_def
proof (intro allI impI)
  fix s :: "'a agent_world" assume "run_at (running F) s"
  then have "run_at (\<lambda>d n. n = ar_committed (aw_run s) \<and> running F d n) s" by (simp add: run_at_def)
  from tree_abort_counted [OF assms, where E = E, unfolded triple_def, rule_format, OF this]
  show "case tree_abort E (st_tid F) s of
      (Inl e, s') \<Rightarrow> catchable e \<and> run_at (settled F) s' | (Inr x, s') \<Rightarrow> run_at (settled F) s'"
    by (cases "tree_abort E (st_tid F) s"; cases "fst (tree_abort E (st_tid F) s)") (auto simp: run_at_def)
qed

lemma keeps_settled:
  "keeps (run_at (settled F)) (ask f)"
  "(\<And>r. ar_committed (g r) = ar_committed r) \<Longrightarrow> keeps (run_at (settled F)) (set_run g)"
  by (rule keeps_ask, simp) (rule keeps_set_run, simp)

lemma keeps_pending:
  "keeps (run_at (pending F B W A)) (ask f)"
  "(\<And>r. ar_committed (g r) = ar_committed r) \<Longrightarrow> keeps (run_at (pending F B W A)) (set_run g)"
  "framed F S \<Longrightarrow> keeps (run_at (pending F B W A)) (tree_get E (st_tid F) b key)"
  "framed F S \<Longrightarrow> keeps (run_at (pending F B W A)) (tree_refresh E (st_tid F) b key)"
proof -
  show "keeps (run_at (pending F B W A)) (ask f)" by (rule keeps_ask) simp
  show "keeps (run_at (pending F B W A)) (set_run g)" if "\<And>r. ar_committed (g r) = ar_committed r"
    by (rule keeps_set_run) (rule that)
  have c: "calm (sarg ((''tx_id'', PStr (st_tid F)) # args) ''tx_id'') d"
    if "framed F S" "pending F B W A d n" for args d n
    using pending_calm [OF that(2)] that(1) by (simp add: framed_def arg_simps)
  show "keeps (run_at (pending F B W A)) (tree_get E (st_tid F) b key)" if "framed F S"
    unfolding tree_get_def by (rule keeps_run_tool, rule keeps_tree_tools(1), rule c [OF that])
  show "keeps (run_at (pending F B W A)) (tree_refresh E (st_tid F) b key)" if "framed F S"
    unfolding tree_refresh_def by (rule keeps_run_tool, rule keeps_tree_tools(2), rule c [OF that])
qed

lemma keeps_when [triple_intros]: "keeps P m \<Longrightarrow> keeps P (when_set s m)"
  by (simp add: when_set_def keeps_ret)

lemma recheck_post:
  assumes F: "framed F S"
  shows "triple (run_at (pending F B W A)) (tree_recheck E S (st_tid F) b winner started)
    (opt_post F (run_at (pending F B W A))) (run_at (running F))"
proof -
  note r = run_at_running
  have ab: "triple (run_at (pending F B W A)) (tree_abort E (st_tid F)) (\<lambda>_. run_at (settled F)) (run_at (running F))"
    by (rule triple_conseq [OF tree_abort_settles [OF F]]) (auto intro: r)
  have fin: "triple (run_at (settled F)) (bnd (finish_run S False PNone None winner None) (\<lambda>v. ret (Some v)))
      (opt_post F (run_at (pending F B W A))) (run_at (running F))"
    by (rule triple_conseq [OF finish_some [where P = "run_at (settled F)"]]) (auto intro: r)
  have fail: "triple (run_at (pending F B W A))
      (bnd (set_run (note_recheck reason)) (\<lambda>_.
         bnd (tree_abort E (st_tid F)) (\<lambda>_.
         bnd (ask (en_time E)) (\<lambda>now.
         bnd (set_run (\<lambda>r. r\<lparr>ar_commit_latency := fsub now started\<rparr>)) (\<lambda>_.
         bnd (finish_run S False PNone None winner None) (\<lambda>v. ret (Some v)))))))
      (opt_post F (run_at (pending F B W A))) (run_at (running F))" for reason
    apply (rule keeps_then [OF keeps_pending(2) r(1)], simp, assumption)
    apply (rule triple_bnd [OF ab])
    apply (rule keeps_then [OF keeps_settled(1) r(2)], assumption)
    apply (rule keeps_then [OF keeps_settled(2) r(2)], simp, assumption)
    apply (rule fin)
    done
  have ok: "triple (run_at (pending F B W A)) (ret None) (opt_post F (run_at (pending F B W A))) (run_at (running F))"
    by (rule triple_ret) simp
  show ?thesis
    unfolding tree_recheck_def
    by (intro keeps_then [OF keeps_when [OF keeps_pending(4) [OF F]] r(1)] keeps_then [OF keeps_pending(4) [OF F] r(1)]
        keeps_then [OF keeps_lift r(1)])
      (auto split: prod.splits intro: fail ok tame_run tame_summary)
qed


lemma put_answer_post:
  assumes F: "framed F S" and b: "b \<in> B" and W: "W \<subseteq> {None, Some b}" and v: "py_str (opt_val final_raw) = st_text F"
  shows "triple (run_at (pending F B W A)) (tree_put_answer E S (st_tid F) b final_raw)
    (\<lambda>v. run_at (\<lambda>d n. if says_ok v then n = 0 \<and> finished F d else pending F B W (insert b A) d n))
    (run_at (pending F B W (insert b A)))"
  unfolding tree_put_answer_def
proof (rule triple_bnd)
  show "triple (run_at (pending F B W A))
      (run_tool ''tree_tx_put'' (tree_tx_put (en_peer E))
         [(''tx_id'', PStr (st_tid F)), (''branch_id'', PInt b), (''key'', PStr (answer_key S)),
          (''value'', opt_val final_raw)])
      (\<lambda>_. run_at (pending F B W (insert b A))) (run_at (pending F B W (insert b A)))"
    by (rule triple_run_tool) (rule tool_put_pending [OF F b v])
  show "triple (run_at (pending F B W (insert b A)))
      (run_tool ''tree_tx_commit_retry'' (tree_tx_commit_retry (en_peer E)) [(''tx_id'', PStr (st_tid F))])
      (\<lambda>v. run_at (\<lambda>d n. if says_ok v then n = 0 \<and> finished F d else pending F B W (insert b A) d n))
      (run_at (pending F B W (insert b A)))"
    by (rule triple_run_tool) (rule tool_commit_pending [OF F W insertI1])
qed

text \<open>After the commit phase: committed and counted, or nothing has changed.\<close>

definition committed :: "star \<Rightarrow> 'w agent_world \<Rightarrow> bool" where
  "committed F s = run_at (\<lambda>d n. n = 1 \<and> finished F d) s"

definition after_commit :: "star \<Rightarrow> 'w agent_world \<Rightarrow> bool" where
  "after_commit F = run_at (\<lambda>d n. (n = 1 \<and> finished F d) \<or> (n = 0 \<and> running F d n))"

lemma says_ok_iff: "vget v ''ok'' PNone = Inr w \<Longrightarrow> says_ok v = truthy w"
  by (simp add: says_ok_def)

text \<open>The reaction to the answer of a commit: count it, or do \<open>m\<close>.\<close>

lemma commit_cases:
  assumes "triple (run_at (pending F B W A)) m Q (run_at (running F))"
    and "\<And>s. committed F s \<Longrightarrow> Q None s"
  shows "triple (run_at (\<lambda>d n. if says_ok v then n = 0 \<and> finished F d else pending F B W A d n))
    (bnd (lift_res (vget v ''ok'' PNone)) (\<lambda>okv.
       if truthy okv then bnd (set_run (\<lambda>r. r\<lparr>ar_committed := 1\<rparr>)) (\<lambda>_. ret None) else m))
    Q (run_at (running F))" (is "triple _ ?prog _ _")
proof (cases "vget v ''ok'' PNone")
  case (Inl e)
  then have "\<not> says_ok v" by (simp add: says_ok_def)
  with Inl show ?thesis
    using tame_args(2) [of v "''ok''" PNone]
    by (auto simp: triple_def bnd_def lift_res_def tame_catchable intro: run_at_running)
next
  case (Inr w)
  show ?thesis
  proof (cases "truthy w")
    case True
    with Inr have "?prog = bnd (set_run (\<lambda>r. r\<lparr>ar_committed := 1\<rparr>)) (\<lambda>_. ret None)" by simp
    moreover from True Inr have "says_ok v" by (simp add: says_ok_iff)
    ultimately show ?thesis using assms(2)
      by (simp add: triple_def bnd_def set_run_def ret_def run_at_def committed_def)
  next
    case False
    with Inr assms(1) show ?thesis by (simp add: says_ok_iff)
  qed
qed

text \<open>Bookkeeping between the steps.\<close>

lemma pending_note:
  assumes "triple (run_at (pending F B W A)) m Q (run_at (running F))" and "\<And>r. ar_committed (g r) = ar_committed r"
  shows "triple (run_at (pending F B W A)) (bnd (set_run g) (\<lambda>_. m)) Q (run_at (running F))"
  by (rule keeps_then [OF keeps_pending(2) run_at_running(1)]) (simp_all add: assms)

lemma pending_lift:
  assumes "\<And>x. triple (run_at (pending F B W A)) (f x) Q (run_at (running F))" and "tame r"
  shows "triple (run_at (pending F B W A)) (bnd (lift_res r) f) Q (run_at (running F))"
  by (rule keeps_then [OF keeps_lift run_at_running(1)]) (simp_all add: assms)

lemma pending_ask:
  assumes "\<And>x. triple (run_at (pending F B W A)) (f x) Q (run_at (running F))"
  shows "triple (run_at (pending F B W A)) (bnd (ask g) f) Q (run_at (running F))"
  by (rule keeps_then [OF keeps_pending(1) run_at_running(1)]) (simp_all add: assms)

lemma commit_post:
  assumes F: "framed F S" and b: "b \<in> B" and W: "W \<subseteq> {None, Some b}" and v: "py_str (opt_val final_raw) = st_text F"
  shows "triple (run_at (pending F B W A)) (tree_commit E S (st_tid F) b winner started final_raw)
    (opt_post F (after_commit F)) (run_at (running F))"
proof -
  let ?A = "insert b A"
  let ?Q = "opt_post F (after_commit F)"
  have put: "triple (run_at (pending F B W A)) (tree_put_answer E S (st_tid F) b final_raw)
      (\<lambda>v. run_at (\<lambda>d n. if says_ok v then n = 0 \<and> finished F d else pending F B W (insert b A) d n))
      (run_at (running F))" for A
    by (rule triple_conseq [OF put_answer_post [OF F b W v]]) (assumption | rule run_at_running(1))+
  have counted: "committed F s \<Longrightarrow> ?Q None s" for s by (simp add: after_commit_def committed_def run_at_def)
  have "triple (run_at (pending F B W ?A)) (tree_abort E (st_tid F))
      (\<lambda>_. run_at (\<lambda>d n. n = 0 \<and> settled F d n)) (run_at (running F))"
    by (rule triple_conseq [OF tree_abort_counted [OF F, where k = 0]])
      (auto simp: run_at_def pending_def intro: pending_running settled_running)
  then have abort: "triple (run_at (pending F B W ?A)) (bnd (tree_abort E (st_tid F)) (\<lambda>_. ret None)) ?Q (run_at (running F))"
    by (rule triple_bnd)
      (rule triple_ret, auto simp: after_commit_def run_at_def intro: settled_running)
  have again: "triple (run_at (pending F B W ?A)) (tree_commit_again E S (st_tid F) b final_raw) ?Q (run_at (running F))"
    unfolding tree_commit_again_def
    by (rule triple_bnd [OF put [of ?A, simplified]])
      (assumption | rule commit_cases counted pending_note pending_lift tame_run abort | simp)+
  have recheck: "triple (run_at (pending F B W ?A))
      (bnd (tree_recheck E S (st_tid F) b winner started) (\<lambda>finished.
         case finished of Some v \<Rightarrow> ret (Some v) | None \<Rightarrow> tree_commit_again E S (st_tid F) b final_raw))
      ?Q (run_at (running F))"
  proof (rule triple_bnd [OF recheck_post [OF F]])
    show "triple (opt_post F (run_at (pending F B W ?A)) r)
        (case r of Some v \<Rightarrow> ret (Some v) | None \<Rightarrow> tree_commit_again E S (st_tid F) b final_raw)
        ?Q (run_at (running F))" for r
      using again by (cases r) (simp_all add: triple_ret)
  qed
  show ?thesis
    unfolding tree_commit_def
    by (rule triple_bnd [OF put])
      (assumption | rule commit_cases counted pending_note pending_lift tame_run recheck | simp)+
qed

lemma ret_bnd: "bnd (ret x) f = f x"
  by (simp add: bnd_def ret_def fun_eq_iff)

lemma triple_get: "triple P (get_run f) (\<lambda>x s. P s \<and> x = f (aw_run s)) P"
  by (simp add: triple_def get_run_def)

lemma after_commit_running: "after_commit F s \<Longrightarrow> run_at (running F) s"
  by (auto simp: after_commit_def run_at_def running_def settled_def)

lemma keeps_after_commit:
  "keeps (after_commit F) (ask f)"
  "(\<And>r. ar_committed (g r) = ar_committed r) \<Longrightarrow> keeps (after_commit F) (set_run g)"
  unfolding after_commit_def
  by (rule keeps_ask, simp add: finished_def using_mini_def) (rule keeps_set_run, simp)

text \<open>Steps that end the run early.\<close>

lemma triple_opt:
  assumes "triple N m (opt_post F N') R"
  shows "triple (opt_post F N r) (case r of None \<Rightarrow> m | Some v \<Rightarrow> ret (Some v)) (opt_post F N') R"
  using assms by (cases r) (simp_all add: triple_ret)

lemma conclude_post:
  "triple (after_commit F) (tree_conclude E S winner started fa raw)
     (opt_post F (run_at (running F))) (run_at (running F))"
proof -
  have fin: "triple (committed F) (bnd (finish_committed E S winner fa raw) (\<lambda>v. ret (Some v)))
      (opt_post F (run_at (running F))) (run_at (running F))"
    unfolding committed_def
  proof (rule triple_bnd)
    show "triple (run_at (\<lambda>d n. n = 1 \<and> finished F d)) (finish_committed E S winner fa raw) (result_ok F)
        (run_at (running F))"
      by (rule triple_conseq [OF finish_committed_result]) (assumption | rule run_at_running(2))+
  qed (rule triple_ret, simp)
  have dec: "triple (\<lambda>s. after_commit F s \<and> n = ar_committed (aw_run s))
      (if n \<noteq> 0 then bnd (finish_committed E S winner fa raw) (\<lambda>v. ret (Some v)) else ret None)
      (opt_post F (run_at (running F))) (run_at (running F))" for n
  proof (cases "n = 0")
    case True
    then show ?thesis by (auto intro!: triple_ret simp: after_commit_def run_at_def)
  next
    case False
    then have c: "after_commit F s \<and> n = ar_committed (aw_run s) \<Longrightarrow> committed F s" for s :: "'a agent_world"
      by (auto simp: after_commit_def committed_def run_at_def)
    show ?thesis using False by simp (rule triple_conseq [OF fin], rule c, simp_all)
  qed
  have get: "triple (after_commit F) (get_run ar_committed)
      (\<lambda>n s. after_commit F s \<and> n = ar_committed (aw_run s)) (run_at (running F))"
    by (rule triple_conseq [OF triple_get [where P = "after_commit F"]]) (auto intro: after_commit_running)
  show ?thesis
    unfolding tree_conclude_def
    by (rule keeps_then [OF keeps_after_commit(1) after_commit_running], assumption)
      (rule keeps_then [OF keeps_after_commit(2) after_commit_running], simp, assumption,
       rule triple_bnd [OF get dec])
qed

lemma bump_off:
  assumes "\<not> rs_manager S"
  shows "bump_hotspot E S = ret ()"
  using assms by (simp add: bump_hotspot_def schedule_hotspot_bump_def bnd_def ret_def fun_eq_iff)

text \<open>The text a run stores.\<close>

definition stores_text :: "star \<Rightarrow> run_setup \<Rightarrow> bool" where
  "stores_text F S =
     (case order_array_from_submit_args (rs_order S) of
        Inl _ \<Rightarrow> True | Inr (fa, raw) \<Rightarrow> py_str (opt_val raw) = st_text F)"

lemma submit_post:
  assumes F: "framed F S" and txt_ok: "stores_text F S" and b: "b \<in> B" and W: "W \<subseteq> {None, Some b}"
  shows "triple (run_at (pending F B W A)) (tree_submit E S (st_tid F) b winner started)
    (opt_post F (run_at (running F))) (run_at (running F))"
proof (cases "order_array_from_submit_args (rs_order S)")
  case (Inl e)
  then show ?thesis
    using tame_run(1) [of "rs_order S"]
    by (auto simp: tree_submit_def triple_def bnd_def lift_res_def tame_catchable intro: run_at_running)
next
  case (Inr fr)
  with txt_ok have v: "py_str (opt_val (snd fr)) = st_text F" by (simp add: stores_text_def case_prod_unfold)
  from Inr show ?thesis
    unfolding tree_submit_def
    by (simp add: case_prod_unfold) (rule triple_bnd [OF commit_post [OF F b W v]], rule triple_opt, rule conclude_post)
qed

lemma winner_phase_post:
  assumes F: "framed F S" and txt_ok: "stores_text F S" and m: "\<not> rs_manager S" and b: "b \<in> B"
  shows "triple (run_at (pending F B {None} {})) (tree_winner_phase E S (st_tid F) b)
    (opt_post F (run_at (running F))) (run_at (running F))"
proof -
  let ?P = "run_at (pending F B {None, Some b} {})"
  have win: "triple (run_at (pending F B {None} {}))
      (run_tool ''tree_tx_winner'' (tree_tx_winner (en_peer E)) [(''tx_id'', PStr (st_tid F)), (''branch_id'', PInt b)])
      (\<lambda>_. ?P) (run_at (running F))"
  proof (rule triple_conseq)
    show "triple (run_at (pending F B {None} {}))
        (run_tool ''tree_tx_winner'' (tree_tx_winner (en_peer E)) [(''tx_id'', PStr (st_tid F)), (''branch_id'', PInt b)])
        (\<lambda>_. ?P) ?P"
      by (rule triple_run_tool) (rule tool_winner_pending [OF F])
  qed (assumption | rule run_at_running(1))+
  have rest: "triple ?P (bnd (tree_recheck E S (st_tid F) b winner started) (\<lambda>finished.
       case finished of Some v \<Rightarrow> ret (Some v) | None \<Rightarrow> tree_submit E S (st_tid F) b winner started))
      (opt_post F (run_at (running F))) (run_at (running F))" for winner started
    by (rule triple_bnd [OF recheck_post [OF F] triple_opt]) (rule submit_post [OF F txt_ok b], simp)
  have get: "triple ?P (bnd (get_run ar_winner_store) f) Q (run_at (running F))"
    if "\<And>x. triple ?P (f x) Q (run_at (running F))" for f :: "string \<Rightarrow> ('a, pyval option) run_prog" and Q
    by (rule keeps_then [OF keeps_get_run run_at_running(1)]) (simp_all add: that)
  show ?thesis
    unfolding tree_winner_phase_def bump_off [OF m]
    apply (simp add: ret_bnd)
    apply (rule pending_ask)
    apply (rule pending_note)
    apply (rule triple_bnd [OF win])
    apply (rule get)
    apply (rule rest)
    apply simp
    done
qed

subsection \<open>Exploring\<close>

lemma private_other: "framed F S \<Longrightarrow> st_private F b \<noteq> st_answer F"
  by (auto simp: framed_def star_ok_def)

lemma branches_post:
  assumes F: "framed F S"
  shows "triple (run_at (pending F B {None} {})) (branch_candidates E (st_tid F) candidates)
    (\<lambda>bs. run_at (pending F (set bs) {None} {})) (run_at (running F))"
  unfolding branch_candidates_def
proof (rule triple_bnd)
  have ok: "star_ok F" using F by (simp add: framed_def)
  show "triple (run_at (pending F B {None} {})) (on_db (agent_tree_branch_many (en_peer E) (st_tid F) 0 (int (length candidates))))
      (\<lambda>bs. run_at (pending F (set bs) {None} {})) (run_at (running F))"
  proof (rule triple_conseq)
    show "triple (run_at (pending F B {None} {}))
        (on_db (agent_tree_branch_many (en_peer E) (st_tid F) 0 (int (length candidates))))
        (\<lambda>bs. run_at (pending F (set bs) {None} {})) (run_at (pending F {} {None} {}))"
      by (rule triple_on_db, rule pending_on_mini [OF tbranch_many_pending [OF ok]]) (rule agent_on_mini(5))
  qed (assumption | rule run_at_running(1))+
  show "triple (run_at (pending F (set bs) {None} {}))
      (bnd (set_run (record_tool ''tree_tx_branch_many''
            [(''tx_id'', PStr (st_tid F)), (''parent_branch_id'', PInt 0), (''count'', PInt (int (length candidates)))]
            (PDict [(''ok'', PBool True), (''tx_id'', PStr (st_tid F)),
                    (''branch_ids'', PList (map PInt bs))]))) (\<lambda>_.
         if length bs \<noteq> length candidates
         then raise (PyExc RuntimeError ''TREE_BRANCH_MANY_COUNT_MISMATCH'') else ret bs))
      (\<lambda>bs. run_at (pending F (set bs) {None} {})) (run_at (running F))" for bs
    by (rule pending_note) (auto intro: triple_ret triple_raise run_at_running)
qed

lemma put_many_post:
  assumes F: "framed F S" and puts: "\<forall>(b, k, v) \<in> set puts. k = st_private F b"
  shows "triple (run_at (pending F B W A)) (write_payloads E (st_tid F) puts)
    (\<lambda>_. run_at (pending F B W A)) (run_at (running F))"
proof -
  have ok: "star_ok F" using F by (simp add: framed_def)
  have one: "keeps (mini_pending F B W A) (mini_tput (st_tid F) b (st_private F b) v)" for b v
    using tput_pending [OF _ ok, of "st_private F b" v b B W A] private_other [OF F, of b]
    by (simp add: keeps_def)
  have "keeps (mini_pending F B W A) (mini_tput_many (st_tid F) puts)"
    unfolding mini_tput_many_def
    by (rule keeps_bnd [OF keeps_for_each keeps_ret]) (use puts one in auto)
  then have "triple (mini_pending F B W A) (mini_tput_many (st_tid F) puts) (\<lambda>_. mini_pending F B W A) (mini_pending F B W A)"
    by (simp add: keeps_def)
  then have "triple (\<lambda>d. pending F B W A d n) (agent_tree_put_many (en_peer E) (st_tid F) puts)
      (\<lambda>_ d. pending F B W A d n) (\<lambda>d. pending F B W A d n)" for n
    by (rule pending_on_mini) (rule agent_on_mini(6))
  then have "triple (run_at (pending F B W A)) (on_db (agent_tree_put_many (en_peer E) (st_tid F) puts))
      (\<lambda>_. run_at (pending F B W A)) (run_at (pending F B W A))" by (rule triple_on_db)
  then have db: "keeps (run_at (pending F B W A)) (on_db (agent_tree_put_many (en_peer E) (st_tid F) puts))"
    by (simp add: keeps_def)
  show ?thesis
    unfolding write_payloads_def
    by (rule keeps_then [OF db run_at_running(1)], assumption)
      (rule keeps_weaken [OF keeps_pending(2) run_at_running(1)], simp)
qed

text \<open>Every payload belongs to a created branch and goes to that branch's own key.\<close>

lemma branch_payloads_belong:
  assumes "rfold (branch_payload E S bts) zs ([], []) = Inr (payloads, puts)"
  shows "fst ` set payloads \<subseteq> (fst \<circ> fst) ` set zs"
    and "\<forall>(b, k, v) \<in> set puts. k = branch_candidate_key (rs_namespace S) b"
proof -
  let ?I = "\<lambda>(payloads :: (int, args) dict, puts).
    fst ` set payloads \<subseteq> (fst \<circ> fst) ` set zs \<and>
    (\<forall>(b, k, v) \<in> set puts. k = branch_candidate_key (rs_namespace S) b)"
  have "?I (payloads, puts)"
  proof (rule rfold_inv [where I = ?I, OF assms])
    fix z st st' assume z: "z \<in> set zs" and I: "?I st" and run: "branch_payload E S bts z st = Inr st'"
    obtain b k v ps puts where st: "z = ((b, k), v)" "st = (ps, puts)" by (metis surj_pair)
    with run obtain payload where st': "st' = (dset ps b payload,
        puts @ [(b, branch_candidate_key (rs_namespace S) b, dumps_compact (PDict payload))])"
      by (auto simp: branch_payload_def rbind_eq_Inr)
    from z st have b: "b \<in> (fst \<circ> fst) ` set zs" by force
    have "fst ` set (dset ps b payload) \<subseteq> insert b (fst ` set ps)" by (auto dest!: set_dset)
    with I b show "?I st'" by (auto simp: st st')
  qed simp
  then show "fst ` set payloads \<subseteq> (fst \<circ> fst) ` set zs"
    and "\<forall>(b, k, v) \<in> set puts. k = branch_candidate_key (rs_namespace S) b" by auto
qed

text \<open>What exploring leaves: branches for all payloads, no winner, no answer.\<close>

definition explored :: "star \<Rightarrow> (int, args) dict \<Rightarrow> 'w agent_world \<Rightarrow> bool" where
  "explored F payloads = run_at (pending F (fst ` set payloads) {None} {})"

lemma pending_read_stores: "framed F S \<Longrightarrow> keeps (run_at (pending F B W A)) (read_stores E (st_tid F) requests)"
  unfolding read_stores_def
  by (rule keeps_bnd [OF keeps_on_db keeps_bnd [OF keeps_pending(2) keeps_ret]])
    (rule keeps_reads(2), erule pending_calm, simp_all add: framed_def)

lemma explore_branches_post:
  assumes F: "framed F S"
  shows "triple (run_at (pending F (set created) {None} {})) (explore_branches E S (st_tid F) (zip candidates created))
    (explored F) (run_at (running F))"
proof -
  let ?P = "run_at (pending F (set created) {None} {})"
  let ?pairs = "zip candidates created"
  let ?bts = "fold (\<lambda>(store_id, b) d. dset d b store_id) ?pairs []"
  let ?requests = "map (\<lambda>(store_id, b). (b, store_key S store_id)) ?pairs"
  have "triple ?P
      (bnd (lift_res (rfold (branch_payload E S ?bts) (zip ?requests store_values) ([], [])))
        (\<lambda>(payloads, puts). bnd (write_payloads E (st_tid F) puts) (\<lambda>_. ret payloads)))
      (explored F) (run_at (running F))" for store_values
  proof (cases "rfold (branch_payload E S ?bts) (zip ?requests store_values) ([], [])")
    case (Inl e)
    moreover have "tame (rfold (branch_payload E S ?bts) (zip ?requests store_values) ([], []))"
      by (intro tame_intros)
    ultimately show ?thesis
      by (auto simp: triple_def bnd_def lift_res_def tame_catchable intro: run_at_running)
  next
    case (Inr pp)
    then obtain payloads puts where pp: "pp = (payloads, puts)" by (cases pp)
    note b = branch_payloads_belong [OF Inr [unfolded pp]]
    have "fst ` set payloads \<subseteq> set created"
    proof (rule subset_trans [OF b(1)])
      show "(fst \<circ> fst) ` set (zip ?requests store_values) \<subseteq> set created"
      proof
        fix c assume "c \<in> (fst \<circ> fst) ` set (zip ?requests store_values)"
        then obtain k v where "((c, k), v) \<in> set (zip ?requests store_values)" by force
        then have "(c, k) \<in> set ?requests" by (rule set_zip_leftD)
        then show "c \<in> set created" by (auto dest: set_zip_rightD)
      qed
    qed
    then have w: "?P s \<Longrightarrow> explored F payloads s" for s :: "'a agent_world"
      unfolding explored_def by (auto simp: run_at_def elim!: pending_mono)
    have "\<forall>(b, k, v) \<in> set puts. k = st_private F b" using b(2) F by (simp add: framed_def)
    from put_many_post [OF F this] have "triple ?P (bnd (write_payloads E (st_tid F) puts) (\<lambda>_. ret payloads))
        (explored F) (run_at (running F))"
      by (rule triple_bnd) (rule triple_ret, rule w)
    with Inr pp show ?thesis by simp
  qed
  then show ?thesis
    unfolding explore_branches_def Let_def
    by (rule keeps_then [OF pending_read_stores [OF F] run_at_running(1), rotated]) assumption
qed

lemma explore_post:
  assumes F: "framed F S"
  shows "triple (run_at (pending F {} {None} {})) (tree_explore E S (st_tid F) candidates)
    (explored F) (run_at (running F))"
  unfolding tree_explore_def
proof (rule pending_ask)
  let ?P = "run_at (pending F {} {None} {})"
  fix started
  have read: "triple ?P (bnd (when_set c (tree_get E (st_tid F) 0 key)) f) (explored F) (run_at (running F))"
    if "\<And>x. triple ?P (f x) (explored F) (run_at (running F))" for c key and f :: "pyval \<Rightarrow> ('a, (int, args) dict) run_prog"
    by (rule keeps_then [OF keeps_when [OF keeps_pending(3) [OF F]] run_at_running(1)]) (simp_all add: that)
  have last: "triple (explored F payloads) (bnd (ask (en_time E)) (\<lambda>now.
      bnd (set_run (\<lambda>r. r\<lparr>ar_explore_latency := fsub now started\<rparr>)) (\<lambda>_. ret payloads)))
      (explored F) (run_at (running F))" for payloads
    unfolding explored_def by (rule pending_ask, rule pending_note) (rule triple_ret, simp_all)
  show "triple ?P (bnd (when_set (meta_key S) (tree_get E (st_tid F) 0 (meta_key S))) (\<lambda>_.
     bnd (when_set (rs_product S) (tree_get E (st_tid F) 0 (product_key S))) (\<lambda>_.
     bnd (branch_candidates E (st_tid F) candidates) (\<lambda>created.
     bnd (explore_branches E S (st_tid F) (zip candidates created)) (\<lambda>payloads.
     bnd (ask (en_time E)) (\<lambda>now.
     bnd (set_run (\<lambda>r. r\<lparr>ar_explore_latency := fsub now started\<rparr>)) (\<lambda>_.
       ret payloads))))))) (explored F) (run_at (running F))"
    by (intro read triple_bnd [OF branches_post [OF F]] triple_bnd [OF explore_branches_post [OF F]] last)
qed

lemma winner_branch_known: "find_winner_branch payloads w = Some (b, st) \<Longrightarrow> b \<in> fst ` set payloads"
  by (auto simp: find_winner_branch_def Let_def find_Some_iff split: option.splits if_splits prod.splits
      intro: rev_image_eqI dest!: nth_mem)

lemma select_post:
  "triple (explored F payloads) (tree_select E payloads)
     (\<lambda>r s. explored F payloads s \<and> (\<forall>b. r = Some b \<longrightarrow> b \<in> fst ` set payloads)) (run_at (running F))"
proof -
  let ?P = "explored F payloads"
  let ?Q = "\<lambda>r s. ?P s \<and> (\<forall>b. r = Some b \<longrightarrow> b \<in> fst ` set payloads)"
  have "triple ?P (case find_winner_branch payloads w of
         None \<Rightarrow> ret None
       | Some (b, winner) \<Rightarrow> bnd (set_run (\<lambda>r. r\<lparr>ar_winner_store := winner\<rparr>)) (\<lambda>_. ret (Some b)))
       ?Q (run_at (running F))" for w
  proof (cases "find_winner_branch payloads w")
    case None
    then show ?thesis by (simp add: triple_ret)
  next
    case (Some bw)
    have "fst bw \<in> fst ` set payloads"
      by (rule winner_branch_known [where w = w and st = "snd bw"]) (simp add: Some)
    then have "triple ?P (bnd (set_run (\<lambda>r. r\<lparr>ar_winner_store := snd bw\<rparr>)) (\<lambda>_. ret (Some (fst bw)))) ?Q (run_at (running F))"
      unfolding explored_def by (intro pending_note triple_ret) simp_all
    with Some show ?thesis by (simp add: case_prod_unfold)
  qed
  then show ?thesis
    unfolding tree_select_def explored_def by (intro pending_ask pending_lift pending_note tame_summary) simp_all
qed

end
