(* ===== verification/Vita_Agent_Props.thy ===== *)
theory Vita_Agent_Props
  imports Vita_Agent_Steps Vita_Eval_Props Vita_Select_Props
begin

text \<open>
  Properties of the reference agent in the mode with a tree transaction: it is all or nothing, and
  a run that reports a submission passes the evaluation.
\<close>

lemma body_post:
  assumes F: "framed F S" and txt_ok: "stores_text F S" and m: "\<not> rs_manager S"
  shows "triple (run_at (pending F {} {None} {})) (tree_body E S (st_tid F) candidates)
    (opt_post F (run_at (running F))) (run_at (running F))"
  unfolding tree_body_def
proof (rule triple_bnd [OF explore_post [OF F]], rule triple_bnd [OF select_post])
  let ?Q = "opt_post F (run_at (running F))"
  fix payloads r
  let ?R = "\<lambda>s :: 'a agent_world. explored F payloads s \<and> (\<forall>b. r = Some b \<longrightarrow> b \<in> fst ` set payloads)"
  have fin: "triple (run_at (settled F)) (bnd (finish_run S False PNone None [] ov) (\<lambda>v. ret (Some v))) ?Q (run_at (running F))" for ov
    by (rule triple_conseq [OF finish_some [where P = "run_at (settled F)" and N = "run_at (running F)"]])
      (auto intro: run_at_running)
  have none: "triple (explored F payloads)
      (bnd (tree_abort E (st_tid F)) (\<lambda>_.
       bnd (set_run (\<lambda>r. r\<lparr>ar_abort_count := max 1 (ar_abort_count r),
              ar_abort_reasons := (if ar_abort_reasons r = [] then [PStr ''NO_BRANCH_CREATED'']
                                   else ar_abort_reasons r)\<rparr>)) (\<lambda>_.
       bnd (get_run ar_abort_reason) (\<lambda>reason.
       bnd (finish_run S False PNone None [] (Some (or_else reason (PStr ''NO_BRANCH_CREATED''))))
         (\<lambda>v. ret (Some v)))))) ?Q (run_at (running F))"
  proof (rule triple_bnd)
    show "triple (explored F payloads) (tree_abort E (st_tid F)) (\<lambda>_. run_at (settled F)) (run_at (running F))"
      unfolding explored_def by (rule triple_conseq [OF tree_abort_settles [OF F]]) (auto intro: run_at_running)
    show "triple (run_at (settled F)) (bnd (set_run (\<lambda>r. r\<lparr>ar_abort_count := max 1 (ar_abort_count r),
              ar_abort_reasons := (if ar_abort_reasons r = [] then [PStr ''NO_BRANCH_CREATED'']
                                   else ar_abort_reasons r)\<rparr>)) (\<lambda>_.
       bnd (get_run ar_abort_reason) (\<lambda>reason.
       bnd (finish_run S False PNone None [] (Some (or_else reason (PStr ''NO_BRANCH_CREATED''))))
         (\<lambda>v. ret (Some v))))) ?Q (run_at (running F))"
      by (rule keeps_then [OF keeps_settled(2) run_at_running(2)], simp, assumption,
          rule keeps_then [OF keeps_get_run run_at_running(2)], assumption, rule fin)
  qed
  show "triple ?R (case r of
      None \<Rightarrow>
        bnd (tree_abort E (st_tid F)) (\<lambda>_.
        bnd (set_run (\<lambda>r. r\<lparr>ar_abort_count := max 1 (ar_abort_count r),
               ar_abort_reasons := (if ar_abort_reasons r = [] then [PStr ''NO_BRANCH_CREATED'']
                                    else ar_abort_reasons r)\<rparr>)) (\<lambda>_.
        bnd (get_run ar_abort_reason) (\<lambda>reason.
        bnd (finish_run S False PNone None [] (Some (or_else reason (PStr ''NO_BRANCH_CREATED''))))
          (\<lambda>v. ret (Some v)))))
    | Some b \<Rightarrow> tree_winner_phase E S (st_tid F) b) ?Q (run_at (running F))"
  proof (cases r)
    case None
    with none show ?thesis by simp
  next
    case (Some b)
    show ?thesis
    proof (cases "b \<in> fst ` set payloads")
      case True
      from winner_phase_post [OF F txt_ok m True] Some True show ?thesis by (simp add: explored_def)
    qed (use Some in \<open>simp add: triple_def\<close>)
  qed
qed

text \<open>The start of the transaction.\<close>

lemma start_pending:
  assumes m: "using_mini d" and F: "star_ok F" and t: "st_tid F = fst (pr_uuid p (adb_net d))"
    and old: "map_of (mdb_store (adb_mini d)) = st_store F" "map_of (mdb_tx_map (adb_mini d)) = st_txs F"
      "map_of (mdb_tree_map (adb_mini d)) = st_trees F"
  shows "\<exists>d'. tree_tx_start p args d = (Inr (tool_ok [(''tx_id'', PStr (st_tid F)), (''root_branch_id'', PInt 0)]), d') \<and>
    pending F {} {None} {} d' 0"
proof -
  obtain u w where u: "pr_uuid p (adb_net d) = (u, w)" by (cases "pr_uuid p (adb_net d)")
  let ?ctx = "(new_tree_context u (mdb_store (adb_mini d)))\<lparr>mtc_branches := dset [] 0 (new_branch 0 0)\<rparr>"
  let ?d = "d\<lparr>adb_net := w, adb_mini := adb_mini d\<lparr>mdb_tree_map := dset (mdb_tree_map (adb_mini d)) u ?ctx\<rparr>\<rparr>"
  have run: "tree_tx_start p args d = (Inr (tool_ok [(''tx_id'', PStr u), (''root_branch_id'', PInt 0)]), ?d)"
    using m u by (simp add: tree_tx_start_def tool_try_def try_except_def bnd_def ret_def agent_tree_start_def
      on_mini_new_def on_mini_def mini_tstart_def new_tree_context_def)
  have "flat_branch F ?ctx b br" if "dget (mtc_branches ?ctx) b = Some br" for b br
    using that by (auto simp: flat_branch_def new_branch_def new_tree_context_def split: if_splits)
  then have "flat_tree F ?ctx" by (auto simp: flat_tree_def new_tree_context_def)
  moreover have "facts F {} {None} {} ?ctx" by (simp add: facts_def new_tree_context_def)
  ultimately have "mini_opened F {} {None} {} (adb_mini ?d)"
    using old t u by (auto simp: mini_opened_def)
  moreover have "using_mini ?d" using m by (simp add: using_mini_def)
  ultimately have "pending F {} {None} {} ?d 0" by (simp add: pending_def mini_pending_def)
  with run t u show ?thesis by auto
qed

text \<open>A run from before its transaction starts.\<close>

definition fresh_run :: "'w env \<Rightarrow> star \<Rightarrow> 'w agent_db \<Rightarrow> int \<Rightarrow> bool" where
  "fresh_run E F d n =
     (n = 0 \<and> using_mini d \<and> st_tid F = fst (pr_uuid (en_peer E) (adb_net d)) \<and>
      mini_closed F (st_store F) (adb_mini d))"

lemma fresh_settled: "fresh_run E F d n \<Longrightarrow> settled F d n"
  by (simp add: fresh_run_def settled_def)

lemma tree_run_post:
  assumes F: "framed F S" and txt_ok: "stores_text F S" and m: "\<not> rs_manager S"
  shows "triple (run_at (fresh_run E F)) (tree_run E S candidates) (result_ok F) (run_at (settled F))"
  unfolding tree_run_def tree_give_up_def
proof (rule triple_bnd)
  let ?P = "run_at (pending F {} {None} {})"
  let ?started = "tool_ok [(''tx_id'', PStr (st_tid F)), (''root_branch_id'', PInt 0)]"
  have ok: "star_ok F" using F by (simp add: framed_def)
  show "triple (run_at (fresh_run E F)) (run_tool ''tree_tx_start'' (tree_tx_start (en_peer E)) [])
      (\<lambda>v. run_at (\<lambda>d n. v = ?started \<and> pending F {} {None} {} d n)) (run_at (settled F))"
  proof (rule triple_run_tool)
    fix n
    show "triple (\<lambda>d. fresh_run E F d n) (tree_tx_start (en_peer E) [])
        (\<lambda>v d. v = ?started \<and> pending F {} {None} {} d n) (\<lambda>d. settled F d n)"
      unfolding triple_def
    proof (intro allI impI)
      fix d assume "fresh_run E F d n"
      then have "n = 0" "using_mini d" "st_tid F = fst (pr_uuid (en_peer E) (adb_net d))"
        "map_of (mdb_store (adb_mini d)) = st_store F" "map_of (mdb_tx_map (adb_mini d)) = st_txs F"
        "map_of (mdb_tree_map (adb_mini d)) = st_trees F"
        by (simp_all add: fresh_run_def mini_closed_def)
      with start_pending [OF this(2) ok this(3-6), of "[]"]
      show "case tree_tx_start (en_peer E) [] d of (Inl e, d') \<Rightarrow> catchable e \<and> settled F d' n
        | (Inr x, d') \<Rightarrow> x = ?started \<and> pending F {} {None} {} d' n" by auto
    qed
  qed
  fix v
  let ?Q = "opt_post F (run_at (running F))"
  have caught: "triple ?P (try_except (tree_body E S (st_tid F) candidates)
      (\<lambda>e. bnd (set_run (note_abort (PStr (exc_msg e)))) (\<lambda>_. ret None))) ?Q (run_at (settled F))"
  proof (rule triple_try [OF body_post [OF F txt_ok m]])
    show "triple (run_at (running F)) (bnd (set_run (note_abort (PStr (exc_msg e)))) (\<lambda>_. ret None)) ?Q (run_at (settled F))" for e
      by (simp add: triple_def bnd_def set_run_def ret_def run_at_def)
  qed
  have abort: "triple (run_at (running F)) (try_except (tree_abort E (st_tid F)) (\<lambda>_. ret ()))
      (\<lambda>_. run_at (settled F)) (run_at (settled F))"
    by (rule triple_try [OF tree_abort_settles [OF F]]) (rule triple_ret)
  have rest: "triple (?Q r) (case r of
        Some v \<Rightarrow> ret v
      | None \<Rightarrow>
          bnd (try_except (tree_abort E (st_tid F)) (\<lambda>_. ret ())) (\<lambda>_.
          bnd (get_run ar_winner_store) (\<lambda>winner. finish_run S False PNone None winner None)))
      (result_ok F) (run_at (settled F))" for r
  proof (cases r)
    case None
    have "triple (run_at (settled F)) (bnd (get_run ar_winner_store) (\<lambda>winner. finish_run S False PNone None winner None))
        (result_ok F) (run_at (settled F))"
      by (rule keeps_then [OF keeps_get_run], assumption, rule finish_result) simp
    from triple_bnd [OF abort this] None show ?thesis by simp
  qed (simp add: triple_ret)
  have noted: "triple ?P (bnd (set_run g) (\<lambda>_. n)) Q (run_at (settled F))"
    if "triple ?P n Q (run_at (settled F))" "\<And>r. ar_committed (g r) = ar_committed r" for g n Q
    using that by (simp add: triple_def bnd_def set_run_def run_at_def)
  show "triple (run_at (\<lambda>d n. v = ?started \<and> pending F {} {None} {} d n))
     (bnd (lift_res (vget v ''ok'' PNone)) (\<lambda>okv.
       if \<not> truthy okv
       then bnd (lift_res (vget v ''error'' (PStr ''TREE_TX_START_FAILED''))) (\<lambda>reason.
            bnd (set_run (\<lambda>r. r\<lparr>ar_abort_count := 1, ar_abort_reason := reason,
                                ar_abort_reasons := [reason]\<rparr>)) (\<lambda>_.
              finish_run S False PNone None [] (Some reason)))
       else
         bnd (lift_res (vsub v ''tx_id'')) (\<lambda>tv.
         let t = py_str tv in
         bnd (set_run (\<lambda>r. r\<lparr>ar_txn_attempts := 1, ar_explore_attempts := 1\<rparr>)) (\<lambda>_.
         bnd (try_except (tree_body E S t candidates)
                (\<lambda>e. bnd (set_run (note_abort (PStr (exc_msg e)))) (\<lambda>_. ret None))) (\<lambda>finished.
           case finished of
             Some v \<Rightarrow> ret v
           | None \<Rightarrow>
               bnd (try_except (tree_abort E t) (\<lambda>_. ret ())) (\<lambda>_.
               bnd (get_run ar_winner_store) (\<lambda>winner.
                 finish_run S False PNone None winner None)))))))
    (result_ok F) (run_at (settled F))"
  proof (cases "v = ?started")
    case True
    have "vget ?started ''ok'' PNone = Inr (PBool True)" "vsub ?started ''tx_id'' = Inr (PStr (st_tid F))"
      by (simp_all add: vget_def vsub_def vitem_def tool_ok_def dget_def_def)
    with True show ?thesis by (simp add: Let_def) (rule noted [OF triple_bnd [OF caught rest]], simp)
  qed (simp add: triple_def run_at_def)
qed

text \<open>Reading the candidates touches nothing.\<close>

lemma keeps_candidates:
  "keeps (run_at (fresh_run E F)) (candidates_of E S)"
proof -
  have t: "keeps (run_at (fresh_run E F)) (run_tool name tool args)"
    if "\<And>n. keeps (\<lambda>d. fresh_run E F d n) (tool args)" for name tool args
    by (rule keeps_run_tool) (rule that)
  have s: "keeps (run_at (fresh_run E F)) (set_run g)" if "\<And>r. ar_committed (g r) = ar_committed r" for g
    by (rule keeps_set_run) (rule that)
  show ?thesis
    unfolding candidates_of_def Let_def
    by (intro keeps_bnd keeps_lift keeps_ret t s keeps_read_tools tame_intros) (simp_all add: fresh_run_def)
qed

lemma agent_post:
  assumes F: "framed F S" and txt_ok: "stores_text F S" and m: "\<not> rs_manager S" and mode: "rs_mode S \<noteq> ''baseline''"
  shows "triple (run_at (fresh_run E F)) (agent_run_prog E S) (result_ok F) (run_at (settled F))"
  unfolding agent_run_prog_def
proof (rule keeps_then [OF keeps_candidates])
  let ?P = "run_at (fresh_run E F)"
  show w: "?P s \<Longrightarrow> run_at (settled F) s" for s :: "'a agent_world"
    by (auto simp: run_at_def intro: fresh_settled)
  have "triple ?P (finish_run S False PNone None [] ov) (result_ok F) (run_at (settled F))" for ov
    by (rule finish_result) (simp add: w)
  with tree_run_post [OF F txt_ok m, of E] mode
  show "triple ?P (if cs = [] then finish_run S False PNone None [] (Some (PStr ''NO_CANDIDATE_STORE''))
      else if rs_mode S = ''baseline'' then baseline_run E S cs else tree_run E S cs)
    (result_ok F) (run_at (settled F))" for cs by simp
qed

lemma tame_profile [tame_intros]: "tame (profile_loop i t ps)"
  by (induction ps) (auto intro!: tame_intros)

lemma tame_setup:
  "tame (setup_of task ns mode k contention m prob policy att)"
proof -
  have o: "tame (required_order t)" for t
    unfolding required_order_def by (intro tame_intros)
  have f: "tame (find_store_and_product_ids t)" for t
    unfolding find_store_and_product_ids_def available_product_ids_def product_ids_of_def Let_def
    by (intro tame_intros o)
  have p: "tame (expected_product_profile t)" for t
    unfolding expected_product_profile_def Let_def by (intro tame_intros o)
  show ?thesis unfolding setup_of_def by (intro tame_intros o f p)
qed

subsection \<open>The property\<close>

text \<open>The text a run stores as the answer: the expected order without the routing fields, as JSON.\<close>

definition answer_text :: "pyval \<Rightarrow> string" where
  "answer_text task =
     (case rbind (required_order task) order_array_from_submit_args of
        Inl _ \<Rightarrow> []
      | Inr (final_answer, final_raw) \<Rightarrow> py_str (opt_val final_raw))"

text \<open>The store after a run that committed branch \<open>b\<close>.\<close>

definition answer_stored ::
  "string \<Rightarrow> string \<Rightarrow> int \<Rightarrow> (string \<Rightarrow> string option) \<Rightarrow> (string \<Rightarrow> string option) \<Rightarrow> bool" where
  "answer_stored namespace val b old new =
     (new (task_key namespace ''answer:final'') = Some val \<and>
      (\<forall>k. k \<notin> {task_key namespace ''answer:final'', branch_candidate_key namespace b} \<longrightarrow> new k = old k))"

lemma private_ne: "branch_candidate_key ns b \<noteq> task_key ns ''answer:final''"
  by (simp add: branch_candidate_key_def task_key_def lstrip_char_def)

text \<open>What a run is measured against, for a task it can set up.\<close>

definition run_star :: "'w env \<Rightarrow> run_setup \<Rightarrow> string \<Rightarrow> 'w agent_db \<Rightarrow> star" where
  "run_star E S val c =
     \<lparr>st_store = map_of (mdb_store (adb_mini c)), st_txs = map_of (mdb_tx_map (adb_mini c)),
      st_trees = map_of (mdb_tree_map (adb_mini c)), st_tid = fst (pr_uuid (en_peer E) (adb_net c)),
      st_answer = answer_key S, st_text = val, st_private = branch_candidate_key (rs_namespace S)\<rparr>"

lemma setup_fields:
  assumes "setup_of task ns mode k contention m prob policy att = Inr S"
  shows "rs_namespace S = ns" "rs_mode S = mode" "rs_manager S = m" "required_order task = Inr (rs_order S)"
  using assms by (auto simp: setup_of_def rbind_eq_Inr)

definition run_outcome :: "string \<Rightarrow> string \<Rightarrow> 'w agent_db \<Rightarrow> pyval res \<Rightarrow> 'w agent_db \<Rightarrow> bool" where
  "run_outcome ns val c r c' =
     (let old = dget (mdb_store (adb_mini c)); new = dget (mdb_store (adb_mini c')) in
      using_mini c' \<and> dget (mdb_tx_map (adb_mini c')) = dget (mdb_tx_map (adb_mini c)) \<and>
      dget (mdb_tree_map (adb_mini c')) = dget (mdb_tree_map (adb_mini c)) \<and>
      (new = old \<or> (\<exists>b. answer_stored ns val b old new)) \<and>
      (case r of
         Inl e \<Rightarrow> catchable e
       | Inr v \<Rightarrow> (\<exists>d n ok. v = PDict d \<and> dget d ''committed_attempts'' = Some (PInt n) \<and>
           dget d ''submit_ok'' = Some (PBool ok) \<and>
           ((n = 0 \<and> \<not> ok \<and> new = old) \<or> (n = 1 \<and> (\<exists>b. answer_stored ns val b old new))))))"

lemma unchanged_outcome: "using_mini c \<Longrightarrow> catchable e \<Longrightarrow> run_outcome ns val c (Inl e) c"
  by (simp add: run_outcome_def)

lemma settled_outcome:
  assumes "settled (run_star E S val c) c' n" and "rs_namespace S = ns"
  defines "old \<equiv> dget (mdb_store (adb_mini c))" and "new \<equiv> dget (mdb_store (adb_mini c'))"
  shows "using_mini c'" "dget (mdb_tx_map (adb_mini c')) = dget (mdb_tx_map (adb_mini c))"
    "dget (mdb_tree_map (adb_mini c')) = dget (mdb_tree_map (adb_mini c))"
    "(n = 0 \<and> new = old) \<or> (n = 1 \<and> (\<exists>b. answer_stored ns val b old new))"
  using assms by (auto simp: settled_def finished_def mini_closed_def run_star_def answered_def answer_stored_def
      answer_key_def)

lemma agent_outcome:
  assumes mini: "using_mini c" and mode: "mode \<noteq> ''baseline''"
    and ns: "strip (task_key namespace ''answer:final'') = task_key namespace ''answer:final''"
    and fresh: "is_word (fst (pr_uuid (en_peer E) (adb_net c)))"
      "\<not> dhas (mdb_tree_map (adb_mini c)) (fst (pr_uuid (en_peer E) (adb_net c)))"
    and S: "setup_of task namespace mode top_k contention False probability policy attempts = Inr S"
    and run: "agent_run_prog E S \<lparr>aw_db = c, aw_run = run_init ins\<rparr> = (r, s')"
  shows "run_outcome namespace (answer_text task) c r (aw_db s')"
proof -
  note f = setup_fields [OF S]
  let ?F = "run_star E S (answer_text task) c"
  have F: "framed ?F S"
    using fresh ns f private_ne
    by (auto simp: framed_def star_ok_def run_star_def dhas_iff answer_key_def is_word_def)
  have stores: "stores_text ?F S"
    using f by (simp add: stores_text_def run_star_def answer_text_def split: sum.splits)
  let ?s = "\<lparr>aw_db = c, aw_run = run_init ins\<rparr>"
  have start: "run_at (fresh_run E ?F) ?s"
    using mini by (simp add: run_at_def fresh_run_def run_star_def mini_closed_def run_init_def)
  have post: "triple (run_at (fresh_run E ?F)) (agent_run_prog E S) (result_ok ?F) (run_at (settled ?F))"
    using f mode by (intro agent_post F stores) simp_all
  show ?thesis
  proof (cases r)
    case (Inl e)
    from triple_run_exn [OF post start run [unfolded Inl]]
    have e: "catchable e" "settled ?F (aw_db s') (ar_committed (aw_run s'))" by (simp_all add: run_at_def)
    note o = settled_outcome [OF e(2) f(1)]
    from o(4) have "dget (mdb_store (adb_mini (aw_db s'))) = dget (mdb_store (adb_mini c)) \<or>
      (\<exists>b. answer_stored namespace (answer_text task) b
         (dget (mdb_store (adb_mini c))) (dget (mdb_store (adb_mini (aw_db s')))))" by blast
    with e(1) o(1-3) show ?thesis unfolding run_outcome_def Let_def Inl by simp
  next
    case (Inr v)
    from triple_run [OF post start run [unfolded Inr]]
    have v: "result_ok ?F v s'" "settled ?F (aw_db s') (ar_committed (aw_run s'))"
      by (simp_all add: result_ok_def run_at_def)
    from v(1) obtain d ok where d: "v = PDict d" "dget d ''committed_attempts'' = Some (PInt (ar_committed (aw_run s')))"
      "dget d ''submit_ok'' = Some (PBool ok)" "ok \<longrightarrow> ar_committed (aw_run s') = 1"
      by (auto simp: result_ok_def)
    note o = settled_outcome [OF v(2) f(1)]
    from o(4) d(4) have "(ar_committed (aw_run s') = 0 \<and> \<not> ok \<and> dget (mdb_store (adb_mini (aw_db s'))) = dget (mdb_store (adb_mini c))) \<or>
      (ar_committed (aw_run s') = 1 \<and> (\<exists>b. answer_stored namespace (answer_text task) b
         (dget (mdb_store (adb_mini c))) (dget (mdb_store (adb_mini (aw_db s'))))))" by auto
    with d o(1-3) show ?thesis unfolding run_outcome_def Let_def Inr by auto
  qed
qed

lemma reference_run_outcome:
  assumes mini: "using_mini c" and mode: "mode \<noteq> ''baseline''"
    and ns: "strip (task_key namespace ''answer:final'') = task_key namespace ''answer:final''"
    and fresh: "is_word (fst (pr_uuid (en_peer E) (adb_net c)))"
      "\<not> dhas (mdb_tree_map (adb_mini c)) (fst (pr_uuid (en_peer E) (adb_net c)))"
    and run: "reference_agent_run E task namespace mode top_k contention False probability policy attempts c = (r, c')"
  shows "run_outcome namespace (answer_text task) c r c'"
proof (cases "setup_of task namespace mode top_k contention False probability policy attempts")
  case (Inl e)
  with run have "r = Inl e" "c' = c" by (simp_all add: reference_agent_run_def bnd_def lift_res_def)
  with Inl tame_setup [of task namespace mode top_k contention False probability policy attempts] mini
  show ?thesis by (simp add: unchanged_outcome tame_catchable)
next
  case (Inr S)
  show ?thesis
  proof (cases "vget task ''instructions'' (PStr [])")
    case (Inl e)
    with Inr run have "r = Inl e" "c' = c" by (simp_all add: reference_agent_run_def bnd_def lift_res_def)
    with Inl tame_args(2) [of task "''instructions''" "PStr []"] mini show ?thesis
      by (simp add: unchanged_outcome tame_catchable)
  next
    case ins: (Inr ins)
    obtain r1 s' where s': "agent_run_prog E S \<lparr>aw_db = c, aw_run = run_init ins\<rparr> = (r1, s')"
      by (metis surj_pair)
    with Inr ins run have "r1 = r" "aw_db s' = c'"
      by (simp_all add: reference_agent_run_def)
    with agent_outcome [OF mini mode ns fresh Inr s'] show ?thesis by simp
  qed
qed

subsection \<open>A committed run passes the evaluation\<close>

text \<open>An expected order whose location is an object and whose products are objects.\<close>

definition order_shape :: "(string \<times> pyval) list \<Rightarrow> bool" where
  "order_shape d =
     ((case dget_def d ''location'' (PDict []) of PDict _ \<Rightarrow> True | _ \<Rightarrow> False) \<and>
      (case dget_def d ''products'' (PList []) of
         PList ps \<Rightarrow> (\<forall>p \<in> set ps. case p of PDict _ \<Rightarrow> True | _ \<Rightarrow> False) | _ \<Rightarrow> False))"

lemma readable_no_nan: "readable v \<Longrightarrow> no_nan v"
proof (induction v)
  case (PFloat x)
  then show ?case by (cases x) auto
next
  case (PDict d)
  then show ?case by (fastforce simp: snds.simps)
qed auto

lemma readable_comparable:
  assumes "readable v"
  shows "\<exists>w. comparable_value v = Inr w \<and> py_eq w w"
proof (cases v)
  case (PStr s)
  with assms show ?thesis using comparable_string by blast
next
  case (PInt i)
  with assms show ?thesis using comparable_int [of i] rounded_eq by auto
next
  case (PFloat x)
  with assms obtain q where "x = Fin q" by (cases x) auto
  with PFloat show ?thesis using comparable_float rounded_eq by auto
next
  case (PBool b)
  from PBool show ?thesis using rounded_eq [of "if b then 1 else 0"] by (simp add: comparable_value_def del: round6.simps)
qed (use assms py_eq_refl [OF readable_no_nan [OF assms]] in \<open>auto simp: comparable_value_def\<close>)

lemma readable_default: "readable (PDict d) \<Longrightarrow> readable w \<Longrightarrow> readable (dget_def d k w)"
  using readable_item [of d k] by (cases "dget d k") (auto simp: dget_def_def)

lemma self_match: "readable v \<Longrightarrow> field_mismatch l v v = Inr []"
  using readable_comparable [of v] field_match by blast

lemma normalized_self: "readable v \<Longrightarrow> py_eq (normalized_shipping v) (normalized_shipping v)"
  by (auto simp: normalized_shipping_def intro: py_eq_refl readable_no_nan)

lemma float_of_str_empty: "float_of_str [] \<noteq> Some NaN"
  by code_simp

text \<open>An order that agrees on all compared fields with itself.\<close>

lemma order_self_match:
  assumes r: "readable (PDict d)" and shape: "order_shape d"
    and same: "\<And>k w. k \<notin> {''namespace'', ''task_id'', ''tx_id'', ''branch_id''} \<Longrightarrow> dget_def a k w = dget_def d k w"
  shows "order_mismatches (PDict d) (PDict a) = Inr []"
proof -
  have v: "vget (PDict a) k w = Inr (dget_def d k w)" "vget (PDict d) k w = Inr (dget_def d k w)"
    if "k \<notin> {''namespace'', ''task_id'', ''tx_id'', ''branch_id''}" for k w
    using same [OF that] by (simp_all add: vget_def)
  note rd = readable_default [OF r]
  from shape obtain l where l: "dget_def d ''location'' (PDict []) = PDict l"
    by (auto simp: order_shape_def split: pyval.splits)
  from shape obtain ps where ps: "dget_def d ''products'' (PList []) = PList ps"
    "\<forall>p \<in> set ps. case p of PDict _ \<Rightarrow> True | _ \<Rightarrow> False"
    by (auto simp: order_shape_def split: pyval.splits)
  have rl: "readable (PDict l)" using rd [of "PDict []" "''location''"] l by simp
  have rp: "readable (PList ps)" using rd [of "PList []" "''products''"] ps(1) by simp
  show ?thesis
  proof (rule order_matches)
    show "exact_mismatch (PDict d) (PDict a) f = Inr []" if "f \<in> set exact_fields" for f
    proof -
      have "f \<notin> {''namespace'', ''task_id'', ''tx_id'', ''branch_id''}" using that by (auto simp: exact_fields_def)
      from v [OF this] show ?thesis by (simp add: exact_mismatch_def self_match rd)
    qed
    show "soft_mismatch (PDict d) (PDict a) f = Inr []" if "f \<in> set soft_fields" for f
    proof -
      have f: "f \<notin> {''namespace'', ''task_id'', ''tx_id'', ''branch_id''}" using that by (auto simp: soft_fields_def)
      have "readable (PStr [])" by (simp add: float_of_str_empty)
      then obtain w where "comparable_value (dget_def d f (PStr [])) = Inr w" "py_eq w w"
        using readable_comparable [OF rd] by blast
      with v [OF f] show ?thesis by (simp add: soft_mismatch_def)
    qed
    show "shipping_mismatch (PDict d) (PDict a) = Inr []"
      using v [of "''shipping_time''"] normalized_self [OF rd, of PNone "''shipping_time''"]
      by (simp add: shipping_mismatch_def Let_def)
    show "vget (PDict d) ''location'' (PDict []) = Inr (PDict l)" "vget (PDict a) ''location'' (PDict []) = Inr (PDict l)"
      using v [of "''location''"] l by simp_all
    show "location_mismatch (PDict l) (PDict l) f = Inr []" for f
      using py_eq_refl [OF readable_no_nan [OF readable_default [OF rl, of PNone f]]]
      by (simp add: location_mismatch_def vget_def)
    show "vget (PDict d) ''products'' (PList []) = Inr (PList ps)" "vget (PDict a) ''products'' (PList []) = Inr (PList ps)"
      using v [of "''products''"] ps(1) by simp_all
    show "products_mismatch (PList ps) (PList ps) = Inr []"
    proof (rule products_match)
      fix i f assume i: "i < length ps"
      with ps(2) rp obtain p where p: "ps ! i = PDict p" "readable (PDict p)"
        by (cases "ps ! i") (auto dest!: bspec [OF _ nth_mem])
      with readable_default [OF p(2), of PNone f]
      show "\<exists>x y. vget (ps ! i) f PNone = Inr x \<and> vget (ps ! i) f PNone = Inr y \<and> (\<forall>l. field_mismatch l y x = Inr [])"
        by (auto simp: vget_def self_match)
    qed simp
  qed
qed

lemma dict_ok_filter: "dict_ok d \<Longrightarrow> dict_ok (filter f d)"
  by (induction d) (auto simp: dict_ok_def)

lemma dget_filter:
  "(\<And>v. f (k, v)) \<Longrightarrow> dget (filter f d) k = dget d k"
  by (induction d) auto

lemma stored_order:
  assumes r: "readable (PDict d)" and d: "d \<noteq> []" "order_shape d"
  obtains a where "order_array_from_submit_args (PDict d) = Inr (PList [PDict a], Some (dumps_compact (PList [PDict a])))"
    and "json_ok (PDict a)" and "order_mismatches (PDict d) (PDict a) = Inr []"
proof -
  let ?a = "filter (\<lambda>(k, v). k \<notin> {''namespace'', ''task_id'', ''tx_id'', ''branch_id''}) d"
  have "order_array_from_submit_args (PDict d) = Inr (PList [PDict ?a], Some (dumps_compact (PList [PDict ?a])))"
    using d(1) by (simp add: order_array_from_submit_args_def Let_def)
  moreover have "json_ok (PDict ?a)"
    using readable_json_ok [OF r] dict_ok_filter by auto
  moreover have "order_mismatches (PDict d) (PDict ?a) = Inr []"
    by (rule order_self_match [OF r d(2)]) (simp add: dget_def_def dget_filter)
  ultimately show ?thesis by (rule that)
qed

subsection \<open>A run that commits\<close>

definition ex_run_order :: "(string \<times> pyval) list" where
  "ex_run_order = [(''store_id'', PStr ''s'')]"

definition ex_run_task :: pyval where
  "ex_run_task = PDict [(''id'', PInt 1),
     (''evaluation_criteria'', PDict [(''expected_states'', PList [PDict
     [(''required_orders'', PList [PDict ex_run_order])]])])]"

definition ex_run_store :: "(string, string) dict" where
  "ex_run_store =
     [(''n:store:s:detail'', dumps_compact (PDict [(''name'', PStr ''x'')]))]"

definition ex_run_client :: "string agent_db" where
  "ex_run_client = ex_router_client\<lparr>adb_mini := mini_init\<lparr>mdb_store := ex_run_store\<rparr>\<rparr>"

definition ex_env :: "string env" where
  "ex_env = \<lparr>en_peer = ex_peer, en_unicode = ex_unicode, en_time = (\<lambda>w. (Fin 0, w)),
     en_random = (\<lambda>w. (Fin 0, w)), en_uniform = (\<lambda>w. (Fin 1, w)), en_interference = (\<lambda>_ d. d)\<rparr>"

definition ex_run :: "pyval res \<times> string agent_db" where
  "ex_run = reference_agent_run ex_env ex_run_task ''n'' ''tree'' 3 ''none'' False (Fin 1) ''fixed'' 2 ex_run_client"

lemma ex_run_submits:
  "case fst ex_run of Inr (PDict v) \<Rightarrow> dget v ''submit_ok'' = Some (PBool True) | _ \<Rightarrow> False"
  by code_simp

lemma ex_run_facts:
  "using_mini ex_run_client" "''tree'' \<noteq> ''baseline''" "strip ''n'' = ''n''"
  "strip (task_key ''n'' ''answer:final'') = task_key ''n'' ''answer:final''"
  "is_word (fst (pr_uuid (en_peer ex_env) (adb_net ex_run_client)))"
  "\<not> dhas (mdb_tree_map (adb_mini ex_run_client)) (fst (pr_uuid (en_peer ex_env) (adb_net ex_run_client)))"
  by (simp add: ex_run_client_def ex_router_client_def ex_client_simps using_mini_def) code_simp+

subsection \<open>The properties\<close>

text \<open>C4: a run of the reference agent in a tree transaction on the in-memory database, without
  interference, is all or nothing, whatever task, data set and peer: it returns a result or raises an
  exception that Python code can catch (no climb through the branches goes on for ever), it leaves
  exactly the transactions open that were open before, and either the store is unchanged and the
  result counts no commit and does not report a submission, or one commit is counted and the store
  holds the expected order's text under the answer key and is otherwise unchanged but for the private
  key of the winner's branch. No path (failed checks, the second commit, exceptions, a winner that
  cannot be chosen) leaves a transaction behind or half of the answer written.\<close>

theorem tree_agent_all_or_nothing:
  assumes mini: "using_mini c" and mode: "mode \<noteq> ''baseline''"
    and ns: "strip (task_key namespace ''answer:final'') = task_key namespace ''answer:final''"
    and fresh: "is_word (fst (pr_uuid (en_peer E) (adb_net c)))"
      "\<not> dhas (mdb_tree_map (adb_mini c)) (fst (pr_uuid (en_peer E) (adb_net c)))"
    and run: "reference_agent_run E task namespace mode top_k contention False probability policy attempts c = (r, c')"
  shows "run_outcome namespace (answer_text task) c r c'"
  by (rule reference_run_outcome [OF assms])

theorem tree_agent_all_or_nothing_witness:
  "run_outcome ''n'' (answer_text ex_run_task) ex_run_client (fst ex_run) (snd ex_run)"
  by (rule tree_agent_all_or_nothing [OF ex_run_facts(1,2,4,5,6), where top_k = 3 and contention = "''none''"
      and probability = "Fin 1" and policy = "''fixed''" and attempts = 2])
    (simp add: ex_run_def)

text \<open>C5: a tree run that reports a submission has solved its task, under these conditions: the
  in-memory back end, no interference, a fresh transaction id, a namespace without surrounding
  white space, and a task that expects a non-empty order, whose location and products are
  objects, with integers below 2 to the 53, finite floats, no key twice and no text that reads as
  NaN. Then after every run with \<open>submit_ok\<close> the evaluation reads back the stored answer and accepts it with reward one,
  so the JSON text, the dropped routing fields and the comparison with rounding never reject the
  answer the agent itself wrote. (Of a task without an expected order nothing is said: there
  \<open>submit_ok\<close> comes with \<open>None\<close> stored, see the findings.)\<close>

theorem submitted_run_passes:
  assumes mini: "using_mini c" and mode: "mode \<noteq> ''baseline''"
    and ns: "strip namespace = namespace" and fresh: "is_word (fst (pr_uuid (en_peer E) (adb_net c)))"
      "\<not> dhas (mdb_tree_map (adb_mini c)) (fst (pr_uuid (en_peer E) (adb_net c)))"
    and order: "required_order task = Inr (PDict d)" "d \<noteq> []" "readable (PDict d)" "order_shape d"
    and run: "reference_agent_run E task namespace mode top_k contention False probability policy attempts c = (Inr (PDict v), c')"
    and ok: "dget v ''submit_ok'' = Some (PBool True)"
  shows "\<exists>e. hard_evaluate_task (en_peer E) task namespace fallback_parsed fallback_raw c' = (Inr (PDict e), c') \<and>
    dget e ''success'' = Some (PBool True) \<and> dget e ''reward'' = Some (PFloat (Fin 1)) \<and>
    dget e ''mismatches'' = Some (PList [])"
proof -
  from stored_order [OF order(3,2,4)] obtain a where
    a: "order_array_from_submit_args (PDict d) = Inr (PList [PDict a], Some (dumps_compact (PList [PDict a])))"
      "json_ok (PDict a)" "order_mismatches (PDict d) (PDict a) = Inr []" .
  let ?raw = "dumps_compact (PList [PDict a])"
  have val: "answer_text task = ?raw" using order(1) a(1) by (simp add: answer_text_def opt_val_def)
  have key: "strip (task_key namespace ''answer:final'') = task_key namespace ''answer:final''"
    using key_stripped [OF ns] by (simp add: task_key_def tool_key_def)
  from reference_run_outcome [OF mini mode key fresh run] ok
  obtain b where m: "using_mini c'" and st: "answer_stored namespace ?raw b (dget (mdb_store (adb_mini c))) (dget (mdb_store (adb_mini c')))"
    by (auto simp: run_outcome_def Let_def val)
  have "json_ok (PList [PDict a])" using a(2) by simp
  then have l: "loads ?raw = Some (PList [PDict a])" by (rule loads_dumps_compact)
  have ne: "?raw \<noteq> []" by (simp add: dumps_compact_def)
  from m st have "agent_kv_get (en_peer E) (task_key namespace ''answer:final'') c' = (Inr (Some ?raw), c')"
    by (simp add: mini_read mini_store_of_def answer_stored_def)
  with ne l have load: "load_final_answer (en_peer E) namespace c' = (Inr (PList [PDict a], Some ?raw), c')"
    by (simp add: load_final_answer_def prog_simps)
  have "hard_evaluate_task (en_peer E) task namespace fallback_parsed fallback_raw c' =
      (Inr (verdict True [] [] [(''expected_order'', PDict d), (''actual_order'', PDict a)]), c')"
    using ne by (simp add: hard_evaluate_task_def order(1) load prog_simps judge_answer_def a(3))
  then show ?thesis by (simp add: verdict_def)
qed

theorem submitted_run_passes_witness:
  "\<exists>v c' e. ex_run = (Inr (PDict v), c') \<and>
    hard_evaluate_task ex_peer ex_run_task ''n'' PNone None c' = (Inr (PDict e), c') \<and>
    dget e ''success'' = Some (PBool True) \<and> dget e ''reward'' = Some (PFloat (Fin 1)) \<and>
    dget e ''mismatches'' = Some (PList [])"
proof -
  from ex_run_submits obtain v where v: "fst ex_run = Inr (PDict v)"
    and ok: "dget v ''submit_ok'' = Some (PBool True)"
    by (auto split: sum.splits pyval.splits)
  then have run: "ex_run = (Inr (PDict v), snd ex_run)" by (simp add: prod_eq_iff)
  have order: "required_order ex_run_task = Inr (PDict ex_run_order)" "ex_run_order \<noteq> []" "order_shape ex_run_order"
    by (simp_all add: ex_run_task_def ex_run_order_def required_order_def vget_def dget_def_def vindex_def order_shape_def)
  have p: "en_peer ex_env = ex_peer" by (simp add: ex_env_def)
  have "float_of_str ''s'' \<noteq> Some NaN" by code_simp
  then have "readable (PDict ex_run_order)" by (simp add: ex_run_order_def)
  from submitted_run_passes [OF ex_run_facts(1-3,5,6) order(1,2) this order(3) run [unfolded ex_run_def] ok]
  obtain e where "hard_evaluate_task ex_peer ex_run_task ''n'' PNone None (snd ex_run) = (Inr (PDict e), snd ex_run)"
    "dget e ''success'' = Some (PBool True)" "dget e ''reward'' = Some (PFloat (Fin 1))"
    "dget e ''mismatches'' = Some (PList [])" unfolding p ex_run_def by blast
  with run show ?thesis by blast
qed

end
