(* ===== verification/Vita_Baseline_Props.thy ===== *)
theory Vita_Baseline_Props
  imports Vita_Agent_Props
begin

text \<open>
  Properties of the reference agent in the mode with one transaction per try: how often it retries.
\<close>

subsection \<open>Programs that keep a property of the run's variables\<close>

text \<open>\<open>always P m\<close>: whatever the client does and however \<open>m\<close> ends, \<open>P\<close> of the variables is kept.\<close>

definition always :: "(agent_run \<Rightarrow> bool) \<Rightarrow> ('w, 'a) run_prog \<Rightarrow> bool" where
  "always P m = (\<forall>s. P (aw_run s) \<longrightarrow> P (aw_run (snd (m s))))"

named_theorems always_intros "how programs keep a property of the variables"

lemma always_basic [always_intros]:
  "always P (ret x)" "always P (lift_res r)" "always P (get_run f)" "always P (on_db m')" "always P (ask g)"
  "(\<And>r. P r \<Longrightarrow> P (h r)) \<Longrightarrow> always P (set_run h)"
  by (auto simp: always_def ret_def lift_res_def get_run_def on_db_def ask_def set_run_def split: prod.splits)

lemma always_bnd [always_intros]: "always P m \<Longrightarrow> (\<And>x. always P (f x)) \<Longrightarrow> always P (bnd m f)"
  unfolding always_def bnd_def by (fastforce split: prod.splits sum.splits)

lemma always_try [always_intros]: "always P m \<Longrightarrow> (\<And>e. always P (h e)) \<Longrightarrow> always P (try_except m h)"
  unfolding always_def try_except_def by (fastforce split: prod.splits sum.splits)

lemma always_cases [always_intros]:
  "(b \<Longrightarrow> always P m) \<Longrightarrow> (\<not> b \<Longrightarrow> always P n) \<Longrightarrow> always P (if b then m else n)"
  "(\<And>x y. always P (g x y)) \<Longrightarrow> always P (case p of (x, y) \<Rightarrow> g x y)"
  by (simp_all split: prod.splits)

lemma always_run_tool [always_intros]:
  "(\<And>result r. P r \<Longrightarrow> P (record_tool name args result r)) \<Longrightarrow> always P (run_tool name tool args)"
  unfolding run_tool_def by (intro always_intros)

text \<open>The programs of a round keep every property that the bookkeeping keeps.\<close>

definition bookkeeping :: "(agent_run \<Rightarrow> bool) \<Rightarrow> bool" where
  "bookkeeping P =
     ((\<forall>name args result r. P r \<longrightarrow> P (record_tool name args result r)) \<and>
      (\<forall>r. P r \<longrightarrow> P (r\<lparr>ar_rolled_back := ar_rolled_back r + 1\<rparr>)) \<and>
      (\<forall>r. P r \<longrightarrow> P (r\<lparr>ar_bumps := ar_bumps r + 1\<rparr>)) \<and> (\<forall>r b. P r \<longrightarrow> P (r\<lparr>ar_bumped := b\<rparr>)) \<and>
      (\<forall>r reason. P r \<longrightarrow> P (note_recheck reason r)) \<and> (\<forall>r reason. P r \<longrightarrow> P (note_abort reason r)) \<and>
      (\<forall>r x. P r \<longrightarrow> P (r\<lparr>ar_commit_latency := x\<rparr>)) \<and>
      (\<forall>r. P r \<longrightarrow> P (r\<lparr>ar_committed := ar_committed r + 1\<rparr>)))"

lemma bump_always: "bookkeeping P \<Longrightarrow> always P (bump_hotspot E S)"
  unfolding bump_hotspot_def schedule_hotspot_bump_def
  by (intro always_intros) (auto simp: bookkeeping_def always_def)

lemma winner_body_always:
  assumes "bookkeeping P"
  shows "always P (winner_body E S w st used t)"
  unfolding winner_body_def base_get_def base_put_def when_set_def finish_committed_def finish_run_def
  by (intro always_intros bump_always assms) (use assms in \<open>auto simp: bookkeeping_def\<close>)

text \<open>\<open>ends P m Q\<close>: from \<open>P\<close>, \<open>m\<close> ends with a result and variables that \<open>Q\<close> relates.\<close>

definition ends :: "(agent_run \<Rightarrow> bool) \<Rightarrow> ('w, 'a) run_prog \<Rightarrow> ('a res \<Rightarrow> agent_run \<Rightarrow> bool) \<Rightarrow> bool" where
  "ends P m Q = (\<forall>s. P (aw_run s) \<longrightarrow> Q (fst (m s)) (aw_run (snd (m s))))"

lemma ends_bnd:
  assumes "always P m" and "\<And>x. ends P (f x) Q" and "\<And>e r. P r \<Longrightarrow> Q (Inl e) r"
  shows "ends P (bnd m f) Q"
  using assms unfolding ends_def always_def bnd_def by (fastforce split: prod.splits sum.splits)

lemma ends_set: "(\<And>r. P r \<Longrightarrow> Q (Inr x) (h r)) \<Longrightarrow> ends P (bnd (set_run h) (\<lambda>_. ret x)) Q"
  by (simp add: ends_def bnd_def set_run_def ret_def)

lemma ends_step: "(\<And>r. P r \<Longrightarrow> P' (h r)) \<Longrightarrow> ends P' (f ()) Q \<Longrightarrow> ends P (bnd (set_run h) f) Q"
  by (simp add: ends_def bnd_def set_run_def)

lemma ends_if: "(b \<Longrightarrow> ends P m Q) \<Longrightarrow> (\<not> b \<Longrightarrow> ends P n Q) \<Longrightarrow> ends P (if b then m else n) Q"
  by simp

lemma ends_outcome:
  "ends P m Q \<Longrightarrow> (\<And>v. ends P (f v) Q) \<Longrightarrow> ends P n Q \<Longrightarrow>
   ends P (case x of Break_loop \<Rightarrow> m | Return_result v \<Rightarrow> f v | Fall_through \<Rightarrow> n) Q"
  by (cases x) simp_all

lemma ends_ret: "(\<And>r. P r \<Longrightarrow> Q (Inr x) r) \<Longrightarrow> ends P (ret x) Q"
  by (simp add: ends_def ret_def)

text \<open>
  The counters of a round: every round is counted once, a retry once, and a retry happens only
  where the policy allows it.
\<close>

definition counts :: "int \<Rightarrow> int \<Rightarrow> agent_run \<Rightarrow> bool" where
  "counts k j r = (ar_winner_rounds r = k \<and> ar_retry_count r = j)"

definition counted :: "run_setup \<Rightarrow> int \<Rightarrow> int \<Rightarrow> int \<Rightarrow> round_outcome res \<Rightarrow> agent_run \<Rightarrow> bool" where
  "counted S used k j res r =
     (if res = Inr Retry
      then counts k (j + 1) r \<and> should_retry_baseline_winner used (rs_policy S) (rs_max_attempts S)
      else counts k j r)"

lemma counts_bookkeeping: "bookkeeping (counts k j)"
  by (simp add: bookkeeping_def counts_def record_tool_def note_abort_def note_recheck_def)

lemma retry_counted: "ends (counts k j) (retry_or_stop E S used) (counted S used k j)"
  by (auto simp: retry_or_stop_def ends_def bnd_def set_run_def ask_def ret_def counted_def counts_def split: prod.splits)

lemma round_counted:
  "ends (counts k j) (winner_round E S w st used) (counted S used (k + 1) j)"
proof -
  let ?P = "counts (k + 1) j" and ?Q = "counted S used (k + 1) j"
  note b = counts_bookkeeping [of "k + 1" j]
  have e: "?P r \<Longrightarrow> ?Q (Inl e) r" for e r by (simp add: counted_def)
  have q: "ends ?P (ret x) ?Q" if "x \<noteq> Retry" for x
    using that by (intro ends_ret) (simp add: counted_def)
  have a: "always ?P (set_run (note_abort reason))" "always ?P (run_tool name tool args)"
    for reason name and tool :: "args \<Rightarrow> ('a, pyval) db_prog" and args
    by (intro always_intros; use b in \<open>simp add: bookkeeping_def\<close>)+
  have r: "always ?P (base_rollback E t)" for t
    unfolding base_rollback_def by (intro always_intros a(2)) (use b in \<open>simp add: bookkeeping_def\<close>)
  show ?thesis
    unfolding winner_round_def
    by (rule ends_step [where P' = ?P], simp add: counts_def)
      (intro ends_bnd ends_if ends_outcome retry_counted q a r e winner_body_always [OF b]
        always_basic always_try always_bnd; simp add: counts_def)
qed

lemma loop_bounded:
  assumes policy: "rs_policy S \<noteq> ''until_success''"
  shows "used < max 1 (rs_max_attempts S) \<Longrightarrow> \<exists>r s'.
    winner_loop (winner_round E S w st) used s = Some (r, s') \<and>
    (let n = ar_winner_rounds (aw_run s') - ar_winner_rounds (aw_run s) in
       1 \<le> n \<and> n \<le> max 1 (rs_max_attempts S) - used \<and>
       ar_retry_count (aw_run s') = ar_retry_count (aw_run s) + n - 1)"
proof (induction "nat (max 1 (rs_max_attempts S) - used)" arbitrary: used s rule: less_induct)
  case less
  let ?max = "max 1 (rs_max_attempts S)"
  let ?k = "ar_winner_rounds (aw_run s)" and ?j = "ar_retry_count (aw_run s)"
  obtain r s1 where run: "winner_round E S w st (used + 1) s = (r, s1)" by (cases "winner_round E S w st (used + 1) s")
  have "counts ?k ?j (aw_run s)" by (simp add: counts_def)
  with round_counted [of ?k ?j E S w st "used + 1"] run have c: "counted S (used + 1) (?k + 1) ?j r (aw_run s1)"
    unfolding ends_def by (metis fst_conv snd_conv)
  show ?case
  proof (cases "r = Inr Retry")
    case True
    with c policy have u: "used + 1 < ?max" and k: "ar_winner_rounds (aw_run s1) = ?k + 1" "ar_retry_count (aw_run s1) = ?j + 1"
      by (simp_all add: counted_def counts_def should_retry_baseline_winner_def)
    from u have "nat (?max - (used + 1)) < nat (?max - used)" by simp
    from less.hyps [OF this u, of s1] obtain r' s' where
      l: "winner_loop (winner_round E S w st) (used + 1) s1 = Some (r', s')"
      and n: "1 \<le> ar_winner_rounds (aw_run s') - ar_winner_rounds (aw_run s1)"
        "ar_winner_rounds (aw_run s') - ar_winner_rounds (aw_run s1) \<le> ?max - (used + 1)"
        "ar_retry_count (aw_run s') = ar_retry_count (aw_run s1) + (ar_winner_rounds (aw_run s') - ar_winner_rounds (aw_run s1)) - 1"
      by (auto simp: Let_def)
    from run True l have "winner_loop (winner_round E S w st) used s = Some (r', s')"
      by (simp add: winner_loop.simps [of _ used])
    with n k show ?thesis by (auto simp: Let_def)
  next
    case False
    with run have "\<exists>r'. winner_loop (winner_round E S w st) used s = Some (r', s1)"
      by (auto simp: winner_loop.simps [of _ used] split: sum.splits round_outcome.splits)
    moreover have "ar_winner_rounds (aw_run s1) = ?k + 1" "ar_retry_count (aw_run s1) = ?j"
      using c False by (simp_all add: counted_def counts_def)
    ultimately show ?thesis using less.prems by (auto simp: Let_def)
  qed
qed

subsection \<open>Retrying without end\<close>

text \<open>A server that refuses every connection, and no back end to fall back to.\<close>

definition refuses :: "'w peer \<Rightarrow> bool" where
  "refuses p = (\<forall>host port w. \<exists>e w'. pr_connect p host port w = (Inl e, w') \<and> catchable e)"

definition server_only :: "'w agent_world \<Rightarrow> bool" where
  "server_only s = (\<not> using_mini (aw_db s) \<and> \<not> adb_allow_fallback (aw_db s))"

lemma start_refused:
  assumes "refuses p" and "\<not> using_mini d" and "\<not> adb_allow_fallback d"
  shows "\<exists>msg w. tx_start p args d = (Inr (tool_err msg []), d\<lparr>adb_net := w\<rparr>)"
proof -
  from assms(1) obtain e w where c: "pr_connect p (adb_host d) (adb_port d) (adb_net d) = (Inl e, w)" "catchable e"
    unfolding refuses_def by metis
  have "open_session p (adb_host d) (adb_port d) (adb_net d) = (Inl e, w)"
    using c by (simp add: open_session_def session_init_def session_connect_def prog_simps)
  then have "agent_start p d = (Inl e, d\<lparr>adb_net := w\<rparr>)"
    using assms(2,3) c(2) by (simp add: agent_start_def or_fallback_def on_net_def open_tx_def prog_simps)
  with c(2) show ?thesis by (auto simp: tx_start_def tool_try_def prog_simps)
qed

lemma round_refused:
  assumes "refuses (en_peer E)" and "rs_policy S = ''until_success''" and "server_only s"
  shows "\<exists>s'. winner_round E S w st used s = (Inr Retry, s') \<and> server_only s'"
proof -
  obtain msg w1 where t: "tx_start (en_peer E) [] (aw_db s) = (Inr (tool_err msg []), (aw_db s)\<lparr>adb_net := w1\<rparr>)"
    using start_refused [OF assms(1)] assms(3) unfolding server_only_def by blast
  have v: "vget (tool_err msg []) ''ok'' PNone = Inr (PBool False)"
    "vget (tool_err msg []) ''error'' (PStr ''TX_START_FAILED'') = Inr (PStr msg)"
    by (simp_all add: vget_def tool_err_def dget_def_def)
  obtain x w2 where u: "en_uniform E w1 = (x, w2)" by (cases "en_uniform E w1")
  from assms(2,3) show ?thesis
    by (simp add: winner_round_def run_tool_def on_db_def t v u bnd_def set_run_def lift_res_def ret_def
      retry_or_stop_def should_retry_baseline_winner_def ask_def server_only_def using_mini_def)
qed

lemma loop_refused:
  assumes "refuses (en_peer E)" and "rs_policy S = ''until_success''"
    and "winner_loop (winner_round E S w st) used s = Some y"
  shows "\<not> server_only s"
proof -
  have "f = winner_round E S w st \<longrightarrow> \<not> server_only s" if "winner_loop f used s = Some y" for f used s y
  proof (rule winner_loop.raw_induct [where P = "\<lambda>f used s y. f = winner_round E S w st \<longrightarrow> \<not> server_only s"],
      intro impI notI)
    fix loop f used s y
    assume IH: "\<And>f used s y. loop f used s = Some y \<Longrightarrow> f = winner_round E S w st \<longrightarrow> \<not> server_only s"
      and body: "(case f (used + 1) s of
        (Inl e, s') \<Rightarrow> Some (Inl e, s')
      | (Inr Retry, s') \<Rightarrow> loop f (used + 1) s'
      | (Inr Stop, s') \<Rightarrow> Some (Inr None, s')
      | (Inr (Finished v), s') \<Rightarrow> Some (Inr (Some v), s')) = Some y"
      and f: "f = winner_round E S w st" and s: "server_only s"
    from round_refused [OF assms(1,2) s, of w st "used + 1"] obtain s' where
      "f (used + 1) s = (Inr Retry, s')" "server_only s'" unfolding f by blast
    with body IH [of f "used + 1" s' y] f show False by simp
  qed (rule that)
  with assms(3) show ?thesis by blast
qed

subsection \<open>The properties\<close>


definition ex_setup :: "string \<Rightarrow> run_setup" where
  "ex_setup policy =
     \<lparr>rs_task_id = ''t'', rs_namespace = ''n'', rs_mode = ''baseline'', rs_top_k = 1, rs_contention = ''none'',
      rs_manager = False, rs_probability = Fin 1, rs_policy = policy, rs_max_attempts = 3,
      rs_order = PDict [], rs_store = ''s'', rs_product = [], rs_profile = PDict [], rs_hotspot = []\<rparr>"

definition ex_world :: "string agent_world" where
  "ex_world = \<lparr>aw_db = ex_client ''socket'' [], aw_run = run_init PNone\<rparr>"


text \<open>C7: under the policy \<open>until_success\<close> the loop never ends when the server cannot be reached: if every
  connection is refused and there is no back end to fall back to, the run of the agent, and with it
  the whole experiment, hangs.\<close>

theorem until_success_never_gives_up:
  assumes "refuses (en_peer E)" and "rs_policy S = ''until_success''" and "server_only s"
  shows "winner_loop (winner_round E S w st) 0 s = None"
  using loop_refused [OF assms(1,2), of w st 0 s] assms(3) by (cases "winner_loop (winner_round E S w st) 0 s") auto

definition ex_dead :: "string env" where
  "ex_dead = ex_env\<lparr>en_peer := ex_peer\<lparr>pr_connect := \<lambda>_ _ w. (Inl (PyExc ConnectionError ''refused''), w)\<rparr>\<rparr>"

theorem until_success_never_gives_up_witness:
  "winner_loop (winner_round ex_dead (ex_setup ''until_success'') ''s'' (Fin 0)) 0 ex_world = None"
  by (rule until_success_never_gives_up)
    (simp_all add: ex_dead_def ex_env_def ex_setup_def refuses_def server_only_def ex_world_def ex_client_simps, simp add: ex_client_def)

end
