(* ===== verification/Mini_Db_Spec.thy ===== *)
theory Mini_Db_Spec
  imports Mini_Db_Tree
begin

text \<open>
  What \<open>MiniDBClient\<close> promises, without its data structures: a store and, for each open
  transaction, maps. A branch of a tree transaction has the path of branches up to the root, fixed
  when it is made, and the writes of its own; what a read through a branch sees is the snapshot
  overridden along the path, and a commit overrides the store the same way. There is no loop and
  no dictionary. The abstraction function and the simulation of every method show that the
  in-memory database implements it.
\<close>

subsection \<open>The specification\<close>

type_synonym 'k kmap = "'k \<Rightarrow> string option"

record tree_spec =
  ts_snapshot :: "string kmap"
  ts_writes :: "int \<Rightarrow> string kmap"
  ts_path :: "int \<Rightarrow> int list option"
  ts_next :: int
  ts_winner :: "int option"

record spec_db =
  sp_store :: "string kmap"
  sp_txs :: "string \<Rightarrow> (string kmap \<times> string kmap) option"
  sp_trees :: "string \<Rightarrow> tree_spec option"

definition spec_init :: spec_db where
  "spec_init = \<lparr>sp_store = Map.empty, sp_txs = Map.empty, sp_trees = Map.empty\<rparr>"

definition overlay :: "string kmap \<Rightarrow> string kmap list \<Rightarrow> string kmap" where
  "overlay m ws = foldr (\<lambda>w acc. acc ++ w) ws m"

definition ts_overlay :: "tree_spec \<Rightarrow> string kmap \<Rightarrow> int list \<Rightarrow> string kmap" where
  "ts_overlay T m path = overlay m (map (ts_writes T) path)"

text \<open>The calls a client can make, and what they answer.\<close>

datatype mini_call =
    KvGet string
  | TxStart string | TxGet string string | TxPut string string string | TxCommit string | TxRollback string
  | TreeStart string | TreeBranch string int | TreeGet string int string bool
  | TreePut string int string string | TreeWinner string int | TreeRefresh string int string
  | TreeCommit string | TreeAbort string

datatype mini_answer = AId string | ABranch int | AValue "string option" | ADone

definition no_tx :: "string \<Rightarrow> pyexc" where
  "no_tx t = PyExc RuntimeError (''invalid or inactive tx_id: '' @ t)"

definition no_tree :: "string \<Rightarrow> pyexc" where
  "no_tree t = PyExc RuntimeError (''invalid or inactive tree tx_id: '' @ t)"

fun spec_tx :: "mini_call \<Rightarrow> spec_db \<Rightarrow> string kmap \<times> string kmap \<Rightarrow> mini_answer res \<times> spec_db" where
  "spec_tx (TxGet t k) S (snap, w) = (Inr (AValue ((snap ++ w) k)), S)"
| "spec_tx (TxPut t k v) S (snap, w) = (Inr ADone, S\<lparr>sp_txs := (sp_txs S)(t \<mapsto> (snap, w(k \<mapsto> v)))\<rparr>)"
| "spec_tx (TxCommit t) S (snap, w) =
     (Inr ADone, S\<lparr>sp_store := sp_store S ++ w, sp_txs := (sp_txs S)(t := None)\<rparr>)"
| "spec_tx (TxRollback t) S (snap, w) = (Inr ADone, S\<lparr>sp_txs := (sp_txs S)(t := None)\<rparr>)"
| "spec_tx _ S _ = (Inr ADone, S)"

definition set_tree :: "string \<Rightarrow> tree_spec \<Rightarrow> spec_db \<Rightarrow> spec_db" where
  "set_tree t T S = S\<lparr>sp_trees := (sp_trees S)(t \<mapsto> T)\<rparr>"

fun spec_tree :: "mini_call \<Rightarrow> spec_db \<Rightarrow> tree_spec \<Rightarrow> mini_answer res \<times> spec_db" where
  "spec_tree (TreeBranch t p) S T =
     (case ts_path T p of
        None \<Rightarrow> (Inl (PyExc RuntimeError (''unknown parent branch_id: '' @ str_int p)), S)
      | Some path \<Rightarrow>
          (Inr (ABranch (ts_next T)),
           set_tree t (T\<lparr>ts_path := (ts_path T)(ts_next T \<mapsto> ts_next T # path),
                         ts_next := ts_next T + 1\<rparr>) S))"
| "spec_tree (TreeGet t b k strict) S T =
     (case ts_path T b of
        None \<Rightarrow> (Inl (PyExc RuntimeError (''unknown branch_id: '' @ str_int b)), S)
      | Some path \<Rightarrow>
          (Inr (AValue (if strict then ts_snapshot T k else ts_overlay T (ts_snapshot T) path k)), S))"
| "spec_tree (TreePut t b k v) S T =
     (if ts_path T b = None then (Inl (PyExc RuntimeError (''unknown branch_id: '' @ str_int b)), S)
      else if b = 0
      then (Inl (PyExc RuntimeError ''root branch is read-only in mini tree mode''), S)
      else (Inr ADone,
            set_tree t (T\<lparr>ts_writes := (ts_writes T)(b := (ts_writes T b)(k \<mapsto> v))\<rparr>) S))"
| "spec_tree (TreeWinner t b) S T =
     (if ts_path T b = None
      then (Inl (PyExc RuntimeError (''unknown winner branch_id: '' @ str_int b)), S)
      else (Inr ADone, set_tree t (T\<lparr>ts_winner := Some b\<rparr>) S))"
| "spec_tree (TreeRefresh t b k) S T =
     (if ts_winner T \<noteq> Some b
      then (Inl (PyExc RuntimeError (''branch '' @ str_int b @ '' is not the winner'')), S)
      else (Inr (AValue (ts_snapshot T k)), S))"
| "spec_tree (TreeCommit t) S T =
     (case ts_winner T of
        None \<Rightarrow> (Inl (PyExc RuntimeError ''winner branch is not selected''), S)
      | Some w \<Rightarrow>
          (Inr ADone, S\<lparr>sp_store := ts_overlay T (sp_store S) (the (ts_path T w)),
                        sp_trees := (sp_trees S)(t := None)\<rparr>))"
| "spec_tree (TreeAbort t) S T = (Inr ADone, S\<lparr>sp_trees := (sp_trees S)(t := None)\<rparr>)"
| "spec_tree _ S _ = (Inr ADone, S)"

definition new_tree_spec :: "string kmap \<Rightarrow> tree_spec" where
  "new_tree_spec snap =
     \<lparr>ts_snapshot = snap, ts_writes = (\<lambda>_. Map.empty), ts_path = [0 \<mapsto> [0]], ts_next = 1,
      ts_winner = None\<rparr>"

fun call_tx :: "mini_call \<Rightarrow> string option" where
  "call_tx (TxGet t k) = Some t"
| "call_tx (TxPut t k v) = Some t"
| "call_tx (TxCommit t) = Some t"
| "call_tx (TxRollback t) = Some t"
| "call_tx _ = None"

fun call_tree :: "mini_call \<Rightarrow> string option" where
  "call_tree (TreeBranch t p) = Some t"
| "call_tree (TreeGet t b k strict) = Some t"
| "call_tree (TreePut t b k v) = Some t"
| "call_tree (TreeWinner t b) = Some t"
| "call_tree (TreeRefresh t b k) = Some t"
| "call_tree (TreeCommit t) = Some t"
| "call_tree (TreeAbort t) = Some t"
| "call_tree _ = None"

definition spec_call :: "mini_call \<Rightarrow> (spec_db, mini_answer) prog" where
  "spec_call c S =
     (case c of
        KvGet k \<Rightarrow> (Inr (AValue (sp_store S k)), S)
      | TxStart t \<Rightarrow> (Inr (AId t), S\<lparr>sp_txs := (sp_txs S)(t \<mapsto> (sp_store S, Map.empty))\<rparr>)
      | TreeStart t \<Rightarrow> (Inr (AId t), set_tree t (new_tree_spec (sp_store S)) S)
      | _ \<Rightarrow>
        (case call_tx c of
           Some t \<Rightarrow> (case sp_txs S t of None \<Rightarrow> (Inl (no_tx t), S) | Some x \<Rightarrow> spec_tx c S x)
         | None \<Rightarrow>
             (case call_tree c of
                Some t \<Rightarrow> (case sp_trees S t of None \<Rightarrow> (Inl (no_tree t), S) | Some T \<Rightarrow> spec_tree c S T)
              | None \<Rightarrow> (Inr ADone, S))))"

subsection \<open>The implementation\<close>

definition answer :: "('a \<Rightarrow> mini_answer) \<Rightarrow> (mini_db, 'a) prog \<Rightarrow> (mini_db, mini_answer) prog" where
  "answer f m = bnd m (\<lambda>x. ret (f x))"

fun run_call :: "mini_call \<Rightarrow> (mini_db, mini_answer) prog" where
  "run_call (KvGet k) = (\<lambda>db. (Inr (AValue (mini_kv_get db k)), db))"
| "run_call (TxStart t) = answer AId (mini_start t)"
| "run_call (TxGet t k) = answer AValue (mini_get t k)"
| "run_call (TxPut t k v) = answer (\<lambda>_. ADone) (mini_put t k v)"
| "run_call (TxCommit t) = answer (\<lambda>_. ADone) (mini_commit t)"
| "run_call (TxRollback t) = answer (\<lambda>_. ADone) (mini_rollback t)"
| "run_call (TreeStart t) = answer AId (mini_tstart t)"
| "run_call (TreeBranch t p) = answer ABranch (mini_tbranch t p)"
| "run_call (TreeGet t b k strict) = answer AValue (mini_tget t b k strict)"
| "run_call (TreePut t b k v) = answer (\<lambda>_. ADone) (mini_tput t b k v)"
| "run_call (TreeWinner t b) = answer (\<lambda>_. ADone) (mini_twinner t b)"
| "run_call (TreeRefresh t b k) = answer AValue (mini_trefresh_winner t b k)"
| "run_call (TreeCommit t) = answer (\<lambda>_. ADone) (mini_tcommit_retry t)"
| "run_call (TreeAbort t) = answer (\<lambda>_. ADone) (mini_tabort t)"

text \<open>A history of calls, each made whether or not an earlier one raised, and all its answers.\<close>

fun history :: "('c \<Rightarrow> ('s, 'a) prog) \<Rightarrow> 'c list \<Rightarrow> 's \<Rightarrow> 'a res list \<times> 's" where
  "history call [] s = ([], s)"
| "history call (c # cs) s =
     (case call c s of (r, s1) \<Rightarrow> case history call cs s1 of (rs, s2) \<Rightarrow> (r # rs, s2))"

subsection \<open>The abstraction\<close>

definition abs_tree :: "mini_tree_context \<Rightarrow> tree_spec" where
  "abs_tree ctx =
     \<lparr>ts_snapshot = map_of (mtc_snapshot ctx),
      ts_writes = (\<lambda>b. case dget (mtc_branches ctx) b of
                         None \<Rightarrow> Map.empty | Some br \<Rightarrow> map_of (mtb_writes br)),
      ts_path = (\<lambda>b. if dhas (mtc_branches ctx) b then Some (map mtb_branch_id (lineage ctx b))
                     else None),
      ts_next = mtc_next_branch_id ctx, ts_winner = mtc_winner_branch_id ctx\<rparr>"

definition abs_db :: "mini_db \<Rightarrow> spec_db" where
  "abs_db db =
     \<lparr>sp_store = map_of (mdb_store db),
      sp_txs = (\<lambda>t. map_option (\<lambda>tx. (map_of (txc_snapshot tx), map_of (txc_writes tx)))
                      (dget (mdb_tx_map db) t)),
      sp_trees = (\<lambda>t. map_option abs_tree (dget (mdb_tree_map db) t))\<rparr>"

lemma abs_init: "abs_db mini_init = spec_init"
  by (simp add: abs_db_def mini_init_def spec_init_def fun_eq_iff)

lemma abs_tree_path:
  "dget (mtc_branches ctx) b = Some br \<Longrightarrow>
   ts_path (abs_tree ctx) b = Some (map mtb_branch_id (lineage ctx b))"
  "dget (mtc_branches ctx) b = None \<Longrightarrow> ts_path (abs_tree ctx) b = None"
  by (simp_all add: abs_tree_def dhas_iff)

lemma abs_tree_fields [simp]:
  "ts_snapshot (abs_tree ctx) = map_of (mtc_snapshot ctx)"
  "ts_next (abs_tree ctx) = mtc_next_branch_id ctx"
  "ts_winner (abs_tree ctx) = mtc_winner_branch_id ctx"
  by (simp_all add: abs_tree_def)

text \<open>The overlay along a path is the climb that stops at the first write.\<close>

lemma overlay_lineage:
  assumes ok: "tree_ok (t, ctx)" and br: "dget (mtc_branches ctx) b = Some br"
  shows "ts_overlay (abs_tree ctx) m (map mtb_branch_id (lineage ctx b)) =
    m ++ first_write (lineage ctx b)"
proof -
  have "overlay m (map (\<lambda>x. ts_writes (abs_tree ctx) (mtb_branch_id x)) brs) = m ++ first_write brs"
    if "\<forall>x \<in> set brs. dget (mtc_branches ctx) (mtb_branch_id x) = Some x" for brs
    using that
    by (induction brs)
      (auto simp: overlay_def fun_eq_iff map_add_def abs_tree_def split: option.splits)
  moreover have "\<forall>x \<in> set (lineage ctx b). dget (mtc_branches ctx) (mtb_branch_id x) = Some x"
    using lineage_branches [OF ok br] by blast
  ultimately show ?thesis by (simp add: ts_overlay_def comp_def)
qed

text \<open>The path of a branch depends on the parents only.\<close>

lemma lineage_ids_cong:
  assumes ok: "tree_ok (t, ctx)" and ok': "tree_ok (t', ctx')"
    and same: "\<And>c cr. dget (mtc_branches ctx) c = Some cr \<Longrightarrow>
      \<exists>cr'. dget (mtc_branches ctx') c = Some cr' \<and> mtb_parent_branch_id cr' = mtb_parent_branch_id cr"
  shows "dget (mtc_branches ctx) b = Some br \<Longrightarrow>
    map mtb_branch_id (lineage ctx' b) = map mtb_branch_id (lineage ctx b)"
proof (induction "nat b" arbitrary: b br rule: less_induct)
  case less
  obtain br' where br': "dget (mtc_branches ctx') b = Some br'"
    and par: "mtb_parent_branch_id br' = mtb_parent_branch_id br" using same [OF less.prems] by blast
  have bok: "branch_ok ctx (b, br)" and bok': "branch_ok ctx' (b, br')"
    by (rule tree_ok_branch [OF ok less.prems], rule tree_ok_branch [OF ok' br'])
  show ?case
  proof (cases "b = 0")
    case True
    then show ?thesis
      using lineage_unfold(1) [OF ok less.prems] lineage_unfold(1) [OF ok' br'] bok bok'
      by (simp add: branch_ok_def)
  next
    case False
    with bok obtain q where "0 \<le> mtb_parent_branch_id br" "mtb_parent_branch_id br < b"
      "dget (mtc_branches ctx) (mtb_parent_branch_id br) = Some q"
      by (auto simp: branch_ok_def dhas_iff)
    with less.hyps [of "mtb_parent_branch_id br" q] show ?thesis
      using lineage_unfold(1) [OF ok less.prems] lineage_unfold(1) [OF ok' br'] bok bok' par
      by (simp add: branch_ok_def)
  qed
qed

subsection \<open>The simulation\<close>

text \<open>A call keeps the invariant, and answers and acts as the specification does on the abstract state.\<close>

definition simulates :: "mini_call \<Rightarrow> mini_db \<Rightarrow> bool" where
  "simulates c db =
     (spec_call c (abs_db db) = (fst (run_call c db), abs_db (snd (run_call c db))) \<and>
      mini_inv (snd (run_call c db)))"

lemma sp_trees_abs: "sp_trees (abs_db db) t = map_option abs_tree (dget (mdb_tree_map db) t)"
  by (simp add: abs_db_def)

lemma require_tree_None:
  "dget (mdb_tree_map db) t = None \<Longrightarrow> require_tree_tx db t = Inl (no_tree t)"
  by (simp add: require_tree_tx_def no_tree_def)

lemma require_tree_Some:
  "mini_inv db \<Longrightarrow> dget (mdb_tree_map db) t = Some ctx \<Longrightarrow> require_tree_tx db t = Inr ctx"
  by (simp add: require_tree_tx_iff)

lemma require_tx_None: "dget (mdb_tx_map db) t = None \<Longrightarrow> require_tx db t = Inl (no_tx t)"
  by (simp add: require_tx_def no_tx_def)

lemma require_tx_Some:
  "mini_inv db \<Longrightarrow> dget (mdb_tx_map db) t = Some tx \<Longrightarrow> require_tx db t = Inr tx"
  by (simp add: require_tx_iff)

lemma answer_simps [simp]:
  "fst (answer f m db) = (case fst (m db) of Inl e \<Rightarrow> Inl e | Inr x \<Rightarrow> Inr (f x))"
  "snd (answer f m db) = snd (m db)"
  by (simp_all add: answer_def prog_simps split: prod.splits sum.splits)

lemma abs_set_tree:
  "abs_db (db\<lparr>mdb_tree_map := dset (mdb_tree_map db) t ctx\<rparr>) = set_tree t (abs_tree ctx) (abs_db db)"
  by (simp add: abs_db_def set_tree_def fun_eq_iff)

lemma abs_del_tree:
  "abs_db (db\<lparr>mdb_tree_map := ddel (mdb_tree_map db) t\<rparr>) =
   (abs_db db)\<lparr>sp_trees := (sp_trees (abs_db db))(t := None)\<rparr>"
  by (simp add: abs_db_def fun_eq_iff)

lemma simulates_tx:
  assumes inv: "mini_inv db"
  shows "simulates (TxStart t) db" and "simulates (TxGet t k) db" and "simulates (TxPut t k v) db"
    and "simulates (TxCommit t) db" and "simulates (TxRollback t) db" and "simulates (KvGet k) db"
proof -
  note inv_ops = mini_inv_ops [OF inv]
  show "simulates (KvGet k) db"
    using inv by (simp add: simulates_def spec_call_def abs_db_def mini_kv_get_def)
  show "simulates (TxStart t) db"
    using inv_ops(1) [of t]
    by (simp add: simulates_def spec_call_def mini_start_def abs_db_def new_tx_context_def fun_eq_iff)
  show "simulates (TxGet t k) db"
    using inv require_tx_None [of db t] require_tx_Some [OF inv, of t]
    by (cases "dget (mdb_tx_map db) t")
      (auto simp: simulates_def spec_call_def mini_get_def abs_db_def map_add_def split: option.splits)
  show "simulates (TxPut t k v) db"
    using inv_ops(2) [of t k v] require_tx_None [of db t] require_tx_Some [OF inv, of t]
    by (cases "dget (mdb_tx_map db) t")
      (auto simp: simulates_def spec_call_def mini_put_def abs_db_def fun_eq_iff)
  show "simulates (TxCommit t) db"
    using inv_ops(3) [of t] require_tx_None [of db t] require_tx_Some [OF inv, of t] mini_inv_tx [OF inv, of t]
    by (cases "dget (mdb_tx_map db) t")
      (auto simp: simulates_def spec_call_def mini_commit_def abs_db_def tx_ok_def dget_dict_update fun_eq_iff)
  show "simulates (TxRollback t) db"
    using inv_ops(4) [of t] require_tx_None [of db t] require_tx_Some [OF inv, of t]
    by (cases "dget (mdb_tx_map db) t")
      (auto simp: simulates_def spec_call_def mini_rollback_def abs_db_def fun_eq_iff)
qed

lemma simulates_tree_start:
  assumes inv: "mini_inv db"
  shows "simulates (TreeStart t) db"
proof -
  let ?ctx = "(new_tree_context t (mdb_store db))\<lparr>mtc_branches :=
    dset (mtc_branches (new_tree_context t (mdb_store db))) 0 (new_branch 0 0)\<rparr>"
  have ok: "tree_ok (t, ?ctx)" using inv by (intro tree_ok_new) (simp add: mini_inv_def)
  have b0: "dget (mtc_branches ?ctx) 0 = Some (new_branch 0 0)" by simp
  have "map mtb_branch_id (lineage ?ctx 0) = [0]"
    using lineage_unfold(1) [OF ok b0] by (simp add: new_branch_def)
  then have "abs_tree ?ctx = new_tree_spec (map_of (mdb_store db))"
    by (auto simp: abs_tree_def new_tree_spec_def new_tree_context_def new_branch_def fun_eq_iff)
  then have "abs_db (snd (mini_tstart t db)) = set_tree t (new_tree_spec (sp_store (abs_db db))) (abs_db db)"
    by (simp add: mini_tstart_def Let_def abs_set_tree) (simp add: abs_db_def)
  with mini_inv_ops(5) [OF inv, of t] show ?thesis
    by (simp add: simulates_def spec_call_def mini_tstart_def Let_def)
qed

text \<open>The calls on a tree transaction that is not open.\<close>

lemma simulates_no_tree:
  assumes inv: "mini_inv db" and "call_tree c = Some t" and none: "dget (mdb_tree_map db) t = None"
  shows "simulates c db"
  using assms require_tree_None [OF none]
  by (cases c)
    (simp_all add: simulates_def spec_call_def sp_trees_abs mini_tbranch_def mini_tget_def mini_tput_def
      mini_twinner_def mini_trefresh_winner_def mini_tcommit_retry_def mini_tabort_def)

lemma simulates_tree_get:
  assumes inv: "mini_inv db" and t: "dget (mdb_tree_map db) t = Some ctx"
  shows "simulates (TreeGet t b k strict) db"
proof -
  have ok: "tree_ok (t, ctx)" by (rule mini_inv_tree [OF inv t])
  note req = require_tree_Some [OF inv t]
  show ?thesis
  proof (cases "dget (mtc_branches ctx) b")
    case None
    then show ?thesis
      using inv t req
      by (simp add: simulates_def spec_call_def sp_trees_abs mini_tget_def abs_tree_path dhas_iff)
  next
    case (Some br)
    then show ?thesis
      using inv t req
      by (simp add: simulates_def spec_call_def sp_trees_abs mini_tget_def abs_tree_path dhas_iff
          overlay_lineage [OF ok Some] resolve_branch_value_ok [OF ok] map_add_def split: option.splits)
  qed
qed

lemma simulates_tree_finish:
  assumes inv: "mini_inv db" and t: "dget (mdb_tree_map db) t = Some ctx"
  shows "simulates (TreeRefresh t b k) db" and "simulates (TreeAbort t) db"
    and "simulates (TreeCommit t) db"
proof -
  have ok: "tree_ok (t, ctx)" by (rule mini_inv_tree [OF inv t])
  note req = require_tree_Some [OF inv t]
  show "simulates (TreeRefresh t b k) db"
    using inv t req by (simp add: simulates_def spec_call_def sp_trees_abs mini_trefresh_winner_def)
  show "simulates (TreeAbort t) db"
    using inv t req mini_inv_ops(10) [OF inv, of t]
    by (simp add: simulates_def spec_call_def sp_trees_abs mini_tabort_def abs_del_tree)
  show "simulates (TreeCommit t) db"
  proof (cases "mtc_winner_branch_id ctx")
    case None
    then show ?thesis
      using inv t req by (simp add: simulates_def spec_call_def sp_trees_abs mini_tcommit_retry_def)
  next
    case (Some w)
    with ok obtain br where br: "dget (mtc_branches ctx) w = Some br"
      by (auto simp: tree_ok_def dhas_iff)
    from mini_inv_ops(9) [OF inv, of t] have "mini_inv (snd (mini_tcommit_retry t db))" .
    moreover have "abs_db (snd (mini_tcommit_retry t db)) =
      (abs_db db)\<lparr>sp_store := ts_overlay (abs_tree ctx) (sp_store (abs_db db)) (the (ts_path (abs_tree ctx) w)),
                  sp_trees := (sp_trees (abs_db db))(t := None)\<rparr>"
      using mini_tcommit_eq [OF inv t Some] br
      by (simp add: abs_tree_path dhas_iff overlay_lineage [OF ok br])
        (simp add: abs_db_def fun_eq_iff)
    ultimately show ?thesis
      using t Some mini_tcommit_eq(1) [OF inv t Some]
      by (simp add: simulates_def spec_call_def sp_trees_abs)
  qed
qed

lemma abs_tree_put:
  assumes ok: "tree_ok (t, ctx)" and br: "dget (mtc_branches ctx) b = Some br" and b: "b \<noteq> 0"
  shows "abs_tree (ctx\<lparr>mtc_branches := dset (mtc_branches ctx) b
           (br\<lparr>mtb_writes := dset (mtb_writes br) k v\<rparr>)\<rparr>) =
    (abs_tree ctx)\<lparr>ts_writes := (ts_writes (abs_tree ctx))(b := (ts_writes (abs_tree ctx) b)(k \<mapsto> v))\<rparr>"
proof -
  let ?ctx = "ctx\<lparr>mtc_branches := dset (mtc_branches ctx) b (br\<lparr>mtb_writes := dset (mtb_writes br) k v\<rparr>)\<rparr>"
  have ids: "map mtb_branch_id (lineage ?ctx c) = map mtb_branch_id (lineage ctx c)"
    if "dhas (mtc_branches ctx) c" for c
  proof -
    from that obtain cr where "dget (mtc_branches ctx) c = Some cr" by (auto simp: dhas_iff)
    then show ?thesis
      by (rule lineage_ids_cong [OF ok tree_ok_tput [OF ok br b], rotated]) (use br in auto)
  qed
  have "dhas (mtc_branches ?ctx) c = dhas (mtc_branches ctx) c" for c
    using br by (auto simp: dhas_iff)
  with ids br show ?thesis by (simp add: abs_tree_def fun_eq_iff)
qed

lemma abs_tree_branch:
  assumes ok: "tree_ok (t, ctx)" and pr: "dget (mtc_branches ctx) p = Some pr"
  shows "abs_tree (ctx\<lparr>mtc_next_branch_id := mtc_next_branch_id ctx + 1,
      mtc_branches := dset (mtc_branches ctx) (mtc_next_branch_id ctx)
        (new_branch (mtc_next_branch_id ctx) p)\<rparr>) =
    (abs_tree ctx)\<lparr>ts_path := (ts_path (abs_tree ctx))(mtc_next_branch_id ctx \<mapsto>
                     mtc_next_branch_id ctx # map mtb_branch_id (lineage ctx p)),
                   ts_next := mtc_next_branch_id ctx + 1\<rparr>"
proof -
  let ?n = "mtc_next_branch_id ctx"
  let ?ctx = "ctx\<lparr>mtc_next_branch_id := ?n + 1,
      mtc_branches := dset (mtc_branches ctx) ?n (new_branch ?n p)\<rparr>"
  have p: "dhas (mtc_branches ctx) p" using pr by (simp add: dhas_iff)
  have new: "dget (mtc_branches ctx) ?n = None" using tree_ok_next_new [OF ok] by (simp add: dhas_iff)
  have old: "map mtb_branch_id (lineage ?ctx c) = map mtb_branch_id (lineage ctx c)"
    if c: "dget (mtc_branches ctx) c = Some cr" for c cr
    by (rule lineage_ids_cong [OF ok tree_ok_tbranch [OF ok p] _ c]) (use new in auto)
  have "lineage ?ctx ?n = new_branch ?n p # lineage ctx p" by (rule lineage_tbranch [OF ok p refl])
  moreover have "mtb_branch_id (new_branch ?n p) = ?n" "mtb_writes (new_branch ?n p) = []"
    by (simp_all add: new_branch_def)
  ultimately show ?thesis
    using old new by (auto simp: abs_tree_def fun_eq_iff dhas_iff)
qed

lemma simulates_tree_change:
  assumes inv: "mini_inv db" and t: "dget (mdb_tree_map db) t = Some ctx"
  shows "simulates (TreeBranch t p) db" and "simulates (TreePut t b k v) db"
    and "simulates (TreeWinner t b) db"
proof -
  have ok: "tree_ok (t, ctx)" by (rule mini_inv_tree [OF inv t])
  note req = require_tree_Some [OF inv t]
  show "simulates (TreeBranch t p) db"
    using inv t req mini_inv_ops(6) [OF inv, of t p]
    by (cases "dget (mtc_branches ctx) p")
      (auto simp: simulates_def spec_call_def sp_trees_abs mini_tbranch_def Let_def abs_tree_path dhas_iff
        abs_set_tree abs_tree_branch [OF ok] simp del: fun_upd_apply)
  show "simulates (TreePut t b k v) db"
    using inv t req mini_inv_ops(7) [OF inv, of t b k v]
    by (cases "dget (mtc_branches ctx) b")
      (auto simp: simulates_def spec_call_def sp_trees_abs mini_tput_def Let_def abs_tree_path dhas_iff
        abs_set_tree abs_tree_put [OF ok] simp del: fun_upd_apply)
  have win: "abs_tree (ctx\<lparr>mtc_winner_branch_id := Some b\<rparr>) = (abs_tree ctx)\<lparr>ts_winner := Some b\<rparr>"
    if "dget (mtc_branches ctx) b = Some br" for br
  proof -
    from ok that have ok': "tree_ok (t, ctx\<lparr>mtc_winner_branch_id := Some b\<rparr>)"
      by (auto simp: tree_ok_def branch_ok_def dhas_iff)
    have "map mtb_branch_id (lineage (ctx\<lparr>mtc_winner_branch_id := Some b\<rparr>) c) =
        map mtb_branch_id (lineage ctx c)" if "dget (mtc_branches ctx) c = Some cr" for c cr
      by (rule lineage_ids_cong [OF ok ok' _ that]) simp
    then show ?thesis by (auto simp: abs_tree_def fun_eq_iff dhas_iff)
  qed
  show "simulates (TreeWinner t b) db"
    using inv t req mini_inv_ops(8) [OF inv, of t b]
    by (cases "dget (mtc_branches ctx) b")
      (auto simp: simulates_def spec_call_def sp_trees_abs mini_twinner_def abs_tree_path dhas_iff
        abs_set_tree win)
qed

lemma simulates_call:
  assumes inv: "mini_inv db"
  shows "simulates c db"
proof (cases "call_tree c")
  case None
  with inv show ?thesis
    by (cases c) (simp_all add: simulates_tx simulates_tree_start)
next
  case (Some t)
  show ?thesis
  proof (cases "dget (mdb_tree_map db) t")
    case None
    with inv Some show ?thesis by (rule simulates_no_tree)
  next
    case ctx: (Some ctx)
    with inv Some show ?thesis
      by (cases c) (simp_all add: simulates_tree_get simulates_tree_change simulates_tree_finish)
  qed
qed

lemma history_simulates:
  "mini_inv db \<Longrightarrow>
   history spec_call cs (abs_db db) =
     (fst (history run_call cs db), abs_db (snd (history run_call cs db)))"
proof (induction cs arbitrary: db)
  case Nil
  then show ?case by simp
next
  case (Cons c cs)
  from simulates_call [OF Cons.prems, of c]
  have "spec_call c (abs_db db) = (fst (run_call c db), abs_db (snd (run_call c db)))"
    and "mini_inv (snd (run_call c db))" by (simp_all add: simulates_def)
  with Cons.IH show ?case by (simp split: prod.splits)
qed

text \<open>C3: the in-memory database refines the specification of snapshot and tree transactions: any history of calls
  by any number of clients, on a new database, gives the answers the specification gives (ids, values read,
  branch numbers, errors with their messages), and leaves the store, the snapshots, the private writes and the
  branches the specification has.\<close>

theorem mini_db_refines_spec:
  "history spec_call cs spec_init =
     (fst (history run_call cs mini_init), abs_db (snd (history run_call cs mini_init)))"
  using history_simulates [OF mini_inv_init, of cs] by (simp add: abs_init)

end
