(* ===== verification/Llm_Texts.thy ===== *)
theory Llm_Texts
  imports Py_Text
begin

text \<open>
  The texts the program shows to a language model, in UTF-8: the instructions of the manual tool
  protocol and the answers of \<open>Agent/llm.py\<close>, the system prompt of \<open>Agent/app.py\<close>, and the prompts
  of the benchmark (\<open>Agent/vitabench_delivery.py\<close>). Only \<open>result_marker\<close> is ever searched for.
\<close>

subsection \<open>The tool-calling loops\<close>

definition manual_head :: string where
  "manual_head =
     [CHR 0xE4, CHR 0xBD, CHR 0xA0, CHR 0xE6, CHR 0xAD, CHR 0xA3, CHR 0xE5, CHR 0x9C,
     CHR 0xA8, CHR 0xE4, CHR 0xB8, CHR 0x80, CHR 0xE4, CHR 0xB8, CHR 0xAA, CHR 0xE4,
     CHR 0xB8, CHR 0x8D, CHR 0xE6, CHR 0x94, CHR 0xAF, CHR 0xE6, CHR 0x8C, CHR 0x81,
     CHR 0xE5, CHR 0x8E, CHR 0x9F, CHR 0xE7, CHR 0x94, CHR 0x9F] @ '' tool calling '' @
     [CHR 0xE7, CHR 0x9A, CHR 0x84] @ '' OpenAI-compatible '' @ [CHR 0xE6, CHR 0x8E,
     CHR 0xA5, CHR 0xE5, CHR 0x8F, CHR 0xA3, CHR 0xE4, CHR 0xB8, CHR 0x8A, CHR 0xE8,
     CHR 0xBF, CHR 0x90, CHR 0xE8, CHR 0xA1, CHR 0x8C, CHR 0xE3, CHR 0x80, CHR 0x82,
     CHR 0xE4, CHR 0xBD, CHR 0xA0, CHR 0xE4, CHR 0xBB, CHR 0x8D, CHR 0xE7, CHR 0x84,
     CHR 0xB6, CHR 0xE5, CHR 0xBF, CHR 0x85, CHR 0xE9, CHR 0xA1, CHR 0xBB, CHR 0xE9,
     CHR 0x80, CHR 0x9A, CHR 0xE8, CHR 0xBF, CHR 0x87, CHR 0xE5, CHR 0xB7, CHR 0xA5,
     CHR 0xE5, CHR 0x85, CHR 0xB7, CHR 0xE5, CHR 0xAE, CHR 0x8C, CHR 0xE6, CHR 0x88,
     CHR 0x90, CHR 0xE8, CHR 0xAF, CHR 0xBB, CHR 0xE5, CHR 0x86, CHR 0x99, CHR 0xE3,
     CHR 0x80, CHR 0x82, CHR 0xE5, CHR 0x8F, CHR 0xAF, CHR 0xE7, CHR 0x94, CHR 0xA8,
     CHR 0xE5, CHR 0xB7, CHR 0xA5, CHR 0xE5, CHR 0x85, CHR 0xB7, CHR 0xE5, CHR 0xA6,
     CHR 0x82, CHR 0xE4, CHR 0xB8, CHR 0x8B, CHR 0xEF, CHR 0xBC, CHR 0x8C, CHR 0xE6,
     CHR 0xAF, CHR 0x8F, CHR 0xE6, CHR 0xAC, CHR 0xA1, CHR 0xE5, CHR 0x8F, CHR 0xAA,
     CHR 0xE8, CHR 0x83, CHR 0xBD, CHR 0xE8, CHR 0xB0, CHR 0x83, CHR 0xE7, CHR 0x94,
     CHR 0xA8, CHR 0xE4, CHR 0xB8, CHR 0x80, CHR 0xE4, CHR 0xB8, CHR 0xAA, CHR 0xEF,
     CHR 0xBC, CHR 0x9A, CHR 0x0A]"

definition manual_tail :: string where
  "manual_tail =
     [CHR 0x0A, CHR 0x0A, CHR 0xE4, CHR 0xBD, CHR 0xA0, CHR 0xE7, CHR 0x9A, CHR 0x84,
     CHR 0xE5, CHR 0x9B, CHR 0x9E, CHR 0xE5, CHR 0xA4, CHR 0x8D, CHR 0xE5, CHR 0xBF,
     CHR 0x85, CHR 0xE9, CHR 0xA1, CHR 0xBB, CHR 0xE6, CHR 0x98, CHR 0xAF] @ '' JSON'' @
     [CHR 0xEF, CHR 0xBC, CHR 0x8C, CHR 0xE4, CHR 0xB8, CHR 0x94, CHR 0xE4, CHR 0xB8,
     CHR 0x8D, CHR 0xE8, CHR 0x83, CHR 0xBD, CHR 0xE5, CHR 0x8A, CHR 0xA0] @
     '' markdown '' @ [CHR 0xE4, CHR 0xBB, CHR 0xA3, CHR 0xE7, CHR 0xA0, CHR 0x81, CHR 0xE5,
     CHR 0x9D, CHR 0x97, CHR 0xE3, CHR 0x80, CHR 0x82, CHR 0x0A, CHR 0xE5, CHR 0xA6,
     CHR 0x82, CHR 0xE6, CHR 0x9E, CHR 0x9C, CHR 0xE8, CHR 0xA6, CHR 0x81, CHR 0xE8,
     CHR 0xB0, CHR 0x83, CHR 0xE7, CHR 0x94, CHR 0xA8, CHR 0xE5, CHR 0xB7, CHR 0xA5,
     CHR 0xE5, CHR 0x85, CHR 0xB7, CHR 0xEF, CHR 0xBC, CHR 0x8C, CHR 0xE8, CHR 0xBE,
     CHR 0x93, CHR 0xE5, CHR 0x87, CHR 0xBA, CHR 0xEF, CHR 0xBC, CHR 0x9A] @ ''{'' @
     [CHR 0x22] @ ''action'' @ [CHR 0x22] @ '':'' @ [CHR 0x22] @ ''tool'' @ [CHR 0x22] @
     '','' @ [CHR 0x22] @ ''name'' @ [CHR 0x22] @ '':'' @ [CHR 0x22, CHR 0xE5, CHR 0xB7,
     CHR 0xA5, CHR 0xE5, CHR 0x85, CHR 0xB7, CHR 0xE5, CHR 0x90, CHR 0x8D, CHR 0x22] @
     '','' @ [CHR 0x22] @ ''arguments'' @ [CHR 0x22] @ '':{'' @ [CHR 0x22, CHR 0xE5,
     CHR 0x8F, CHR 0x82, CHR 0xE6, CHR 0x95, CHR 0xB0, CHR 0x22] @ '':'' @ [CHR 0x22,
     CHR 0xE5, CHR 0x80, CHR 0xBC, CHR 0x22] @ ''}}'' @ [CHR 0x0A, CHR 0xE5, CHR 0xA6,
     CHR 0x82, CHR 0xE6, CHR 0x9E, CHR 0x9C, CHR 0xE4, CHR 0xBB, CHR 0xBB, CHR 0xE5,
     CHR 0x8A, CHR 0xA1, CHR 0xE5, CHR 0xB7, CHR 0xB2, CHR 0xE7, CHR 0xBB, CHR 0x8F,
     CHR 0xE5, CHR 0xAE, CHR 0x8C, CHR 0xE6, CHR 0x88, CHR 0x90, CHR 0xEF, CHR 0xBC,
     CHR 0x8C, CHR 0xE8, CHR 0xBE, CHR 0x93, CHR 0xE5, CHR 0x87, CHR 0xBA, CHR 0xEF,
     CHR 0xBC, CHR 0x9A] @ ''{'' @ [CHR 0x22] @ ''action'' @ [CHR 0x22] @ '':'' @
     [CHR 0x22] @ ''final'' @ [CHR 0x22] @ '','' @ [CHR 0x22] @ ''answer'' @ [CHR 0x22] @
     '':'' @ [CHR 0x22, CHR 0xE7, CHR 0xBB, CHR 0x99, CHR 0xE7, CHR 0x94, CHR 0xA8,
     CHR 0xE6, CHR 0x88, CHR 0xB7, CHR 0xE7, CHR 0x9A, CHR 0x84, CHR 0xE6, CHR 0x9C,
     CHR 0x80, CHR 0xE7, CHR 0xBB, CHR 0x88, CHR 0xE4, CHR 0xB8, CHR 0xAD, CHR 0xE6,
     CHR 0x96, CHR 0x87, CHR 0xE7, CHR 0xAD, CHR 0x94, CHR 0xE5, CHR 0xA4, CHR 0x8D,
     CHR 0x22] @ ''}''"

definition text_unparsable :: string where
  "text_unparsable =
     [CHR 0xE6, CHR 0xA8, CHR 0xA1, CHR 0xE5, CHR 0x9E, CHR 0x8B, CHR 0xE6, CHR 0x9C,
     CHR 0xAA, CHR 0xE8, CHR 0xBF, CHR 0x94, CHR 0xE5, CHR 0x9B, CHR 0x9E, CHR 0xE5,
     CHR 0x8F, CHR 0xAF, CHR 0xE8, CHR 0xA7, CHR 0xA3, CHR 0xE6, CHR 0x9E, CHR 0x90,
     CHR 0xE7, CHR 0xBB, CHR 0x93, CHR 0xE6, CHR 0x9E, CHR 0x9C, CHR 0xE3, CHR 0x80,
     CHR 0x82]"

definition text_done :: string where
  "text_done =
     [CHR 0xE4, CHR 0xBB, CHR 0xBB, CHR 0xE5, CHR 0x8A, CHR 0xA1, CHR 0xE5, CHR 0xB7,
     CHR 0xB2, CHR 0xE5, CHR 0xAE, CHR 0x8C, CHR 0xE6, CHR 0x88, CHR 0x90, CHR 0xE3,
     CHR 0x80, CHR 0x82]"

definition text_no_action :: string where
  "text_no_action =
     [CHR 0xE6, CHR 0xA8, CHR 0xA1, CHR 0xE5, CHR 0x9E, CHR 0x8B, CHR 0xE6, CHR 0x9C,
     CHR 0xAA, CHR 0xE8, CHR 0xBF, CHR 0x94, CHR 0xE5, CHR 0x9B, CHR 0x9E, CHR 0xE5,
     CHR 0x8F, CHR 0xAF, CHR 0xE6, CHR 0x89, CHR 0xA7, CHR 0xE8, CHR 0xA1, CHR 0x8C,
     CHR 0xE5, CHR 0x8A, CHR 0xA8, CHR 0xE4, CHR 0xBD, CHR 0x9C, CHR 0xE3, CHR 0x80,
     CHR 0x82]"

definition text_rounds :: string where
  "text_rounds =
     [CHR 0xE8, CHR 0xBE, CHR 0xBE, CHR 0xE5, CHR 0x88, CHR 0xB0, CHR 0xE6, CHR 0x9C,
     CHR 0x80, CHR 0xE5, CHR 0xA4, CHR 0xA7, CHR 0xE5, CHR 0xB7, CHR 0xA5, CHR 0xE5,
     CHR 0x85, CHR 0xB7, CHR 0xE8, CHR 0xB0, CHR 0x83, CHR 0xE7, CHR 0x94, CHR 0xA8,
     CHR 0xE8, CHR 0xBD, CHR 0xAE, CHR 0xE6, CHR 0xAC, CHR 0xA1, CHR 0xEF, CHR 0xBC,
     CHR 0x8C, CHR 0xE6, CHR 0xB5, CHR 0x81, CHR 0xE7, CHR 0xA8, CHR 0x8B, CHR 0xE6,
     CHR 0x9C, CHR 0xAA, CHR 0xE5, CHR 0xAE, CHR 0x8C, CHR 0xE6, CHR 0x88, CHR 0x90,
     CHR 0xE3, CHR 0x80, CHR 0x82]"

definition result_marker :: string where
  "result_marker =
     [CHR 0xE5, CHR 0xB7, CHR 0xA5, CHR 0xE5, CHR 0x85, CHR 0xB7, CHR 0xE6, CHR 0x89,
     CHR 0xA7, CHR 0xE8, CHR 0xA1, CHR 0x8C, CHR 0xE7, CHR 0xBB, CHR 0x93, CHR 0xE6,
     CHR 0x9E, CHR 0x9C, CHR 0xE5, CHR 0xA6, CHR 0x82, CHR 0xE4, CHR 0xB8, CHR 0x8B,
     CHR 0xEF, CHR 0xBC, CHR 0x8C, CHR 0xE8, CHR 0xAF, CHR 0xB7, CHR 0xE7, CHR 0xBB,
     CHR 0xA7, CHR 0xE7, CHR 0xBB, CHR 0xAD, CHR 0xE5, CHR 0x86, CHR 0xB3, CHR 0xE7,
     CHR 0xAD, CHR 0x96, CHR 0xEF, CHR 0xBC, CHR 0x9A]"

subsection \<open>Prompts\<close>

definition system_prompt :: string where
  "system_prompt = join [CHR 0x0A]
     [[CHR 0xE4, CHR 0xBD, CHR 0xA0, CHR 0xE6, CHR 0x98, CHR 0xAF, CHR 0xE4, CHR 0xB8,
      CHR 0x80, CHR 0xE4, CHR 0xB8, CHR 0xAA, CHR 0xE4, CHR 0xBA, CHR 0x8B, CHR 0xE5,
      CHR 0x8A, CHR 0xA1, CHR 0xE5, CHR 0xAE, CHR 0x89, CHR 0xE5, CHR 0x85, CHR 0xA8,
      CHR 0xE7, CHR 0x9A, CHR 0x84, CHR 0xE5, CHR 0xA4, CHR 0x9A, CHR 0xE6, CHR 0xA8,
      CHR 0xA1, CHR 0xE6, CHR 0x80, CHR 0x81, CHR 0xE6, CHR 0x95, CHR 0xB0, CHR 0xE6,
      CHR 0x8D, CHR 0xAE, CHR 0xE5, CHR 0x8A, CHR 0xA9, CHR 0xE7, CHR 0x90, CHR 0x86,
      CHR 0xE3, CHR 0x80, CHR 0x82],
      [],
      [CHR 0xE4, CHR 0xBD, CHR 0xA0, CHR 0xE5, CHR 0x8F, CHR 0xAF, CHR 0xE4, CHR 0xBB,
      CHR 0xA5, CHR 0xE4, CHR 0xBD, CHR 0xBF, CHR 0xE7, CHR 0x94, CHR 0xA8, CHR 0xE8,
      CHR 0xBF, CHR 0x99, CHR 0xE4, CHR 0xBA, CHR 0x9B, CHR 0xE5, CHR 0xB7, CHR 0xA5,
      CHR 0xE5, CHR 0x85, CHR 0xB7, CHR 0xEF, CHR 0xBC, CHR 0x9A],
      ''1) KV'' @ [CHR 0xE5, CHR 0xB7, CHR 0xA5, CHR 0xE5, CHR 0x85, CHR 0xB7, CHR 0xEF,
      CHR 0xBC, CHR 0x9A] @ ''kv_get'',
      ''2) '' @ [CHR 0xE4, CHR 0xBA, CHR 0x8B, CHR 0xE5, CHR 0x8A, CHR 0xA1, CHR 0xE5,
      CHR 0xB7, CHR 0xA5, CHR 0xE5, CHR 0x85, CHR 0xB7, CHR 0xEF, CHR 0xBC, CHR 0x9A] @
      ''tx_start, tx_get, tx_put, tx_commit, tx_rollback'',
      ''3) '' @ [CHR 0xE5, CHR 0x9B, CHR 0xBE, CHR 0xE7, CHR 0x89, CHR 0x87, CHR 0xE5,
      CHR 0xB7, CHR 0xA5, CHR 0xE5, CHR 0x85, CHR 0xB7, CHR 0xEF, CHR 0xBC, CHR 0x9A] @
      ''image_analyze'',
      ''4) '' @ [CHR 0xE8, CHR 0xB0, CHR 0x83, CHR 0xE8, CHR 0xAF, CHR 0x95, CHR 0xE5,
      CHR 0xB7, CHR 0xA5, CHR 0xE5, CHR 0x85, CHR 0xB7, CHR 0xEF, CHR 0xBC, CHR 0x9A] @
      ''kv_dump'',
      [],
      [CHR 0xE5, CHR 0xBC, CHR 0xBA, CHR 0xE7, CHR 0xBA, CHR 0xA6, CHR 0xE6, CHR 0x9D,
      CHR 0x9F, CHR 0xE8, CHR 0xA7, CHR 0x84, CHR 0xE5, CHR 0x88, CHR 0x99, CHR 0xEF,
      CHR 0xBC, CHR 0x9A],
      ''- '' @ [CHR 0xE4, CHR 0xBB, CHR 0xBB, CHR 0xE4, CHR 0xBD, CHR 0x95, CHR 0xE5,
      CHR 0x86, CHR 0x99, CHR 0xE5, CHR 0x85, CHR 0xA5, CHR 0xE5, CHR 0xBF, CHR 0x85,
      CHR 0xE9, CHR 0xA1, CHR 0xBB, CHR 0xE8, CHR 0xB5, CHR 0xB0, CHR 0xE4, CHR 0xBA,
      CHR 0x8B, CHR 0xE5, CHR 0x8A, CHR 0xA1, CHR 0xEF, CHR 0xBC, CHR 0x9A, CHR 0xE5,
      CHR 0x85, CHR 0x88] @ '' tx_start'' @ [CHR 0xEF, CHR 0xBC, CHR 0x8C, CHR 0xE5,
      CHR 0x86, CHR 0x8D] @ '' tx_put'' @ [CHR 0xEF, CHR 0xBC, CHR 0x8C, CHR 0xE6, CHR 0x9C,
      CHR 0x80, CHR 0xE5, CHR 0x90, CHR 0x8E] @ '' tx_commit'' @ [CHR 0xE3, CHR 0x80,
      CHR 0x82],
      ''- '' @ [CHR 0xE4, CHR 0xBB, CHR 0xBB, CHR 0xE4, CHR 0xB8, CHR 0x80, CHR 0xE6,
      CHR 0xAD, CHR 0xA5, CHR 0xE5, CHR 0xA4, CHR 0xB1, CHR 0xE8, CHR 0xB4, CHR 0xA5,
      CHR 0xEF, CHR 0xBC, CHR 0x8C, CHR 0xE5, CHR 0xBF, CHR 0x85, CHR 0xE9, CHR 0xA1,
      CHR 0xBB, CHR 0xE8, CHR 0xB0, CHR 0x83, CHR 0xE7, CHR 0x94, CHR 0xA8] @
      '' tx_rollback'' @ [CHR 0xE3, CHR 0x80, CHR 0x82],
      ''- '' @ [CHR 0xE8, CHR 0xAF, CHR 0xBB, CHR 0xE5, CHR 0x8F, CHR 0x96, CHR 0xE5,
      CHR 0x8F, CHR 0xAF, CHR 0xE4, CHR 0xBD, CHR 0xBF, CHR 0xE7, CHR 0x94, CHR 0xA8] @
      '' kv_get '' @ [CHR 0xE6, CHR 0x88, CHR 0x96] @ '' tx_get'' @ [CHR 0xE3, CHR 0x80,
      CHR 0x82],
      ''- '' @ [CHR 0xE6, CHR 0xB6, CHR 0x89, CHR 0xE5, CHR 0x8F, CHR 0x8A, CHR 0xE5,
      CHR 0x9B, CHR 0xBE, CHR 0xE7, CHR 0x89, CHR 0x87, CHR 0xE7, CHR 0x90, CHR 0x86,
      CHR 0xE8, CHR 0xA7, CHR 0xA3, CHR 0xE6, CHR 0x97, CHR 0xB6, CHR 0xEF, CHR 0xBC,
      CHR 0x8C, CHR 0xE5, CHR 0xBF, CHR 0x85, CHR 0xE9, CHR 0xA1, CHR 0xBB, CHR 0xE8,
      CHR 0xB0, CHR 0x83, CHR 0xE7, CHR 0x94, CHR 0xA8] @ '' image_analyze'' @ [CHR 0xE3,
      CHR 0x80, CHR 0x82],
      ''- '' @ [CHR 0xE6, CHR 0x9C, CHR 0x80, CHR 0xE7, CHR 0xBB, CHR 0x88, CHR 0xE5,
      CHR 0x9B, CHR 0x9E, CHR 0xE5, CHR 0xA4, CHR 0x8D, CHR 0xE5, CHR 0xBF, CHR 0x85,
      CHR 0xE9, CHR 0xA1, CHR 0xBB, CHR 0xE8, CHR 0xAF, CHR 0xB4, CHR 0xE6, CHR 0x98,
      CHR 0x8E, CHR 0xEF, CHR 0xBC, CHR 0x9A, CHR 0xE6, CHR 0x89, CHR 0xA7, CHR 0xE8,
      CHR 0xA1, CHR 0x8C, CHR 0xE4, CHR 0xBA, CHR 0x86, CHR 0xE5, CHR 0x93, CHR 0xAA,
      CHR 0xE4, CHR 0xBA, CHR 0x9B, CHR 0xE5, CHR 0xB7, CHR 0xA5, CHR 0xE5, CHR 0x85,
      CHR 0xB7, CHR 0xE3, CHR 0x80, CHR 0x81, CHR 0xE6, CHR 0x98, CHR 0xAF, CHR 0xE5,
      CHR 0x90, CHR 0xA6, CHR 0xE6, CHR 0x8F, CHR 0x90, CHR 0xE4, CHR 0xBA, CHR 0xA4] @
      ''/'' @ [CHR 0xE5, CHR 0x9B, CHR 0x9E, CHR 0xE6, CHR 0xBB, CHR 0x9A, CHR 0xE3,
      CHR 0x80, CHR 0x81, CHR 0xE6, CHR 0x9C, CHR 0x80, CHR 0xE7, CHR 0xBB, CHR 0x88,
      CHR 0xE7, CHR 0xBB, CHR 0x93, CHR 0xE6, CHR 0x9E, CHR 0x9C, CHR 0xE6, CHR 0x98,
      CHR 0xAF, CHR 0xE4, CHR 0xBB, CHR 0x80, CHR 0xE4, CHR 0xB9, CHR 0x88, CHR 0xE3,
      CHR 0x80, CHR 0x82],
      ''- '' @ [CHR 0xE5, CHR 0x85, CHR 0xA8, CHR 0xE9, CHR 0x83, CHR 0xA8, CHR 0xE4,
      CHR 0xBD, CHR 0xBF, CHR 0xE7, CHR 0x94, CHR 0xA8, CHR 0xE4, CHR 0xB8, CHR 0xAD,
      CHR 0xE6, CHR 0x96, CHR 0x87, CHR 0xE5, CHR 0x9B, CHR 0x9E, CHR 0xE7, CHR 0xAD,
      CHR 0x94, CHR 0xEF, CHR 0xBC, CHR 0x8C, CHR 0xE7, CHR 0xAE, CHR 0x80, CHR 0xE6,
      CHR 0xB4, CHR 0x81, CHR 0xE6, CHR 0xB8, CHR 0x85, CHR 0xE6, CHR 0x99, CHR 0xB0,
      CHR 0xE3, CHR 0x80, CHR 0x82],
      []]"

definition llm_baseline_prompt :: string where
  "llm_baseline_prompt = join [CHR 0x0A]
     [[CHR 0xE4, CHR 0xBD, CHR 0xA0, CHR 0xE6, CHR 0x98, CHR 0xAF] @ '' Tree-DB '' @
      [CHR 0xE4, CHR 0xB8, CHR 0x8A, CHR 0xE7, CHR 0x9A, CHR 0x84] @
      '' VitaBench delivery '' @ [CHR 0xE4, CHR 0xBA, CHR 0x8B, CHR 0xE5, CHR 0x8A,
      CHR 0xA1] @ '' agent'' @ [CHR 0xE3, CHR 0x80, CHR 0x82],
      [],
      [CHR 0xE4, CHR 0xBD, CHR 0xA0, CHR 0xE7, CHR 0x9A, CHR 0x84, CHR 0xE7, CHR 0x9B,
      CHR 0xAE, CHR 0xE6, CHR 0xA0, CHR 0x87, CHR 0xEF, CHR 0xBC, CHR 0x9A],
      ''1. '' @ [CHR 0xE4, CHR 0xBD, CHR 0xBF, CHR 0xE7, CHR 0x94, CHR 0xA8] @ '' '' @
      [CHR 0x60] @ ''get_task_context'' @ [CHR 0x60, CHR 0xE3, CHR 0x80, CHR 0x81,
      CHR 0x60] @ ''list_candidate_stores'' @ [CHR 0x60, CHR 0xE3, CHR 0x80, CHR 0x81,
      CHR 0x60] @ ''get_store_detail'' @ [CHR 0x60, CHR 0xE3, CHR 0x80, CHR 0x81,
      CHR 0x60] @ ''get_product_detail'' @ [CHR 0x60] @ '' '' @ [CHR 0xE7, CHR 0x90,
      CHR 0x86, CHR 0xE8, CHR 0xA7, CHR 0xA3, CHR 0xE4, CHR 0xBB, CHR 0xBB, CHR 0xE5,
      CHR 0x8A, CHR 0xA1, CHR 0xE3, CHR 0x80, CHR 0x82],
      ''2. '' @ [CHR 0xE5, CHR 0x9C, CHR 0xA8, CHR 0xE6, CHR 0x8F, CHR 0x90, CHR 0xE4,
      CHR 0xBA, CHR 0xA4, CHR 0xE5, CHR 0x89, CHR 0x8D, CHR 0xEF, CHR 0xBC, CHR 0x8C,
      CHR 0xE5, CHR 0xBF, CHR 0x85, CHR 0xE9, CHR 0xA1, CHR 0xBB, CHR 0xE8, CHR 0xB0,
      CHR 0x83, CHR 0xE7, CHR 0x94, CHR 0xA8] @ '' '' @ [CHR 0x60] @
      ''get_expected_order_template'' @ [CHR 0x60] @ '' '' @ [CHR 0xE8, CHR 0x8E, CHR 0xB7,
      CHR 0xE5, CHR 0x8F, CHR 0x96, CHR 0xE8, CHR 0xAF, CHR 0x84, CHR 0xE6, CHR 0xB5,
      CHR 0x8B, CHR 0xE6, CHR 0xA8, CHR 0xA1, CHR 0xE6, CHR 0x9D, CHR 0xBF, CHR 0xE3,
      CHR 0x80, CHR 0x82],
      ''3. '' @ [CHR 0xE5, CHR 0x8F, CHR 0xAA, CHR 0xE8, CHR 0x83, CHR 0xBD, CHR 0xE9,
      CHR 0x80, CHR 0x9A, CHR 0xE8, CHR 0xBF, CHR 0x87, CHR 0xE5, CHR 0xB7, CHR 0xA5,
      CHR 0xE5, CHR 0x85, CHR 0xB7, CHR 0xE8, CHR 0xAE, CHR 0xBF, CHR 0xE9, CHR 0x97,
      CHR 0xAE, CHR 0xE6, CHR 0x95, CHR 0xB0, CHR 0xE6, CHR 0x8D, CHR 0xAE, CHR 0xE3,
      CHR 0x80, CHR 0x82],
      ''4. baseline '' @ [CHR 0xE6, CHR 0xA8, CHR 0xA1, CHR 0xE5, CHR 0xBC, CHR 0x8F,
      CHR 0xE4, CHR 0xB8, CHR 0x8B, CHR 0xEF, CHR 0xBC, CHR 0x8C, CHR 0xE6, CHR 0x9C,
      CHR 0x80, CHR 0xE7, CHR 0xBB, CHR 0x88, CHR 0xE5, CHR 0xBF, CHR 0x85, CHR 0xE9,
      CHR 0xA1, CHR 0xBB, CHR 0xE8, CHR 0xB0, CHR 0x83, CHR 0xE7, CHR 0x94, CHR 0xA8] @
      '' '' @ [CHR 0x60] @ ''submit_task_delivery_order'' @ [CHR 0x60] @ '' '' @ [CHR 0xE6,
      CHR 0x8A, CHR 0x8A, CHR 0xE6, CHR 0x9C, CHR 0x80, CHR 0xE7, CHR 0xBB, CHR 0x88,
      CHR 0xE8, CHR 0xAE, CHR 0xA2, CHR 0xE5, CHR 0x8D, CHR 0x95, CHR 0xE5, CHR 0x86,
      CHR 0x99, CHR 0xE5, CHR 0x85, CHR 0xA5] @ '' '' @ [CHR 0x60] @
      ''task:{task_id}:answer:final'' @ [CHR 0x60, CHR 0xE3, CHR 0x80, CHR 0x82],
      ''5. '' @ [CHR 0xE6, CHR 0x9C, CHR 0x80, CHR 0xE7, CHR 0xBB, CHR 0x88, CHR 0xE5,
      CHR 0x9B, CHR 0x9E, CHR 0xE7, CHR 0xAD, CHR 0x94, CHR 0xE5, CHR 0xBF, CHR 0x85,
      CHR 0xE9, CHR 0xA1, CHR 0xBB, CHR 0xE7, CHR 0x94, CHR 0xA8, CHR 0xE4, CHR 0xB8,
      CHR 0xAD, CHR 0xE6, CHR 0x96, CHR 0x87, CHR 0xE7, CHR 0xAE, CHR 0x80, CHR 0xE6,
      CHR 0xB4, CHR 0x81, CHR 0xE8, CHR 0xAF, CHR 0xB4, CHR 0xE6, CHR 0x98, CHR 0x8E,
      CHR 0xE4, CHR 0xBD, CHR 0xA0, CHR 0xE9, CHR 0x80, CHR 0x89, CHR 0xE4, CHR 0xBA,
      CHR 0x86, CHR 0xE5, CHR 0x93, CHR 0xAA, CHR 0xE5, CHR 0xAE, CHR 0xB6, CHR 0xE5,
      CHR 0xBA, CHR 0x97, CHR 0xE3, CHR 0x80, CHR 0x81, CHR 0xE5, CHR 0x93, CHR 0xAA,
      CHR 0xE4, CHR 0xBA, CHR 0x9B, CHR 0xE5, CHR 0x95, CHR 0x86, CHR 0xE5, CHR 0x93,
      CHR 0x81, CHR 0xE3, CHR 0x80, CHR 0x81, CHR 0xE6, CHR 0x98, CHR 0xAF, CHR 0xE5,
      CHR 0x90, CHR 0xA6, CHR 0xE5, CHR 0xB7, CHR 0xB2, CHR 0xE6, CHR 0x8F, CHR 0x90,
      CHR 0xE4, CHR 0xBA, CHR 0xA4, CHR 0xE6, CHR 0x88, CHR 0x90, CHR 0xE5, CHR 0x8A,
      CHR 0x9F, CHR 0xE3, CHR 0x80, CHR 0x82],
      [],
      [CHR 0xE5, CHR 0xBC, CHR 0xBA, CHR 0xE7, CHR 0xBA, CHR 0xA6, CHR 0xE6, CHR 0x9D,
      CHR 0x9F, CHR 0xEF, CHR 0xBC, CHR 0x9A],
      ''- '' @ [CHR 0x60] @ ''get_expected_order_template'' @ [CHR 0x60] @ '' '' @
      [CHR 0xE8, CHR 0xBF, CHR 0x94, CHR 0xE5, CHR 0x9B, CHR 0x9E, CHR 0xE7, CHR 0x9A,
      CHR 0x84] @ '' '' @ [CHR 0x60] @ ''template'' @ [CHR 0x60] @ '' '' @ [CHR 0xE6,
      CHR 0x98, CHR 0xAF, CHR 0xE6, CHR 0x8F, CHR 0x90, CHR 0xE4, CHR 0xBA, CHR 0xA4,
      CHR 0xE9, CHR 0x87, CHR 0x91, CHR 0xE6, CHR 0xA0, CHR 0x87, CHR 0xE5, CHR 0x87,
      CHR 0x86, CHR 0xE3, CHR 0x80, CHR 0x82],
      ''- '' @ [CHR 0xE6, CHR 0x8F, CHR 0x90, CHR 0xE4, CHR 0xBA, CHR 0xA4, CHR 0xE5,
      CHR 0x89, CHR 0x8D, CHR 0xE5, CHR 0xBF, CHR 0x85, CHR 0xE9, CHR 0xA1, CHR 0xBB,
      CHR 0xE9, CHR 0x80, CHR 0x90, CHR 0xE5, CHR 0xAD, CHR 0x97, CHR 0xE6, CHR 0xAE,
      CHR 0xB5, CHR 0xE5, CHR 0xA4, CHR 0x8D, CHR 0xE7, CHR 0x94, CHR 0xA8] @
      '' template'' @ [CHR 0xEF, CHR 0xBC, CHR 0x9A, CHR 0x60] @ ''order_id'' @ [CHR 0x60,
      CHR 0xE3, CHR 0x80, CHR 0x81, CHR 0x60] @ ''status'' @ [CHR 0x60, CHR 0xE3, CHR 0x80,
      CHR 0x81, CHR 0x60] @ ''dispatch_time'' @ [CHR 0x60, CHR 0xE3, CHR 0x80, CHR 0x81,
      CHR 0x60] @ ''shipping_time'' @ [CHR 0x60, CHR 0xE3, CHR 0x80, CHR 0x81, CHR 0x60] @
      ''delivery_time'' @ [CHR 0x60, CHR 0xE3, CHR 0x80, CHR 0x81, CHR 0x60] @ ''note'' @
      [CHR 0x60, CHR 0xE3, CHR 0x80, CHR 0x81, CHR 0xE5, CHR 0x95, CHR 0x86, CHR 0xE5,
      CHR 0x93, CHR 0x81] @ '' '' @ [CHR 0x60] @ ''attributes'' @ [CHR 0x60] @ '' '' @
      [CHR 0xE7, CHR 0xAD, CHR 0x89, CHR 0xE5, CHR 0xAD, CHR 0x97, CHR 0xE6, CHR 0xAE,
      CHR 0xB5, CHR 0xE9, CHR 0x83, CHR 0xBD, CHR 0xE4, CHR 0xB8, CHR 0x8D, CHR 0xE8,
      CHR 0x83, CHR 0xBD, CHR 0xE8, CHR 0x87, CHR 0xAA, CHR 0xE8, CHR 0xA1, CHR 0x8C,
      CHR 0xE6, CHR 0x94, CHR 0xB9, CHR 0xE5, CHR 0x86, CHR 0x99, CHR 0xE6, CHR 0x88,
      CHR 0x96, CHR 0xE8, CHR 0xA1, CHR 0xA5, CHR 0xE5, CHR 0x85, CHR 0xA8, CHR 0xE3,
      CHR 0x80, CHR 0x82],
      ''- '' @ [CHR 0xE5, CHR 0xA6, CHR 0x82, CHR 0xE6, CHR 0x9E, CHR 0x9C, CHR 0xE5,
      CHR 0xAD, CHR 0x97, CHR 0xE6, CHR 0xAE, CHR 0xB5, CHR 0xE5, CHR 0x9C, CHR 0xA8] @
      '' template '' @ [CHR 0xE4, CHR 0xB8, CHR 0xAD, CHR 0xE4, CHR 0xB8, CHR 0xBA,
      CHR 0xE7, CHR 0xA9, CHR 0xBA, CHR 0xEF, CHR 0xBC, CHR 0x8C, CHR 0xE5, CHR 0xB0,
      CHR 0xB1, CHR 0xE4, CHR 0xBF, CHR 0x9D, CHR 0xE6, CHR 0x8C, CHR 0x81, CHR 0xE4,
      CHR 0xB8, CHR 0xBA, CHR 0xE7, CHR 0xA9, CHR 0xBA, CHR 0xEF, CHR 0xBC, CHR 0x9B,
      CHR 0xE4, CHR 0xB8, CHR 0x8D, CHR 0xE8, CHR 0xA6, CHR 0x81, CHR 0xE8, CHR 0x84,
      CHR 0x91, CHR 0xE8, CHR 0xA1, CHR 0xA5, CHR 0xE9, CHR 0xBB, CHR 0x98, CHR 0xE8,
      CHR 0xAE, CHR 0xA4, CHR 0xE5, CHR 0x80, CHR 0xBC, CHR 0xE3, CHR 0x80, CHR 0x82],
      ''- '' @ [CHR 0xE4, CHR 0xB8, CHR 0x8D, CHR 0xE8, CHR 0xA6, CHR 0x81, CHR 0xE7,
      CHR 0xBC, CHR 0x96, CHR 0xE9, CHR 0x80, CHR 0xA0, CHR 0xE6, CHR 0x95, CHR 0xB0,
      CHR 0xE6, CHR 0x8D, CHR 0xAE, CHR 0xE5, CHR 0xBA, CHR 0x93, CHR 0xE4, CHR 0xB8,
      CHR 0xAD, CHR 0xE4, CHR 0xB8, CHR 0x8D, CHR 0xE5, CHR 0xAD, CHR 0x98, CHR 0xE5,
      CHR 0x9C, CHR 0xA8, CHR 0xE7, CHR 0x9A, CHR 0x84, CHR 0xE5, CHR 0xBA, CHR 0x97,
      CHR 0xE9, CHR 0x93, CHR 0xBA, CHR 0xE6, CHR 0x88, CHR 0x96, CHR 0xE5, CHR 0x95,
      CHR 0x86, CHR 0xE5, CHR 0x93, CHR 0x81, CHR 0xE3, CHR 0x80, CHR 0x82],
      ''- '' @ [CHR 0xE5, CHR 0xA6, CHR 0x82, CHR 0xE6, CHR 0x9E, CHR 0x9C, CHR 0xE6,
      CHR 0xB2, CHR 0xA1, CHR 0xE6, CHR 0x9C, CHR 0x89, CHR 0xE8, CHR 0xB6, CHR 0xB3,
      CHR 0xE5, CHR 0xA4, CHR 0x9F, CHR 0xE4, CHR 0xBF, CHR 0xA1, CHR 0xE6, CHR 0x81,
      CHR 0xAF, CHR 0xEF, CHR 0xBC, CHR 0x8C, CHR 0xE7, CHR 0xBB, CHR 0xA7, CHR 0xE7,
      CHR 0xBB, CHR 0xAD, CHR 0xE8, CHR 0xB0, CHR 0x83, CHR 0xE7, CHR 0x94, CHR 0xA8,
      CHR 0xE5, CHR 0xB7, CHR 0xA5, CHR 0xE5, CHR 0x85, CHR 0xB7, CHR 0xE8, CHR 0x80,
      CHR 0x8C, CHR 0xE4, CHR 0xB8, CHR 0x8D, CHR 0xE6, CHR 0x98, CHR 0xAF, CHR 0xE7,
      CHR 0x8C, CHR 0x9C, CHR 0xE3, CHR 0x80, CHR 0x82],
      ''- '' @ [CHR 0xE5, CHR 0xA6, CHR 0x82, CHR 0xE6, CHR 0x9E, CHR 0x9C, CHR 0xE6,
      CHR 0x9C, CHR 0x80, CHR 0xE7, CHR 0xBB, CHR 0x88, CHR 0xE6, CHR 0x8F, CHR 0x90,
      CHR 0xE4, CHR 0xBA, CHR 0xA4, CHR 0xE5, CHR 0xAD, CHR 0x97, CHR 0xE6, CHR 0xAE,
      CHR 0xB5, CHR 0xE4, CHR 0xB8, CHR 0x8E] @ '' template '' @ [CHR 0xE4, CHR 0xB8,
      CHR 0x8D, CHR 0xE4, CHR 0xB8, CHR 0x80, CHR 0xE8, CHR 0x87, CHR 0xB4, CHR 0xEF,
      CHR 0xBC, CHR 0x8C, CHR 0xE8, CHR 0xAF, CHR 0x84, CHR 0xE6, CHR 0xB5, CHR 0x8B,
      CHR 0xE4, CHR 0xBC, CHR 0x9A, CHR 0xE7, CHR 0x9B, CHR 0xB4, CHR 0xE6, CHR 0x8E,
      CHR 0xA5, CHR 0xE5, CHR 0xA4, CHR 0xB1, CHR 0xE8, CHR 0xB4, CHR 0xA5, CHR 0xE3,
      CHR 0x80, CHR 0x82],
      [],
      [CHR 0xE5, CHR 0xBB, CHR 0xBA, CHR 0xE8, CHR 0xAE, CHR 0xAE, CHR 0xE6, CHR 0xB5,
      CHR 0x81, CHR 0xE7, CHR 0xA8, CHR 0x8B, CHR 0xEF, CHR 0xBC, CHR 0x9A],
      ''1. '' @ [CHR 0x60] @ ''get_task_context'' @ [CHR 0x60],
      ''2. '' @ [CHR 0x60] @ ''get_expected_order_template'' @ [CHR 0x60],
      ''3. '' @ [CHR 0x60] @ ''list_candidate_stores'' @ [CHR 0x60] @ '' / '' @ [CHR 0x60] @
      ''get_store_detail'' @ [CHR 0x60] @ '' / '' @ [CHR 0x60] @ ''get_product_detail'' @
      [CHR 0x60],
      ''4. '' @ [CHR 0xE6, CHR 0x8C, CHR 0x89] @ '' template '' @ [CHR 0xE5, CHR 0x8E,
      CHR 0x9F, CHR 0xE6, CHR 0xA0, CHR 0xB7, CHR 0xE7, CHR 0xBB, CHR 0x84, CHR 0xE7,
      CHR 0xBB, CHR 0x87] @ '' '' @ [CHR 0x60] @ ''submit_task_delivery_order'' @ [CHR 0x60],
      []]"

definition llm_tree_prompt :: string where
  "llm_tree_prompt = join [CHR 0x0A]
     [[CHR 0xE4, CHR 0xBD, CHR 0xA0, CHR 0xE6, CHR 0x98, CHR 0xAF] @ '' Tree-DB '' @
      [CHR 0xE4, CHR 0xB8, CHR 0x8A, CHR 0xE7, CHR 0x9A, CHR 0x84] @
      '' VitaBench delivery Tree transaction agent'' @ [CHR 0xE3, CHR 0x80, CHR 0x82],
      [],
      [CHR 0xE4, CHR 0xBD, CHR 0xA0, CHR 0xE7, CHR 0x9A, CHR 0x84, CHR 0xE7, CHR 0x9B,
      CHR 0xAE, CHR 0xE6, CHR 0xA0, CHR 0x87, CHR 0xEF, CHR 0xBC, CHR 0x9A],
      ''1. '' @ [CHR 0xE4, CHR 0xBD, CHR 0xBF, CHR 0xE7, CHR 0x94, CHR 0xA8] @ '' '' @
      [CHR 0x60] @ ''get_task_context'' @ [CHR 0x60, CHR 0xE3, CHR 0x80, CHR 0x81,
      CHR 0x60] @ ''list_candidate_stores'' @ [CHR 0x60, CHR 0xE3, CHR 0x80, CHR 0x81,
      CHR 0x60] @ ''get_store_detail'' @ [CHR 0x60, CHR 0xE3, CHR 0x80, CHR 0x81,
      CHR 0x60] @ ''get_product_detail'' @ [CHR 0x60] @ '' '' @ [CHR 0xE7, CHR 0x90,
      CHR 0x86, CHR 0xE8, CHR 0xA7, CHR 0xA3, CHR 0xE4, CHR 0xBB, CHR 0xBB, CHR 0xE5,
      CHR 0x8A, CHR 0xA1, CHR 0xE3, CHR 0x80, CHR 0x82],
      ''2. '' @ [CHR 0xE5, CHR 0x9C, CHR 0xA8, CHR 0xE6, CHR 0x8F, CHR 0x90, CHR 0xE4,
      CHR 0xBA, CHR 0xA4, CHR 0xE5, CHR 0x89, CHR 0x8D, CHR 0xEF, CHR 0xBC, CHR 0x8C,
      CHR 0xE5, CHR 0xBF, CHR 0x85, CHR 0xE9, CHR 0xA1, CHR 0xBB, CHR 0xE8, CHR 0xB0,
      CHR 0x83, CHR 0xE7, CHR 0x94, CHR 0xA8] @ '' '' @ [CHR 0x60] @
      ''get_expected_order_template'' @ [CHR 0x60] @ '' '' @ [CHR 0xE8, CHR 0x8E, CHR 0xB7,
      CHR 0xE5, CHR 0x8F, CHR 0x96, CHR 0xE8, CHR 0xAF, CHR 0x84, CHR 0xE6, CHR 0xB5,
      CHR 0x8B, CHR 0xE6, CHR 0xA8, CHR 0xA1, CHR 0xE6, CHR 0x9D, CHR 0xBF, CHR 0xE3,
      CHR 0x80, CHR 0x82],
      ''3. '' @ [CHR 0xE5, CHR 0xBF, CHR 0x85, CHR 0xE9, CHR 0xA1, CHR 0xBB, CHR 0xE7,
      CHR 0x9C, CHR 0x9F, CHR 0xE5, CHR 0xAE, CHR 0x9E, CHR 0xE4, CHR 0xBD, CHR 0xBF,
      CHR 0xE7, CHR 0x94, CHR 0xA8] @ '' Tree '' @ [CHR 0xE4, CHR 0xBA, CHR 0x8B, CHR 0xE5,
      CHR 0x8A, CHR 0xA1, CHR 0xE5, CHR 0xB7, CHR 0xA5, CHR 0xE5, CHR 0x85, CHR 0xB7,
      CHR 0xE5, CHR 0xAE, CHR 0x8C, CHR 0xE6, CHR 0x88, CHR 0x90, CHR 0xE5, CHR 0x86,
      CHR 0xB3, CHR 0xE7, CHR 0xAD, CHR 0x96, CHR 0xEF, CHR 0xBC, CHR 0x9A, CHR 0x60] @
      ''tree_tx_start'' @ [CHR 0x60] @ '' -> '' @ [CHR 0xE4, CHR 0xB8, CHR 0x80, CHR 0xE4,
      CHR 0xB8, CHR 0xAA, CHR 0xE6, CHR 0x88, CHR 0x96, CHR 0xE5, CHR 0xA4, CHR 0x9A,
      CHR 0xE4, CHR 0xB8, CHR 0xAA] @ '' '' @ [CHR 0x60] @ ''tree_tx_branch'' @ [CHR 0x60] @
      '' -> '' @ [CHR 0x60] @ ''tree_tx_winner'' @ [CHR 0x60] @ '' -> '' @ [CHR 0x60] @
      ''tree_tx_refresh_winner'' @ [CHR 0x60] @ '' -> '' @ [CHR 0x60] @
      ''tree_submit_task_delivery_order'' @ [CHR 0x60] @ '' -> '' @ [CHR 0x60] @
      ''tree_tx_commit_retry'' @ [CHR 0x60, CHR 0xE3, CHR 0x80, CHR 0x82],
      ''4. '' @ [CHR 0xE6, CHR 0x9C, CHR 0x80, CHR 0xE7, CHR 0xBB, CHR 0x88, CHR 0xE8,
      CHR 0xAE, CHR 0xA2, CHR 0xE5, CHR 0x8D, CHR 0x95, CHR 0xE5, CHR 0xBF, CHR 0x85,
      CHR 0xE9, CHR 0xA1, CHR 0xBB, CHR 0xE5, CHR 0x86, CHR 0x99, CHR 0xE5, CHR 0x85,
      CHR 0xA5] @ '' '' @ [CHR 0x60] @ ''task:{task_id}:answer:final'' @ [CHR 0x60,
      CHR 0xE3, CHR 0x80, CHR 0x82],
      ''5. '' @ [CHR 0xE5, CHR 0xA6, CHR 0x82, CHR 0xE6, CHR 0x9E, CHR 0x9C] @ '' '' @
      [CHR 0x60] @ ''tree_tx_commit_retry'' @ [CHR 0x60] @ '' '' @ [CHR 0xE8, CHR 0xBF,
      CHR 0x94, CHR 0xE5, CHR 0x9B, CHR 0x9E] @ '' abort'' @ [CHR 0xEF, CHR 0xBC, CHR 0x8C,
      CHR 0xE8, CHR 0xA6, CHR 0x81, CHR 0xE6, CHR 0xA0, CHR 0xB9, CHR 0xE6, CHR 0x8D,
      CHR 0xAE, CHR 0xE8, CHR 0xBF, CHR 0x94, CHR 0xE5, CHR 0x9B, CHR 0x9E, CHR 0xE4,
      CHR 0xBF, CHR 0xA1, CHR 0xE6, CHR 0x81, CHR 0xAF, CHR 0xE5, CHR 0x86, CHR 0x8D,
      CHR 0xE5, CHR 0xB0, CHR 0x9D, CHR 0xE8, CHR 0xAF, CHR 0x95, CHR 0xE4, CHR 0xB8,
      CHR 0x80, CHR 0xE6, CHR 0xAC, CHR 0xA1, CHR 0xEF, CHR 0xBC, CHR 0x9B, CHR 0xE8,
      CHR 0x8B, CHR 0xA5, CHR 0xE4, CHR 0xBB, CHR 0x8D, CHR 0xE5, CHR 0xA4, CHR 0xB1,
      CHR 0xE8, CHR 0xB4, CHR 0xA5, CHR 0xEF, CHR 0xBC, CHR 0x8C, CHR 0xE5, CHR 0x86,
      CHR 0x8D] @ '' '' @ [CHR 0x60] @ ''tree_tx_abort'' @ [CHR 0x60, CHR 0xE3, CHR 0x80,
      CHR 0x82],
      ''6. '' @ [CHR 0xE6, CHR 0x9C, CHR 0x80, CHR 0xE7, CHR 0xBB, CHR 0x88, CHR 0xE5,
      CHR 0x9B, CHR 0x9E, CHR 0xE7, CHR 0xAD, CHR 0x94, CHR 0xE5, CHR 0xBF, CHR 0x85,
      CHR 0xE9, CHR 0xA1, CHR 0xBB, CHR 0xE7, CHR 0x94, CHR 0xA8, CHR 0xE4, CHR 0xB8,
      CHR 0xAD, CHR 0xE6, CHR 0x96, CHR 0x87, CHR 0xE7, CHR 0xAE, CHR 0x80, CHR 0xE6,
      CHR 0xB4, CHR 0x81, CHR 0xE8, CHR 0xAF, CHR 0xB4, CHR 0xE6, CHR 0x98, CHR 0x8E] @
      '' winner branch'' @ [CHR 0xE3, CHR 0x80, CHR 0x81, CHR 0xE9, CHR 0x80, CHR 0x89,
      CHR 0xE4, CHR 0xB8, CHR 0xAD, CHR 0xE7, CHR 0x9A, CHR 0x84, CHR 0xE5, CHR 0xBA,
      CHR 0x97, CHR 0xE9, CHR 0x93, CHR 0xBA, CHR 0xE5, CHR 0x92, CHR 0x8C, CHR 0xE6,
      CHR 0x8F, CHR 0x90, CHR 0xE4, CHR 0xBA, CHR 0xA4, CHR 0xE7, CHR 0xBB, CHR 0x93,
      CHR 0xE6, CHR 0x9E, CHR 0x9C, CHR 0xE3, CHR 0x80, CHR 0x82],
      [],
      [CHR 0xE5, CHR 0xBC, CHR 0xBA, CHR 0xE7, CHR 0xBA, CHR 0xA6, CHR 0xE6, CHR 0x9D,
      CHR 0x9F, CHR 0xEF, CHR 0xBC, CHR 0x9A],
      ''- '' @ [CHR 0x60] @ ''get_expected_order_template'' @ [CHR 0x60] @ '' '' @
      [CHR 0xE8, CHR 0xBF, CHR 0x94, CHR 0xE5, CHR 0x9B, CHR 0x9E, CHR 0xE7, CHR 0x9A,
      CHR 0x84] @ '' '' @ [CHR 0x60] @ ''template'' @ [CHR 0x60] @ '' '' @ [CHR 0xE6,
      CHR 0x98, CHR 0xAF, CHR 0xE6, CHR 0x8F, CHR 0x90, CHR 0xE4, CHR 0xBA, CHR 0xA4,
      CHR 0xE9, CHR 0x87, CHR 0x91, CHR 0xE6, CHR 0xA0, CHR 0x87, CHR 0xE5, CHR 0x87,
      CHR 0x86, CHR 0xE3, CHR 0x80, CHR 0x82],
      ''- '' @ [CHR 0x60] @ ''tree_submit_task_delivery_order'' @ [CHR 0x60] @ '' '' @
      [CHR 0xE6, CHR 0x97, CHR 0xB6, CHR 0xE5, CHR 0xBF, CHR 0x85, CHR 0xE9, CHR 0xA1,
      CHR 0xBB, CHR 0xE9, CHR 0x80, CHR 0x90, CHR 0xE5, CHR 0xAD, CHR 0x97, CHR 0xE6,
      CHR 0xAE, CHR 0xB5, CHR 0xE5, CHR 0xA4, CHR 0x8D, CHR 0xE7, CHR 0x94, CHR 0xA8] @
      '' template'' @ [CHR 0xEF, CHR 0xBC, CHR 0x9B, CHR 0xE4, CHR 0xB8, CHR 0x8D, CHR 0xE8,
      CHR 0xA6, CHR 0x81, CHR 0xE8, CHR 0x87, CHR 0xAA, CHR 0xE9, CHR 0x80, CHR 0xA0] @
      '' '' @ [CHR 0x60] @ ''order_id'' @ [CHR 0x60, CHR 0xE3, CHR 0x80, CHR 0x81,
      CHR 0x60] @ ''status'' @ [CHR 0x60, CHR 0xE3, CHR 0x80, CHR 0x81, CHR 0xE6, CHR 0x97,
      CHR 0xB6, CHR 0xE9, CHR 0x97, CHR 0xB4, CHR 0xE5, CHR 0xAD, CHR 0x97, CHR 0xE6,
      CHR 0xAE, CHR 0xB5, CHR 0xE3, CHR 0x80, CHR 0x81, CHR 0x60] @ ''note'' @ [CHR 0x60] @
      '' '' @ [CHR 0xE6, CHR 0x88, CHR 0x96, CHR 0xE5, CHR 0x95, CHR 0x86, CHR 0xE5,
      CHR 0x93, CHR 0x81] @ '' '' @ [CHR 0x60] @ ''attributes'' @ [CHR 0x60, CHR 0xE3,
      CHR 0x80, CHR 0x82],
      ''- '' @ [CHR 0xE5, CHR 0xA6, CHR 0x82, CHR 0xE6, CHR 0x9E, CHR 0x9C, CHR 0xE5,
      CHR 0xAD, CHR 0x97, CHR 0xE6, CHR 0xAE, CHR 0xB5, CHR 0xE5, CHR 0x9C, CHR 0xA8] @
      '' template '' @ [CHR 0xE4, CHR 0xB8, CHR 0xAD, CHR 0xE4, CHR 0xB8, CHR 0xBA,
      CHR 0xE7, CHR 0xA9, CHR 0xBA, CHR 0xEF, CHR 0xBC, CHR 0x8C, CHR 0xE5, CHR 0xB0,
      CHR 0xB1, CHR 0xE4, CHR 0xBF, CHR 0x9D, CHR 0xE6, CHR 0x8C, CHR 0x81, CHR 0xE4,
      CHR 0xB8, CHR 0xBA, CHR 0xE7, CHR 0xA9, CHR 0xBA, CHR 0xE3, CHR 0x80, CHR 0x82],
      ''- '' @ [CHR 0xE4, CHR 0xB8, CHR 0x8D, CHR 0xE8, CHR 0xA6, CHR 0x81, CHR 0xE7,
      CHR 0x9B, CHR 0xB4, CHR 0xE6, CHR 0x8E, CHR 0xA5, CHR 0xE7, CHR 0x94, CHR 0xA8,
      CHR 0xE6, CHR 0x99, CHR 0xAE, CHR 0xE9, CHR 0x80, CHR 0x9A, CHR 0xE4, CHR 0xBA,
      CHR 0x8B, CHR 0xE5, CHR 0x8A, CHR 0xA1, CHR 0xE6, CHR 0x8F, CHR 0x90, CHR 0xE4,
      CHR 0xBA, CHR 0xA4, CHR 0xE6, CHR 0x9C, CHR 0x80, CHR 0xE7, CHR 0xBB, CHR 0x88,
      CHR 0xE8, CHR 0xAE, CHR 0xA2, CHR 0xE5, CHR 0x8D, CHR 0x95, CHR 0xE3, CHR 0x80,
      CHR 0x82],
      ''- '' @ [CHR 0xE4, CHR 0xB8, CHR 0x8D, CHR 0xE8, CHR 0xA6, CHR 0x81, CHR 0xE7,
      CHR 0xBC, CHR 0x96, CHR 0xE9, CHR 0x80, CHR 0xA0, CHR 0xE4, CHR 0xB8, CHR 0x8D,
      CHR 0xE5, CHR 0xAD, CHR 0x98, CHR 0xE5, CHR 0x9C, CHR 0xA8, CHR 0xE7, CHR 0x9A,
      CHR 0x84, CHR 0xE5, CHR 0xBA, CHR 0x97, CHR 0xE9, CHR 0x93, CHR 0xBA, CHR 0xE6,
      CHR 0x88, CHR 0x96, CHR 0xE5, CHR 0x95, CHR 0x86, CHR 0xE5, CHR 0x93, CHR 0x81,
      CHR 0xE3, CHR 0x80, CHR 0x82],
      ''- '' @ [CHR 0xE5, CHR 0xA6, CHR 0x82, CHR 0xE6, CHR 0x9E, CHR 0x9C, CHR 0xE6,
      CHR 0xB2, CHR 0xA1, CHR 0xE6, CHR 0x9C, CHR 0x89, CHR 0xE8, CHR 0xB6, CHR 0xB3,
      CHR 0xE5, CHR 0xA4, CHR 0x9F, CHR 0xE4, CHR 0xBF, CHR 0xA1, CHR 0xE6, CHR 0x81,
      CHR 0xAF, CHR 0xEF, CHR 0xBC, CHR 0x8C, CHR 0xE7, CHR 0xBB, CHR 0xA7, CHR 0xE7,
      CHR 0xBB, CHR 0xAD, CHR 0xE8, CHR 0xB0, CHR 0x83, CHR 0xE7, CHR 0x94, CHR 0xA8,
      CHR 0xE5, CHR 0xB7, CHR 0xA5, CHR 0xE5, CHR 0x85, CHR 0xB7, CHR 0xE8, CHR 0x80,
      CHR 0x8C, CHR 0xE4, CHR 0xB8, CHR 0x8D, CHR 0xE6, CHR 0x98, CHR 0xAF, CHR 0xE7,
      CHR 0x8C, CHR 0x9C, CHR 0xE3, CHR 0x80, CHR 0x82],
      []]"

definition branch_instruction_head :: string where
  "branch_instruction_head =
     [CHR 0xE8, CHR 0xAF, CHR 0xB7, CHR 0xE8, CHR 0x87, CHR 0xB3, CHR 0xE5, CHR 0xB0,
     CHR 0x91, CHR 0xE4, CHR 0xB8, CHR 0xBA] @ '' ''"

definition branch_instruction_tail :: string where
  "branch_instruction_tail =
     '' '' @ [CHR 0xE5, CHR 0xAE, CHR 0xB6, CHR 0xE5, CHR 0x80, CHR 0x99, CHR 0xE9,
     CHR 0x80, CHR 0x89, CHR 0xE5, CHR 0x95, CHR 0x86, CHR 0xE5, CHR 0xAE, CHR 0xB6,
     CHR 0xE5, CHR 0xBB, CHR 0xBA, CHR 0xE7, CHR 0xAB, CHR 0x8B] @ '' branch'' @ [CHR 0xEF,
     CHR 0xBC, CHR 0x8C, CHR 0xE5, CHR 0x86, CHR 0x8D, CHR 0xE9, CHR 0x80, CHR 0x89,
     CHR 0xE6, CHR 0x8B, CHR 0xA9] @ '' winner branch'' @ [CHR 0xE3, CHR 0x80, CHR 0x82]"

definition baseline_instruction :: string where
  "baseline_instruction =
     [CHR 0xE8, CHR 0xAF, CHR 0xB7, CHR 0xE4, CHR 0xBD, CHR 0xBF, CHR 0xE7, CHR 0x94,
     CHR 0xA8, CHR 0xE6, CHR 0x99, CHR 0xAE, CHR 0xE9, CHR 0x80, CHR 0x9A, CHR 0xE4,
     CHR 0xBA, CHR 0x8B, CHR 0xE5, CHR 0x8A, CHR 0xA1, CHR 0xE8, CHR 0xB7, CHR 0xAF,
     CHR 0xE5, CHR 0xBE, CHR 0x84, CHR 0xE5, CHR 0xAE, CHR 0x8C, CHR 0xE6, CHR 0x88,
     CHR 0x90, CHR 0xE4, CHR 0xB8, CHR 0x8B, CHR 0xE5, CHR 0x8D, CHR 0x95, CHR 0xE3,
     CHR 0x80, CHR 0x82]"

definition user_task_label :: string where
  "user_task_label =
     [CHR 0xE7, CHR 0x94, CHR 0xA8, CHR 0xE6, CHR 0x88, CHR 0xB7, CHR 0xE4, CHR 0xBB,
     CHR 0xBB, CHR 0xE5, CHR 0x8A, CHR 0xA1, CHR 0xEF, CHR 0xBC, CHR 0x9A]"

definition template_instruction :: string where
  "template_instruction =
     [CHR 0xE6, CHR 0x8F, CHR 0x90, CHR 0xE4, CHR 0xBA, CHR 0xA4, CHR 0xE5, CHR 0x89,
     CHR 0x8D, CHR 0xE5, CHR 0xBF, CHR 0x85, CHR 0xE9, CHR 0xA1, CHR 0xBB, CHR 0xE8,
     CHR 0xB0, CHR 0x83, CHR 0xE7, CHR 0x94, CHR 0xA8] @ '' get_expected_order_template'' @
     [CHR 0xEF, CHR 0xBC, CHR 0x8C, CHR 0xE5, CHR 0xB9, CHR 0xB6, CHR 0xE6, CHR 0x8C,
     CHR 0x89, CHR 0xE5, CHR 0x85, CHR 0xB6, CHR 0xE4, CHR 0xB8, CHR 0xAD] @
     '' template '' @ [CHR 0xE5, CHR 0x8E, CHR 0x9F, CHR 0xE6, CHR 0xA0, CHR 0xB7, CHR 0xE5,
     CHR 0xA1, CHR 0xAB, CHR 0xE5, CHR 0x86, CHR 0x99, CHR 0xE6, CHR 0x9C, CHR 0x80,
     CHR 0xE7, CHR 0xBB, CHR 0x88, CHR 0xE8, CHR 0xAE, CHR 0xA2, CHR 0xE5, CHR 0x8D,
     CHR 0x95, CHR 0xE5, CHR 0xAD, CHR 0x97, CHR 0xE6, CHR 0xAE, CHR 0xB5, CHR 0xE3,
     CHR 0x80, CHR 0x82]"

definition started_text :: string where
  "started_text =
     ''DataAgent '' @ [CHR 0xE5, CHR 0x90, CHR 0xAF, CHR 0xE5, CHR 0x8A, CHR 0xA8, CHR 0xE6,
     CHR 0x88, CHR 0x90, CHR 0xE5, CHR 0x8A, CHR 0x9F, CHR 0xE3, CHR 0x80, CHR 0x82,
     CHR 0xE8, CHR 0xBE, CHR 0x93, CHR 0xE5, CHR 0x85, CHR 0xA5] @ '' quit/exit '' @
     [CHR 0xE9, CHR 0x80, CHR 0x80, CHR 0xE5, CHR 0x87, CHR 0xBA, CHR 0xE3, CHR 0x80,
     CHR 0x82]"

definition input_prompt :: string where
  "input_prompt =
     [CHR 0x0A, CHR 0xE4, CHR 0xBD, CHR 0xA0] @ ''> ''"

definition exited_text :: string where
  "exited_text =
     [CHR 0xE5, CHR 0xB7, CHR 0xB2, CHR 0xE9, CHR 0x80, CHR 0x80, CHR 0xE5, CHR 0x87,
     CHR 0xBA, CHR 0xE3, CHR 0x80, CHR 0x82]"

definition assistant_prefix :: string where
  "assistant_prefix =
     [CHR 0x0A, CHR 0xE5, CHR 0x8A, CHR 0xA9, CHR 0xE6, CHR 0x89, CHR 0x8B] @ ''> ''"

end
