(* ===== verification/Llm_Client.thy ===== *)
theory Llm_Client
  imports Tool_Registry Llm_Texts
begin

text \<open>
  The tool-calling conversations (\<open>Agent/llm.py\<close>) and the console on top of them
  (\<open>Agent/app.py\<close>). A conversation alternates requests to a model service with calls of a tool
  router. The service (the \<open>openai\<close> package), the environment variables and the tools are
  parameters; messages are JSON values.
\<close>

subsection \<open>Texts\<close>

text \<open>\<open>s.find(c)\<close> and \<open>s.rfind(c)\<close> for one character.\<close>

definition find_char :: "char \<Rightarrow> string \<Rightarrow> int" where
  "find_char c s = (if c \<in> set s then int (length (takeWhile (\<lambda>x. x \<noteq> c) s)) else - 1)"

definition rfind_char :: "char \<Rightarrow> string \<Rightarrow> int" where
  "rfind_char c s =
     (if c \<in> set s then int (length s) - 1 - int (length (takeWhile (\<lambda>x. x \<noteq> c) (rev s))) else - 1)"

text \<open>The length of a line boundary of \<open>str.splitlines\<close> at the head of a text.\<close>

definition line_break :: "string \<Rightarrow> nat" where
  "line_break s =
     (if starts_with s [CHR 0x0D, CHR 0x0A] then 2
      else if (\<exists>c \<in> set (take 1 s). (of_char c :: int) \<in> {10, 11, 12, 13, 28, 29, 30}) then 1
      else if starts_with s [CHR 0xC2, CHR 0x85] then 2
      else if starts_with s [CHR 0xE2, CHR 0x80, CHR 0xA8] \<or> starts_with s [CHR 0xE2, CHR 0x80, CHR 0xA9]
      then 3 else 0)"

fun splitlines_aux :: "nat \<Rightarrow> string \<Rightarrow> string \<Rightarrow> string list" where
  "splitlines_aux n [] line = (if line = [] then [] else [line])"
| "splitlines_aux (Suc n) (c # s) line = splitlines_aux n s line"
| "splitlines_aux 0 (c # s) line =
     (case line_break (c # s) of
        0 \<Rightarrow> splitlines_aux 0 s (line @ [c])
      | Suc n \<Rightarrow> line # splitlines_aux n s [])"

definition splitlines :: "string \<Rightarrow> string list" where
  "splitlines s = splitlines_aux 0 s []"

subsection \<open>Configuration and service\<close>

text \<open>\<open>os.getenv(k) or d\<close>.\<close>

definition env_or :: "(string, string) dict \<Rightarrow> string \<Rightarrow> string \<Rightarrow> string" where
  "env_or env k d = (case dget env k of None \<Rightarrow> d | Some s \<Rightarrow> if s = [] then d else s)"

record llm_config =
  lc_env :: "(string, string) dict"
  lc_model :: string
  lc_tool_mode :: string
  lc_temperature :: pyfloat

definition llm_config_of :: "(string, string) dict \<Rightarrow> llm_config res" where
  "llm_config_of env =
     rbind (to_float (PStr (env_or env ''OPENAI_TEMPERATURE'' ''0''))) (\<lambda>temperature.
       Inr \<lparr>lc_env = env,
            lc_model = env_or env ''OPENAI_MODEL'' (dget_def env ''MODEL_NAME'' ''qwen-plus''),
            lc_tool_mode = lower (strip (env_or env ''OPENAI_TOOL_MODE'' ''auto'')),
            lc_temperature = temperature\<rparr>)"

text \<open>A reply of the service: the messages of its choices; a message may call tools.\<close>

record tool_call =
  tc_id :: string
  tc_type :: string
  tc_name :: string
  tc_arguments :: string

record reply_message =
  rm_content :: "string option"
  rm_tool_calls :: "tool_call list"

record 'w model_service =
  ms_open :: "string option \<Rightarrow> string option \<Rightarrow> 'w \<Rightarrow> unit res \<times> 'w"
  ms_create :: "args \<Rightarrow> 'w \<Rightarrow> reply_message list res \<times> 'w"

text \<open>The arguments of a conversation: \<open>tools\<close> as the service sees them, and the router.\<close>

record 'w llm_setup =
  lx_service :: "'w model_service"
  lx_config :: llm_config
  lx_tools :: "pyval list"
  lx_router :: "string \<Rightarrow> pyval \<Rightarrow> ('w, pyval) db_prog"

text \<open>
  The state: the database client the tools work on, whether the global client of the service
  exists, and the list \<open>messages\<close>, which a conversation appends to.
\<close>

record 'w llm_world =
  lw_db :: "'w agent_db"
  lw_client :: bool
  lw_messages :: "pyval list"

type_synonym ('w, 'a) llm_prog = "('w llm_world, 'a) prog"

definition on_tools :: "('w, 'a) db_prog \<Rightarrow> ('w, 'a) llm_prog" where
  "on_tools m s = (case m (lw_db s) of (r, c) \<Rightarrow> (r, s\<lparr>lw_db := c\<rparr>))"

definition say :: "pyval \<Rightarrow> ('w, unit) llm_prog" where
  "say msg s = (Inr (), s\<lparr>lw_messages := lw_messages s @ [msg]\<rparr>)"

definition get_messages :: "('w, pyval list) llm_prog" where
  "get_messages s = (Inr (lw_messages s), s)"

definition create_kwargs :: "llm_config \<Rightarrow> pyval list \<Rightarrow> args \<Rightarrow> args" where
  "create_kwargs C messages extra =
     (let env = lc_env C;
          kwargs = dict_update [(''model'', PStr (lc_model C)), (''messages'', PList messages)] extra;
          seed = strip (env_or env ''OPENAI_SEED'' []);
          kwargs = (if seed = [] then kwargs
                    else case int_of_str seed of
                           None \<Rightarrow> kwargs
                         | Some i \<Rightarrow> dset kwargs ''seed'' (PInt i));
          deepseek_thinking = lower (strip (env_or env ''DEEPSEEK_THINKING'' []));
          base_url = dget_def env ''OPENAI_BASE_URL'' []
      in if contains base_url ''api.deepseek.com'' \<and>
            deepseek_thinking \<in> {''disabled'', ''off'', ''false'', ''0''}
         then dset kwargs ''extra_body'' (PDict [(''thinking'', PDict [(''type'', PStr ''disabled'')])])
         else kwargs)"

definition get_client :: "'w llm_setup \<Rightarrow> ('w, unit) llm_prog" where
  "get_client X s =
     (if lw_client s then (Inr (), s)
      else let env = lc_env (lx_config X) in
        case ms_open (lx_service X) (dget env ''OPENAI_API_KEY'') (dget env ''OPENAI_BASE_URL'')
               (adb_net (lw_db s)) of
          (Inl e, w) \<Rightarrow> (Inl e, s\<lparr>lw_db := (lw_db s)\<lparr>adb_net := w\<rparr>\<rparr>)
        | (Inr _, w) \<Rightarrow> (Inr (), s\<lparr>lw_db := (lw_db s)\<lparr>adb_net := w\<rparr>, lw_client := True\<rparr>))"

text \<open>\<open>_get_client().chat.completions.create(...)\<close>, then \<open>resp.choices[0].message\<close>.\<close>

definition create_completion :: "'w llm_setup \<Rightarrow> args \<Rightarrow> ('w, reply_message list) llm_prog" where
  "create_completion X kwargs s =
     (case ms_create (lx_service X) kwargs (adb_net (lw_db s)) of
        (r, w) \<Rightarrow> (r, s\<lparr>lw_db := (lw_db s)\<lparr>adb_net := w\<rparr>\<rparr>))"

definition ask_model :: "'w llm_setup \<Rightarrow> pyval list \<Rightarrow> args \<Rightarrow> ('w, reply_message) llm_prog" where
  "ask_model X messages extra =
     bnd (get_client X) (\<lambda>_.
     bnd (create_completion X (create_kwargs (lx_config X) messages extra)) (\<lambda>choices.
       case choices of
         [] \<Rightarrow> raise (PyExc IndexError ''list index out of range'')
       | msg # _ \<Rightarrow> ret msg))"

definition content_of :: "reply_message \<Rightarrow> string" where
  "content_of msg = (case rm_content msg of None \<Rightarrow> [] | Some s \<Rightarrow> s)"

text \<open>What a conversation returns: its answer, or the answer with the messages and the mode.\<close>

definition chat_result :: "bool \<Rightarrow> string \<Rightarrow> string \<Rightarrow> pyval list \<Rightarrow> pyval" where
  "chat_result return_messages mode answer messages =
     (if return_messages
      then PDict [(''answer'', PStr answer), (''messages'', PList messages), (''tool_mode'', PStr mode)]
      else PStr answer)"

subsection \<open>Native tool calls\<close>

definition call_json :: "tool_call \<Rightarrow> pyval" where
  "call_json tc =
     PDict [(''id'', PStr (tc_id tc)), (''type'', PStr (tc_type tc)),
            (''function'', PDict [(''name'', PStr (tc_name tc)), (''arguments'', PStr (tc_arguments tc))])]"

definition calls_message :: "reply_message \<Rightarrow> pyval" where
  "calls_message msg =
     PDict [(''role'', PStr ''assistant''), (''content'', PStr (content_of msg)),
            (''tool_calls'', PList (map call_json (rm_tool_calls msg)))]"

definition call_args :: "tool_call \<Rightarrow> pyval" where
  "call_args tc =
     (case loads (if tc_arguments tc = [] then ''{}'' else tc_arguments tc) of
        None \<Rightarrow> PDict [] | Some v \<Rightarrow> v)"

definition tool_message :: "tool_call \<Rightarrow> pyval \<Rightarrow> pyval" where
  "tool_message tc result =
     PDict [(''role'', PStr ''tool''), (''tool_call_id'', PStr (tc_id tc)), (''name'', PStr (tc_name tc)),
            (''content'', PStr (dumps_default result))]"

definition answer_call :: "'w llm_setup \<Rightarrow> tool_call \<Rightarrow> ('w, unit) llm_prog" where
  "answer_call X tc =
     bnd (on_tools (lx_router X (tc_name tc) (call_args tc))) (\<lambda>result. say (tool_message tc result))"

definition end_native :: "bool \<Rightarrow> string \<Rightarrow> ('w, pyval) llm_prog" where
  "end_native return_messages answer =
     bnd get_messages (\<lambda>messages. ret (chat_result return_messages ''native'' answer messages))"

text \<open>The rounds of \<open>_chat_with_tools_native\<close>.\<close>

fun chat_native :: "'w llm_setup \<Rightarrow> bool \<Rightarrow> nat \<Rightarrow> ('w, pyval) llm_prog" where
  "chat_native X return_messages 0 = end_native return_messages text_rounds"
| "chat_native X return_messages (Suc n) =
     bnd get_messages (\<lambda>messages.
     bnd (ask_model X messages
            [(''tools'', PList (lx_tools X)), (''tool_choice'', PStr ''auto''),
             (''temperature'', PFloat (lc_temperature (lx_config X)))]) (\<lambda>msg.
       if rm_tool_calls msg \<noteq> []
       then bnd (say (calls_message msg)) (\<lambda>_.
            bnd (for_each (answer_call X) (rm_tool_calls msg)) (\<lambda>_.
              chat_native X return_messages n))
       else end_native return_messages (content_of msg)))"

subsection \<open>Tool calls written by hand\<close>

definition tool_row :: "pyval \<Rightarrow> string res" where
  "tool_row tool =
     rbind (vget tool ''function'' (PDict [])) (\<lambda>fn.
     rbind (vget fn ''name'' PNone) (\<lambda>name.
     rbind (vget fn ''description'' PNone) (\<lambda>description.
     rbind (vget fn ''parameters'' (PDict [])) (\<lambda>parameters.
       Inr (dumps_default (PDict [(''name'', name), (''description'', description),
                                  (''parameters'', parameters)]))))))"

definition tools_summary :: "pyval list \<Rightarrow> string res" where
  "tools_summary tools = rbind (rmap tool_row tools) (\<lambda>rows. Inr (join [CHR 0x0A] rows))"

definition load_json :: "string \<Rightarrow> pyval res" where
  "load_json s = (case loads s of None \<Rightarrow> Inl (PyExc ValueError ''Expecting value'') | Some v \<Rightarrow> Inr v)"

definition fence :: string where
  "fence = [CHR 0x60, CHR 0x60, CHR 0x60]"

definition extract_json_blob :: "string \<Rightarrow> pyval res" where
  "extract_json_blob text =
     (let raw = strip text;
          raw = (if starts_with raw fence
                 then let lines = splitlines raw in
                   if 3 \<le> length lines then strip (join [CHR 0x0A] (butlast (tl lines))) else raw
                 else raw);
          start = find_char CHR ''{'' raw;
          stop = rfind_char CHR ''}'' raw;
          raw = (if 0 \<le> start \<and> start \<le> stop
                 then drop (nat start) (take (nat stop + 1) raw) else raw)
      in load_json raw)"

definition line_payload :: "string \<Rightarrow> pyval list" where
  "line_payload line =
     (let candidate = strip line in
      if candidate = [] \<or> starts_with candidate fence \<or> ends_with candidate fence then []
      else case extract_json_blob candidate of Inr (PDict d) \<Rightarrow> [PDict d] | _ \<Rightarrow> [])"

definition extract_action_payloads :: "string \<Rightarrow> pyval list res" where
  "extract_action_payloads text =
     (case extract_json_blob text of
        Inr v \<Rightarrow> Inr [v]
      | Inl _ \<Rightarrow>
          (let payloads = concat (map line_payload (splitlines text)) in
           if payloads \<noteq> [] then Inr payloads
           else Inl (PyExc ValueError ''no valid action payload found'')))"

definition convert_message :: "pyval \<Rightarrow> pyval list res" where
  "convert_message msg =
     rbind (vget msg ''role'' (PStr ''user'')) (\<lambda>role.
       if (case role of PList _ \<Rightarrow> True | PDict _ \<Rightarrow> True | _ \<Rightarrow> False)
       then Inl (PyExc TypeError (''unhashable type: '' @ quoted (type_name role)))
       else if role \<in> {PStr ''system'', PStr ''user'', PStr ''assistant''}
       then rbind (vget msg ''content'' (PStr [])) (\<lambda>content.
              Inr [PDict [(''role'', role), (''content'', content)]])
       else Inr [])"

definition manual_tool_messages :: "pyval list \<Rightarrow> pyval list \<Rightarrow> pyval list res" where
  "manual_tool_messages messages tools =
     rbind (tools_summary tools) (\<lambda>summary.
     rbind (rmap convert_message messages) (\<lambda>converted.
       Inr (PDict [(''role'', PStr ''system''), (''content'', PStr (manual_head @ summary @ manual_tail))]
            # concat converted)))"

text \<open>One payload: a tool was called and its result is recorded, or the conversation ends.\<close>

datatype payload_outcome =
    Tool_result pyval
  | Chat_over string bool

definition manual_call :: "'w llm_setup \<Rightarrow> string \<Rightarrow> pyval \<Rightarrow> ('w, payload_outcome) llm_prog" where
  "manual_call X fn_name payload =
     bnd (lift_res (vget payload ''arguments'' (PDict []))) (\<lambda>a.
       let fn_args = (case a of PDict _ \<Rightarrow> a | _ \<Rightarrow> PDict []) in
       bnd (on_tools (lx_router X fn_name fn_args)) (\<lambda>result.
         ret (Tool_result (PDict [(''name'', PStr fn_name), (''arguments'', fn_args),
                                  (''result'', result)]))))"

definition has_key :: "pyval \<Rightarrow> string \<Rightarrow> bool" where
  "has_key v k = (case v of PDict d \<Rightarrow> dhas d k | _ \<Rightarrow> False)"

definition or_text :: "string \<Rightarrow> string \<Rightarrow> string" where
  "or_text s d = (if s = [] then d else s)"

definition manual_payload :: "'w llm_setup \<Rightarrow> string \<Rightarrow> pyval \<Rightarrow> ('w, payload_outcome) llm_prog" where
  "manual_payload X content payload =
     bnd (lift_res (vget payload ''action'' (PStr []))) (\<lambda>a.
       let action = lower (strip (py_str a)) in
       if action = ''tool''
       then bnd (lift_res (vget payload ''name'' (PStr []))) (\<lambda>name.
              manual_call X (strip (py_str name)) payload)
       else if action \<noteq> [] \<and> action \<noteq> ''final'' \<and> has_key payload ''arguments''
       then bnd (lift_res (vget payload ''name'' PNone)) (\<lambda>name.
            bnd (lift_res (vget payload ''action'' PNone)) (\<lambda>act.
              manual_call X (strip (py_str (or_else (or_else name act) (PStr [])))) payload))
       else if action = ''final''
       then bnd (lift_res (vget payload ''answer'' (PStr []))) (\<lambda>answer.
              ret (Chat_over (or_text (strip (py_str answer)) text_done) True))
       else ret (Chat_over (or_text (strip content) text_no_action) False))"

fun manual_payloads ::
  "'w llm_setup \<Rightarrow> string \<Rightarrow> pyval list \<Rightarrow> pyval list \<Rightarrow>
   ('w, pyval list + (string \<times> bool)) llm_prog" where
  "manual_payloads X content [] results = ret (Inl results)"
| "manual_payloads X content (payload # payloads) results =
     bnd (manual_payload X content payload) (\<lambda>outcome.
       case outcome of
         Tool_result r \<Rightarrow> manual_payloads X content payloads (results @ [r])
       | Chat_over answer final \<Rightarrow> ret (Inr (answer, final)))"

definition assistant_message :: "string \<Rightarrow> pyval" where
  "assistant_message content = PDict [(''role'', PStr ''assistant''), (''content'', PStr content)]"

definition user_message :: "string \<Rightarrow> pyval" where
  "user_message content = PDict [(''role'', PStr ''user''), (''content'', PStr content)]"

text \<open>
  The rounds of \<open>_chat_with_tools_manual\<close> over its own list of messages; the reply that ended the
  conversation is appended only when the messages are returned.
\<close>

fun manual_rounds :: "'w llm_setup \<Rightarrow> bool \<Rightarrow> nat \<Rightarrow> pyval list \<Rightarrow> ('w, pyval) llm_prog" where
  "manual_rounds X return_messages 0 msgs = ret (chat_result return_messages ''manual'' text_rounds msgs)"
| "manual_rounds X return_messages (Suc n) msgs =
     bnd (ask_model X msgs [(''temperature'', PFloat (lc_temperature (lx_config X)))]) (\<lambda>msg.
       let content = content_of msg in
       case extract_action_payloads content of
         Inl _ \<Rightarrow>
           ret (chat_result return_messages ''manual'' (or_text (strip content) text_unparsable) msgs)
       | Inr payloads \<Rightarrow>
           bnd (manual_payloads X content payloads []) (\<lambda>outcome.
             case outcome of
               Inr (answer, final) \<Rightarrow>
                 ret (chat_result return_messages ''manual'' answer
                        (if final then msgs @ [assistant_message content] else msgs))
             | Inl results \<Rightarrow>
                 (if results \<noteq> []
                  then manual_rounds X return_messages n
                         (msgs @ [assistant_message (join [CHR 0x0A] (map dumps_default payloads)),
                                  user_message (result_marker @ dumps_default (PList results))])
                  else ret (chat_result return_messages ''manual''
                              (or_text (strip content) text_no_action) msgs))))"

definition chat_manual :: "'w llm_setup \<Rightarrow> bool \<Rightarrow> nat \<Rightarrow> ('w, pyval) llm_prog" where
  "chat_manual X return_messages max_rounds =
     bnd get_messages (\<lambda>messages.
     bnd (lift_res (manual_tool_messages messages (lx_tools X))) (\<lambda>msgs.
       manual_rounds X return_messages max_rounds msgs))"

subsection \<open>Choosing the protocol\<close>

text \<open>
  \<open>except BadRequestError\<close>: the request is repeated by hand when the message of the error speaks of
  tools. The manual loop works on a list of its own, so the copy \<open>chat_with_tools\<close> makes of the
  messages cannot be told from the messages.
\<close>

definition or_manual :: "('w, pyval) llm_prog \<Rightarrow> ('w, pyval) llm_prog \<Rightarrow> ('w, pyval) llm_prog" where
  "or_manual m h s =
     (case m s of
        (Inr v, s') \<Rightarrow> (Inr v, s')
      | (Inl e, s') \<Rightarrow>
          (if exc_cls e \<noteq> BadRequestError then (Inl e, s')
           else if \<not> contains (lower (exc_msg e)) ''tool choice'' \<and> \<not> contains (lower (exc_msg e)) ''tool''
           then (Inl e, s') else h s'))"

definition chat :: "'w llm_setup \<Rightarrow> bool \<Rightarrow> int \<Rightarrow> ('w, pyval) llm_prog" where
  "chat X return_messages max_rounds =
     (let n = nat max_rounds; mode = lc_tool_mode (lx_config X) in
      if mode = ''manual'' then chat_manual X return_messages n
      else if mode = ''native'' then chat_native X return_messages n
      else or_manual (chat_native X return_messages n) (chat_manual X return_messages n))"

definition chat_with_tools :: "'w llm_setup \<Rightarrow> int \<Rightarrow> ('w, pyval) llm_prog" where
  "chat_with_tools X max_rounds = chat X False max_rounds"

definition chat_with_tools_session :: "'w llm_setup \<Rightarrow> int \<Rightarrow> ('w, pyval) llm_prog" where
  "chat_with_tools_session X max_rounds = chat X True max_rounds"

subsection \<open>Arguments that are no object\<close>

text \<open>
  Native arguments may be any JSON value. A tool that looks at its arguments calls \<open>args.get\<close> first,
  which only an object has.
\<close>

definition ignores_args :: "string \<Rightarrow> bool" where
  "ignores_args name =
     (name \<in> {''tx_start'', ''tree_tx_start'', ''kv_dump''} \<or> name \<notin> set (map ts_name tools_schema))"

definition route_value :: "file_system \<Rightarrow> 'w peer \<Rightarrow> string \<Rightarrow> pyval \<Rightarrow> ('w, pyval) db_prog" where
  "route_value fs p name v =
     (case v of
        PDict args \<Rightarrow> tool_router fs p name args
      | _ \<Rightarrow> if ignores_args name then tool_router fs p name [] else raise (no_attr v ''get''))"

subsection \<open>The console\<close>

text \<open>The lines the user types are given; the end of the input raises \<open>EOFError\<close>.\<close>

record 'w console =
  cs_llm :: "'w llm_world"
  cs_out :: string

type_synonym ('w, 'a) console_prog = "('w console, 'a) prog"

definition put_text :: "string \<Rightarrow> ('w, unit) console_prog" where
  "put_text s c = (Inr (), c\<lparr>cs_out := cs_out c @ s\<rparr>)"

definition put_line :: "string \<Rightarrow> ('w, unit) console_prog" where
  "put_line s = put_text (s @ [CHR 0x0A])"

definition on_llm :: "('w, 'a) llm_prog \<Rightarrow> ('w, 'a) console_prog" where
  "on_llm m c = (case m (cs_llm c) of (r, s) \<Rightarrow> (r, c\<lparr>cs_llm := s\<rparr>))"

fun console_loop :: "'w llm_setup \<Rightarrow> string list \<Rightarrow> ('w, unit) console_prog" where
  "console_loop X [] = bnd (put_text input_prompt) (\<lambda>_. raise (PyExc EOFError ''EOF when reading a line''))"
| "console_loop X (line # lines) =
     bnd (put_text input_prompt) (\<lambda>_.
       let user_input = strip line in
       if lower user_input \<in> {''quit'', ''exit''} then put_line exited_text
       else
         bnd (on_llm (say (user_message user_input))) (\<lambda>_.
         bnd (on_llm (chat_with_tools X 10)) (\<lambda>answer.
         bnd (on_llm (say (PDict [(''role'', PStr ''assistant''), (''content'', answer)]))) (\<lambda>_.
         bnd (put_line (assistant_prefix @ py_str answer)) (\<lambda>_.
           console_loop X lines)))))"

definition console_main :: "'w llm_setup \<Rightarrow> string list \<Rightarrow> ('w, unit) console_prog" where
  "console_main X lines =
     bnd (put_line started_text) (\<lambda>_ c.
       console_loop X lines
         (c\<lparr>cs_llm := (cs_llm c)\<lparr>lw_messages :=
              [PDict [(''role'', PStr ''system''), (''content'', PStr system_prompt)]]\<rparr>\<rparr>))"

subsection \<open>Declared shapes\<close>

text \<open>The models of \<open>Agent/schemas.py\<close>; nothing in the program makes or checks one.\<close>

datatype db_action_kind = Act_get | Act_put | Act_begin | Act_commit | Act_rollback

record db_action =
  da_action :: db_action_kind
  da_key :: "string option"
  da_value :: "string option"
  da_txn_id :: "int option"

record tool_result =
  tr_ok :: bool
  tr_code :: string
  tr_message :: string
  tr_data :: "args option"

end
