(* ===== verification/Vita_Llm.thy ===== *)
theory Vita_Llm
  imports Llm_Client Vita_Agent
begin

text \<open>
  The agent that lets a language model call the tools (\<open>_llm_agent_run\<close> in
  \<open>Agent/vitabench_delivery.py\<close>): its prompts, the conversation, and the trace of tool calls read
  back from the messages of the conversation.
\<close>

subsection \<open>The trace of a conversation\<close>

text \<open>The text after the first occurrence of a marker.\<close>

fun after_text :: "string \<Rightarrow> string \<Rightarrow> string" where
  "after_text m [] = []"
| "after_text m (c # s) = (if starts_with (c # s) m then drop (length m) (c # s) else after_text m s)"

text \<open>\<open>marker in content\<close>, and \<open>content.strip()\<close>, for a value.\<close>

definition value_contains :: "pyval \<Rightarrow> string \<Rightarrow> bool res" where
  "value_contains v m =
     (case v of
        PStr s \<Rightarrow> Inr (contains s m)
      | PList xs \<Rightarrow> Inr (PStr m \<in> set xs)
      | PDict d \<Rightarrow> Inr (dhas d m)
      | _ \<Rightarrow> Inl (PyExc TypeError (''argument of type '' @ quoted (type_name v) @ '' is not iterable'')))"

definition text_of :: "pyval \<Rightarrow> string \<Rightarrow> string res" where
  "text_of v method = (case v of PStr s \<Rightarrow> Inr s | _ \<Rightarrow> Inl (no_attr v method))"

text \<open>The entry of a native call; its result is not known yet.\<close>

definition raw_args :: "pyval \<Rightarrow> pyval" where
  "raw_args v =
     (case v of
        PStr s \<Rightarrow> (case loads s of None \<Rightarrow> PDict [(''raw'', v)] | Some x \<Rightarrow> x)
      | _ \<Rightarrow> v)"

definition call_entry :: "pyval \<Rightarrow> args res" where
  "call_entry call =
     rbind (vget call ''function'' (PDict [])) (\<lambda>fn.
     rbind (vget fn ''arguments'' (PDict [])) (\<lambda>a.
     rbind (vget fn ''name'' (PStr [])) (\<lambda>name.
       Inr [(''tool'', name), (''args'', raw_args a), (''result'', PNone)])))"

definition action_mark :: string where
  "action_mark = [CHR 0x22] @ ''action'' @ [CHR 0x22] @ '':'' @ [CHR 0x22] @ ''tool'' @ [CHR 0x22]"

text \<open>A reply that is one hand-written call becomes the pending entry; otherwise nothing changes.\<close>

definition pending_entry :: "string \<Rightarrow> args option \<Rightarrow> args option" where
  "pending_entry stripped pending =
     (if starts_with stripped ''{'' \<and> contains (filter (\<lambda>c. c \<noteq> CHR '' '') stripped) action_mark
      then (case loads stripped of
              Some (PDict d) \<Rightarrow>
                Some [(''tool'', dget_def d ''name'' (PStr [])),
                      (''args'', case dget_def d ''arguments'' (PDict []) of
                                 PDict a \<Rightarrow> PDict a | _ \<Rightarrow> PDict [])]
            | _ \<Rightarrow> None)
      else pending)"

text \<open>The result that follows the marker: that of the last call of the list.\<close>

definition pending_result :: "string \<Rightarrow> args \<Rightarrow> args" where
  "pending_result raw pending =
     (let bad = dset pending ''result'' (PDict [(''raw'', PStr raw)]) in
      case loads raw of
        None \<Rightarrow> bad
      | Some (PList (x # xs)) \<Rightarrow>
          (case vget (last (x # xs)) ''result'' PNone of
             Inl _ \<Rightarrow> bad | Inr r \<Rightarrow> dset pending ''result'' r)
      | Some _ \<Rightarrow> pending)"

definition tool_content :: "pyval \<Rightarrow> pyval" where
  "tool_content content =
     (case content of
        PStr s \<Rightarrow> (case loads s of None \<Rightarrow> PDict [(''raw'', content)] | Some v \<Rightarrow> v)
      | _ \<Rightarrow> PDict [(''raw'', content)])"

text \<open>One message: the trace so far and the pending entry.\<close>

definition trace_message :: "pyval \<Rightarrow> args list \<times> args option \<Rightarrow> (args list \<times> args option) res" where
  "trace_message message = (\<lambda>(trace, pending).
     rbind (vget message ''role'' PNone) (\<lambda>role.
       if role = PStr ''assistant'' then
         rbind (vget message ''tool_calls'' PNone) (\<lambda>calls.
           if truthy calls then
             rbind (py_iter calls) (\<lambda>items.
             rbind (rmap call_entry items) (\<lambda>entries. Inr (trace @ entries, pending)))
           else
             rbind (vget message ''content'' (PStr [])) (\<lambda>content.
             rbind (text_of content ''strip'') (\<lambda>text.
               Inr (trace, pending_entry (strip text) pending))))
       else if role = PStr ''user'' \<and> pending \<noteq> None then
         rbind (vget message ''content'' (PStr [])) (\<lambda>content.
         rbind (value_contains content result_marker) (\<lambda>found.
           if found
           then rbind (text_of content ''split'') (\<lambda>text.
                  Inr (trace @ [pending_result (after_text result_marker text) (the pending)], None))
           else Inr (trace, pending)))
       else if role = PStr ''tool'' \<and> trace \<noteq> [] then
         rbind (vitem (last trace) ''result'') (\<lambda>result.
           if result = PNone
           then rbind (vget message ''content'' (PStr ''{}'')) (\<lambda>content.
                  Inr (butlast trace @ [dset (last trace) ''result'' (tool_content content)], pending))
           else Inr (trace, pending))
       else Inr (trace, pending)))"

definition extract_tool_trace :: "pyval list \<Rightarrow> pyval list res" where
  "extract_tool_trace messages =
     rbind (rfold trace_message messages ([], None)) (\<lambda>(trace, pending). Inr (map PDict trace))"

subsection \<open>The run\<close>

definition ensure_llm_config :: "(string, string) dict \<Rightarrow> unit res" where
  "ensure_llm_config env =
     (let missing = filter (\<lambda>k. env_or env k [] = [])
                      [''OPENAI_MODEL'', ''OPENAI_BASE_URL'', ''OPENAI_API_KEY'']
      in if missing \<noteq> []
         then Inl (PyExc RuntimeError (''missing LLM environment variables: '' @ join '', '' missing))
         else Inr ())"

definition mode_instruction :: "string \<Rightarrow> int \<Rightarrow> string" where
  "mode_instruction mode top_k =
     (if mode = ''tree''
      then branch_instruction_head @ str_int (max 2 top_k) @ branch_instruction_tail
      else baseline_instruction)"

definition user_prompt :: "string \<Rightarrow> string \<Rightarrow> string \<Rightarrow> int \<Rightarrow> pyval \<Rightarrow> string" where
  "user_prompt task_id namespace mode top_k instructions =
     join [CHR 0x0A]
       [''task_id='' @ task_id, ''namespace='' @ namespace, ''mode='' @ mode, mode_instruction mode top_k,
        user_task_label @ py_str instructions, template_instruction]"

text \<open>The aborts of the conversation: retries counted, reasons collected.\<close>

definition abort_entry :: "pyval \<Rightarrow> int \<times> pyval list \<Rightarrow> (int \<times> pyval list) res" where
  "abort_entry item = (\<lambda>(retries, reasons).
     rbind (vget item ''tool'' (PStr [])) (\<lambda>tool.
     rbind (vget item ''result'' PNone) (\<lambda>r.
       let result = or_else r (PDict []) in
       if tool \<noteq> PStr ''tree_tx_commit_retry'' then Inr (retries, reasons)
       else rbind (vget result ''ok'' (PBool False)) (\<lambda>okv.
         if truthy okv then Inr (retries, reasons)
         else rbind (vget result ''abort_reason'' (PStr [])) (\<lambda>reason.
              rbind (if truthy reason then Inr reason else vget result ''error'' (PStr [])) (\<lambda>reason.
                Inr (retries + 1, if truthy reason then reasons @ [reason] else reasons)))))))"

definition selected_store :: "pyval \<Rightarrow> string" where
  "selected_store final_answer =
     (case final_answer of PList (PDict d # _) \<Rightarrow> varg d ''store_id'' | _ \<Rightarrow> [])"

definition llm_result ::
  "string \<Rightarrow> pyval list \<Rightarrow> pyval list \<Rightarrow> int \<times> pyval list \<Rightarrow> pyval \<Rightarrow> string option \<Rightarrow> pyval \<Rightarrow> pyval \<Rightarrow> pyval" where
  "llm_result mode messages trace aborts final_answer final_raw answer tool_mode =
     PDict
       [(''mode'', PStr mode), (''messages'', PList messages), (''tool_trace'', PList trace),
        (''db_retry_count'', PInt (fst aborts)), (''db_abort_count'', PInt (int (length (snd aborts)))),
        (''abort_reasons'', PList (snd aborts)),
        (''db_abort_reason'', if snd aborts = [] then PStr [] else last (snd aborts)),
        (''submit_ok'', PBool (final_answer \<noteq> PNone)), (''final_answer'', final_answer),
        (''final_answer_raw'', opt_val final_raw),
        (''selected_store_id'', PStr (selected_store final_answer)),
        (''assistant_answer'', answer), (''tool_mode'', tool_mode),
        (''txn_attempts'', PInt 0), (''rolled_back_attempts'', PInt 0),
        (''committed_attempts'', PInt (if final_answer \<noteq> PNone then 1 else 0)),
        (''candidate_count'', PInt 0), (''interference_bumps'', PInt 0)]"

text \<open>Reading the answer after the conversation; when that raises, the trace's last submission stands in.\<close>

definition llm_outcome ::
  "'w peer \<Rightarrow> string \<Rightarrow> string \<Rightarrow> pyval list \<Rightarrow> pyval list \<Rightarrow> pyval \<Rightarrow> pyval \<Rightarrow> ('w, pyval) llm_prog" where
  "llm_outcome p namespace mode messages trace answer tool_mode =
     bnd (try_except (on_tools (load_final_answer p namespace))
            (\<lambda>_. lift_res (extract_submission_fallback trace mode))) (\<lambda>(final_answer, final_raw).
     bnd (lift_res (rfold abort_entry trace (0, []))) (\<lambda>aborts.
       ret (llm_result mode messages trace aborts final_answer final_raw answer tool_mode)))"

definition llm_start :: "pyval \<Rightarrow> string \<Rightarrow> string \<Rightarrow> int \<Rightarrow> pyval list res" where
  "llm_start task namespace mode top_k =
     rbind (vsub task ''id'') (\<lambda>id_val.
     rbind (vget task ''instructions'' (PStr [])) (\<lambda>instructions.
       Inr [PDict [(''role'', PStr ''system''),
                   (''content'', PStr (if mode = ''tree'' then llm_tree_prompt else llm_baseline_prompt))],
            PDict [(''role'', PStr ''user''),
                   (''content'', PStr (user_prompt (py_str id_val) namespace mode top_k instructions))]]))"

definition llm_agent_run ::
  "'w peer \<Rightarrow> 'w llm_setup \<Rightarrow> pyval \<Rightarrow> string \<Rightarrow> string \<Rightarrow> int \<Rightarrow> int \<Rightarrow> ('w, pyval) llm_prog" where
  "llm_agent_run p X task namespace mode top_k max_rounds =
     bnd (lift_res (ensure_llm_config (lc_env (lx_config X)))) (\<lambda>_.
     bnd (lift_res (llm_start task namespace mode top_k)) (\<lambda>start.
     bnd (\<lambda>s. (Inr (), s\<lparr>lw_messages := start\<rparr>)) (\<lambda>_.
     bnd (chat_with_tools_session X max_rounds) (\<lambda>session.
     bnd (lift_res (vget session ''messages'' (PList []))) (\<lambda>messages.
     bnd (lift_res (py_iter messages)) (\<lambda>items.
     bnd (lift_res (extract_tool_trace items)) (\<lambda>trace.
     bnd (lift_res (vget session ''answer'' (PStr []))) (\<lambda>answer.
     bnd (lift_res (vget session ''tool_mode'' (PStr []))) (\<lambda>tool_mode.
       llm_outcome p namespace mode items trace answer tool_mode)))))))))"

end
