(* ===== verification/Vita_Llm_Props.thy ===== *)
theory Vita_Llm_Props
  imports Vita_Llm Py_Json_Trip
begin

text \<open>
  What a conversation with native tool calls leaves behind: the shape of its messages, the bound on
  its rounds, and what the trace extracted from them says.
\<close>

subsection \<open>Rounds\<close>

text \<open>A round: a reply of the model that calls tools, and their results.\<close>

type_synonym round = "reply_message \<times> pyval list"

definition round_messages :: "reply_message \<times> pyval list \<Rightarrow> pyval list" where
  "round_messages r =
     calls_message (fst r) # map (\<lambda>(tc, v). tool_message tc v) (zip (rm_tool_calls (fst r)) (snd r))"

definition round_ok :: "reply_message \<times> pyval list \<Rightarrow> bool" where
  "round_ok r = (rm_tool_calls (fst r) \<noteq> [] \<and> length (snd r) = length (rm_tool_calls (fst r)))"

lemma on_tools_messages [simp]: "lw_messages (snd (on_tools m s)) = lw_messages s"
  by (simp add: on_tools_def split: prod.splits)

lemma ask_model_messages: "ask_model X ms extra s = (r, s') \<Longrightarrow> lw_messages s' = lw_messages s"
  by (auto simp: ask_model_def get_client_def create_completion_def prog_simps Let_def
      split: prod.splits sum.splits if_splits list.splits)

lemma answer_call_messages:
  assumes "answer_call X tc s = (Inr u, s')"
  shows "\<exists>v. lw_messages s' = lw_messages s @ [tool_message tc v]"
proof -
  from assms obtain v s1 where 1: "on_tools (lx_router X (tc_name tc) (call_args tc)) s = (Inr v, s1)"
    and 2: "say (tool_message tc v) s1 = (Inr u, s')"
    unfolding answer_call_def by (rule bnd_InrE)
  from 1 on_tools_messages [of "lx_router X (tc_name tc) (call_args tc)" s]
  have "lw_messages s1 = lw_messages s" by simp
  with 2 show ?thesis by (auto simp: say_def)
qed

lemma answer_calls_messages:
  "for_each (answer_call X) tcs s = (Inr us, s') \<Longrightarrow>
   \<exists>vs. length vs = length tcs \<and>
        lw_messages s' = lw_messages s @ map (\<lambda>(tc, v). tool_message tc v) (zip tcs vs)"
proof (induction tcs arbitrary: s us)
  case Nil
  then show ?case by (simp add: ret_def)
next
  case (Cons tc tcs)
  from Cons.prems obtain u s1 where 1: "answer_call X tc s = (Inr u, s1)"
    and r: "bnd (for_each (answer_call X) tcs) (\<lambda>ys. ret (u # ys)) s1 = (Inr us, s')"
    by (auto elim: bnd_InrE)
  from r obtain ys where 2: "for_each (answer_call X) tcs s1 = (Inr ys, s')"
    by (auto elim!: bnd_InrE simp: ret_def)
  from answer_call_messages [OF 1] obtain v where "lw_messages s1 = lw_messages s @ [tool_message tc v]" ..
  moreover from Cons.IH [OF 2] obtain vs where "length vs = length tcs"
    "lw_messages s' = lw_messages s1 @ map (\<lambda>(tc, v). tool_message tc v) (zip tcs vs)" by blast
  ultimately show ?case by (intro exI [of _ "v # vs"]) simp
qed

text \<open>
  A native conversation that returns appended whole rounds to its messages, at most as many as it
  was allowed; its answer is the notice of the limit exactly after that many.
\<close>

lemma chat_native_rounds:
  "chat_native X b n s = (Inr v, s') \<Longrightarrow>
   \<exists>rounds answer. length rounds \<le> n \<and> (\<forall>r \<in> set rounds. round_ok r) \<and>
     lw_messages s' = lw_messages s @ concat (map round_messages rounds) \<and>
     v = chat_result b ''native'' answer (lw_messages s') \<and>
     (length rounds = n \<longrightarrow> answer = text_rounds)"
proof (induction n arbitrary: s)
  case 0
  then show ?case
    by (intro exI [of _ "[]"] exI [of _ text_rounds]) (auto simp: end_native_def get_messages_def prog_simps)
next
  case (Suc n)
  from Suc.prems obtain msg s1 where ask: "ask_model X (lw_messages s)
        [(''tools'', PList (lx_tools X)), (''tool_choice'', PStr ''auto''),
         (''temperature'', PFloat (lc_temperature (lx_config X)))] s = (Inr msg, s1)"
    and k: "(if rm_tool_calls msg \<noteq> []
       then bnd (say (calls_message msg)) (\<lambda>_.
            bnd (for_each (answer_call X) (rm_tool_calls msg)) (\<lambda>_. chat_native X b n))
       else end_native b (content_of msg)) s1 = (Inr v, s')"
    by (auto simp: get_messages_def elim!: bnd_InrE)
  have m1: "lw_messages s1 = lw_messages s" by (rule ask_model_messages [OF ask])
  show ?case
  proof (cases "rm_tool_calls msg = []")
    case True
    with k m1 show ?thesis
      by (intro exI [of _ "[]"] exI [of _ "content_of msg"]) (auto simp: end_native_def get_messages_def prog_simps)
  next
    case False
    let ?s2 = "s1\<lparr>lw_messages := lw_messages s1 @ [calls_message msg]\<rparr>"
    from k False obtain us s3 where calls: "for_each (answer_call X) (rm_tool_calls msg) ?s2 = (Inr us, s3)"
      and rest: "chat_native X b n s3 = (Inr v, s')"
      by (auto simp: say_def elim!: bnd_InrE)
    from answer_calls_messages [OF calls] obtain vs where vs: "length vs = length (rm_tool_calls msg)"
      "lw_messages s3 = lw_messages s @ round_messages (msg, vs)"
      by (auto simp: round_messages_def m1)
    from Suc.IH [OF rest] obtain rounds answer where r: "length rounds \<le> n" "\<forall>r \<in> set rounds. round_ok r"
      "lw_messages s' = lw_messages s3 @ concat (map round_messages rounds)"
      "v = chat_result b ''native'' answer (lw_messages s')" "length rounds = n \<longrightarrow> answer = text_rounds"
      by blast
    with vs False show ?thesis
      by (intro exI [of _ "(msg, vs) # rounds"] exI [of _ answer]) (simp add: round_ok_def)
  qed
qed

subsection \<open>The trace of a round\<close>

definition entry_of :: "tool_call \<Rightarrow> pyval \<Rightarrow> args" where
  "entry_of tc v =
     [(''tool'', PStr (tc_name tc)), (''args'', raw_args (PStr (tc_arguments tc))), (''result'', v)]"

text \<open>
  Of the calls of one reply only the last gets a result, and it is the result of the first: each tool
  message is offered to the last entry of the trace, which takes the first one.
\<close>

definition round_trace :: "reply_message \<times> pyval list \<Rightarrow> args list" where
  "round_trace r =
     map (\<lambda>tc. entry_of tc PNone) (butlast (rm_tool_calls (fst r))) @
     [entry_of (last (rm_tool_calls (fst r))) (hd (snd r))]"

definition result_ok :: "pyval \<Rightarrow> bool" where
  "result_ok v = (json_ok v \<and> v \<noteq> PNone)"

lemma call_entries: "rmap call_entry (map call_json tcs) = Inr (map (\<lambda>tc. entry_of tc PNone) tcs)"
  by (induction tcs) (simp_all add: call_entry_def call_json_def vget_def dget_def_def entry_of_def)

lemma trace_calls:
  "rm_tool_calls msg \<noteq> [] \<Longrightarrow>
   trace_message (calls_message msg) (trace, pending) =
     Inr (trace @ map (\<lambda>tc. entry_of tc PNone) (rm_tool_calls msg), pending)"
  by (simp add: trace_message_def calls_message_def vget_def dget_def_def call_entries)

lemma trace_result:
  assumes "result_ok v"
  shows "trace_message (tool_message tc v) (trace @ [entry_of tc' PNone], pending) =
    Inr (trace @ [entry_of tc' v], pending)"
  using assms
  by (simp add: trace_message_def tool_message_def vget_def dget_def_def vitem_def entry_of_def
      tool_content_def result_ok_def)

lemma trace_more:
  assumes "result_ok v"
  shows "trace_message (tool_message tc w) (trace @ [entry_of tc' v], pending) =
    Inr (trace @ [entry_of tc' v], pending)"
  using assms
  by (simp add: trace_message_def tool_message_def vget_def dget_def_def vitem_def entry_of_def result_ok_def)

lemma trace_rest:
  "result_ok v \<Longrightarrow>
   rfold trace_message (map (\<lambda>(tc, v). tool_message tc v) ps) (trace @ [entry_of tc' v], pending) =
     Inr (trace @ [entry_of tc' v], pending)"
  by (induction ps) (auto simp: trace_more)

lemma trace_round:
  assumes ok: "round_ok r" and res: "\<forall>v \<in> set (snd r). result_ok v"
  shows "rfold trace_message (round_messages r) (trace, pending) = Inr (trace @ round_trace r, pending)"
proof -
  obtain tcs vs where r: "rm_tool_calls (fst r) = tcs" "snd r = vs" by simp
  from ok r obtain tc tcs' v vs' where 1: "tcs = tc # tcs'" "vs = v # vs'"
    by (cases tcs; cases vs) (auto simp: round_ok_def)
  from ok r have last: "tcs = butlast tcs @ [last tcs]" by (simp add: round_ok_def)
  have calls: "map (\<lambda>tc. entry_of tc PNone) tcs =
      map (\<lambda>tc. entry_of tc PNone) (butlast tcs) @ [entry_of (last tcs) PNone]"
    by (subst last) (simp only: map_append list.map)
  have v: "result_ok v" using res r 1 by simp
  let ?acc = "trace @ map (\<lambda>tc. entry_of tc PNone) (butlast tcs)"
  have "rfold trace_message (round_messages r) (trace, pending) =
      rfold trace_message (map (\<lambda>(tc, v). tool_message tc v) (zip tcs vs))
        (?acc @ [entry_of (last tcs) PNone], pending)"
    using ok r by (simp add: round_messages_def round_ok_def trace_calls calls)
  also have "\<dots> = rfold trace_message (map (\<lambda>(tc, v). tool_message tc v) (zip tcs' vs'))
        (?acc @ [entry_of (last tcs) v], pending)"
    by (simp only: 1 zip_Cons_Cons list.map prod.case rfold.simps trace_result [OF v] rbind_simps)
  also have "\<dots> = Inr (?acc @ [entry_of (last tcs) v], pending)"
    by (rule trace_rest [OF v])
  finally show ?thesis using r 1 by (simp add: round_trace_def)
qed

lemma trace_rounds:
  "\<forall>r \<in> set rounds. round_ok r \<and> (\<forall>v \<in> set (snd r). result_ok v) \<Longrightarrow>
   rfold trace_message (concat (map round_messages rounds)) (trace, pending) =
     Inr (trace @ concat (map round_trace rounds), pending)"
  by (induction rounds arbitrary: trace) (simp_all add: rfold_append trace_round)

lemma trace_start: "llm_start task ns mode k = Inr start \<Longrightarrow> rfold trace_message start ([], None) = Inr ([], None)"
  by (auto simp: llm_start_def rbind_eq_Inr trace_message_def vget_def dget_def_def)

subsection \<open>Properties\<close>

text \<open>C11: a session with native tool calls appends whole rounds to the prompt, each a reply that calls tools followed by
  one tool message for every call, in order and with its id, at most \<open>max_rounds\<close> of them; and the trace the agent
  reads from the messages has one entry for every call, where (results being objects that print as JSON) the calls
  of one reply have no result but the last, which has the result of the first.\<close>

theorem native_session_trace:
  assumes start: "llm_start task ns mode k = Inr (lw_messages s)"
    and native: "lc_tool_mode (lx_config X) = ''native''"
    and run: "chat_with_tools_session X max_rounds s = (Inr v, s')"
  shows "\<exists>rounds answer. length rounds \<le> nat max_rounds \<and> (\<forall>r \<in> set rounds. round_ok r) \<and>
    lw_messages s' = lw_messages s @ concat (map round_messages rounds) \<and>
    v = chat_result True ''native'' answer (lw_messages s') \<and>
    ((\<forall>r \<in> set rounds. \<forall>w \<in> set (snd r). result_ok w) \<longrightarrow>
     extract_tool_trace (lw_messages s') = Inr (map PDict (concat (map round_trace rounds))))"
proof -
  from run native have "chat_native X True (nat max_rounds) s = (Inr v, s')"
    by (simp add: chat_with_tools_session_def chat_def)
  from chat_native_rounds [OF this] obtain rounds answer where r: "length rounds \<le> nat max_rounds"
    "\<forall>r \<in> set rounds. round_ok r" "lw_messages s' = lw_messages s @ concat (map round_messages rounds)"
    "v = chat_result True ''native'' answer (lw_messages s')" by blast
  have "extract_tool_trace (lw_messages s') = Inr (map PDict (concat (map round_trace rounds)))"
    if "\<forall>r \<in> set rounds. \<forall>w \<in> set (snd r). result_ok w"
    using that r by (simp add: extract_tool_trace_def rfold_append trace_start [OF start] trace_rounds)
  with r show ?thesis by blast
qed

text \<open>A model that calls two tools in one reply and then answers; the tools answer with their name.\<close>

definition ex_calls :: reply_message where
  "ex_calls =
     \<lparr>rm_content = None,
      rm_tool_calls = [\<lparr>tc_id = ''1'', tc_type = ''function'', tc_name = ''a'', tc_arguments = ''{}''\<rparr>,
                       \<lparr>tc_id = ''2'', tc_type = ''function'', tc_name = ''b'', tc_arguments = ''{}''\<rparr>]\<rparr>"

definition ex_service :: "nat model_service" where
  "ex_service =
     \<lparr>ms_open = (\<lambda>key base w. (Inr (), w)),
      ms_create = (\<lambda>kwargs w. (Inr [if w = 0 then ex_calls
                                  else \<lparr>rm_content = Some ''bye'', rm_tool_calls = []\<rparr>], Suc w))\<rparr>"

definition ex_chat_setup :: "nat llm_setup" where
  "ex_chat_setup =
     \<lparr>lx_service = ex_service,
      lx_config = \<lparr>lc_env = [], lc_model = ''m'', lc_tool_mode = ''native'', lc_temperature = Fin 0\<rparr>,
      lx_tools = [], lx_router = (\<lambda>name v. ret (PDict [(''tool'', PStr name)]))\<rparr>"

definition ex_prompt :: "pyval list" where
  "ex_prompt = (case llm_start (PDict [(''id'', PInt 1)]) ''n'' ''tree'' 2 of Inr m \<Rightarrow> m | Inl _ \<Rightarrow> [])"

definition ex_llm_world :: "nat llm_world" where
  "ex_llm_world =
     \<lparr>lw_db = \<lparr>adb_backend = ''mini'', adb_host = [], adb_port = 0, adb_allow_fallback = False,
                adb_mini = mini_init, adb_sessions = [], adb_tree_sessions = [], adb_net = 0\<rparr>,
      lw_client = False, lw_messages = ex_prompt\<rparr>"

lemma ex_prompt_start: "llm_start (PDict [(''id'', PInt 1)]) ''n'' ''tree'' 2 = Inr (lw_messages ex_llm_world)"
proof -
  obtain m where m: "llm_start (PDict [(''id'', PInt 1)]) ''n'' ''tree'' 2 = Inr m"
    by (simp add: llm_start_def vsub_def vitem_def vget_def dget_def_def)
  then show ?thesis by (simp add: ex_llm_world_def ex_prompt_def)
qed

lemmas ex_chat_simps =
  chat_with_tools_session_def chat_def ex_chat_setup_def ex_service_def ex_llm_world_def ask_model_def
  get_messages_def get_client_def create_completion_def answer_call_def on_tools_def say_def end_native_def
  prog_simps numeral_eq_Suc

lemma ex_chat_run:
  "\<exists>v s'. chat_with_tools_session ex_chat_setup 3 ex_llm_world = (Inr v, s') \<and>
     lw_messages s' = ex_prompt @
       round_messages (ex_calls, [PDict [(''tool'', PStr ''a'')], PDict [(''tool'', PStr ''b'')]])"
  by (simp add: ex_chat_simps ex_calls_def round_messages_def Let_def)

theorem native_session_trace_witness:
  "\<exists>v s' rounds. chat_with_tools_session ex_chat_setup 3 ex_llm_world = (Inr v, s') \<and>
     length rounds \<le> 3 \<and> lw_messages s' = ex_prompt @ concat (map round_messages rounds) \<and> rounds \<noteq> []"
proof -
  from ex_chat_run obtain v s' where run: "chat_with_tools_session ex_chat_setup 3 ex_llm_world = (Inr v, s')"
    and msgs: "lw_messages s' = ex_prompt @
      round_messages (ex_calls, [PDict [(''tool'', PStr ''a'')], PDict [(''tool'', PStr ''b'')]])" by blast
  have "lc_tool_mode (lx_config ex_chat_setup) = ''native''" by (simp add: ex_chat_setup_def)
  from native_session_trace [OF ex_prompt_start this run] obtain rounds where
    r: "length rounds \<le> 3" "lw_messages s' = ex_prompt @ concat (map round_messages rounds)"
    by (auto simp: ex_llm_world_def)
  with msgs have "rounds \<noteq> []" by (auto simp: round_messages_def)
  with run r show ?thesis by blast
qed

text \<open>The trace of that run credits the second tool with the result of the first.\<close>

lemma second_call_gets_first_result:
  "round_trace (ex_calls, [PDict [(''tool'', PStr ''a'')], PDict [(''tool'', PStr ''b'')]]) =
   [[(''tool'', PStr ''a''), (''args'', PDict []), (''result'', PNone)],
    [(''tool'', PStr ''b''), (''args'', PDict []), (''result'', PDict [(''tool'', PStr ''a'')])]]"
  by (simp add: round_trace_def ex_calls_def entry_of_def raw_args_def) code_simp

end
