(* ===== verification/Vita_Manual_Props.thy ===== *)
theory Vita_Manual_Props
  imports Vita_Llm_Props
begin

text \<open>
  What a conversation with hand-written tool calls leaves behind: whole rounds in a list of its own,
  and what the trace extracted from that list says.
\<close>

subsection \<open>Rounds\<close>

text \<open>A round: the payloads of a reply and the entries with their results.\<close>

definition manual_messages :: "pyval list \<times> pyval list \<Rightarrow> pyval list" where
  "manual_messages r =
     [assistant_message (join [CHR 0x0A] (map dumps_default (fst r))),
      user_message (result_marker @ dumps_default (PList (snd r)))]"

text \<open>A payload and its entry: an object, its result under the name and arguments that were used.\<close>

definition called :: "pyval \<Rightarrow> pyval \<Rightarrow> bool" where
  "called payload entry =
     ((\<exists>d. payload = PDict d) \<and>
      (\<exists>name a v. entry = PDict [(''name'', PStr name), (''arguments'', a), (''result'', v)]))"

definition manual_ok :: "pyval list \<times> pyval list \<Rightarrow> bool" where
  "manual_ok r = (fst r \<noteq> [] \<and> list_all2 called (fst r) (snd r))"

lemma manual_call_result:
  assumes "manual_call X name (PDict d) s = (Inr outcome, s')"
  shows "lw_messages s' = lw_messages s \<and> (\<exists>e. outcome = Tool_result e \<and> called (PDict d) e)"
proof -
  have "lw_messages s1 = lw_messages s0" if "on_tools (lx_router X name v) s0 = (r, s1)" for v s0 r s1
    using that on_tools_messages [of "lx_router X name v" s0] by simp
  with assms show ?thesis
    by (auto simp: manual_call_def lift_res_def ret_def called_def Let_def elim!: bnd_InrE)
qed

lemma manual_payload_result:
  assumes "manual_payload X content payload s = (Inr outcome, s')"
  shows "lw_messages s' = lw_messages s \<and> (\<forall>e. outcome = Tool_result e \<longrightarrow> called payload e)"
proof -
  from assms obtain d where d: "payload = PDict d"
    by (cases payload) (auto simp: manual_payload_def lift_res_def vget_def bnd_def)
  from assms show ?thesis unfolding d
    by (auto simp: manual_payload_def lift_res_def ret_def Let_def elim!: bnd_InrE
        dest!: manual_call_result split: if_splits)
qed

lemma manual_payloads_result:
  "manual_payloads X content payloads acc s = (Inr outcome, s') \<Longrightarrow>
   lw_messages s' = lw_messages s \<and>
   (\<forall>results. outcome = Inl results \<longrightarrow> (\<exists>rs. results = acc @ rs \<and> list_all2 called payloads rs))"
proof (induction payloads arbitrary: acc s)
  case Nil
  then show ?case by (auto simp: ret_def)
next
  case (Cons payload payloads)
  from Cons.prems obtain o1 s1 where 1: "manual_payload X content payload s = (Inr o1, s1)"
    and 2: "(case o1 of Tool_result r \<Rightarrow> manual_payloads X content payloads (acc @ [r])
             | Chat_over answer final \<Rightarrow> ret (Inr (answer, final))) s1 = (Inr outcome, s')"
    by (auto elim: bnd_InrE)
  note m = manual_payload_result [OF 1]
  show ?case
  proof (cases o1)
    case (Tool_result r)
    with Cons.IH [of "acc @ [r]" s1] 2 m show ?thesis by auto
  next
    case (Chat_over answer final)
    with 2 m show ?thesis by (auto simp: ret_def)
  qed
qed

text \<open>The messages a conversation adds after its rounds: the reply that ended it, or nothing.\<close>

definition closing :: "pyval list \<Rightarrow> bool" where
  "closing ms = (ms = [] \<or> (\<exists>content. ms = [assistant_message content]))"

lemma closing_simps [simp]: "closing []" "closing [assistant_message content]"
  unfolding closing_def by blast+

lemma manual_rounds_result:
  "manual_rounds X True n msgs s = (Inr v, s') \<Longrightarrow>
   lw_messages s' = lw_messages s \<and>
   (\<exists>rounds answer rest. length rounds \<le> n \<and> (\<forall>r \<in> set rounds. manual_ok r) \<and> closing rest \<and>
      v = chat_result True ''manual'' answer (msgs @ concat (map manual_messages rounds) @ rest))"
proof (induction n arbitrary: msgs s)
  case 0
  then show ?case
    by (intro conjI exI [of _ "[]"] exI [of _ text_rounds]) (auto simp: ret_def)
next
  case (Suc n)
  from Suc.prems obtain msg s1 where
    ask: "ask_model X msgs [(''temperature'', PFloat (lc_temperature (lx_config X)))] s = (Inr msg, s1)"
    by (auto elim: bnd_InrE)
  have m1: "lw_messages s1 = lw_messages s" by (rule ask_model_messages [OF ask])
  let ?content = "content_of msg"
  have stop: "?case" if "lw_messages s' = lw_messages s" and "closing rest"
    and "v = chat_result True ''manual'' answer (msgs @ rest)" for answer rest
    using that by (intro conjI exI [of _ "[]"] exI [of _ answer] exI [of _ rest]) simp_all
  show ?case
  proof (cases "extract_action_payloads ?content")
    case (Inl e)
    with Suc.prems ask m1 show ?thesis
      by (intro stop [of "[]" "or_text (strip ?content) text_unparsable"]) (auto simp: bnd_def ret_def)
  next
    case (Inr payloads)
    with Suc.prems ask obtain outcome s2 where
      run: "manual_payloads X ?content payloads [] s1 = (Inr outcome, s2)" and
      k: "(case outcome of
             Inr (answer, final) \<Rightarrow>
               ret (chat_result True ''manual'' answer
                      (if final then msgs @ [assistant_message ?content] else msgs))
           | Inl results \<Rightarrow>
               (if results \<noteq> []
                then manual_rounds X True n
                       (msgs @ [assistant_message (join [CHR 0x0A] (map dumps_default payloads)),
                                user_message (result_marker @ dumps_default (PList results))])
                else ret (chat_result True ''manual'' (or_text (strip ?content) text_no_action) msgs))) s2 = (Inr v, s')"
      by (auto simp: Let_def elim!: bnd_InrE)
    note res = manual_payloads_result [OF run]
    have m2: "lw_messages s2 = lw_messages s" using res m1 by simp
    show ?thesis
    proof (cases outcome)
      case o: (Inr af)
      obtain answer final where "af = (answer, final)" by (cases af)
      with o k m2 show ?thesis
        by (intro stop [of "if final then [assistant_message ?content] else []" answer])
          (auto simp: ret_def)
    next
      case o: (Inl results)
      show ?thesis
      proof (cases "results = []")
        case True
        with o k m2 show ?thesis
          by (intro stop [of "[]" "or_text (strip ?content) text_no_action"]) (simp_all add: ret_def)
      next
        case False
        with o k have "manual_rounds X True n (msgs @ manual_messages (payloads, results)) s2 = (Inr v, s')"
          by (simp add: manual_messages_def)
        from Suc.IH [OF this] m2 obtain rounds answer rest where r: "lw_messages s' = lw_messages s"
          "length rounds \<le> n" "\<forall>r \<in> set rounds. manual_ok r" "closing rest"
          "v = chat_result True ''manual'' answer
            ((msgs @ manual_messages (payloads, results)) @ concat (map manual_messages rounds) @ rest)" by auto
        from res o have "list_all2 called payloads results" by auto
        with False have "manual_ok (payloads, results)" by (auto simp: manual_ok_def)
        with r show ?thesis
          by (intro conjI exI [of _ "(payloads, results) # rounds"] exI [of _ answer] exI [of _ rest]) simp_all
      qed
    qed
  qed
qed


subsection \<open>The trace of a round\<close>

text \<open>
  A reply with one payload, printed with the mark of a tool action, becomes an entry with the result of
  the round. The text of several payloads is no JSON value, so none of them is in the trace.
\<close>

definition manual_trace :: "pyval list \<times> pyval list \<Rightarrow> args list" where
  "manual_trace r =
     (case fst r of
        [PDict d] \<Rightarrow>
          (if contains (filter (\<lambda>c. c \<noteq> CHR '' '') (dumps_default (PDict d))) action_mark
           then [[(''tool'', dget_def d ''name'' (PStr [])),
                  (''args'', case dget_def d ''arguments'' (PDict []) of PDict a \<Rightarrow> PDict a | _ \<Rightarrow> PDict []),
                  (''result'', case hd (snd r) of PDict e \<Rightarrow> dget_def e ''result'' PNone | _ \<Rightarrow> PNone)]]
           else [])
      | _ \<Rightarrow> [])"

definition round_prints :: "pyval list \<times> pyval list \<Rightarrow> bool" where
  "round_prints r = ((\<forall>v \<in> set (fst r). json_ok v) \<and> (\<forall>v \<in> set (snd r). json_ok v))"

lemma contains_infix: "contains (a @ m @ b) m"
  by (auto simp: contains_iff)

lemma strip_braces:
  assumes "s \<noteq> []" and "hd s = CHR ''{''" and "last s = CHR ''}''"
  shows "strip s = s"
proof -
  have "lstrip s = s" using assms(1,2) by (cases s) (simp_all add: lstrip_def is_space_def)
  moreover
  have "rev s = CHR ''}'' # rev (butlast s)"
    using append_butlast_last_id [OF assms(1)] assms(3) by (metis rev_eq_Cons_iff rev_rev_ident)
  then have "dropWhile is_space (rev s) = rev s" by (simp only: dropWhile.simps) (simp add: is_space_def)
  then have "rstrip s = s" by (simp add: rstrip_def)
  ultimately show ?thesis by (simp add: strip_def)
qed

text \<open>The text of a list of objects, one on each line.\<close>

definition object_lines :: "pyval list \<Rightarrow> string" where
  "object_lines ps = join [CHR 0x0A] (map dumps_default ps)"

lemma object_print: "\<exists>u. dumps_default (PDict d) = CHR ''{'' # u @ ''}''"
  by (simp add: dumps_default_def)

lemma object_lines_braces:
  "ps \<noteq> [] \<Longrightarrow> \<forall>p \<in> set ps. \<exists>d. p = PDict d \<Longrightarrow>
   object_lines ps \<noteq> [] \<and> hd (object_lines ps) = CHR ''{'' \<and> last (object_lines ps) = CHR ''}''"
proof (induction ps)
  case Nil
  then show ?case by simp
next
  case (Cons p ps)
  from Cons.prems(2) obtain d where p: "p = PDict d" by auto
  from object_print obtain u where u: "dumps_default (PDict d) = CHR ''{'' # u @ ''}''" by blast
  show ?case
  proof (cases "ps = []")
    case True
    with p u show ?thesis by (simp add: object_lines_def)
  next
    case False
    with Cons have ih: "object_lines ps \<noteq> []" "last (object_lines ps) = CHR ''}''" by auto
    have "object_lines (p # ps) = CHR ''{'' # u @ ''}'' @ [CHR 0x0A] @ object_lines ps"
      using False by (simp add: object_lines_def join_Cons p u)
    with ih show ?thesis by simp
  qed
qed

lemma loads_object_lines:
  assumes "json_ok (PDict d)" and "ps \<noteq> []" and "\<forall>p \<in> set ps. \<exists>d. p = PDict d"
  shows "loads (object_lines (PDict d # ps)) = None"
proof -
  let ?D = "dumps_default (PDict d)" and ?r = "CHR 0x0A # object_lines ps"
  have "ws_only '' ''" by (simp add: ws_only_def is_ws_def)
  from printed_dumps [OF this this assms(1)] have p: "printed ?D (PDict d)" by (simp add: dumps_default_def)
  have s: "object_lines (PDict d # ps) = ?D @ ?r"
    using assms(2) by (simp add: object_lines_def join_Cons)
  have "num_end ?r" by (simp add: num_end_def is_digit_def)
  then have "parse_value (2 * length (?D @ ?r) + 2) (?D @ ?r) = Some (PDict d, ?r)"
    by (intro printedD [OF p]) simp_all
  moreover have "skip_ws (?D @ ?r) = ?D @ ?r" by (rule skip_ws_printed [OF p])
  moreover have "skip_ws ?r \<noteq> []"
    using object_lines_braces [OF assms(2,3)]
    by (cases "object_lines ps") (auto simp: skip_ws_def is_ws_def)
  ultimately show ?thesis unfolding s by (simp add: loads_def)
qed

lemma trace_assistant:
  "trace_message (assistant_message c) (trace, pending) = Inr (trace, pending_entry (strip c) pending)"
  by (simp add: trace_message_def assistant_message_def vget_def dget_def_def text_of_def)

lemma trace_user: "trace_message (user_message c) (trace, None) = Inr (trace, None)"
  by (simp add: trace_message_def user_message_def vget_def dget_def_def)

lemma after_text_append: "m \<noteq> [] \<Longrightarrow> after_text m (m @ s) = s"
  using starts_with_append [of m s] by (cases m) auto

lemma result_marker_ne [simp]: "result_marker \<noteq> []"
  by (simp add: result_marker_def)

lemma trace_results:
  "trace_message (user_message (result_marker @ x)) (trace, Some p) = Inr (trace @ [pending_result x p], None)"
  using contains_infix [of "[]" result_marker x]
  by (simp add: trace_message_def user_message_def vget_def dget_def_def text_of_def value_contains_def
      after_text_append)

lemma single_pending:
  assumes "json_ok (PDict d)"
  shows "pending_entry (strip (dumps_default (PDict d))) None =
    (if contains (filter (\<lambda>c. c \<noteq> CHR '' '') (dumps_default (PDict d))) action_mark
     then Some [(''tool'', dget_def d ''name'' (PStr [])),
                (''args'', case dget_def d ''arguments'' (PDict []) of PDict a \<Rightarrow> PDict a | _ \<Rightarrow> PDict [])]
     else None)"
proof -
  have b: "strip (dumps_default (PDict d)) = dumps_default (PDict d)"
    using object_print [of d] by (intro strip_braces) auto
  have "starts_with (dumps_default (PDict d)) ''{''" using object_print [of d] by auto
  then show ?thesis
    using assms by (simp add: b pending_entry_def)
qed

lemma several_pending:
  assumes "json_ok (PDict d)" and "ps \<noteq> []" and "\<forall>p \<in> set ps. \<exists>d. p = PDict d"
  shows "pending_entry (strip (object_lines (PDict d # ps))) None = None"
proof -
  have "strip (object_lines (PDict d # ps)) = object_lines (PDict d # ps)"
    using object_lines_braces [of "PDict d # ps"] assms by (intro strip_braces) auto
  then show ?thesis by (simp add: pending_entry_def loads_object_lines [OF assms])
qed

lemma trace_manual_round:
  assumes ok: "manual_ok r" and js: "round_prints r"
  shows "rfold trace_message (manual_messages r) (trace, None) = Inr (trace @ manual_trace r, None)"
proof -
  obtain p ps e es where r: "r = (p # ps, e # es)" and ce: "called p e" and cs: "list_all2 called ps es"
    using ok by (cases r) (auto simp: manual_ok_def list_all2_Cons1 neq_Nil_conv)
  from ce obtain d name a v where p: "p = PDict d"
    and e: "e = PDict [(''name'', PStr name), (''arguments'', a), (''result'', v)]"
    by (auto simp: called_def)
  have d: "json_ok (PDict d)" using js r p by (simp add: round_prints_def)
  show ?thesis
  proof (cases "ps = []")
    case True
    with cs have es: "es = []" by simp
    have "json_ok (PList [e])" using js r es by (simp add: round_prints_def)
    then have l: "loads (dumps_default (PList [e])) = Some (PList [e])" by (rule loads_dumps_default)
    have pr: "pending_result (dumps_default (PList [e])) x = dset x ''result'' v" for x
      unfolding pending_result_def l by (simp add: e vget_def dget_def_def)
    show ?thesis
      using True es d
      by (simp add: r p manual_messages_def trace_assistant single_pending trace_user trace_results pr
          manual_trace_def) (simp add: e dget_def_def)
  next
    case False
    have obj: "\<forall>q \<in> set ps. \<exists>d. q = PDict d"
      using cs by (auto simp: list_all2_conv_all_nth in_set_conv_nth called_def)
    have "manual_trace r = []" using False by (cases ps) (simp_all add: manual_trace_def r p)
    with several_pending [OF d False obj] show ?thesis
      by (simp add: r p manual_messages_def trace_assistant object_lines_def trace_user)
  qed
qed

lemma trace_manual_rounds:
  "\<forall>r \<in> set rounds. manual_ok r \<and> round_prints r \<Longrightarrow>
   rfold trace_message (concat (map manual_messages rounds)) (trace, None) =
     Inr (trace @ concat (map manual_trace rounds), None)"
  by (induction rounds arbitrary: trace) (simp_all add: rfold_append trace_manual_round)

lemma trace_closing: "closing rest \<Longrightarrow> \<exists>pending. rfold trace_message rest (trace, None) = Inr (trace, pending)"
  by (auto simp: closing_def trace_assistant)

lemma trace_system:
  "trace_message (PDict [(''role'', PStr ''system''), (''content'', c)]) st = Inr st"
  by (simp add: trace_message_def vget_def dget_def_def split: prod.splits)

lemma convert_plain:
  "convert_message (PDict [(''role'', PStr ''system''), (''content'', c)]) =
     Inr [PDict [(''role'', PStr ''system''), (''content'', c)]]"
  "convert_message (user_message u) = Inr [user_message u]"
  by (simp_all add: convert_message_def user_message_def vget_def dget_def_def)

lemma llm_start_shape:
  "llm_start task ns mode k = Inr start \<Longrightarrow>
   \<exists>c1 c2. start = [PDict [(''role'', PStr ''system''), (''content'', c1)], user_message c2]"
  by (auto simp: llm_start_def rbind_eq_Inr user_message_def)

lemma trace_manual_head:
  assumes "llm_start task ns mode k = Inr start" and "manual_tool_messages start tools = Inr head"
  shows "rfold trace_message head ([], None) = Inr ([], None)"
proof -
  from llm_start_shape [OF assms(1)] obtain c1 c2 where
    st: "start = [PDict [(''role'', PStr ''system''), (''content'', c1)], user_message c2]" by blast
  have "rmap convert_message start =
      Inr [[PDict [(''role'', PStr ''system''), (''content'', c1)]], [user_message c2]]"
    by (simp add: st convert_plain)
  with assms(2) have
    "\<exists>c0. head = [PDict [(''role'', PStr ''system''), (''content'', c0)],
       PDict [(''role'', PStr ''system''), (''content'', c1)], user_message c2]"
    unfolding manual_tool_messages_def by (cases "tools_summary tools") (auto simp: rbind_def)
  then obtain c0 where "head = [PDict [(''role'', PStr ''system''), (''content'', c0)],
       PDict [(''role'', PStr ''system''), (''content'', c1)], user_message c2]" ..
  then show ?thesis by (simp add: trace_system trace_user)
qed

text \<open>The usual form of a call is marked: an object whose action is the word \<open>tool\<close>.\<close>

lemma join_infix: "x \<in> set xs \<Longrightarrow> \<exists>a b. join sep xs = a @ x @ b"
proof (induction xs)
  case Nil
  then show ?case by simp
next
  case (Cons y ys)
  show ?case
  proof (cases "ys = []")
    case True
    with Cons.prems show ?thesis by (intro exI [of _ "[]"]) simp
  next
    case False
    then have j: "join sep (y # ys) = y @ sep @ join sep ys" by (rule join_Cons)
    show ?thesis
    proof (cases "x = y")
      case True
      with j show ?thesis by (intro exI [of _ "[]"] exI [of _ "sep @ join sep ys"]) simp
    next
      case False
      with Cons obtain a b where "join sep ys = a @ x @ b" by auto
      with j show ?thesis by (intro exI [of _ "y @ sep @ a"] exI [of _ b]) simp
    qed
  qed
qed

lemma tool_action_marked:
  assumes "(''action'', PStr ''tool'') \<in> set d"
  shows "contains (filter (\<lambda>c. c \<noteq> CHR '' '') (dumps_default (PDict d))) action_mark"
proof -
  let ?x = "show_str ''action'' @ '': '' @ show_str ''tool''"
  let ?xs = "map (\<lambda>(k, v). show_str k @ '': '' @ dumps '', '' '': '' v) d"
  have "?x \<in> set ?xs" using assms by force
  from join_infix [OF this, of "'', ''"] obtain a b where ab: "join '', '' ?xs = a @ ?x @ b" by blast
  have "filter (\<lambda>c. c \<noteq> CHR '' '') ?x = action_mark" by code_simp
  moreover have "dumps_default (PDict d) = ''{'' @ (a @ ?x @ b) @ ''}''"
    by (simp only: dumps_default_def dumps.simps ab)
  then have "filter (\<lambda>c. c \<noteq> CHR '' '') (dumps_default (PDict d)) =
      filter (\<lambda>c. c \<noteq> CHR '' '') (''{'' @ a) @ filter (\<lambda>c. c \<noteq> CHR '' '') ?x @
      filter (\<lambda>c. c \<noteq> CHR '' '') (b @ ''}'')"
    by (simp only: append_assoc filter_append)
  ultimately show ?thesis using contains_infix by metis
qed

subsection \<open>Properties\<close>

text \<open>C10: a session with hand-written tool calls leaves the messages it was given alone and works on a list of its
  own, to which it adds at most \<open>max_rounds\<close> rounds of a reply and a list of results, one for each payload of the
  reply; and (results and payloads printing as JSON) the trace read from that list has at most one entry for each
  round, with the result of its call, and none for a reply that called several tools.\<close>

theorem manual_session_trace:
  assumes start: "llm_start task ns mode k = Inr (lw_messages s)"
    and manual: "lc_tool_mode (lx_config X) = ''manual''"
    and run: "chat_with_tools_session X max_rounds s = (Inr v, s')"
  shows "lw_messages s' = lw_messages s \<and>
    (\<exists>rounds answer head rest. length rounds \<le> nat max_rounds \<and> (\<forall>r \<in> set rounds. manual_ok r) \<and>
       manual_tool_messages (lw_messages s) (lx_tools X) = Inr head \<and> closing rest \<and>
       v = chat_result True ''manual'' answer (head @ concat (map manual_messages rounds) @ rest) \<and>
       ((\<forall>r \<in> set rounds. round_prints r) \<longrightarrow>
        extract_tool_trace (head @ concat (map manual_messages rounds) @ rest) =
          Inr (map PDict (concat (map manual_trace rounds)))))"
proof -
  from run manual obtain head s1 where head: "manual_tool_messages (lw_messages s) (lx_tools X) = Inr head"
    and "manual_rounds X True (nat max_rounds) head s = (Inr v, s')"
    by (auto simp: chat_with_tools_session_def chat_def chat_manual_def get_messages_def lift_res_def Let_def
        elim!: bnd_InrE)
  from manual_rounds_result [OF this(2)] obtain rounds answer rest where
    m: "lw_messages s' = lw_messages s" and
    r: "length rounds \<le> nat max_rounds" "\<forall>r \<in> set rounds. manual_ok r" "closing rest"
      "v = chat_result True ''manual'' answer (head @ concat (map manual_messages rounds) @ rest)" by blast
  have "extract_tool_trace (head @ concat (map manual_messages rounds) @ rest) =
      Inr (map PDict (concat (map manual_trace rounds)))" if "\<forall>r \<in> set rounds. round_prints r"
    using that r trace_closing [OF r(3), of "concat (map manual_trace rounds)"]
    by (auto simp: extract_tool_trace_def rfold_append trace_manual_head [OF start head] trace_manual_rounds)
  with m head r show ?thesis by blast
qed

text \<open>A model that calls a tool by hand and then says that it is done.\<close>

definition ex_manual_setup :: "nat llm_setup" where
  "ex_manual_setup =
     \<lparr>lx_service =
        \<lparr>ms_open = (\<lambda>key base w. (Inr (), w)),
         ms_create = (\<lambda>kwargs w.
           (Inr [\<lparr>rm_content = Some (if w = 0
                    then dumps_default (PDict [(''action'', PStr ''tool''), (''name'', PStr ''a'')])
                    else dumps_default (PDict [(''action'', PStr ''final''), (''answer'', PStr ''ok'')])),
                 rm_tool_calls = []\<rparr>], Suc w))\<rparr>,
      lx_config = \<lparr>lc_env = [], lc_model = ''m'', lc_tool_mode = ''manual'', lc_temperature = Fin 0\<rparr>,
      lx_tools = [], lx_router = (\<lambda>name v. ret (PDict [(''tool'', PStr name)]))\<rparr>"

definition ex_manual_prompt :: "pyval list" where
  "ex_manual_prompt = (case llm_start (PDict [(''id'', PStr ''t'')]) ''n'' ''tree'' 2 of Inr m \<Rightarrow> m | Inl _ \<Rightarrow> [])"

definition ex_manual_world :: "nat llm_world" where
  "ex_manual_world =
     \<lparr>lw_db = \<lparr>adb_backend = ''mini'', adb_host = [], adb_port = 0, adb_allow_fallback = False,
                adb_mini = mini_init, adb_sessions = [], adb_tree_sessions = [], adb_net = 0\<rparr>,
      lw_client = False, lw_messages = ex_manual_prompt\<rparr>"

lemma ex_manual_start: "llm_start (PDict [(''id'', PStr ''t'')]) ''n'' ''tree'' 2 = Inr (lw_messages ex_manual_world)"
proof -
  obtain m where m: "llm_start (PDict [(''id'', PStr ''t'')]) ''n'' ''tree'' 2 = Inr m"
    by (simp add: llm_start_def vsub_def vitem_def vget_def dget_def_def)
  then show ?thesis by (simp add: ex_manual_world_def ex_manual_prompt_def)
qed

lemma ex_manual_replies:
  "extract_action_payloads (dumps_default (PDict [(''action'', PStr ''tool''), (''name'', PStr ''a'')])) =
     Inr [PDict [(''action'', PStr ''tool''), (''name'', PStr ''a'')]]"
  "extract_action_payloads (dumps_default (PDict [(''action'', PStr ''final''), (''answer'', PStr ''ok'')])) =
     Inr [PDict [(''action'', PStr ''final''), (''answer'', PStr ''ok'')]]"
  "lower (strip (py_str (PStr ''tool''))) = ''tool''" "lower (strip (py_str (PStr ''final''))) = ''final''"
  by code_simp+

lemma ex_manual_head: "\<exists>head. manual_tool_messages (lw_messages ex_manual_world) [] = Inr head"
proof -
  from llm_start_shape [OF ex_manual_start] obtain c1 c2 where
    "lw_messages ex_manual_world = [PDict [(''role'', PStr ''system''), (''content'', c1)], user_message c2]"
    by blast
  then show ?thesis by (simp add: manual_tool_messages_def tools_summary_def convert_plain)
qed

lemma ex_manual_run: "\<exists>v s'. chat_with_tools_session ex_manual_setup 3 ex_manual_world = (Inr v, s')"
proof -
  obtain head where head: "manual_tool_messages (lw_messages ex_manual_world) [] = Inr head"
    using ex_manual_head by blast
  have "adb_net (lw_db ex_manual_world) = 0" "\<not> lw_client ex_manual_world"
    by (simp_all add: ex_manual_world_def)
  with head show ?thesis
    by (simp add: chat_with_tools_session_def chat_def chat_manual_def ex_manual_setup_def get_messages_def
        ask_model_def get_client_def create_completion_def prog_simps numeral_3_eq_3 content_of_def Let_def
        ex_manual_replies manual_payload_def manual_call_def on_tools_def vget_def dget_def_def
        del: py_str.simps)
qed

theorem manual_session_trace_witness:
  "\<exists>v s' head. chat_with_tools_session ex_manual_setup 3 ex_manual_world = (Inr v, s') \<and>
     lw_messages s' = ex_manual_prompt \<and> manual_tool_messages ex_manual_prompt [] = Inr head"
proof -
  from ex_manual_run obtain v s' where run: "chat_with_tools_session ex_manual_setup 3 ex_manual_world = (Inr v, s')"
    by blast
  have "lc_tool_mode (lx_config ex_manual_setup) = ''manual''" by (simp add: ex_manual_setup_def)
  from manual_session_trace [OF ex_manual_start this run] run show ?thesis
    by (auto simp: ex_manual_world_def ex_manual_setup_def)
qed

end
