(* ===== verification/Vita_Interference.thy ===== *)
theory Vita_Interference
  imports Vita_Agent
begin

text \<open>
  Interference on a hot key (\<open>Agent/vitabench_delivery.py\<close>): the transaction that bumps its
  version, and \<open>HotspotInterferenceManager\<close>, whose worker threads take requests from a queue. The
  manager is a step relation: a step is one access of a thread to the shared state (the flag, the
  queue, the counter, an event), so any interleaving is a sequence of steps.
\<close>

subsection \<open>One bump\<close>

definition bumped_version :: "pyval \<Rightarrow> int" where
  "bumped_version raw =
     (case parse_json_safely raw (PDict []) of
        PDict d \<Rightarrow> (case to_int (dget_def d ''version'' (PInt 0)) of Inl _ \<Rightarrow> 0 | Inr n \<Rightarrow> n)
      | _ \<Rightarrow> 0)"

text \<open>\<open>uuid.uuid4().hex\<close> and \<open>time.time()\<close> are drawn from the world of the client.\<close>

definition on_world :: "('w \<Rightarrow> 'a \<times> 'w) \<Rightarrow> ('w, 'a) db_prog" where
  "on_world f c = (case f (adb_net c) of (x, w) \<Rightarrow> (Inr x, c\<lparr>adb_net := w\<rparr>))"

definition hotspot_payload_bump :: "'w env \<Rightarrow> pyval \<Rightarrow> string \<Rightarrow> ('w, string) db_prog" where
  "hotspot_payload_bump E raw source =
     bnd (on_world (pr_uuid (en_peer E))) (\<lambda>uuid.
     bnd (on_world (en_time E)) (\<lambda>now.
       ret (dumps_compact (PDict
         [(''version'', PInt (bumped_version raw + 1)), (''updated_by'', PStr source),
          (''nonce'', PStr (filter (\<lambda>c. c \<noteq> CHR ''-'') uuid)), (''ts'', PFloat now)]))))"

datatype bump_outcome = Bumped | Next_round | Roll_back

definition bump_in_tx :: "'w env \<Rightarrow> string \<Rightarrow> pyval \<Rightarrow> ('w, bump_outcome) db_prog" where
  "bump_in_tx E key t =
     bnd (tx_get (en_peer E) [(''tx_id'', t), (''key'', PStr key)]) (\<lambda>current.
     bnd (lift_res (vget current ''ok'' PNone)) (\<lambda>okv.
     bnd (lift_res (if truthy okv then vget current ''value'' PNone else Inr PNone)) (\<lambda>raw.
     bnd (hotspot_payload_bump E raw ''interference'') (\<lambda>next_value.
     bnd (tx_put (en_peer E) [(''tx_id'', t), (''key'', PStr key), (''value'', PStr next_value)]) (\<lambda>put.
     bnd (lift_res (vget put ''ok'' PNone)) (\<lambda>okp.
       if \<not> truthy okp
       then bnd (tx_rollback (en_peer E) [(''tx_id'', t)]) (\<lambda>_. ret Next_round)
       else
         bnd (tx_commit (en_peer E) [(''tx_id'', t)]) (\<lambda>commit.
         bnd (lift_res (vget commit ''ok'' PNone)) (\<lambda>okc.
           ret (if truthy okc then Bumped else Roll_back)))))))))"

text \<open>Up to three attempts; \<open>True\<close> when one of them committed.\<close>

fun bump_attempts :: "'w env \<Rightarrow> string \<Rightarrow> nat \<Rightarrow> ('w, bool) db_prog" where
  "bump_attempts E key 0 = ret False"
| "bump_attempts E key (Suc n) =
     bnd (tx_start (en_peer E) []) (\<lambda>start.
     bnd (lift_res (vget start ''ok'' PNone)) (\<lambda>okv.
       if \<not> truthy okv then bump_attempts E key n
       else
         bnd (lift_res (vsub start ''tx_id'')) (\<lambda>t.
         bnd (try_except (bump_in_tx E key t) (\<lambda>_. ret Roll_back)) (\<lambda>outcome.
           case outcome of
             Bumped \<Rightarrow> ret True
           | Next_round \<Rightarrow> bump_attempts E key n
           | Roll_back \<Rightarrow>
               bnd (try_except (bnd (tx_rollback (en_peer E) [(''tx_id'', t)]) (\<lambda>_. ret ())) (\<lambda>_. ret ()))
                 (\<lambda>_. bump_attempts E key n)))))"

definition bump_hotspot_once :: "'w env \<Rightarrow> string \<Rightarrow> ('w, bool) db_prog" where
  "bump_hotspot_once E key = bump_attempts E key 3"

subsection \<open>The manager\<close>

text \<open>An item of the queue: a key with its event, or the \<open>None\<close> that stops a worker.\<close>

datatype hot_item = Bump_item string nat | Stop_item

datatype worker = Waiting | Working string nat | Returned

text \<open>
  Events are numbered as they are made; \<open>hm_set\<close> are those that were set, \<open>hm_calls\<close> the calls of
  \<open>schedule\<close> that found the manager open but have not put their item yet, \<open>hm_stops\<close> the items
  \<open>close\<close> still has to put, \<open>hm_tasks\<close> the unfinished tasks of the queue.
\<close>

record manager =
  hm_worker_count :: int
  hm_queue :: "hot_item list"
  hm_workers :: "worker list"
  hm_closed :: bool
  hm_bump_count :: nat
  hm_events :: nat
  hm_set :: "nat list"
  hm_calls :: "hot_item list"
  hm_stops :: nat
  hm_tasks :: int

definition manager_init :: "int \<Rightarrow> manager" where
  "manager_init n =
     \<lparr>hm_worker_count = max 0 n, hm_queue = [], hm_workers = replicate (nat (max 0 n)) Waiting,
      hm_closed = False, hm_bump_count = 0, hm_events = 0, hm_set = [], hm_calls = [], hm_stops = 0,
      hm_tasks = 0\<rparr>"

definition hm_enabled :: "manager \<Rightarrow> bool" where
  "hm_enabled m = (0 < hm_worker_count m)"

text \<open>\<open>schedule\<close>: a new event; it is set at once when there are no workers or the manager is closed.\<close>

definition schedule_check :: "string \<Rightarrow> manager \<Rightarrow> manager" where
  "schedule_check key m =
     (let e = hm_events m; m = m\<lparr>hm_events := e + 1\<rparr> in
      if \<not> hm_enabled m \<or> hm_closed m then m\<lparr>hm_set := e # hm_set m\<rparr>
      else m\<lparr>hm_calls := hm_calls m @ [Bump_item key e]\<rparr>)"

definition queue_put :: "hot_item \<Rightarrow> manager \<Rightarrow> manager" where
  "queue_put item m = m\<lparr>hm_queue := hm_queue m @ [item], hm_tasks := hm_tasks m + 1\<rparr>"

definition schedule_put :: "nat \<Rightarrow> manager \<Rightarrow> manager" where
  "schedule_put j m =
     queue_put (hm_calls m ! j) (m\<lparr>hm_calls := take j (hm_calls m) @ drop (Suc j) (hm_calls m)\<rparr>)"

text \<open>\<open>close\<close>: the flag first, then one \<open>None\<close> for each thread; a second call does nothing.\<close>

definition close_flag :: "manager \<Rightarrow> manager" where
  "close_flag m =
     (if hm_closed m then m else m\<lparr>hm_closed := True, hm_stops := length (hm_workers m)\<rparr>)"

definition close_put :: "manager \<Rightarrow> manager" where
  "close_put m = queue_put Stop_item (m\<lparr>hm_stops := hm_stops m - 1\<rparr>)"

text \<open>A worker: \<open>queue.get\<close>, then the bump, whose \<open>finally\<close> sets the event.\<close>

definition worker_get :: "nat \<Rightarrow> manager \<Rightarrow> manager" where
  "worker_get i m =
     (case hm_queue m of
        [] \<Rightarrow> m
      | item # rest \<Rightarrow>
          let m = m\<lparr>hm_queue := rest\<rparr> in
          (case item of
             Stop_item \<Rightarrow> m\<lparr>hm_workers := (hm_workers m)[i := Returned], hm_tasks := hm_tasks m - 1\<rparr>
           | Bump_item key e \<Rightarrow> m\<lparr>hm_workers := (hm_workers m)[i := Working key e]\<rparr>))"

definition worker_finish :: "nat \<Rightarrow> nat \<Rightarrow> bool \<Rightarrow> manager \<Rightarrow> manager" where
  "worker_finish i e ok m =
     m\<lparr>hm_bump_count := (if ok then hm_bump_count m + 1 else hm_bump_count m),
       hm_set := e # hm_set m, hm_tasks := hm_tasks m - 1,
       hm_workers := (hm_workers m)[i := Waiting]\<rparr>"

text \<open>The steps a thread has begun to make: they need no new call of a client.\<close>

inductive manager_internal :: "manager \<Rightarrow> manager \<Rightarrow> bool" where
  schedule_put: "j < length (hm_calls m) \<Longrightarrow> manager_internal m (schedule_put j m)"
| close_put: "0 < hm_stops m \<Longrightarrow> manager_internal m (close_put m)"
| worker_get: "i < length (hm_workers m) \<Longrightarrow> hm_workers m ! i = Waiting \<Longrightarrow> hm_queue m \<noteq> [] \<Longrightarrow>
    manager_internal m (worker_get i m)"
| worker_finish: "i < length (hm_workers m) \<Longrightarrow> hm_workers m ! i = Working key e \<Longrightarrow>
    manager_internal m (worker_finish i e ok m)"

text \<open>
  All steps. \<open>calm\<close> says that \<open>close\<close> is called only when no call of \<open>schedule\<close> is under way, as
  \<open>run_delivery_experiment\<close> does: the pool of task threads is shut down before.
\<close>

inductive manager_step :: "bool \<Rightarrow> manager \<Rightarrow> manager \<Rightarrow> bool" for calm :: bool where
  schedule_check: "manager_step calm m (schedule_check key m)"
| close_flag: "(calm \<longrightarrow> hm_calls m = []) \<Longrightarrow> manager_step calm m (close_flag m)"
| internal: "manager_internal m m' \<Longrightarrow> manager_step calm m m'"

inductive_cases manager_internalE: "manager_internal m m'"

inductive manager_reachable :: "bool \<Rightarrow> int \<Rightarrow> manager \<Rightarrow> bool" for calm n where
  start: "manager_reachable calm n (manager_init n)"
| step: "manager_reachable calm n m \<Longrightarrow> manager_step calm m m' \<Longrightarrow> manager_reachable calm n m'"

inductive_cases manager_stepE: "manager_step calm m m'"

end
