(* ===== verification/Vita_Interference_Props.thy ===== *)
theory Vita_Interference_Props
  imports Vita_Interference "HOL-Library.Multiset"
begin

text \<open>
  The interference manager: where each event and each stop item is, kept by every step, and what
  follows for a manager that was closed.
\<close>

subsection \<open>Counting over a list\<close>

lemma sum_list_update_split:
  fixes g :: "'a \<Rightarrow> 'b::comm_monoid_add"
  shows "i < length xs \<Longrightarrow> sum_list (map g (xs[i := x])) + g (xs ! i) = sum_list (map g xs) + g x"
proof (induction xs arbitrary: i)
  case Nil
  then show ?case by simp
next
  case (Cons y ys)
  show ?case
  proof (cases i)
    case 0
    then show ?thesis by (simp add: ac_simps)
  next
    case (Suc j)
    with Cons have "sum_list (map g (ys[j := x])) + g (ys ! j) = sum_list (map g ys) + g x" by simp
    with Suc show ?thesis by (simp add: add.assoc)
  qed
qed

lemma sum_list_remove_split:
  fixes g :: "'a \<Rightarrow> 'b::comm_monoid_add"
  assumes "j < length xs"
  shows "sum_list (map g (take j xs @ drop (Suc j) xs)) + g (xs ! j) = sum_list (map g xs)"
proof -
  have "sum_list (map g xs) = sum_list (map g (take j xs @ xs ! j # drop (Suc j) xs))"
    using id_take_nth_drop [OF assms] by simp
  then show ?thesis by (simp add: ac_simps)
qed

subsection \<open>The invariant\<close>

fun item_event :: "hot_item \<Rightarrow> nat multiset" where
  "item_event (Bump_item key e) = {#e#}"
| "item_event Stop_item = {#}"

fun worker_event :: "worker \<Rightarrow> nat multiset" where
  "worker_event (Working key e) = {#e#}"
| "worker_event w = {#}"

definition held_events :: "manager \<Rightarrow> nat multiset" where
  "held_events m =
     mset (hm_set m) + sum_list (map item_event (hm_calls m)) + sum_list (map item_event (hm_queue m)) +
     sum_list (map worker_event (hm_workers m))"

definition stop_count :: "manager \<Rightarrow> nat" where
  "stop_count m =
     hm_stops m + sum_list (map (\<lambda>x. of_bool (x = Stop_item)) (hm_queue m)) +
     sum_list (map (\<lambda>w. of_bool (w = Returned)) (hm_workers m))"

definition all_stops :: "hot_item list \<Rightarrow> bool" where
  "all_stops q = (\<forall>x \<in> set q. x = Stop_item)"

text \<open>No request waits behind a stop item.\<close>

fun fifo_ok :: "hot_item list \<Rightarrow> bool" where
  "fifo_ok [] = True"
| "fifo_ok (Stop_item # q) = all_stops q"
| "fifo_ok (Bump_item key e # q) = fifo_ok q"

definition manager_inv :: "manager \<Rightarrow> bool" where
  "manager_inv m =
     (held_events m = mset_set {..<hm_events m} \<and>
      Stop_item \<notin> set (hm_calls m) \<and>
      stop_count m = (if hm_closed m then length (hm_workers m) else 0) \<and>
      (hm_closed m \<longrightarrow> hm_calls m = []) \<and>
      fifo_ok (hm_queue m) \<and> (Returned \<in> set (hm_workers m) \<longrightarrow> all_stops (hm_queue m)) \<and>
      (hm_workers m = [] \<longrightarrow> hm_calls m = [] \<and> hm_queue m = []) \<and>
      (hm_enabled m \<longleftrightarrow> hm_workers m \<noteq> []) \<and>
      hm_bump_count m \<le> length (hm_set m))"

lemma all_stops_simps [simp]:
  "all_stops []"
  "all_stops (x # q) = (x = Stop_item \<and> all_stops q)"
  "all_stops (q @ r) = (all_stops q \<and> all_stops r)"
  by (auto simp: all_stops_def)

lemma all_stops_fifo: "all_stops q \<Longrightarrow> fifo_ok q"
  by (cases q rule: fifo_ok.cases) auto

lemma fifo_put_stop: "fifo_ok q \<Longrightarrow> fifo_ok (q @ [Stop_item])"
  by (induction q rule: fifo_ok.induct) auto

lemma fifo_put_bump: "fifo_ok q \<Longrightarrow> Stop_item \<notin> set q \<Longrightarrow> fifo_ok (q @ [x])"
proof (induction q rule: fifo_ok.induct)
  case 1
  then show ?case by (cases x) simp_all
qed simp_all

lemma fifo_tl: "fifo_ok (x # q) \<Longrightarrow> fifo_ok q"
  by (cases x) (auto intro: all_stops_fifo)

lemma no_stops: "stop_count m = 0 \<Longrightarrow> Stop_item \<notin> set (hm_queue m) \<and> Returned \<notin> set (hm_workers m)"
  by (auto simp: stop_count_def)

subsection \<open>Every step keeps it\<close>

lemma sum_list_replicate_zero: "sum_list (replicate n (0 :: 'a::comm_monoid_add)) = 0"
  by (induction n) simp_all

lemma inv_init: "manager_inv (manager_init n)"
  by (simp add: manager_inv_def manager_init_def held_events_def stop_count_def hm_enabled_def
      sum_list_replicate_zero) arith

lemma inv_schedule_check: "manager_inv m \<Longrightarrow> manager_inv (schedule_check key m)"
  by (auto simp: manager_inv_def schedule_check_def Let_def held_events_def stop_count_def hm_enabled_def
      lessThan_Suc)

lemma inv_close_flag: "manager_inv m \<Longrightarrow> hm_calls m = [] \<Longrightarrow> manager_inv (close_flag m)"
  by (auto simp: manager_inv_def close_flag_def held_events_def stop_count_def hm_enabled_def)

lemma inv_close_put: "manager_inv m \<Longrightarrow> 0 < hm_stops m \<Longrightarrow> manager_inv (close_put m)"
  by (auto simp: manager_inv_def close_put_def queue_put_def held_events_def stop_count_def hm_enabled_def
      fifo_put_stop split: if_splits)

lemma inv_schedule_put:
  assumes inv: "manager_inv m" and j: "j < length (hm_calls m)"
  shows "manager_inv (schedule_put j m)"
proof -
  from inv j have op: "\<not> hm_closed m" by (auto simp: manager_inv_def)
  with inv have "stop_count m = 0" by (simp add: manager_inv_def)
  note ns = no_stops [OF this]
  have "hm_calls m ! j \<in> set (hm_calls m)" using j by simp
  with inv have "hm_calls m ! j \<noteq> Stop_item" unfolding manager_inv_def by metis
  then obtain key e where c: "hm_calls m ! j = Bump_item key e" by (cases "hm_calls m ! j") auto
  have "set (take j (hm_calls m) @ drop (Suc j) (hm_calls m)) \<subseteq> set (hm_calls m)"
    using set_take_subset set_drop_subset by fastforce
  moreover have "held_events (schedule_put j m) = held_events m"
    using sum_list_remove_split [OF j, of item_event, symmetric] c
    by (simp add: held_events_def schedule_put_def queue_put_def ac_simps)
  ultimately show ?thesis
    using inv op ns c j
    by (auto simp: manager_inv_def schedule_put_def queue_put_def stop_count_def hm_enabled_def fifo_put_bump)
qed

lemma inv_worker_get:
  assumes inv: "manager_inv m" and i: "i < length (hm_workers m)" and w: "hm_workers m ! i = Waiting"
    and q: "hm_queue m \<noteq> []"
  shows "manager_inv (worker_get i m)"
proof -
  obtain item rest where ir: "hm_queue m = item # rest" using q by (cases "hm_queue m") auto
  have ne: "hm_workers m \<noteq> []" using i by auto
  have ev: "held_events (worker_get i m) = held_events m"
    using sum_list_update_split [OF i, of worker_event] w ir
    by (cases item) (simp_all add: held_events_def worker_get_def Let_def)
  have st: "stop_count (worker_get i m) = stop_count m"
    using sum_list_update_split [OF i, of "\<lambda>w. of_bool (w = Returned) :: nat"] w ir
    by (cases item) (simp_all add: stop_count_def worker_get_def Let_def)
  show ?thesis
  proof (cases item)
    case Stop_item
    with inv ev st ir ne show ?thesis
      by (simp add: manager_inv_def worker_get_def Let_def hm_enabled_def all_stops_fifo)
  next
    case (Bump_item key e)
    then have "set ((hm_workers m)[i := Working key e]) \<subseteq> insert (Working key e) (set (hm_workers m))"
      by (simp add: set_update_subset_insert)
    with Bump_item inv ev st ir ne show ?thesis
      by (auto simp: manager_inv_def worker_get_def Let_def hm_enabled_def)
  qed
qed

lemma inv_worker_finish:
  assumes inv: "manager_inv m" and i: "i < length (hm_workers m)" and w: "hm_workers m ! i = Working key e"
  shows "manager_inv (worker_finish i e ok m)"
proof -
  have ne: "hm_workers m \<noteq> []" using i by auto
  have "held_events (worker_finish i e ok m) = held_events m"
    using sum_list_update_split [OF i, of worker_event] w
    by (simp add: held_events_def worker_finish_def)
  moreover have "stop_count (worker_finish i e ok m) = stop_count m"
    using sum_list_update_split [OF i, of "\<lambda>w. of_bool (w = Returned) :: nat"] w
    by (simp add: stop_count_def worker_finish_def)
  moreover have "set ((hm_workers m)[i := Waiting]) \<subseteq> insert Waiting (set (hm_workers m))"
    by (simp add: set_update_subset_insert)
  ultimately show ?thesis
    using inv ne by (auto simp: manager_inv_def worker_finish_def hm_enabled_def)
qed

lemma inv_internal: "manager_internal m m' \<Longrightarrow> manager_inv m \<Longrightarrow> manager_inv m'"
  by (erule manager_internalE)
    (simp_all add: inv_schedule_put inv_close_put inv_worker_get inv_worker_finish)

lemma reachable_inv: "manager_reachable True n m \<Longrightarrow> manager_inv m"
proof (induction rule: manager_reachable.induct)
  case start
  show ?case by (rule inv_init)
next
  case (step m m')
  from step(2) show ?case
    by cases (use step inv_schedule_check inv_close_flag inv_internal in auto)
qed

subsection \<open>Draining\<close>

text \<open>What the threads still have to do; every internal step leaves less.\<close>

fun busy :: "worker \<Rightarrow> nat" where
  "busy (Working key e) = 1"
| "busy w = 0"

definition work_left :: "manager \<Rightarrow> nat" where
  "work_left m =
     3 * (length (hm_calls m) + hm_stops m) + 2 * length (hm_queue m) +
     sum_list (map busy (hm_workers m))"

lemma internal_work: "manager_internal m m' \<Longrightarrow> work_left m' < work_left m"
proof (erule manager_internalE)
  fix j assume "m' = schedule_put j m" "j < length (hm_calls m)"
  then show ?thesis by (simp add: work_left_def schedule_put_def queue_put_def)
next
  assume "m' = close_put m" "0 < hm_stops m"
  then show ?thesis by (simp add: work_left_def close_put_def queue_put_def)
next
  fix i assume m': "m' = worker_get i m" and i: "i < length (hm_workers m)" "hm_workers m ! i = Waiting"
    and "hm_queue m \<noteq> []"
  then obtain item rest where "hm_queue m = item # rest" by (cases "hm_queue m") auto
  with m' i sum_list_update_split [OF i(1), of busy]
  show ?thesis by (cases item) (simp_all add: work_left_def worker_get_def Let_def)
next
  fix i key e ok assume m': "m' = worker_finish i e ok m"
    and i: "i < length (hm_workers m)" "hm_workers m ! i = Working key e"
  with sum_list_update_split [OF i(1), of busy Waiting]
  show ?thesis by (simp add: work_left_def worker_finish_def)
qed

lemma internal_run_work: "(manager_internal ^^ k) m m' \<Longrightarrow> work_left m' + k \<le> work_left m"
proof (induction k arbitrary: m')
  case 0
  then show ?case by simp
next
  case (Suc k)
  then obtain m1 where "(manager_internal ^^ k) m m1" and "manager_internal m1 m'" by auto
  with Suc.IH [of m1] internal_work [of m1 m'] show ?case by simp
qed

lemma internal_run_keeps:
  "(manager_internal ^^ k) m m' \<Longrightarrow> manager_inv m \<Longrightarrow> manager_inv m' \<and> hm_closed m' = hm_closed m"
proof (induction k arbitrary: m')
  case 0
  then show ?case by simp
next
  case (Suc k)
  then obtain m1 where m1: "(manager_internal ^^ k) m m1" and st: "manager_internal m1 m'" by auto
  from st have "hm_closed m' = hm_closed m1"
    by (rule manager_internalE)
      (auto simp: schedule_put_def queue_put_def close_put_def worker_get_def worker_finish_def Let_def
        split: list.splits hot_item.splits)
  with Suc.IH [OF m1 Suc.prems(2)] inv_internal [OF st] show ?case by simp
qed

text \<open>A state where no thread can go on.\<close>

lemma stuck_iff:
  "(\<nexists>m'. manager_internal m m') \<longleftrightarrow>
   hm_calls m = [] \<and> hm_stops m = 0 \<and>
   (\<forall>w \<in> set (hm_workers m). w = Returned \<or> w = Waiting \<and> hm_queue m = [])" (is "?l \<longleftrightarrow> ?r")
proof
  assume l: ?l
  have "hm_calls m = []" using l manager_internal.schedule_put [of 0 m] by fastforce
  moreover have "hm_stops m = 0" using l manager_internal.close_put [of m] by blast
  moreover have "w = Returned \<or> w = Waiting \<and> hm_queue m = []" if "w \<in> set (hm_workers m)" for w
  proof -
    from that obtain i where i: "i < length (hm_workers m)" "hm_workers m ! i = w"
      by (auto simp: in_set_conv_nth)
    with l manager_internal.worker_get [of i m] manager_internal.worker_finish [of i m]
    show ?thesis by (cases w) auto
  qed
  ultimately show ?r by blast
next
  assume r: ?r
  show ?l
  proof
    assume "\<exists>m'. manager_internal m m'"
    then obtain m' where "manager_internal m m'" ..
    then show False
    proof (rule manager_internalE)
      fix i assume i: "i < length (hm_workers m)" "hm_workers m ! i = Waiting" and "hm_queue m \<noteq> []"
      then have "Waiting \<in> set (hm_workers m)" by (metis nth_mem)
      with r \<open>hm_queue m \<noteq> []\<close> show False by auto
    next
      fix i key e assume i: "i < length (hm_workers m)" "hm_workers m ! i = Working key e"
      then have "Working key e \<in> set (hm_workers m)" by (metis nth_mem)
      with r show False by auto
    qed (use r in auto)
  qed
qed

lemma closed_stuck:
  assumes inv: "manager_inv m" and cl: "hm_closed m" and st: "\<nexists>m'. manager_internal m m'"
  shows "set (hm_workers m) \<subseteq> {Returned} \<and> hm_queue m = [] \<and> mset (hm_set m) = mset_set {..<hm_events m}"
proof -
  from st have calls: "hm_calls m = []" and stops: "hm_stops m = 0"
    and ws: "\<forall>w \<in> set (hm_workers m). w = Returned \<or> w = Waiting \<and> hm_queue m = []"
    unfolding stuck_iff by blast+
  have total: "stop_count m = length (hm_workers m)" using inv cl by (simp add: manager_inv_def)
  have full: "sum_list (map (\<lambda>w. of_bool (w = Returned)) us) = length us \<longleftrightarrow> set us \<subseteq> {Returned}" for us
  proof -
    have "sum_list (map (\<lambda>w. of_bool (w = Returned) :: nat) us) \<le> length us" for us
      by (induction us) auto
    then show ?thesis by (induction us) (auto simp: le_Suc_eq, metis Suc_n_not_le_n)
  qed
  have ret: "set (hm_workers m) \<subseteq> {Returned}"
  proof (cases "hm_queue m = []")
    case True
    with total stops show ?thesis by (simp add: stop_count_def full)
  next
    case False
    with ws show ?thesis by auto
  qed
  then have "sum_list (map (\<lambda>w. of_bool (w = Returned)) (hm_workers m)) = length (hm_workers m)"
    by (simp add: full)
  with total stops have "Stop_item \<notin> set (hm_queue m)" by (auto simp: stop_count_def)
  moreover have "all_stops (hm_queue m) \<or> hm_queue m = []"
    using inv ret by (cases "hm_workers m") (auto simp: manager_inv_def)
  ultimately have q: "hm_queue m = []" by (cases "hm_queue m") auto
  have "sum_list (map worker_event us) = {#}" if "set us \<subseteq> {Returned}" for us
    using that by (induction us) auto
  with ret have "sum_list (map worker_event (hm_workers m)) = {#}" by blast
  with inv calls q have "mset (hm_set m) = mset_set {..<hm_events m}"
    by (simp add: manager_inv_def held_events_def)
  with ret q show ?thesis by simp
qed

subsection \<open>Properties\<close>

text \<open>C12: a closed manager drains: once \<open>close\<close> was called, with no call of \<open>schedule\<close> under way, the threads can
  make at most \<open>work_left m\<close> further steps in any order, and when none is left every worker has returned, the
  queue is empty, and every event handed out was set exactly once, so no waiting client hangs.\<close>

theorem closed_manager_drains:
  assumes "manager_reachable True n m" and "hm_closed m" and "(manager_internal ^^ k) m m'"
  shows "k \<le> work_left m \<and>
    ((\<exists>m''. manager_internal m' m'') \<or>
     set (hm_workers m') \<subseteq> {Returned} \<and> hm_queue m' = [] \<and>
     mset (hm_set m') = mset_set {..<hm_events m'} \<and> hm_bump_count m' \<le> hm_events m')"
proof -
  have inv: "manager_inv m'" and cl: "hm_closed m'"
    using internal_run_keeps [OF assms(3) reachable_inv [OF assms(1)]] assms(2) by simp_all
  have "k \<le> work_left m" using internal_run_work [OF assms(3)] by simp
  moreover have "hm_bump_count m' \<le> hm_events m'" if "mset (hm_set m') = mset_set {..<hm_events m'}"
  proof -
    from that have "length (hm_set m') = hm_events m'" by (metis card_lessThan size_mset size_mset_set)
    with inv show ?thesis by (simp add: manager_inv_def)
  qed
  ultimately show ?thesis using closed_stuck [OF inv cl] by blast
qed

definition ex_manager :: manager where
  "ex_manager = close_flag (schedule_put 0 (schedule_check ''hot'' (manager_init 1)))"

definition ex_drained :: manager where
  "ex_drained = worker_get 0 (close_put (worker_finish 0 0 True (worker_get 0 ex_manager)))"

lemmas ex_manager_simps =
  ex_manager_def ex_drained_def manager_init_def schedule_check_def schedule_put_def close_flag_def
  close_put_def queue_put_def worker_get_def worker_finish_def hm_enabled_def Let_def

lemma ex_manager_reachable: "manager_reachable True 1 ex_manager"
proof -
  let ?m1 = "schedule_check ''hot'' (manager_init 1)" and ?m2 = "schedule_put 0 (schedule_check ''hot'' (manager_init 1))"
  have "manager_reachable True 1 ?m1"
    by (rule manager_reachable.step [OF manager_reachable.start manager_step.schedule_check])
  moreover have "manager_internal ?m1 ?m2"
    by (rule manager_internal.schedule_put) (simp add: ex_manager_simps)
  ultimately have "manager_reachable True 1 ?m2"
    by (rule manager_reachable.step [OF _ manager_step.internal])
  moreover have "manager_step True ?m2 ex_manager"
    unfolding ex_manager_def by (rule manager_step.close_flag) (simp add: ex_manager_simps)
  ultimately show ?thesis by (rule manager_reachable.step)
qed

lemma ex_manager_run: "(manager_internal ^^ 4) ex_manager ex_drained"
proof -
  let ?a = "worker_get 0 ex_manager"
  let ?b = "worker_finish 0 0 True ?a"
  have 1: "manager_internal ex_manager ?a"
    by (rule manager_internal.worker_get) (simp_all add: ex_manager_simps)
  have 2: "manager_internal ?a ?b"
    by (rule manager_internal.worker_finish [where key = "''hot''"]) (simp_all add: ex_manager_simps)
  have 3: "manager_internal ?b (close_put ?b)"
    by (rule manager_internal.close_put) (simp add: ex_manager_simps)
  have 4: "manager_internal (close_put ?b) ex_drained"
    unfolding ex_drained_def by (rule manager_internal.worker_get) (simp_all add: ex_manager_simps)
  from 1 2 3 4 show ?thesis
    by (auto simp: numeral_eq_Suc)
qed

theorem closed_manager_drains_witness:
  "4 \<le> work_left ex_manager \<and> hm_workers ex_drained = [Returned] \<and>
   ((\<exists>m''. manager_internal ex_drained m'') \<or> hm_queue ex_drained = []) \<and> hm_set ex_drained = [0]"
proof -
  have "hm_closed ex_manager" by (simp add: ex_manager_simps)
  from closed_manager_drains [OF ex_manager_reachable this ex_manager_run]
  show ?thesis by (auto simp: ex_manager_simps)
qed

text \<open>
  Without that order a request is lost: a call of \<open>schedule\<close> that saw the manager open puts its item
  behind the stop items, where no worker takes it, and its event is never set.
\<close>

lemma late_request_is_lost:
  "\<exists>m. manager_reachable False 1 m \<and> hm_closed m \<and> (\<nexists>m'. manager_internal m m') \<and>
       0 < hm_events m \<and> hm_set m = []"
proof -
  let ?a = "schedule_check ''hot'' (manager_init 1)"
  let ?b = "close_put (close_flag ?a)"
  let ?c = "worker_get 0 (schedule_put 0 ?b)"
  have "manager_reachable False 1 ?a"
    by (rule manager_reachable.step [OF manager_reachable.start manager_step.schedule_check])
  then have "manager_reachable False 1 (close_flag ?a)"
    by (rule manager_reachable.step [OF _ manager_step.close_flag]) simp
  then have "manager_reachable False 1 ?b"
    by (rule manager_reachable.step [OF _ manager_step.internal [OF manager_internal.close_put]])
      (simp add: ex_manager_simps)
  then have "manager_reachable False 1 (schedule_put 0 ?b)"
    by (rule manager_reachable.step [OF _ manager_step.internal [OF manager_internal.schedule_put]])
      (simp add: ex_manager_simps)
  then have "manager_reachable False 1 ?c"
    by (rule manager_reachable.step [OF _ manager_step.internal [OF manager_internal.worker_get]])
      (simp_all add: ex_manager_simps)
  moreover have "\<nexists>m'. manager_internal ?c m'" unfolding stuck_iff by (simp add: ex_manager_simps)
  ultimately show ?thesis by (intro exI [of _ ?c]) (simp add: ex_manager_simps)
qed

end
