(* ===== verification/Vita_Bump_Props.thy ===== *)
theory Vita_Bump_Props
  imports Vita_Interference Agent_Db_Lemmas Py_Json_Trip
begin

text \<open>
  The bump of a hot key on the in-memory back end: what the interference threads do to the data an
  agent reads.
\<close>

subsection \<open>The tools, as the contract of the store has them\<close>

abbreviation on_mini_db :: "'w agent_db \<Rightarrow> bool" where
  "on_mini_db c \<equiv> using_mini c \<and> mini_inv (adb_mini c)"

abbreviation store :: "'w agent_db \<Rightarrow> string \<Rightarrow> string option" where
  "store c \<equiv> mini_store_of (adb_mini c)"

abbreviation open_txs ::
  "'w agent_db \<Rightarrow> string \<Rightarrow> ((string \<Rightarrow> string option) \<times> (string \<Rightarrow> string option)) option" where
  "open_txs c \<equiv> mini_tx_of (adb_mini c)"

text \<open>A name the tools take as it is.\<close>

definition plain :: "string \<Rightarrow> bool" where
  "plain s = (s \<noteq> [] \<and> strip s = s)"

lemma tool_tx_start:
  assumes "on_mini_db c" and "open_txs c (fst (pr_uuid p (adb_net c))) = None"
  shows "\<exists>c'. tx_start p args c = (Inr (tool_ok [(''tx_id'', PStr (fst (pr_uuid p (adb_net c))))]), c') \<and>
    on_mini_db c' \<and> store c' = store c \<and>
    open_txs c' = (open_txs c)(fst (pr_uuid p (adb_net c)) \<mapsto> (store c, Map.empty))"
  using agent_tx.begin_law [of c p] assms by (auto simp: tx_start_def tool_try_def prog_simps)

lemma tool_tx_get:
  assumes "on_mini_db c" and "open_txs c t = Some (sn, w)" and "plain t" and "plain key"
  shows "tx_get p [(''tx_id'', PStr t), (''key'', PStr key)] c =
    (Inr (tool_ok [(''tx_id'', PStr t), (''key'', PStr key), (''value'', opt_val ((sn ++ w) key)),
                   (''found'', PBool ((sn ++ w) key \<noteq> None))]), c)"
  using agent_tx.read_law [of c t sn w p key] assms
  by (simp add: tx_get_def tool_try_def prog_simps dget_def_def sarg_def plain_def Let_def del: not_None_eq)

lemma tool_tx_put:
  assumes "on_mini_db c" and "open_txs c t = Some (sn, w)" and "plain t" and "plain key"
  shows "\<exists>c'. tx_put p [(''tx_id'', PStr t), (''key'', PStr key), (''value'', PStr val)] c =
      (Inr (tool_ok [(''tx_id'', PStr t), (''key'', PStr key), (''value'', PStr val)]), c') \<and>
    on_mini_db c' \<and> store c' = store c \<and> open_txs c' = (open_txs c)(t \<mapsto> (sn, w(key \<mapsto> val)))"
  using agent_tx.write_law [of c t sn w p key val] assms
  by (auto simp: tx_put_def tool_try_def prog_simps dget_def_def sarg_def varg_def plain_def Let_def)

lemma tool_tx_commit:
  assumes "on_mini_db c" and "open_txs c t = Some (sn, w)" and "plain t"
  shows "\<exists>c'. tx_commit p [(''tx_id'', PStr t)] c =
      (Inr (tool_ok [(''tx_id'', PStr t), (''committed'', PBool True)]), c') \<and>
    on_mini_db c' \<and> store c' = store c ++ w \<and> open_txs c' = (open_txs c)(t := None)"
  using agent_tx.commit_law [of c t sn w p] assms
  by (auto simp: tx_commit_def tool_try_def prog_simps dget_def_def sarg_def plain_def Let_def)

lemma on_world_run:
  "on_world f c = (Inr (fst (f (adb_net c))), c\<lparr>adb_net := snd (f (adb_net c))\<rparr>)"
  by (simp add: on_world_def split: prod.splits)

subsection \<open>The payload\<close>

lemma payload_run:
  assumes "\<And>w. json_ok (PFloat (fst (en_time E w)))"
  shows "\<exists>body w. hotspot_payload_bump E raw source c = (Inr body, c\<lparr>adb_net := w\<rparr>) \<and>
    bumped_version (PStr body) = bumped_version raw + 1"
proof -
  let ?u = "pr_uuid (en_peer E) (adb_net c)"
  let ?t = "en_time E (snd ?u)"
  let ?d = "[(''version'', PInt (bumped_version raw + 1)), (''updated_by'', PStr source),
    (''nonce'', PStr (filter (\<lambda>c. c \<noteq> CHR ''-'') (fst ?u))), (''ts'', PFloat (fst ?t))]"
  have run: "hotspot_payload_bump E raw source c = (Inr (dumps_compact (PDict ?d)), c\<lparr>adb_net := snd ?t\<rparr>)"
    by (simp add: hotspot_payload_bump_def prog_simps on_world_run)
  have "json_ok (PDict ?d)" using assms [of "snd ?u"] by (simp add: dict_ok_def)
  then have "loads (dumps_compact (PDict ?d)) = Some (PDict ?d)" by (rule loads_dumps_compact)
  moreover have "dumps_compact (PDict ?d) \<noteq> []" by (simp add: dumps_compact_def)
  ultimately have "bumped_version (PStr (dumps_compact (PDict ?d))) = bumped_version raw + 1"
    by (simp add: bumped_version_def parse_json_safely_def dget_def_def del: dumps.simps)
  with run show ?thesis by blast
qed

lemma bump_in_tx_run:
  assumes c: "on_mini_db c" and t: "open_txs c t = Some (store c, Map.empty)" and "plain t" "plain key"
    and time: "\<And>w. json_ok (PFloat (fst (en_time E w)))"
  shows "\<exists>c' body. bump_in_tx E key (PStr t) c = (Inr Bumped, c') \<and> on_mini_db c' \<and>
    store c' = (store c)(key \<mapsto> body) \<and> open_txs c' = (open_txs c)(t := None) \<and>
    bumped_version (PStr body) = bumped_version (opt_val (store c key)) + 1"
proof -
  let ?p = "en_peer E" and ?raw = "opt_val (store c key)"
  note get = tool_tx_get [OF c t \<open>plain t\<close> \<open>plain key\<close>, of ?p]
  obtain body w where pay: "hotspot_payload_bump E ?raw ''interference'' c = (Inr body, c\<lparr>adb_net := w\<rparr>)"
    and ver: "bumped_version (PStr body) = bumped_version ?raw + 1"
    using payload_run [where c = c, OF time] by blast
  let ?c = "c\<lparr>adb_net := w\<rparr>"
  have c0: "on_mini_db ?c" and t0: "open_txs ?c t = Some (store c, Map.empty)" using c t by auto
  obtain c1 where put: "tx_put ?p [(''tx_id'', PStr t), (''key'', PStr key), (''value'', PStr body)] ?c =
      (Inr (tool_ok [(''tx_id'', PStr t), (''key'', PStr key), (''value'', PStr body)]), c1)"
    and c1: "on_mini_db c1" "store c1 = store c"
      "open_txs c1 = (open_txs c)(t \<mapsto> (store c, Map.empty(key \<mapsto> body)))"
    using tool_tx_put [OF c0 t0 \<open>plain t\<close> \<open>plain key\<close>, of ?p body] by auto
  from c1(3) have "open_txs c1 t = Some (store c, Map.empty(key \<mapsto> body))" by simp
  from tool_tx_commit [OF c1(1) this \<open>plain t\<close>, of ?p] obtain c2 where
    com: "tx_commit ?p [(''tx_id'', PStr t)] c1 =
      (Inr (tool_ok [(''tx_id'', PStr t), (''committed'', PBool True)]), c2)"
    and c2: "on_mini_db c2" "store c2 = (store c)(key \<mapsto> body)" "open_txs c2 = (open_txs c)(t := None)"
    using c1 by auto
  have "bump_in_tx E key (PStr t) c = (Inr Bumped, c2)"
    using get pay put com
    by (simp add: bump_in_tx_def prog_simps tool_ok_def vget_def dget_def_def)
  with c2 ver show ?thesis by blast
qed

text \<open>C9: on the in-memory back end a bump of a hot key succeeds at the first attempt, stores under that key a payload
  whose version is one more than the version stored there before (zero where the old value has none), changes no
  other key, and leaves the open transactions as they were.\<close>

theorem bump_increments_version:
  assumes "using_mini c" and "mini_inv (adb_mini c)" and "plain key"
    and "plain (fst (pr_uuid (en_peer E) (adb_net c)))"
    and fresh: "mini_tx_of (adb_mini c) (fst (pr_uuid (en_peer E) (adb_net c))) = None"
    and time: "\<And>w. json_ok (PFloat (fst (en_time E w)))"
  shows "\<exists>c' body. bump_hotspot_once E key c = (Inr True, c') \<and>
    mini_store_of (adb_mini c') = (mini_store_of (adb_mini c))(key \<mapsto> body) \<and>
    bumped_version (PStr body) = bumped_version (opt_val (mini_store_of (adb_mini c) key)) + 1 \<and>
    mini_tx_of (adb_mini c') = mini_tx_of (adb_mini c) \<and> mini_inv (adb_mini c')"
proof -
  let ?u = "fst (pr_uuid (en_peer E) (adb_net c))"
  obtain c1 where start: "tx_start (en_peer E) [] c = (Inr (tool_ok [(''tx_id'', PStr ?u)]), c1)"
    and c1: "on_mini_db c1" "store c1 = store c" "open_txs c1 = (open_txs c)(?u \<mapsto> (store c, Map.empty))"
    using tool_tx_start [of c "en_peer E"] assms by blast
  from c1(3) have opened: "open_txs c1 ?u = Some (store c1, Map.empty)" by (simp add: c1(2))
  obtain c2 body where run: "bump_in_tx E key (PStr ?u) c1 = (Inr Bumped, c2)"
    and c2: "on_mini_db c2" "store c2 = (store c)(key \<mapsto> body)" "open_txs c2 = (open_txs c1)(?u := None)"
    and ver: "bumped_version (PStr body) = bumped_version (opt_val (store c key)) + 1"
    using bump_in_tx_run [OF c1(1) opened assms(4) assms(3) time] unfolding c1(2) by blast
  have "open_txs c2 = open_txs c" using c2(3) c1(3) fresh by (auto simp: fun_eq_iff)
  moreover have "bump_hotspot_once E key c = (Inr True, c2)"
    using start run
    by (simp add: bump_hotspot_once_def numeral_3_eq_3 prog_simps tool_ok_def vget_def vsub_def vitem_def
        dget_def_def)
  ultimately show ?thesis using c2 ver by blast
qed

definition ex_bump_env :: "nat env" where
  "ex_bump_env =
     \<lparr>en_peer =
        \<lparr>pr_connect = (\<lambda>h p w. (Inl (PyExc ConnectionError ''down''), w)), pr_send = (\<lambda>h s w. (Inr (), w)),
         pr_recv = (\<lambda>h n w. (Inr [], w)), pr_close = (\<lambda>h w. (Inr (), w)),
         pr_uuid = (\<lambda>w. (replicate (Suc w) (CHR ''u''), Suc w))\<rparr>,
      en_unicode = \<lparr>u_alnum = (\<lambda>_. True), u_space = (\<lambda>_. False), u_lower = (\<lambda>c. c)\<rparr>,
      en_time = (\<lambda>w. (Fin 0, w)), en_random = (\<lambda>w. (Fin 0, w)), en_uniform = (\<lambda>w. (Fin 1, w)),
      en_interference = (\<lambda>_ d. d)\<rparr>"

definition ex_bump_client :: "nat agent_db" where
  "ex_bump_client =
     \<lparr>adb_backend = ''mini'', adb_host = [], adb_port = 0, adb_allow_fallback = False,
      adb_mini = mini_init, adb_sessions = [], adb_tree_sessions = [], adb_net = 0\<rparr>"

theorem bump_increments_version_witness:
  "\<exists>c' body. bump_hotspot_once ex_bump_env ''hot'' ex_bump_client = (Inr True, c') \<and>
    mini_store_of (adb_mini c') ''hot'' = Some body \<and> bumped_version (PStr body) = 1"
proof -
  have names: "plain ''hot''" "plain (fst (pr_uuid (en_peer ex_bump_env) (adb_net ex_bump_client)))"
    by code_simp+
  have "\<exists>c' body. bump_hotspot_once ex_bump_env ''hot'' ex_bump_client = (Inr True, c') \<and>
    mini_store_of (adb_mini c') = (mini_store_of (adb_mini ex_bump_client))(''hot'' \<mapsto> body) \<and>
    bumped_version (PStr body) = bumped_version (opt_val (mini_store_of (adb_mini ex_bump_client) ''hot'')) + 1 \<and>
    mini_tx_of (adb_mini c') = mini_tx_of (adb_mini ex_bump_client) \<and> mini_inv (adb_mini c')"
    by (rule bump_increments_version [OF _ _ names])
      (simp_all add: ex_bump_client_def ex_bump_env_def using_mini_def mini_inv_init [unfolded mini_init_def]
        mini_tx_of_def mini_init_def
        is_double_def)
  moreover have "bumped_version (opt_val (mini_store_of (adb_mini ex_bump_client) ''hot'')) = 0"
    by (simp add: ex_bump_client_def mini_store_of_def mini_init_def opt_val_def bumped_version_def
        parse_json_safely_def dget_def_def)
  ultimately show ?thesis by auto
qed

end
