(* ===== verification/Vita_Runner.thy ===== *)
theory Vita_Runner
  imports Vita_Llm Vita_Eval
begin

text \<open>
  The experiment (\<open>Agent/vitabench_delivery.py\<close>): one task, all tasks of all trials and modes, the
  metrics of a mode, the files written, and the command line.
\<close>

subsection \<open>Arithmetic on values\<close>

text \<open>\<open>a + b\<close> for numbers: integers stay integers. \<open>sum(xs)\<close> starts from the integer zero.\<close>

fun int_like :: "pyval \<Rightarrow> int option" where
  "int_like (PInt i) = Some i"
| "int_like (PBool b) = Some (if b then 1 else 0)"
| "int_like _ = None"

definition is_number :: "pyval \<Rightarrow> bool" where
  "is_number v = (num_of v \<noteq> None)"

definition vadd :: "pyval \<Rightarrow> pyval \<Rightarrow> pyval res" where
  "vadd v w =
     (case (int_like v, int_like w) of
        (Some i, Some j) \<Rightarrow> Inr (PInt (i + j))
      | _ \<Rightarrow>
          if is_number v \<and> is_number w
          then rbind (to_float v) (\<lambda>a. rbind (to_float w) (\<lambda>b. Inr (PFloat (fadd a b))))
          else Inl (PyExc TypeError
                 (''unsupported operand type(s) for +: '' @ quoted (type_name v) @ '' and '' @
                  quoted (type_name w))))"

definition vsum :: "pyval list \<Rightarrow> pyval res" where
  "vsum xs = rfold (\<lambda>x s. vadd s x) xs (PInt 0)"

text \<open>\<open>float(sum(xs)) / x\<close>, and the mean of a list, whose length is a float before the division.\<close>

definition vratio :: "pyval \<Rightarrow> pyfloat \<Rightarrow> pyfloat res" where
  "vratio v x = rbind (to_float v) (\<lambda>a. fdiv a x)"

definition vmean :: "pyval list \<Rightarrow> pyfloat res" where
  "vmean xs = rbind (vsum xs) (\<lambda>s. rbind (float_of_int (int (length xs))) (\<lambda>n. vratio s n))"

subsection \<open>The metrics of a mode\<close>

text \<open>\<open>record["agent_result"].get(k, d)\<close> for every record.\<close>

definition results_get :: "pyval list \<Rightarrow> string \<Rightarrow> pyval \<Rightarrow> pyval list res" where
  "results_get records k d = rmap (\<lambda>r. rbind (vsub r ''agent_result'') (\<lambda>a. vget a k d)) records"

definition total_of :: "pyval list \<Rightarrow> string \<Rightarrow> pyval res" where
  "total_of records k = rbind (results_get records k (PInt 0)) vsum"

definition latencies_of :: "pyval list \<Rightarrow> string \<Rightarrow> pyval list res" where
  "latencies_of records k = results_get records k (PFloat (Fin 0))"

text \<open>\<open>counts[reason] += 1\<close>; the reasons are texts.\<close>

definition count_reason :: "pyval \<Rightarrow> (string, int) dict \<Rightarrow> (string, int) dict res" where
  "count_reason reason counts =
     (if \<not> truthy reason then Inr counts
      else case reason of
             PStr s \<Rightarrow> Inr (dict_add counts s 1)
           | _ \<Rightarrow> Inl (PyExc TypeError (''unhashable type: '' @ quoted (type_name reason))))"

definition count_reasons :: "pyval list \<Rightarrow> string \<Rightarrow> (string, int) dict res" where
  "count_reasons records k =
     rbind (results_get records k (PList [])) (\<lambda>lists.
     rbind (rmap py_iter lists) (\<lambda>reasons. rfold count_reason (concat reasons) []))"

definition evaluation_of :: "pyval \<Rightarrow> string \<Rightarrow> pyval res" where
  "evaluation_of r k = rbind (vsub r ''evaluation'') (\<lambda>e. vsub e k)"

definition failure_counts :: "pyval list \<Rightarrow> (string, int) dict res" where
  "failure_counts records =
     rbind (rmap (\<lambda>r. rbind (vsub r ''evaluation'') (\<lambda>e. vget e ''failure_type'' (PStr []))) records)
       (\<lambda>failures. rfold count_reason failures [])"

definition success_count :: "pyval list \<Rightarrow> nat res" where
  "success_count records =
     rbind (rmap (\<lambda>r. evaluation_of r ''success'') records) (\<lambda>vs. Inr (length (filter truthy vs)))"

text \<open>The rewards of each task, in the order of the records.\<close>

definition add_reward :: "pyval \<Rightarrow> (string, pyval list) dict \<Rightarrow> (string, pyval list) dict res" where
  "add_reward r by_task =
     rbind (vsub r ''task_uid'') (\<lambda>uid.
     rbind (evaluation_of r ''reward'') (\<lambda>reward.
       Inr (dset by_task (py_str uid) (dget_def by_task (py_str uid) [] @ [reward]))))"

definition rewards_by_task :: "pyval list \<Rightarrow> (string, pyval list) dict res" where
  "rewards_by_task records = rfold add_reward records []"

text \<open>
  One \<open>k\<close>: the mean over the tasks that have at least \<open>k\<close> trials, if there are any. The keys of
  the three tables are integers.
\<close>

definition one_rewards :: "pyval list \<Rightarrow> int" where
  "one_rewards rewards = int (length (filter (\<lambda>v. py_eq v (PFloat (Fin 1))) rewards))"

definition metric_at ::
  "(pyval list \<Rightarrow> pyfloat res) \<Rightarrow> pyval list list \<Rightarrow> int \<Rightarrow> (int, pyfloat) dict res" where
  "metric_at f groups k =
     rbind (rmap f (filter (\<lambda>rewards. k \<le> int (length rewards)) groups)) (\<lambda>values.
       if values = [] then Inr []
       else rbind (vmean (map PFloat values)) (\<lambda>x. Inr [(k, x)]))"

definition metric_table ::
  "(int \<Rightarrow> pyval list \<Rightarrow> pyfloat res) \<Rightarrow> pyval list list \<Rightarrow> int \<Rightarrow> (int, pyfloat) dict res" where
  "metric_table f groups trials =
     rbind (rmap (\<lambda>k. metric_at (f k) groups k) [1..trials]) (\<lambda>rows. Inr (concat rows))"

definition pass_hat_of :: "int \<Rightarrow> pyval list \<Rightarrow> pyfloat res" where
  "pass_hat_of k rewards = pass_hat_k (int (length rewards)) (one_rewards rewards) k"

definition pass_at_of :: "int \<Rightarrow> pyval list \<Rightarrow> pyfloat res" where
  "pass_at_of k rewards = pass_at_k (int (length rewards)) (one_rewards rewards) k"

definition average_of :: "int \<Rightarrow> pyval list \<Rightarrow> pyfloat res" where
  "average_of k rewards = vmean rewards"

definition counts_value :: "(string, int) dict \<Rightarrow> pyval" where
  "counts_value d = PDict (map (\<lambda>(k, n). (k, PInt n)) d)"

text \<open>A total for each task, a mean latency and its 95th percentile.\<close>

definition per_record :: "pyval list \<Rightarrow> string \<Rightarrow> pyval res" where
  "per_record records k =
     rbind (total_of records k) (\<lambda>t.
     rbind (float_of_int (int (length records))) (\<lambda>n. rbind (vratio t n) (\<lambda>x. Inr (PFloat x))))"

definition mean_latency :: "pyval list \<Rightarrow> pyval res" where
  "mean_latency values = rbind (vmean values) (\<lambda>x. Inr (PFloat x))"

definition p95_latency :: "pyval list \<Rightarrow> pyval res" where
  "p95_latency values =
     rbind (rmap to_float values) (\<lambda>xs. rbind (p95 xs) (\<lambda>x. Inr (PFloat x)))"

definition vrate :: "pyval \<Rightarrow> pyfloat \<Rightarrow> pyval res" where
  "vrate v x = rbind (vratio v x) (\<lambda>r. Inr (PFloat r))"

text \<open>The entries of the metrics, in the order of the dictionary.\<close>

definition throughput_entries :: "pyval list \<Rightarrow> pyfloat \<Rightarrow> args res" where
  "throughput_entries records elapsed_sec =
     (let elapsed = fmax elapsed_sec (rnd (1 / 1000000000)) in
      rbind (vrate (PInt (int (length records))) elapsed) (\<lambda>tasks.
      rbind (total_of records ''committed_attempts'') (\<lambda>commits.
      rbind (vrate commits elapsed) (\<lambda>commit_rate.
      rbind (total_of records ''branch_count'') (\<lambda>branches.
      rbind (vrate branches elapsed) (\<lambda>branch_rate.
        Inr [(''throughput_tasks_per_sec'', tasks), (''throughput_commits_per_sec'', commit_rate),
             (''logical_branches_per_sec'', branch_rate)]))))))"

definition average_keys :: "(string \<times> string) list" where
  "average_keys =
     [(''avg_txn_attempts_per_task'', ''txn_attempts''),
      (''avg_rolled_back_attempts_per_task'', ''rolled_back_attempts''),
      (''avg_candidate_count'', ''candidate_count''), (''avg_branch_count'', ''branch_count''),
      (''avg_explore_txn_attempts_per_task'', ''explore_txn_attempts''),
      (''avg_winner_txn_attempts_per_task'', ''winner_txn_attempts''),
      (''avg_winner_commit_rounds_per_task'', ''winner_commit_rounds'')]"

definition latency_keys :: "string list" where
  "latency_keys = [''winner_selection_latency_sec'', ''explore_phase_latency_sec'', ''commit_phase_latency_sec'']"

definition latency_rows :: "pyval list \<Rightarrow> string \<Rightarrow> (pyval list \<Rightarrow> pyval res) \<Rightarrow> args res" where
  "latency_rows records prefix f =
     rmap (\<lambda>k. rbind (latencies_of records k) (\<lambda>values. rbind (f values) (\<lambda>x. Inr (prefix @ k, x))))
       latency_keys"

definition latency_entries :: "pyval list \<Rightarrow> args res" where
  "latency_entries records =
     rbind (latency_rows records ''avg_'' mean_latency) (\<lambda>avgs.
     rbind (latency_rows records ''p95_'' p95_latency) (\<lambda>ps. Inr (avgs @ ps)))"

definition average_entries :: "pyval list \<Rightarrow> args res" where
  "average_entries records =
     rmap (\<lambda>(name, k). rbind (per_record records k) (\<lambda>v. Inr (name, v))) average_keys"

definition database_entries :: "pyval list \<Rightarrow> args res" where
  "database_entries records =
     rbind (total_of records ''db_abort_count'') (\<lambda>aborts.
     rbind (total_of records ''txn_attempts'') (\<lambda>attempts.
     rbind (to_float attempts) (\<lambda>a.
     rbind (vrate aborts (if flt a (Fin 1) then Fin 1 else a)) (\<lambda>abort_rate.
     rbind (total_of records ''semantic_recheck_fail_count'') (\<lambda>rechecks.
     rbind (per_record records ''semantic_recheck_fail_count'') (\<lambda>recheck_rate.
     rbind (total_of records ''db_retry_count'') (\<lambda>retries.
     rbind (total_of records ''interference_bumps'') (\<lambda>bumps.
       Inr [(''db_abort_count'', aborts), (''db_abort_rate_per_attempt'', abort_rate),
            (''semantic_recheck_fail_count'', rechecks),
            (''semantic_recheck_fail_rate_per_task'', recheck_rate),
            (''db_retry_count'', retries), (''interference_bumps'', bumps)]))))))))"

definition success_entries :: "pyval list \<Rightarrow> args res" where
  "success_entries records =
     rbind (success_count records) (\<lambda>successes.
     rbind (float_of_int (int (length records))) (\<lambda>n.
     rbind (vrate (PInt (int successes)) n) (\<lambda>rate.
     rbind (rmap (\<lambda>r. evaluation_of r ''reward'') records) (\<lambda>rewards.
     rbind (mean_latency rewards) (\<lambda>avg_reward.
       Inr [(''success_rate'', rate), (''avg_reward'', avg_reward)])))))"

definition distribution_entries :: "pyval list \<Rightarrow> args res" where
  "distribution_entries records =
     rbind (count_reasons records ''abort_reasons'') (\<lambda>aborts.
     rbind (count_reasons records ''semantic_recheck_reasons'') (\<lambda>rechecks.
     rbind (failure_counts records) (\<lambda>failures.
       Inr [(''abort_reason_distribution'', counts_value aborts),
            (''semantic_recheck_reason_distribution'', counts_value rechecks),
            (''failure_taxonomy'', counts_value failures)])))"

text \<open>
  The metrics of a mode: the entries up to \<open>failure_taxonomy\<close>, and the tables \<open>pass_hat_k\<close>,
  \<open>pass_at_k\<close> and \<open>average_at_k\<close> that follow them. \<open>None\<close> is the empty dictionary of a mode
  without records.
\<close>

record mode_report =
  mr_entries :: args
  mr_pass_hat_k :: "(int, pyfloat) dict"
  mr_pass_at_k :: "(int, pyfloat) dict"
  mr_average_at_k :: "(int, pyfloat) dict"

definition with_pass_tables :: "pyval list list \<Rightarrow> int \<Rightarrow> args \<Rightarrow> mode_report res" where
  "with_pass_tables groups trials entries =
     rbind (metric_table pass_hat_of groups trials) (\<lambda>hat.
     rbind (metric_table pass_at_of groups trials) (\<lambda>atk.
     rbind (metric_table average_of groups trials) (\<lambda>avg.
       Inr \<lparr>mr_entries = entries, mr_pass_hat_k = hat, mr_pass_at_k = atk, mr_average_at_k = avg\<rparr>)))"

definition aggregate_mode_metrics :: "pyval list \<Rightarrow> int \<Rightarrow> pyfloat \<Rightarrow> mode_report option res" where
  "aggregate_mode_metrics records trials elapsed_sec =
     (if records = [] then Inr None
      else
        rbind (rmap (\<lambda>r. vsub r ''latency_sec'') records) (\<lambda>latencies.
        rbind (rewards_by_task records) (\<lambda>by_task.
        rbind (success_entries records) (\<lambda>success.
        rbind (mean_latency latencies) (\<lambda>avg_latency.
        rbind (p95_latency latencies) (\<lambda>p95_lat.
        rbind (throughput_entries records elapsed_sec) (\<lambda>throughput.
        rbind (average_entries records) (\<lambda>averages.
        rbind (latency_entries records) (\<lambda>lats.
        rbind (database_entries records) (\<lambda>database.
        rbind (distribution_entries records) (\<lambda>distributions.
        rbind (with_pass_tables (map snd by_task) trials
            ([(''records'', PInt (int (length records))), (''task_count'', PInt (int (length by_task)))] @
             success @ [(''avg_latency_sec'', avg_latency), (''p95_latency_sec'', p95_lat)] @
             throughput @ averages @ lats @ database @
             [(''elapsed_sec'', PFloat elapsed_sec)] @ distributions)) (\<lambda>report.
          Inr (Some report)))))))))))))"

subsection \<open>One task\<close>

text \<open>
  The environment of an experiment: the agents' environment, the model service and its tools (used
  when the agent is a language model), the data sets, the pool of threads that runs tasks when
  \<open>parallelism\<close> exceeds one, and what closing the interference manager does to the world.
\<close>

record 'w exp_setup =
  xp_env :: "'w env"
  xp_llm :: "'w llm_setup"
  xp_data :: data_sets
  xp_pool :: "int \<Rightarrow> ('w, pyval) llm_prog list \<Rightarrow> ('w, pyval list) llm_prog"
  xp_close :: "('w, unit) llm_prog"

text \<open>The arguments of \<open>run_delivery_experiment\<close>.\<close>

record run_options =
  ro_dataset_path :: string
  ro_output_dir :: string
  ro_modes :: "string list"
  ro_trials :: int
  ro_limit :: "int option"
  ro_task_ids :: "string list"
  ro_top_k :: int
  ro_agent_type :: string
  ro_max_rounds :: int
  ro_task_source :: string
  ro_cross_domain_path :: string
  ro_contention :: string
  ro_parallelism :: int
  ro_workers :: int
  ro_probability :: pyfloat
  ro_policy :: string
  ro_max_attempts :: int

definition world_time :: "'w exp_setup \<Rightarrow> ('w, pyfloat) llm_prog" where
  "world_time X s =
     (case en_time (xp_env X) (adb_net (lw_db s)) of
        (t, w) \<Rightarrow> (Inr t, s\<lparr>lw_db := (lw_db s)\<lparr>adb_net := w\<rparr>\<rparr>))"

definition has_manager :: "run_options \<Rightarrow> bool" where
  "has_manager R =
     (ro_agent_type R = ''reference'' \<and> ro_contention R = ''hotspot'' \<and> 0 < ro_workers R)"

definition run_agent ::
  "'w exp_setup \<Rightarrow> run_options \<Rightarrow> pyval \<Rightarrow> string \<Rightarrow> string \<Rightarrow> ('w, pyval) llm_prog" where
  "run_agent X R task namespace mode =
     (if ro_agent_type R = ''llm''
      then llm_agent_run (en_peer (xp_env X)) (xp_llm X) task namespace mode (ro_top_k R) (ro_max_rounds R)
      else on_tools (reference_agent_run (xp_env X) task namespace mode (ro_top_k R) (ro_contention R)
             (has_manager R) (ro_probability R) (ro_policy R) (ro_max_attempts R)))"

definition text_or_none :: "pyval \<Rightarrow> string option" where
  "text_or_none v = (case v of PStr s \<Rightarrow> Some s | _ \<Rightarrow> None)"

definition run_single_task ::
  "'w exp_setup \<Rightarrow> run_options \<Rightarrow> string \<Rightarrow> string \<Rightarrow> int \<Rightarrow> args \<Rightarrow> ('w, pyval) llm_prog" where
  "run_single_task X R run_id mode trial task =
     bnd (lift_res (vitem task ''id'')) (\<lambda>id_val.
       let task_id = py_str id_val;
           task_uid = dget_def task ''_task_uid'' (PStr task_id);
           namespace = build_namespace run_id mode (py_str task_uid) trial;
           p = en_peer (xp_env X) in
       bnd (on_tools (project_task p task namespace (ro_contention R))) (\<lambda>projection.
       bnd (world_time X) (\<lambda>t0.
       bnd (run_agent X R (PDict task) namespace mode) (\<lambda>agent_result.
       bnd (world_time X) (\<lambda>t1.
       bnd (lift_res (vget agent_result ''final_answer'' PNone)) (\<lambda>parsed.
       bnd (lift_res (vget agent_result ''final_answer_raw'' PNone)) (\<lambda>raw.
       bnd (on_tools (hard_evaluate_task p (PDict task) namespace parsed (text_or_none raw))) (\<lambda>evaluation.
       bnd (lift_res (build_official_style_simulation (PDict task) namespace mode trial agent_result
                        evaluation)) (\<lambda>simulation.
         ret (PDict
           [(''run_id'', PStr run_id), (''mode'', PStr mode), (''trial'', PInt trial),
            (''task_id'', PStr task_id), (''task_uid'', task_uid),
            (''task_source'', dget_def task ''_task_source'' (PStr ''delivery'')),
            (''namespace'', PStr namespace), (''latency_sec'', PFloat (fsub t1 t0)),
            (''projection'', projection), (''agent_result'', agent_result),
            (''evaluation'', evaluation), (''official_style_simulation'', simulation)]))))))))))"

subsection \<open>All tasks\<close>

definition run_trial ::
  "'w exp_setup \<Rightarrow> run_options \<Rightarrow> string \<Rightarrow> args list \<Rightarrow> string \<Rightarrow> int \<Rightarrow> ('w, pyval list) llm_prog" where
  "run_trial X R run_id tasks mode trial =
     (if ro_parallelism R \<le> 1 then for_each (run_single_task X R run_id mode trial) tasks
      else xp_pool X (ro_parallelism R) (map (run_single_task X R run_id mode trial) tasks))"

definition run_mode ::
  "'w exp_setup \<Rightarrow> run_options \<Rightarrow> string \<Rightarrow> args list \<Rightarrow> string \<Rightarrow>
   ('w, (string \<times> pyfloat) \<times> pyval list) llm_prog" where
  "run_mode X R run_id tasks mode =
     bnd (world_time X) (\<lambda>mode_started.
     bnd (for_each (run_trial X R run_id tasks mode) [1..ro_trials R]) (\<lambda>trials.
     bnd (world_time X) (\<lambda>now. ret ((mode, fsub now mode_started), concat trials))))"

definition run_modes ::
  "'w exp_setup \<Rightarrow> run_options \<Rightarrow> string \<Rightarrow> args list \<Rightarrow>
   ('w, (string, pyfloat) dict \<times> pyval list) llm_prog" where
  "run_modes X R run_id tasks =
     try_finally
       (bnd (for_each (run_mode X R run_id tasks) (ro_modes R)) (\<lambda>runs.
          ret (dict_update [] (map fst runs), concat (map snd runs))))
       (if has_manager R then xp_close X else ret ())"

text \<open>\<open>[record for record in all_records if record["mode"] == mode]\<close>, and the metrics of every mode.\<close>

definition mode_records :: "pyval list \<Rightarrow> string \<Rightarrow> pyval list res" where
  "mode_records records mode =
     rbind (rmap (\<lambda>r. rbind (vsub r ''mode'') (\<lambda>m. Inr (if m = PStr mode then [r] else []))) records)
       (\<lambda>rs. Inr (concat rs))"

definition mode_metrics ::
  "run_options \<Rightarrow> (string, pyfloat) dict \<Rightarrow> pyval list \<Rightarrow> (string, mode_report option) dict res" where
  "mode_metrics R mode_elapsed records =
     rbind (rmap (\<lambda>mode.
         rbind (mode_records records mode) (\<lambda>rs.
         rbind (aggregate_mode_metrics rs (ro_trials R) (dget_def mode_elapsed mode (Fin 0))) (\<lambda>m.
           Inr (mode, m)))) (ro_modes R))
       (\<lambda>ms. Inr (dict_update [] ms))"

definition comparison_contract :: pyval where
  "comparison_contract =
     PDict [(''same_candidate_pool'', PBool True),
            (''same_winner_selector'', PStr ''deterministic_rank_on_branch_payload''),
            (''same_private_branch_payload_shape'', PBool True),
            (''baseline_execution_model'', PStr ''serial_normal_transactions_plus_winner_commit''),
            (''tree_execution_model'', PStr ''single_tree_transaction_plus_branch_private_rw'')]"

text \<open>The summary: its entries, and last the metrics of each mode.\<close>

record run_summary =
  su_entries :: args
  su_mode_metrics :: "(string, mode_report option) dict"

definition build_summary ::
  "run_options \<Rightarrow> string \<Rightarrow> string \<Rightarrow> int \<Rightarrow> args \<Rightarrow> pyfloat \<Rightarrow>
   (string, mode_report option) dict \<Rightarrow> run_summary" where
  "build_summary R run_id backend n_tasks load_summary elapsed metrics =
     \<lparr>su_entries =
       [(''run_id'', PStr run_id), (''dataset_path'', PStr (ro_dataset_path R)),
        (''cross_domain_path'', PStr (ro_cross_domain_path R)), (''backend'', PStr backend),
        (''modes'', PList (map PStr (ro_modes R))), (''trials'', PInt (ro_trials R)),
        (''task_count'', PInt n_tasks), (''agent_type'', PStr (ro_agent_type R)),
        (''task_source'', PStr (ro_task_source R)), (''contention_profile'', PStr (ro_contention R)),
        (''parallelism'', PInt (ro_parallelism R)), (''interference_workers'', PInt (ro_workers R)),
        (''hotspot_probability'', PFloat (ro_probability R)),
        (''baseline_winner_retry_policy'', PStr (ro_policy R)),
        (''baseline_winner_max_attempts'', PInt (ro_max_attempts R)),
        (''eligible_task_count'', dget_def load_summary ''eligible_task_count'' (PInt n_tasks)),
        (''skipped_task_count'', dget_def load_summary ''skipped_task_count'' (PInt 0)),
        (''skip_reason_distribution'', dget_def load_summary ''skip_reason_distribution'' (PDict [])),
        (''source_counts'', dget_def load_summary ''source_counts'' (PDict [])),
        (''comparison_contract'', comparison_contract), (''elapsed_sec'', PFloat elapsed)],
      su_mode_metrics = metrics\<rparr>"

text \<open>
  What the \<open>json\<close> module prints for the summary: an integer key of a dictionary is printed as
  the text of its decimal digits. The printed value as one with text keys:
\<close>

definition table_json :: "(int, pyfloat) dict \<Rightarrow> pyval" where
  "table_json t = PDict (map (\<lambda>(k, x). (str_int k, PFloat x)) t)"

definition mode_report_json :: "mode_report option \<Rightarrow> pyval" where
  "mode_report_json m =
     (case m of
        None \<Rightarrow> PDict []
      | Some r \<Rightarrow>
          PDict (mr_entries r @
            [(''pass_hat_k'', table_json (mr_pass_hat_k r)), (''pass_at_k'', table_json (mr_pass_at_k r)),
             (''average_at_k'', table_json (mr_average_at_k r))]))"

definition summary_json :: "run_summary \<Rightarrow> pyval" where
  "summary_json s =
     PDict (su_entries s @
       [(''mode_metrics'', PDict (map (\<lambda>(mode, m). (mode, mode_report_json m)) (su_mode_metrics s)))])"

subsection \<open>Files\<close>

text \<open>\<open>json.dump(data, fp, ensure_ascii=False, indent=2)\<close>.\<close>

definition indent_line :: "nat \<Rightarrow> string" where
  "indent_line n = CHR 0x0A # replicate (2 * n) CHR '' ''"

fun dumps_indent :: "nat \<Rightarrow> pyval \<Rightarrow> string" where
  "dumps_indent n (PList xs) =
     (if xs = [] then ''[]''
      else ''['' @ indent_line (n + 1) @
           join ('','' @ indent_line (n + 1)) (map (dumps_indent (n + 1)) xs) @ indent_line n @ '']'')"
| "dumps_indent n (PDict d) =
     (if d = [] then ''{}''
      else ''{'' @ indent_line (n + 1) @
           join ('','' @ indent_line (n + 1)) (map (\<lambda>(k, v). show_str k @ '': '' @ dumps_indent (n + 1) v) d) @
           indent_line n @ ''}'')"
| "dumps_indent n v = dumps_default v"

text \<open>The directories and files written, the last content of each; writing replaces the file.\<close>

record disk =
  dk_dirs :: "string list"
  dk_files :: "(string, string) dict"

definition makedirs :: "string \<Rightarrow> disk \<Rightarrow> disk" where
  "makedirs path d = (if path \<in> set (dk_dirs d) then d else d\<lparr>dk_dirs := dk_dirs d @ [path]\<rparr>)"

definition append_jsonl :: "string \<Rightarrow> pyval list \<Rightarrow> disk \<Rightarrow> disk" where
  "append_jsonl path rows d =
     d\<lparr>dk_files := dset (dk_files d) path (concat (map (\<lambda>r. dumps_compact r @ [CHR 0x0A]) rows))\<rparr>"

definition write_json_file :: "string \<Rightarrow> pyval \<Rightarrow> disk \<Rightarrow> disk" where
  "write_json_file path data d = d\<lparr>dk_files := dset (dk_files d) path (dumps_indent 0 data)\<rparr>"

text \<open>\<open>os.path.join(a, b)\<close> for a relative \<open>b\<close>.\<close>

definition path_join :: "string \<Rightarrow> string \<Rightarrow> string" where
  "path_join a b = (if a = [] \<or> ends_with a ''/'' then a @ b else a @ ''/'' @ b)"

subsection \<open>The experiment\<close>

text \<open>The state: the world of the agents, and the disk.\<close>

record 'w runner =
  rn_llm :: "'w llm_world"
  rn_disk :: disk

type_synonym ('w, 'a) runner_prog = "('w runner, 'a) prog"

definition on_agents :: "('w, 'a) llm_prog \<Rightarrow> ('w, 'a) runner_prog" where
  "on_agents m s = (case m (rn_llm s) of (r, c) \<Rightarrow> (r, s\<lparr>rn_llm := c\<rparr>))"

definition on_disk :: "(disk \<Rightarrow> disk) \<Rightarrow> ('w, unit) runner_prog" where
  "on_disk f s = (Inr (), s\<lparr>rn_disk := f (rn_disk s)\<rparr>)"

record run_report =
  rr_summary :: run_summary
  rr_records_path :: string
  rr_summary_path :: string
  rr_record_count :: nat

definition run_id_draw :: "'w exp_setup \<Rightarrow> ('w, string) llm_prog" where
  "run_id_draw X s =
     (case pr_uuid (en_peer (xp_env X)) (adb_net (lw_db s)) of
        (u, w) \<Rightarrow> (Inr u, s\<lparr>lw_db := (lw_db s)\<lparr>adb_net := w\<rparr>\<rparr>))"

definition write_report ::
  "run_options \<Rightarrow> string \<Rightarrow> pyval list \<Rightarrow> run_summary \<Rightarrow> ('w, run_report) runner_prog" where
  "write_report R run_id records summary =
     (let records_path = path_join (ro_output_dir R) (''records-'' @ run_id @ ''.jsonl'');
          summary_path = path_join (ro_output_dir R) (''summary-'' @ run_id @ ''.json'') in
      bnd (on_disk (append_jsonl records_path records)) (\<lambda>_.
      bnd (on_disk (write_json_file summary_path (summary_json summary))) (\<lambda>_.
        ret \<lparr>rr_summary = summary, rr_records_path = records_path, rr_summary_path = summary_path,
             rr_record_count = length records\<rparr>)))"

definition run_delivery_experiment :: "'w exp_setup \<Rightarrow> run_options \<Rightarrow> ('w, run_report) runner_prog" where
  "run_delivery_experiment X R =
     bnd (on_disk (makedirs (ro_output_dir R))) (\<lambda>_.
     bnd (lift_res (load_experiment_tasks (xp_data X) (ro_dataset_path R) (ro_task_source R)
                      (ro_cross_domain_path R) (ro_task_ids R) (ro_limit R))) (\<lambda>(tasks, load_summary).
     bnd (on_agents (run_id_draw X)) (\<lambda>run_id.
     bnd (on_agents (world_time X)) (\<lambda>started_at.
     bnd (on_agents (run_modes X R run_id tasks)) (\<lambda>(mode_elapsed, records).
     bnd (on_agents (world_time X)) (\<lambda>finished_at.
     bnd (lift_res (to_dict load_summary)) (\<lambda>loaded.
     bnd (lift_res (mode_metrics R mode_elapsed records)) (\<lambda>metrics s.
       write_report R run_id records
         (build_summary R run_id (adb_backend (lw_db (rn_llm s))) (int (length tasks)) loaded
            (fsub finished_at started_at) metrics) s))))))))"

subsection \<open>The command line\<close>

text \<open>What \<open>argparse\<close> hands to \<open>main\<close>; the defaults of the options.\<close>

record cli_args =
  ca_dataset_path :: string
  ca_cross_domain_path :: string
  ca_output_dir :: string
  ca_task_source :: string
  ca_mode :: string
  ca_preset :: string
  ca_limit :: "int option"
  ca_task_ids :: string
  ca_trials :: int
  ca_top_k :: int
  ca_agent_type :: string
  ca_max_rounds :: int
  ca_contention :: string
  ca_probability :: pyfloat
  ca_parallelism :: int
  ca_workers :: int
  ca_policy :: string
  ca_max_attempts :: int

definition default_args :: cli_args where
  "default_args =
     \<lparr>ca_dataset_path = ''/home/cht/datasets/VitaBench/delivery/tasks.json'',
      ca_cross_domain_path = default_cross_domain_path,
      ca_output_dir = ''/home/cht/Tree-DB/artifacts/vitabench_delivery'',
      ca_task_source = ''delivery'', ca_mode = ''both'', ca_preset = ''smoke'', ca_limit = None,
      ca_task_ids = [], ca_trials = 1, ca_top_k = 3, ca_agent_type = ''reference'', ca_max_rounds = 12,
      ca_contention = ''none'', ca_probability = Fin 1, ca_parallelism = 1, ca_workers = 0,
      ca_policy = ''fixed'', ca_max_attempts = 2\<rparr>"

text \<open>The values \<open>choices\<close> allows; \<open>argparse\<close> refuses the others.\<close>

definition args_allowed :: "cli_args \<Rightarrow> bool" where
  "args_allowed a =
     (ca_task_source a \<in> {''delivery'', ''cross_domain'', ''both''} \<and>
      ca_mode a \<in> {''baseline'', ''tree'', ''both''} \<and>
      ca_preset a \<in> {''smoke'', ''functional'', ''full'', ''custom''} \<and>
      ca_agent_type a \<in> {''reference'', ''llm''} \<and> ca_contention a \<in> {''none'', ''hotspot''} \<and>
      ca_policy a \<in> {''fixed'', ''until_success''})"

definition default_task_limits :: "(string, int) dict" where
  "default_task_limits = [(''smoke'', 3), (''functional'', 20), (''full'', 100)]"

definition task_ids_of :: "string \<Rightarrow> string list" where
  "task_ids_of s = map strip (filter (\<lambda>item. strip item \<noteq> []) (split_char CHR '','' s))"

definition limit_of :: "cli_args \<Rightarrow> string list \<Rightarrow> int option res" where
  "limit_of a task_ids =
     (if ca_limit a \<noteq> None \<or> task_ids \<noteq> [] then Inr (ca_limit a)
      else rbind (if ca_preset a \<noteq> ''custom''
                  then (case dget default_task_limits (ca_preset a) of
                          Some n \<Rightarrow> Inr (Some n)
                        | None \<Rightarrow> Inl (PyExc KeyError (repr_str (ca_preset a))))
                  else Inr None) (\<lambda>limit.
             Inr (case limit of None \<Rightarrow> Some 3 | Some n \<Rightarrow> Some n)))"

definition options_of :: "cli_args \<Rightarrow> run_options res" where
  "options_of a =
     (let task_ids = task_ids_of (ca_task_ids a) in
      rbind (limit_of a task_ids) (\<lambda>limit.
        Inr \<lparr>ro_dataset_path = ca_dataset_path a, ro_output_dir = ca_output_dir a,
             ro_modes = (if ca_mode a = ''both'' then [''baseline'', ''tree''] else [ca_mode a]),
             ro_trials = ca_trials a, ro_limit = limit, ro_task_ids = task_ids,
             ro_top_k = max 1 (ca_top_k a), ro_agent_type = ca_agent_type a,
             ro_max_rounds = max 1 (ca_max_rounds a), ro_task_source = ca_task_source a,
             ro_cross_domain_path = ca_cross_domain_path a, ro_contention = ca_contention a,
             ro_parallelism = max 1 (ca_parallelism a), ro_workers = max 0 (ca_workers a),
             ro_probability = fmax (Fin 0) (fmin (Fin 1) (ca_probability a)),
             ro_policy = ca_policy a, ro_max_attempts = max 1 (ca_max_attempts a)\<rparr>))"

definition report_lines :: "run_report \<Rightarrow> string res" where
  "report_lines rep =
     rbind (vitem (su_entries (rr_summary rep)) ''run_id'') (\<lambda>run_id.
       Inr (concat (map (\<lambda>l. l @ [CHR 0x0A])
         [''run_id='' @ py_str run_id, ''record_count='' @ str_int (int (rr_record_count rep)),
          ''records_path='' @ rr_records_path rep, ''summary_path='' @ rr_summary_path rep,
          dumps_compact (summary_json (rr_summary rep))])))"

text \<open>The output of \<open>main\<close> and its exit status.\<close>

definition vita_main :: "'w exp_setup \<Rightarrow> cli_args \<Rightarrow> ('w, string \<times> int) runner_prog" where
  "vita_main X a =
     bnd (lift_res (options_of a)) (\<lambda>R.
     bnd (run_delivery_experiment X R) (\<lambda>rep.
     bnd (lift_res (report_lines rep)) (\<lambda>out. ret (out, 0))))"

end
