(* ===== verification/Vita_Runner_Props.thy ===== *)
theory Vita_Runner_Props
  imports Vita_Runner
begin

text \<open>
  The experiment covers what it was asked to: one record for every mode, trial and task, in that
  order, in the result and in the file.
\<close>

subsection \<open>Loops that relate their items to their results\<close>

lemma for_each_related:
  assumes step: "\<And>x s y s'. x \<in> set xs \<Longrightarrow> f x s = (Inr y, s') \<Longrightarrow> P x y"
  shows "for_each f xs s = (Inr ys, s') \<Longrightarrow> list_all2 P xs ys"
  using step
proof (induction xs arbitrary: s ys)
  case Nil
  then show ?case by (simp add: ret_def)
next
  case (Cons x xs)
  from Cons.prems(1) obtain y s1 where y: "f x s = (Inr y, s1)"
    and "bnd (for_each f xs) (\<lambda>ys. ret (y # ys)) s1 = (Inr ys, s')" by (auto elim: bnd_InrE)
  then obtain zs where zs: "for_each f xs s1 = (Inr zs, s')" and "ys = y # zs"
    by (auto elim!: bnd_InrE simp: ret_def)
  with Cons.IH [OF zs] Cons.prems(2) y show ?case by auto
qed

lemma list_all2_concat:
  "list_all2 (\<lambda>x ys. list_all2 P (g x) ys) xs yss \<Longrightarrow> list_all2 P (concat (map g xs)) (concat yss)"
  by (induction rule: list_all2_induct) (auto intro: list_all2_appendI)

subsection \<open>Records\<close>

definition planned :: "string list \<Rightarrow> int \<Rightarrow> args list \<Rightarrow> (string \<times> int \<times> args) list" where
  "planned modes trials tasks =
     concat (map (\<lambda>mode. concat (map (\<lambda>trial. map (\<lambda>task. (mode, trial, task)) tasks) [1..trials])) modes)"

text \<open>A record says which mode, trial and task it is of.\<close>

definition record_of :: "string \<times> int \<times> args \<Rightarrow> pyval \<Rightarrow> bool" where
  "record_of = (\<lambda>(mode, trial, task) r.
     case r of
       PDict d \<Rightarrow> dget d ''mode'' = Some (PStr mode) \<and> dget d ''trial'' = Some (PInt trial) \<and>
         dget d ''task_id'' = Some (PStr (py_str (dget_def task ''id'' PNone)))
     | _ \<Rightarrow> False)"

lemma planned_length: "length (planned modes trials tasks) = length modes * (nat trials * length tasks)"
proof -
  have "length (concat (map (\<lambda>trial. map (\<lambda>task. (mode, trial, task)) tasks) [1..trials])) =
      nat trials * length tasks" for mode :: string
    by (simp add: length_concat comp_def sum_list_triv)
  then show ?thesis by (simp add: planned_def length_concat comp_def sum_list_triv)
qed

lemma run_single_task_record:
  assumes "run_single_task X R run_id mode trial task s = (Inr r, s')"
  shows "record_of (mode, trial, task) r"
proof -
  from assms obtain id_val where "vitem task ''id'' = Inr id_val"
    by (auto simp: run_single_task_def lift_res_def elim!: bnd_InrE)
  then have "dget_def task ''id'' PNone = id_val"
    by (simp add: vitem_def dget_def_def split: option.splits)
  with assms \<open>vitem task ''id'' = Inr id_val\<close> show ?thesis
    by (auto simp: run_single_task_def lift_res_def ret_def record_of_def Let_def elim!: bnd_InrE)
qed

lemma run_trial_records:
  assumes "ro_parallelism R \<le> 1" and "run_trial X R run_id tasks mode trial s = (Inr rs, s')"
  shows "list_all2 record_of (map (\<lambda>task. (mode, trial, task)) tasks) rs"
proof -
  from assms have "for_each (run_single_task X R run_id mode trial) tasks s = (Inr rs, s')"
    by (simp add: run_trial_def)
  from for_each_related [OF run_single_task_record this]
  show ?thesis by (simp add: list_all2_map1)
qed

lemma run_mode_records:
  assumes "ro_parallelism R \<le> 1" and "run_mode X R run_id tasks mode s = (Inr out, s')"
  shows "fst (fst out) = mode \<and>
    list_all2 record_of (concat (map (\<lambda>trial. map (\<lambda>task. (mode, trial, task)) tasks) [1..ro_trials R])) (snd out)"
proof -
  from assms(2) obtain rss s1 s2 where f: "for_each (run_trial X R run_id tasks mode) [1..ro_trials R] s1 = (Inr rss, s2)"
    and out: "fst (fst out) = mode" "snd out = concat rss"
    by (auto simp: run_mode_def ret_def elim!: bnd_InrE)
  have "list_all2 (\<lambda>trial rs. list_all2 record_of (map (\<lambda>task. (mode, trial, task)) tasks) rs) [1..ro_trials R] rss"
    by (rule for_each_related [OF run_trial_records [OF assms(1)] f])
  with out show ?thesis by (simp add: list_all2_concat)
qed

lemma try_finally_Inr: "try_finally m c s = (Inr v, s') \<Longrightarrow> \<exists>s1. m s = (Inr v, s1)"
  by (auto simp: try_finally_def split: prod.splits sum.splits if_splits)

lemma run_modes_records:
  assumes seq: "ro_parallelism R \<le> 1" and run: "run_modes X R run_id tasks s = (Inr (elapsed, records), s')"
  shows "list_all2 record_of (planned (ro_modes R) (ro_trials R) tasks) records"
proof -
  from try_finally_Inr [OF run [unfolded run_modes_def]] obtain outs s2
    where f: "for_each (run_mode X R run_id tasks) (ro_modes R) s = (Inr outs, s2)"
      and rec: "records = concat (map snd outs)"
    by (auto simp: ret_def elim!: bnd_InrE)
  have "list_all2 (\<lambda>mode out. list_all2 record_of
      (concat (map (\<lambda>trial. map (\<lambda>task. (mode, trial, task)) tasks) [1..ro_trials R])) (snd out)) (ro_modes R) outs"
    by (rule for_each_related [OF _ f]) (use run_mode_records [OF seq] in blast)
  then have "list_all2 (\<lambda>mode rs. list_all2 record_of
      (concat (map (\<lambda>trial. map (\<lambda>task. (mode, trial, task)) tasks) [1..ro_trials R])) rs) (ro_modes R) (map snd outs)"
    by (simp add: list_all2_map2)
  then show ?thesis unfolding rec planned_def by (rule list_all2_concat)
qed

subsection \<open>The files\<close>

definition jsonl :: "pyval list \<Rightarrow> string" where
  "jsonl rows = concat (map (\<lambda>r. dumps_compact r @ [CHR 0x0A]) rows)"

lemma paths_differ: "path_join d (''records-'' @ u @ ''.jsonl'') \<noteq> path_join d (''summary-'' @ u @ ''.json'')"
proof
  assume "path_join d (''records-'' @ u @ ''.jsonl'') = path_join d (''summary-'' @ u @ ''.json'')"
  then have "length (path_join d (''records-'' @ u @ ''.jsonl'')) = length (path_join d (''summary-'' @ u @ ''.json''))"
    by simp
  then show False by (simp add: path_join_def split: if_splits)
qed

lemma write_report_files:
  assumes "write_report R run_id records summary s = (Inr rep, s')"
  shows "rr_record_count rep = length records \<and> rr_summary rep = summary \<and>
    dget (dk_files (rn_disk s')) (rr_records_path rep) = Some (jsonl records) \<and>
    dget (dk_files (rn_disk s')) (rr_summary_path rep) = Some (dumps_indent 0 (summary_json summary))"
  using assms paths_differ [of "ro_output_dir R" run_id]
  by (auto simp: write_report_def on_disk_def prog_simps append_jsonl_def write_json_file_def jsonl_def Let_def)

text \<open>The lines of a file of lines; an indented print parses to its value.\<close>

lemma split_char_line: "c \<notin> set l \<Longrightarrow> split_char c (l @ c # s) = l # split_char c s"
  by (induction l) auto

lemma split_char_lines:
  "\<forall>l \<in> set ls. c \<notin> set l \<Longrightarrow> split_char c (concat (map (\<lambda>l. l @ [c]) ls)) = ls @ [[]]"
  by (induction ls) (simp_all add: split_char_line)

lemma printed_indent: "json_ok v \<Longrightarrow> printed (dumps_indent n v) v"
proof (induction v arbitrary: n)
  case (PList xs)
  have ws: "ws_only (indent_line k)" for k by (simp add: indent_line_def ws_only_def is_ws_def)
  show ?case
    using printed_list [OF ws ws ws, of xs "dumps_indent (n + 1)"] PList by (cases "xs = []") auto
next
  case (PDict d)
  have ws: "ws_only (indent_line k)" for k by (simp add: indent_line_def ws_only_def is_ws_def)
  have sp: "ws_only '' ''" by (simp add: ws_only_def is_ws_def)
  have "\<forall>p \<in> set d. printed (dumps_indent (n + 1) (snd p)) (snd p)" "dict_ok d"
    using PDict by (auto simp: snds.simps)
  then show ?case
    using printed_dict [OF ws ws sp ws, of d "dumps_indent (n + 1)"]
    by (cases "d = []") (auto simp: show_member_def [abs_def] case_prod_unfold)
qed (simp only: dumps_indent.simps dumps_default_def, rule printed_atom, simp_all add: is_atom_def)+

subsection \<open>The metrics of a mode\<close>

text \<open>The records of a mode, by the mode each one names.\<close>

definition of_mode :: "string \<Rightarrow> pyval \<Rightarrow> bool" where
  "of_mode mode r = (case r of PDict d \<Rightarrow> dget d ''mode'' = Some (PStr mode) | _ \<Rightarrow> False)"

lemma of_mode_PDict [simp]: "of_mode mode (PDict d) \<longleftrightarrow> dget d ''mode'' = Some (PStr mode)"
  by (simp add: of_mode_def)

lemma of_mode_record: "record_of (m, trial, task) r \<Longrightarrow> of_mode mode r \<longleftrightarrow> m = mode"
  by (auto simp: record_of_def of_mode_def split: pyval.splits)

lemma mode_records_filter:
  "list_all2 record_of plan records \<Longrightarrow> mode_records records mode = Inr (filter (of_mode mode) records)"
proof (induction rule: list_all2_induct)
  case Nil
  show ?case by (simp add: mode_records_def)
next
  case (Cons p plan r records)
  obtain m trial task where p: "p = (m, trial, task)" by (cases p)
  with Cons.hyps(1) obtain d where r: "r = PDict d" "dget d ''mode'' = Some (PStr m)"
    by (auto simp: record_of_def split: pyval.splits)
  from Cons.IH obtain rss where "rmap (\<lambda>r. rbind (vsub r ''mode'')
      (\<lambda>m. Inr (if m = PStr mode then [r] else []))) records = Inr rss" "concat rss = filter (of_mode mode) records"
    by (auto simp: mode_records_def rbind_eq_Inr)
  with r show ?case by (simp add: mode_records_def vsub_def vitem_def)
qed

lemma records_of_mode:
  "list_all2 record_of plan records \<Longrightarrow>
   list_all2 record_of (filter (\<lambda>p. fst p = mode) plan) (filter (of_mode mode) records)"
  by (induction rule: list_all2_induct) (auto simp: of_mode_record)

lemma planned_one_mode:
  "distinct modes \<Longrightarrow> mode \<in> set modes \<Longrightarrow>
   filter (\<lambda>p. fst p = mode) (planned modes trials tasks) = planned [mode] trials tasks"
proof (induction modes)
  case Nil
  then show ?case by simp
next
  case (Cons m modes)
  have split: "planned (m # modes) trials tasks = planned [m] trials tasks @ planned modes trials tasks"
    by (simp add: planned_def)
  have all: "filter (\<lambda>p. fst p = mode) (planned [m] trials tasks) = (if m = mode then planned [m] trials tasks else [])"
    by (auto simp: planned_def filter_concat comp_def filter_map)
  show ?case
  proof (cases "m = mode")
    case True
    with Cons.prems have "filter (\<lambda>p. fst p = mode) (planned modes trials tasks) = []"
      by (auto simp: planned_def filter_empty_conv)
    with True split all show ?thesis by simp
  next
    case False
    with Cons split all show ?thesis by simp
  qed
qed

lemma aggregate_records:
  assumes "aggregate_mode_metrics records trials elapsed = Inr m" and "records \<noteq> []"
  shows "\<exists>r. m = Some r \<and> dget (mr_entries r) ''records'' = Some (PInt (int (length records)))"
  using assms by (auto simp: aggregate_mode_metrics_def with_pass_tables_def rbind_eq_Inr)

lemma mode_metrics_rows:
  assumes met: "mode_metrics R elapsed records = Inr metrics" and dist: "distinct (ro_modes R)"
    and plan: "list_all2 record_of plan records" and mode: "mode \<in> set (ro_modes R)"
  shows "\<exists>secs m. dget metrics mode = Some m \<and>
    aggregate_mode_metrics (filter (of_mode mode) records) (ro_trials R) secs = Inr m"
proof -
  define row where "row = (\<lambda>mode. rbind (mode_records records mode) (\<lambda>rs.
         rbind (aggregate_mode_metrics rs (ro_trials R) (dget_def elapsed mode (Fin 0))) (\<lambda>m. Inr (mode, m))))"
  from met obtain ms where ms: "rmap row (ro_modes R) = Inr ms" "metrics = dict_update [] ms"
    by (auto simp: mode_metrics_def row_def rbind_eq_Inr)
  have key: "fst p = x" if "row x = Inr p" for x p using that by (auto simp: row_def rbind_eq_Inr)
  have "map fst ms = ro_modes R"
  proof (rule nth_equalityI)
    show "length (map fst ms) = length (ro_modes R)" using rmap_Inr_length [OF ms(1)] by simp
    show "map fst ms ! i = ro_modes R ! i" if "i < length (map fst ms)" for i
      using that rmap_Inr_length [OF ms(1)] key [OF rmap_Inr_nth [OF ms(1)]] by simp
  qed
  with dist have ok: "dict_ok ms" by (simp add: dict_ok_def)
  from mode obtain i where i: "i < length (ro_modes R)" "ro_modes R ! i = mode" by (auto simp: in_set_conv_nth)
  with rmap_Inr_nth [OF ms(1) i(1)] have "row mode = Inr (ms ! i)" by simp
  then obtain m where
    m: "aggregate_mode_metrics (filter (of_mode mode) records) (ro_trials R) (dget_def elapsed mode (Fin 0)) = Inr m"
    "ms ! i = (mode, m)"
    by (auto simp: row_def mode_records_filter [OF plan] rbind_eq_Inr)
  have "(mode, m) \<in> set ms" using m(2) i rmap_Inr_length [OF ms(1)] by (metis nth_mem)
  with ok have "dget metrics mode = Some m" by (simp add: ms(2) dget_dict_update dget_ok)
  with m(1) show ?thesis by blast
qed

subsection \<open>Properties\<close>

text \<open>C8: a sequential experiment (parallelism at most one) over distinct modes that returns ran
  every task of every trial in every mode exactly once, in that order: its records are those of
  the plan, their number is reported, and the records file holds one line of JSON for each. The
  metrics reported for a mode are computed from the records that name this mode, which are
  exactly those planned for it, and state their number.\<close>

theorem experiment_covers_plan:
  assumes run: "run_delivery_experiment X R s = (Inr rep, s')" and seq: "ro_parallelism R \<le> 1"
    and load: "load_experiment_tasks (xp_data X) (ro_dataset_path R) (ro_task_source R)
      (ro_cross_domain_path R) (ro_task_ids R) (ro_limit R) = Inr (tasks, loaded)"
    and dist: "distinct (ro_modes R)"
  shows "\<exists>records. list_all2 record_of (planned (ro_modes R) (ro_trials R) tasks) records \<and>
    rr_record_count rep = length (ro_modes R) * (nat (ro_trials R) * length tasks) \<and>
    dget (dk_files (rn_disk s')) (rr_records_path rep) = Some (jsonl records) \<and>
    (\<forall>mode \<in> set (ro_modes R).
       list_all2 record_of (planned [mode] (ro_trials R) tasks) (filter (of_mode mode) records) \<and>
       (\<exists>secs m. dget (su_mode_metrics (rr_summary rep)) mode = Some m \<and>
          aggregate_mode_metrics (filter (of_mode mode) records) (ro_trials R) secs = Inr m \<and>
          (0 < nat (ro_trials R) * length tasks \<longrightarrow> (\<exists>r. m = Some r \<and> dget (mr_entries r) ''records'' =
             Some (PInt (int (nat (ro_trials R) * length tasks)))))))"
proof -
  from run load obtain run_id elapsed records metrics s1 s2 s3 backend ld total where
    modes: "run_modes X R run_id tasks s1 = (Inr (elapsed, records), s2)"
    and met: "mode_metrics R elapsed records = Inr metrics"
    and wr: "write_report R run_id records (build_summary R run_id backend (int (length tasks)) ld total metrics) s3
      = (Inr rep, s')"
    by (auto simp: run_delivery_experiment_def on_agents_def lift_res_def on_disk_def
        split: prod.splits elim!: bnd_InrE)
  have plan: "list_all2 record_of (planned (ro_modes R) (ro_trials R) tasks) records"
    by (rule run_modes_records [OF seq modes])
  note files = write_report_files [OF wr]
  have sum: "su_mode_metrics (rr_summary rep) = metrics" using files by (simp add: build_summary_def)
  have len: "length records = length (ro_modes R) * (nat (ro_trials R) * length tasks)"
    using list_all2_lengthD [OF plan] by (simp add: planned_length)
  have rows: "list_all2 record_of (planned [mode] (ro_trials R) tasks) (filter (of_mode mode) records)"
    if "mode \<in> set (ro_modes R)" for mode
    using records_of_mode [OF plan, of mode] by (simp add: planned_one_mode [OF dist that])
  have agg: "\<exists>secs m. dget (su_mode_metrics (rr_summary rep)) mode = Some m \<and>
          aggregate_mode_metrics (filter (of_mode mode) records) (ro_trials R) secs = Inr m \<and>
          (0 < nat (ro_trials R) * length tasks \<longrightarrow> (\<exists>r. m = Some r \<and> dget (mr_entries r) ''records'' =
             Some (PInt (int (nat (ro_trials R) * length tasks)))))"
    if mode: "mode \<in> set (ro_modes R)" for mode
  proof -
    from mode_metrics_rows [OF met dist plan mode] obtain secs m where m: "dget metrics mode = Some m"
      "aggregate_mode_metrics (filter (of_mode mode) records) (ro_trials R) secs = Inr m" by blast
    have "length (filter (of_mode mode) records) = nat (ro_trials R) * length tasks"
      using list_all2_lengthD [OF rows [OF mode]] by (simp add: planned_length)
    with aggregate_records [OF m(2)] m sum show ?thesis by fastforce
  qed
  from files len have "rr_record_count rep = length (ro_modes R) * (nat (ro_trials R) * length tasks)"
    and "dget (dk_files (rn_disk s')) (rr_records_path rep) = Some (jsonl records)"
    by simp_all
  with plan rows agg show ?thesis by (intro exI [of _ records] conjI ballI)
qed

text \<open>An experiment on one task without stores: the agent finds no candidate, the record says so.\<close>

definition ex_exp_peer :: "nat peer" where
  "ex_exp_peer =
     \<lparr>pr_connect = (\<lambda>h p w. (Inl (PyExc ConnectionError ''down''), w)), pr_send = (\<lambda>h s w. (Inr (), w)),
      pr_recv = (\<lambda>h n w. (Inr [], w)), pr_close = (\<lambda>h w. (Inr (), w)),
      pr_uuid = (\<lambda>w. (''u'' @ str_int (int w), Suc w))\<rparr>"

definition ex_exp_options :: run_options where
  "ex_exp_options =
     \<lparr>ro_dataset_path = ''d'', ro_output_dir = ''o'', ro_modes = [''tree''], ro_trials = 1,
      ro_limit = None, ro_task_ids = [], ro_top_k = 1, ro_agent_type = ''reference'', ro_max_rounds = 1,
      ro_task_source = ''delivery'', ro_cross_domain_path = [], ro_contention = ''none'',
      ro_parallelism = 1, ro_workers = 0, ro_probability = Fin 1, ro_policy = ''fixed'',
      ro_max_attempts = 1\<rparr>"

definition ex_exp :: "nat exp_setup" where
  "ex_exp =
     \<lparr>xp_env = \<lparr>en_peer = ex_exp_peer,
                en_unicode = \<lparr>u_alnum = (\<lambda>_. True), u_space = (\<lambda>_. False), u_lower = (\<lambda>c. c)\<rparr>,
                en_time = (\<lambda>w. (Fin 0, w)), en_random = (\<lambda>w. (Fin 0, w)), en_uniform = (\<lambda>w. (Fin 1, w)),
                en_interference = (\<lambda>_ d. d)\<rparr>,
      xp_llm = \<lparr>lx_service = \<lparr>ms_open = (\<lambda>key base w. (Inr (), w)), ms_create = (\<lambda>kwargs w. (Inr [], w))\<rparr>,
                lx_config = \<lparr>lc_env = [], lc_model = [], lc_tool_mode = [], lc_temperature = Fin 0\<rparr>,
                lx_tools = [], lx_router = (\<lambda>name v. ret PNone)\<rparr>,
      xp_data = \<lparr>ds_exists = (\<lambda>p. True), ds_read = (\<lambda>p. Inr (PList [PDict [(''id'', PStr ''t'')]]))\<rparr>,
      xp_pool = (\<lambda>n ms. ret []), xp_close = ret ()\<rparr>"

definition ex_exp_world :: "nat runner" where
  "ex_exp_world =
     \<lparr>rn_llm =
        \<lparr>lw_db = \<lparr>adb_backend = ''mini'', adb_host = [], adb_port = 0, adb_allow_fallback = False,
                   adb_mini = mini_init, adb_sessions = [], adb_tree_sessions = [], adb_net = 0\<rparr>,
         lw_client = False, lw_messages = []\<rparr>,
      rn_disk = \<lparr>dk_dirs = [], dk_files = []\<rparr>\<rparr>"

definition ex_exp_task :: args where
  "ex_exp_task =
     [(''id'', PStr ''t''), (''_task_source'', PStr ''delivery''), (''_task_uid'', PStr ''delivery:t''),
      (''instructions'', PStr [])]"

definition ex_exp_loaded :: args where
  "ex_exp_loaded =
     [(''eligible_task_count'', PInt 1), (''skipped_task_count'', PInt 0),
      (''skip_reason_distribution'', PDict []), (''source_counts'', PDict [(''delivery'', PInt 1)]),
      (''task_source'', PStr ''delivery''), (''cross_domain_path'', PStr [])]"

definition ex_exp_agents :: "nat llm_world" where
  "ex_exp_agents = (rn_llm ex_exp_world)\<lparr>lw_db := (lw_db (rn_llm ex_exp_world))\<lparr>adb_net := 1\<rparr>\<rparr>"

lemma ex_exp_load:
  "load_experiment_tasks (xp_data ex_exp) (ro_dataset_path ex_exp_options) (ro_task_source ex_exp_options)
     (ro_cross_domain_path ex_exp_options) (ro_task_ids ex_exp_options) (ro_limit ex_exp_options) =
   Inr ([ex_exp_task], PDict ex_exp_loaded)"
  by code_simp

lemma ex_exp_modes:
  "case fst (run_modes ex_exp ex_exp_options ''u0'' [ex_exp_task] ex_exp_agents) of
     Inr (el, rs) \<Rightarrow> (case mode_metrics ex_exp_options el rs of Inr _ \<Rightarrow> True | Inl _ \<Rightarrow> False) | Inl e \<Rightarrow> False"
  by code_simp

lemma ex_exp_draws:
  "on_agents (run_id_draw ex_exp) (ex_exp_world\<lparr>rn_disk := d\<rparr>) =
     (Inr ''u0'', ex_exp_world\<lparr>rn_disk := d, rn_llm := ex_exp_agents\<rparr>)"
  "on_agents (world_time ex_exp) s = (Inr (Fin 0), s)"
proof -
  have "str_int 0 = ''0''" by code_simp
  then show "on_agents (run_id_draw ex_exp) (ex_exp_world\<lparr>rn_disk := d\<rparr>) =
     (Inr ''u0'', ex_exp_world\<lparr>rn_disk := d, rn_llm := ex_exp_agents\<rparr>)"
    by (simp add: on_agents_def run_id_draw_def ex_exp_def ex_exp_peer_def ex_exp_world_def ex_exp_agents_def)
  show "on_agents (world_time ex_exp) s = (Inr (Fin 0), s)"
    by (simp add: on_agents_def world_time_def ex_exp_def)
qed

lemma ex_exp_returns: "\<exists>rep s'. run_delivery_experiment ex_exp ex_exp_options ex_exp_world = (Inr rep, s')"
proof -
  obtain out s1 where out: "run_modes ex_exp ex_exp_options ''u0'' [ex_exp_task] ex_exp_agents = (out, s1)"
    by (cases "run_modes ex_exp ex_exp_options ''u0'' [ex_exp_task] ex_exp_agents")
  with ex_exp_modes obtain el rs where o: "out = Inr (el, rs)" by (cases out) auto
  with ex_exp_modes out obtain ms where "mode_metrics ex_exp_options el rs = Inr ms"
    by (cases "mode_metrics ex_exp_options el rs") auto
  with o out show ?thesis
    by (simp add: run_delivery_experiment_def bnd_apply on_disk_def ex_exp_draws lift_res_def ex_exp_load)
      (simp add: on_agents_def world_time_def write_report_def on_disk_def prog_simps Let_def
        split: prod.splits)
qed

theorem experiment_covers_plan_witness:
  "\<exists>rep s'. run_delivery_experiment ex_exp ex_exp_options ex_exp_world = (Inr rep, s') \<and>
     rr_record_count rep = 1 \<and>
     (\<exists>r. dget (su_mode_metrics (rr_summary rep)) ''tree'' = Some (Some r) \<and>
        dget (mr_entries r) ''records'' = Some (PInt 1))"
proof -
  obtain rep s' where run: "run_delivery_experiment ex_exp ex_exp_options ex_exp_world = (Inr rep, s')"
    using ex_exp_returns by blast
  have "ro_parallelism ex_exp_options \<le> 1" and "distinct (ro_modes ex_exp_options)"
    by (simp_all add: ex_exp_options_def)
  from experiment_covers_plan [OF run this(1) ex_exp_load this(2)] run show ?thesis
    by (auto simp: ex_exp_options_def)
qed

text \<open>
  A summary as the experiment builds it: texts and integers as keys, each once in its
  dictionary, and floats that are doubles.
\<close>

definition table_ok :: "(int, pyfloat) dict \<Rightarrow> bool" where
  "table_ok t = (dict_ok t \<and> (\<forall>p \<in> set t. json_ok (PFloat (snd p))))"

definition mode_report_ok :: "mode_report \<Rightarrow> bool" where
  "mode_report_ok r =
     (json_ok (PDict (mr_entries r)) \<and>
      (\<forall>k \<in> {''pass_hat_k'', ''pass_at_k'', ''average_at_k''}. \<not> dhas (mr_entries r) k) \<and>
      table_ok (mr_pass_hat_k r) \<and> table_ok (mr_pass_at_k r) \<and> table_ok (mr_average_at_k r))"

definition summary_ok :: "run_summary \<Rightarrow> bool" where
  "summary_ok s =
     (json_ok (PDict (su_entries s)) \<and> \<not> dhas (su_entries s) ''mode_metrics'' \<and>
      dict_ok (su_mode_metrics s) \<and>
      (\<forall>p \<in> set (su_mode_metrics s). case snd p of None \<Rightarrow> True | Some r \<Rightarrow> mode_report_ok r))"

lemma json_ok_table: "table_ok t \<Longrightarrow> json_ok (table_json t)"
proof -
  assume t: "table_ok t"
  have "inj str_int" by (rule injI) (metis int_of_str_int option.inject)
  then have "distinct (map (str_int \<circ> fst) t)"
    using t by (simp add: table_ok_def dict_ok_def map_map [symmetric] distinct_map inj_on_subset [OF _ subset_UNIV]
        del: map_map)
  with t show ?thesis
    by (auto simp: table_json_def table_ok_def dict_ok_def comp_def case_prod_unfold)
qed

lemma json_ok_summary: "summary_ok s \<Longrightarrow> json_ok (summary_json s)"
proof -
  assume s: "summary_ok s"
  have r: "json_ok (mode_report_json m)" if "case m of None \<Rightarrow> True | Some r \<Rightarrow> mode_report_ok r" for m
    using that json_ok_table
    by (auto simp: mode_report_json_def mode_report_ok_def dict_ok_def dhas_def split: option.splits)
  have "json_ok (PDict (map (\<lambda>(mode, m). (mode, mode_report_json m)) (su_mode_metrics s)))"
    using s r by (auto simp: summary_ok_def dict_ok_def comp_def case_prod_unfold)
  with s show ?thesis by (auto simp: summary_json_def summary_ok_def dict_ok_def dhas_def)
qed

text \<open>
  What is to be found in the value read back: the tables under the texts of their keys, and
  nothing else in them; the entries of a mode and of the summary as they were.
\<close>

definition table_read :: "(int, pyfloat) dict \<Rightarrow> pyval \<Rightarrow> bool" where
  "table_read t v = (\<exists>d. v = PDict d \<and> length d = length t \<and>
     (\<forall>k. dget d (str_int k) = map_option PFloat (dget t k)))"

definition mode_report_read :: "mode_report option \<Rightarrow> pyval \<Rightarrow> bool" where
  "mode_report_read m v =
     (case m of
        None \<Rightarrow> v = PDict []
      | Some r \<Rightarrow> (\<exists>d hat atk avg. v = PDict d \<and>
          dget d ''pass_hat_k'' = Some hat \<and> table_read (mr_pass_hat_k r) hat \<and>
          dget d ''pass_at_k'' = Some atk \<and> table_read (mr_pass_at_k r) atk \<and>
          dget d ''average_at_k'' = Some avg \<and> table_read (mr_average_at_k r) avg \<and>
          (\<forall>k. k \<notin> {''pass_hat_k'', ''pass_at_k'', ''average_at_k''} \<longrightarrow> dget d k = dget (mr_entries r) k)))"

definition summary_read :: "run_summary \<Rightarrow> pyval \<Rightarrow> bool" where
  "summary_read s v =
     (\<exists>d ms. v = PDict d \<and> (\<forall>k. k \<noteq> ''mode_metrics'' \<longrightarrow> dget d k = dget (su_entries s) k) \<and>
        dget d ''mode_metrics'' = Some (PDict ms) \<and>
        (\<forall>mode. case dget (su_mode_metrics s) mode of
                  None \<Rightarrow> dget ms mode = None
                | Some m \<Rightarrow> (\<exists>w. dget ms mode = Some w \<and> mode_report_read m w)))"

lemma table_read_json: "table_read t (table_json t)"
proof -
  have "str_int k = str_int k' \<longleftrightarrow> k = k'" for k k' by (metis int_of_str_int option.inject)
  then have "dget (map (\<lambda>(k, x). (str_int k, PFloat x)) t) (str_int k) = map_option PFloat (dget t k)" for k
    by (induction t) auto
  then show ?thesis by (simp add: table_read_def table_json_def)
qed

lemma dget_lacking: "\<not> dhas d k \<Longrightarrow> dget d k = None"
  by (simp add: dhas_iff)

lemma mode_report_read_json:
  "(case m of None \<Rightarrow> True | Some r \<Rightarrow> mode_report_ok r) \<Longrightarrow> mode_report_read m (mode_report_json m)"
  by (cases m)
    (auto simp: mode_report_read_def mode_report_json_def mode_report_ok_def dget_lacking
      map_add_def table_read_json split: option.splits)

lemma summary_read_json:
  assumes "summary_ok s"
  shows "summary_read s (summary_json s)"
proof -
  have ms: "dget (map (\<lambda>(mode, m). (mode, mode_report_json m)) ms) mode = map_option mode_report_json (dget ms mode)"
    for ms mode by (induction ms) auto
  have "mode_report_read m (mode_report_json m)" if "dget (su_mode_metrics s) mode = Some m" for mode m
    using assms map_of_SomeD [OF that] by (intro mode_report_read_json) (auto simp: summary_ok_def)
  with assms show ?thesis
    by (auto simp: summary_read_def summary_json_def summary_ok_def dget_lacking map_add_def ms
        split: option.splits)
qed

text \<open>C20: the files of a report parse back: the records file, split at its line breaks, has one
  line for each record, each parses to its record, and nothing follows the last line break. The
  indented summary file parses to the summary, but for the integer keys of \<open>pass_hat_k\<close>,
  \<open>pass_at_k\<close> and \<open>average_at_k\<close>, which have become their decimal texts: every entry, of the summary
  and of the metrics of a mode, is as it was, and each number of a table is found under the text of
  its key. The keys are once in each dictionary and the floats are doubles.\<close>

theorem report_files_parse_back:
  assumes run: "write_report R run_id records summary s = (Inr rep, s')"
    and ok: "\<forall>r \<in> set records. json_ok r" "summary_ok summary"
  shows "\<exists>rows text. dget (dk_files (rn_disk s')) (rr_records_path rep) = Some rows \<and>
    dget (dk_files (rn_disk s')) (rr_summary_path rep) = Some text \<and>
    map loads (butlast (split_char newline rows)) = map Some records \<and>
    last (split_char newline rows) = [] \<and>
    loads text = Some (summary_json summary) \<and> summary_read summary (summary_json summary)"
proof -
  have "jsonl records = concat (map (\<lambda>l. l @ [newline]) (map dumps_compact records))"
    by (simp add: jsonl_def comp_def)
  moreover have "\<forall>l \<in> set (map dumps_compact records). newline \<notin> set l"
    using ok(1) dumps_no_newline [of "'',''" "'':''"] by (simp add: dumps_compact_def)
  ultimately have "split_char newline (jsonl records) = map dumps_compact records @ [[]]"
    by (simp only: split_char_lines)
  with write_report_files [OF run] ok loads_printed [OF printed_indent [OF json_ok_summary [OF ok(2)]]]
    summary_read_json [OF ok(2)]
  show ?thesis by simp
qed

text \<open>A summary with a table: its key, the number 1, comes back as a text.\<close>

definition ex_summary :: run_summary where
  "ex_summary =
     \<lparr>su_entries = [(''run_id'', PStr ''u'')],
      su_mode_metrics =
        [(''tree'', Some \<lparr>mr_entries = [(''records'', PInt 2)], mr_pass_hat_k = [(1, Fin 0)],
                          mr_pass_at_k = [], mr_average_at_k = []\<rparr>), (''baseline'', None)]\<rparr>"

theorem report_files_parse_back_witness:
  "\<exists>rep s'. write_report ex_exp_options ''u'' [PDict [(''a'', PStr [newline, CHR 0x22])], PNone]
      ex_summary ex_exp_world = (Inr rep, s') \<and>
    (\<exists>rows text. dget (dk_files (rn_disk s')) (rr_records_path rep) = Some rows \<and>
      map loads (butlast (split_char newline rows)) =
        [Some (PDict [(''a'', PStr [newline, CHR 0x22])]), Some PNone] \<and>
      dget (dk_files (rn_disk s')) (rr_summary_path rep) = Some text \<and>
      loads text = Some (PDict [(''run_id'', PStr ''u''), (''mode_metrics'', PDict
        [(''tree'', PDict [(''records'', PInt 2), (''pass_hat_k'', PDict [(''1'', PFloat (Fin 0))]),
            (''pass_at_k'', PDict []), (''average_at_k'', PDict [])]), (''baseline'', PDict [])])]))"
proof -
  obtain rep s' where run: "write_report ex_exp_options ''u'' [PDict [(''a'', PStr [newline, CHR 0x22])], PNone]
      ex_summary ex_exp_world = (Inr rep, s')"
    by (simp add: write_report_def on_disk_def prog_simps Let_def)
  have "is_double 0" by code_simp
  then have "summary_ok ex_summary"
    by (simp add: ex_summary_def summary_ok_def mode_report_ok_def table_ok_def dict_ok_def dhas_def)
  moreover have "str_int 1 = ''1''" by code_simp
  then have "summary_json ex_summary = PDict [(''run_id'', PStr ''u''), (''mode_metrics'', PDict
        [(''tree'', PDict [(''records'', PInt 2), (''pass_hat_k'', PDict [(''1'', PFloat (Fin 0))]),
            (''pass_at_k'', PDict []), (''average_at_k'', PDict [])]), (''baseline'', PDict [])])]"
    by (simp add: summary_json_def mode_report_json_def table_json_def ex_summary_def)
  ultimately show ?thesis
    using report_files_parse_back [OF run] run by (auto simp: dict_ok_def)
qed

end
