(* ===== verification/Spec2Isabelle.thy ===== *)
theory Spec2Isabelle
  imports Mini_Db_Props Agent_Db_Props Tool_Props Vita_Metrics_Props Vita_Eval_Props Vita_Select_Props Vita_Baseline_Props
    Mini_Db_Spec Vita_Llm_Props Vita_Manual_Props Vita_Interference_Props
    Vita_Bump_Props Vita_Runner_Props
begin

text \<open>
  A verification development for DBAgent-tree: agents that explore alternatives in the branches of
  a database transaction. The Python side of the repository (\<open>Agent/\<close>) is modelled; the server it
  talks to over a socket is a parameter.

  \<^bold>\<open>The parts of the program and how they interact.\<close> \<open>Agent/db_client.py\<close> holds a database client: its
  back end is an in-memory database (\<open>MiniDBClient\<close>) or a line protocol over sockets
  (\<open>TreeDBSession\<close>), chosen by \<open>AgentDBClient\<close>. \<open>Agent/tools/kv_tools.py\<close> and
  \<open>Agent/tools/image_tools.py\<close> wrap the client's operations as tools on JSON objects, and
  \<open>Agent/tool_registry.py\<close> declares their schemas and routes calls by name.
  \<open>Agent/vitabench_delivery.py\<close> is a benchmark: it loads tasks, projects each into database entries,
  runs an agent over the tools, evaluates the submitted order and aggregates statistics. The agent is
  a script (as a baseline with plain transactions, or as a tree transaction with a branch for each
  candidate) or a language model, whose conversation is a loop of \<open>Agent/llm.py\<close>; threads of an
  interference manager change a hot key meanwhile. \<open>Agent/app.py\<close> is a console on the same loop.

  \<^bold>\<open>Foundations.\<close> \<open>Py_Prelude\<close>: exceptions, results, dictionaries, programs over a state that may
  raise. \<open>Prog_Logic\<close>: triples for such programs, total correctness. \<open>Py_Text\<close>, \<open>Py_Float\<close>, \<open>Py_Num\<close>,
  \<open>Py_Repr\<close>, \<open>Py_Json\<close>, \<open>Py_Json_Trip\<close>, \<open>Py_Value\<close>, \<open>Py_Sha1\<close>: what the program uses of Python's
  strings, binary64 floats, \<open>repr\<close>, \<open>json\<close>, values and \<open>hashlib.sha1\<close>. A \<open>str\<close> is the list of its UTF-8
  bytes; case conversion, white space and digits are exact on ASCII.

  \<^bold>\<open>The database client.\<close> \<open>Mini_Db\<close> is \<open>MiniDBClient\<close>, one definition for each method;
  \<open>Mini_Db_Inv\<close> its invariant and step relation; \<open>Mini_Db_Tree\<close> the climb from a branch to the root
  and the interpretation of the contract in \<open>Tx_Interface\<close> (locale \<open>snapshot_store\<close>) on the plain
  transactions; \<open>Mini_Db_Props\<close> its properties. What a branch shows is stated by the inductive predicate
  \<open>branch_shows\<close> over the parent links, apart from the loops of the code; a tree commit installs that.
  \<open>Mini_Db_Spec\<close> is an abstract specification (maps and
  paths, no loops) with the simulation of every call: any history of calls gives its answers. \<open>Tree_Session\<close> is \<open>TreeDBSession\<close> over a parameter
  \<open>peer\<close> (connect, send, receive, close, sleep, the ids that \<open>uuid4\<close> draws); \<open>Agent_Db\<close> is
  \<open>AgentDBClient\<close>, \<open>Agent_Db_Lemmas\<close> and \<open>Agent_Db_Props\<close> say what its requests and replies do.

  \<^bold>\<open>The tools.\<close> \<open>Kv_Tools\<close> and \<open>Tool_Registry\<close>; \<open>Tool_Returns\<close> shows that on the in-memory back end
  every tool comes back. The properties in \<open>Tool_Props\<close>: a call that conforms to its schema is
  answered by an object with an \<open>ok\<close> flag (but for what the file test of \<open>image_analyze\<close> raises, and a
  server whose reply never ends), a submitted order reads back, a submission over the socket leaves
  no session behind and closes its connection once the transaction had started.

  \<^bold>\<open>The benchmark.\<close> \<open>Vita_Metrics\<close> (statistics, tokens), \<open>Vita_Tasks\<close> (tasks, data sets, projection),
  \<open>Vita_Eval\<close> (evaluation), \<open>Vita_Select\<close> (candidates, winner), \<open>Vita_Agent\<close> (the scripted agent), each
  with a theory of properties; \<open>Vita_Agent_Logic\<close>, \<open>Vita_Agent_Mini\<close> and \<open>Vita_Agent_Steps\<close> prove
  triples for each step of an agent's run on the in-memory database, from which
  \<open>Vita_Agent_Props\<close> concludes that a run leaves the answer or nothing. \<open>Vita_Interference\<close> is the
  transaction that bumps a hot key and the interference manager as a step relation (a step is one
  access of a thread to the flag, the queue, the counter or an event); \<open>Vita_Interference_Props\<close> shows
  that a closed manager ends with every event set, provided no request was under way at \<open>close\<close>, and
  that otherwise a request may be lost; \<open>Vita_Bump_Props\<close> that a bump on the in-memory database adds
  one to the stored version and changes nothing else. \<open>Vita_Runner\<close> is the experiment: one task, all trials and
  modes, the metrics, the files and the command line; \<open>Vita_Runner_Props\<close> shows that it covers its
  plan, that the metrics of a mode are over the records of that mode, and that its files parse back.
  The summary keeps the integer keys of the pass tables (\<open>mode_report\<close>); \<open>summary_json\<close> is what the
  \<open>json\<close> module makes of it, with the keys as texts.

  \<^bold>\<open>The language model.\<close> \<open>Llm_Texts\<close> holds the prompts and other texts, \<open>Llm_Client\<close> the tool-calling
  loops of \<open>Agent/llm.py\<close> (native, manual, and the choice between them), the console and the schemas;
  \<open>Vita_Llm\<close> the agent that runs on them and the trace read back from the conversation;
  \<open>Vita_Llm_Props\<close> relates messages, calls and trace of a native conversation, \<open>Vita_Manual_Props\<close> of a
  manual one.

  \<^bold>\<open>Bounds.\<close> \<open>loads\<close> recurses with the fuel \<open>2 * length s + 2\<close>, which the round trip in
  \<open>Py_Json_Trip\<close> shows to be enough for what \<open>dumps\<close> prints. The loops that climb branches, read a
  line, and retry the winner are partial functions whose \<open>None\<close> is a loop without end; that they
  return is a theorem where they do.

  \<^bold>\<open>Not modelled.\<close> The C++ server and storage engine (other languages, reached over the socket only) and
  the load test script; the model service behind the \<open>openai\<close> package, a parameter of the loops; the
  descriptions in the tool schemas (texts for a language model); the sign of zero; the locks of
  \<open>MiniDBClient\<close> (every method holds one lock, so an execution is a sequence of whole operations) and
  the interleaving of \<open>*_many\<close> calls, which are sequences of operations. In a run the effect of the
  interference threads is a parameter (\<open>en_interference\<close>), as is the pool that runs tasks in parallel
  (\<open>xp_pool\<close>), the reading of the data files (\<open>data_sets\<close>) and the parsing of the command line by
  \<open>argparse\<close> (\<open>cli_args\<close> is its result); the command line passes no progress callback, and none is
  modelled. Reasons counted in the metrics are texts, other values raise; of several entries missing from
  a record it is not kept which is reported first. The stores hold texts: a task whose
  \<open>instructions\<close> are no text raises in \<open>project_task\<close> on both back ends (\<open>write_value\<close>), where the
  in-memory one would store the value as it is. The one-second time-outs of \<open>join\<close> when the
  interference manager closes are not modelled. NaN is the greatest float where Python's \<open>sorted\<close>
  would depend on positions.
\<close>

end
